(* ===== verification/Prelude.thy ===== *)
theory Prelude
  imports Main "HOL-Library.Word"
begin

text \<open>
  Shared vocabulary of the development: Go's strings, byte slices, times and durations, the
  helpers of the packages \<^verbatim>\<open>strings\<close> and \<^verbatim>\<open>encoding/hex\<close> that the sources call, Go's wrapped
  errors (\<^verbatim>\<open>fmt.Errorf("...: %w", err)\<close>, \<^verbatim>\<open>errors.Is\<close>), and the generic facts on lists, prefixes and
  hexadecimal text that the component theories use.

  A Go string is a sequence of bytes and so is a \<^typ>\<open>string\<close> (an Isabelle character is eight
  bits), which makes the conversions \<^verbatim>\<open>[]byte(s)\<close> and \<^verbatim>\<open>string(b)\<close> the identity. Where the sources
  tell a nil slice from an empty one the model uses an option. An instant is the number of
  nanoseconds since the epoch, a duration a number of nanoseconds.
\<close>

section \<open>Types\<close>

type_synonym bytes = string
type_synonym gotime = int
type_synonym duration = int

abbreviation seconds :: "int \<Rightarrow> duration" where
  "seconds n \<equiv> n * 1000000000"

abbreviation minutes :: "int \<Rightarrow> duration" where
  "minutes n \<equiv> seconds (60 * n)"

abbreviation hours :: "int \<Rightarrow> duration" where
  "hours n \<equiv> minutes (60 * n)"

abbreviation newline :: char where "newline \<equiv> CHR 0x0A"
abbreviation dquote :: char where "dquote \<equiv> CHR 0x22"
abbreviation squote :: char where "squote \<equiv> CHR 0x27"
abbreviation backslash :: char where "backslash \<equiv> CHR 0x5C"

named_theorems go_simps \<open>definitions of library helpers that component proofs unfold\<close>

section \<open>Go errors\<close>

text \<open>
  An error value is a sentinel (a package variable made by \<^verbatim>\<open>errors.New\<close>), an error of a library
  or one made on the spot, or a wrapped error. \<^verbatim>\<open>errors.Is\<close> looks through the wrapping, \<^verbatim>\<open>==\<close> does
  not.
\<close>

datatype 'e goerr = Sentinel 'e | Opaque string | Wrapf string "'e goerr"

fun errors_Is :: "'e goerr \<Rightarrow> 'e \<Rightarrow> bool" where
  "errors_Is (Sentinel x) e = (x = e)"
| "errors_Is (Opaque m) e = False"
| "errors_Is (Wrapf m x) e = errors_Is x e"

fun unwrap_all :: "'e goerr \<Rightarrow> 'e goerr" where
  "unwrap_all (Wrapf m x) = unwrap_all x"
| "unwrap_all e = e"

lemma errors_Is_unwrap: "errors_Is x e \<longleftrightarrow> unwrap_all x = Sentinel e"
  by (induction x) auto

lemma errors_Is_unique: "errors_Is x e \<Longrightarrow> errors_Is x f \<Longrightarrow> e = f"
  by (simp add: errors_Is_unwrap)

section \<open>The package \<open>strings\<close>\<close>

fun HasPrefix :: "string \<Rightarrow> string \<Rightarrow> bool" where
  "HasPrefix s [] = True"
| "HasPrefix [] (p # ps) = False"
| "HasPrefix (c # s) (p # ps) = (c = p \<and> HasPrefix s ps)"

definition TrimPrefix :: "string \<Rightarrow> string \<Rightarrow> string" where
  "TrimPrefix s p = (if HasPrefix s p then drop (length p) s else s)"

definition HasSuffix :: "string \<Rightarrow> string \<Rightarrow> bool" where
  "HasSuffix s p = HasPrefix (rev s) (rev p)"

fun Contains :: "string \<Rightarrow> string \<Rightarrow> bool" where
  "Contains [] p = (p = [])"
| "Contains (c # s) p = (HasPrefix (c # s) p \<or> Contains s p)"

text \<open>Splitting at a one-byte separator: \<^verbatim>\<open>strings.Split(s, ";")\<close>. The result is never empty.\<close>

fun Split :: "char \<Rightarrow> string \<Rightarrow> string list" where
  "Split sep [] = [[]]"
| "Split sep (c # s) =
     (if c = sep then [] # Split sep s
      else case Split sep s of [] \<Rightarrow> [[c]] | w # ws \<Rightarrow> (c # w) # ws)"

text \<open>The ASCII white space of \<^verbatim>\<open>strings.TrimSpace\<close>: tab, newline, vertical tab, form feed,
  carriage return and space.\<close>

definition is_space :: "char \<Rightarrow> bool" where
  "is_space c = ((of_char c :: nat) \<in> {9, 10, 11, 12, 13, 32})"

definition TrimSpace :: "string \<Rightarrow> string" where
  "TrimSpace s = rev (dropWhile is_space (rev (dropWhile is_space s)))"

definition lower_char :: "char \<Rightarrow> char" where
  "lower_char c =
     (let n = (of_char c :: nat) in if 65 \<le> n \<and> n \<le> 90 then char_of (n + 32) else c)"

definition ToLower :: "string \<Rightarrow> string" where
  "ToLower s = map lower_char s"

lemma HasPrefix_iff: "HasPrefix s p \<longleftrightarrow> (\<exists>r. s = p @ r)"
  by (induction s p rule: HasPrefix.induct) auto

lemma HasPrefix_append [simp]: "HasPrefix (p @ r) p"
  by (auto simp: HasPrefix_iff)

lemma TrimPrefix_append [simp]: "TrimPrefix (p @ r) p = r"
  by (simp add: TrimPrefix_def)

lemma Contains_iff: "Contains s p \<longleftrightarrow> (\<exists>a b. s = a @ p @ b)"
proof (induction s)
  case Nil
  then show ?case by auto
next
  case (Cons c s)
  note IH = Cons.IH
  show ?case
  proof
    assume "Contains (c # s) p"
    then consider "HasPrefix (c # s) p" | "Contains s p" by auto
    then show "\<exists>a b. c # s = a @ p @ b"
    proof cases
      case 1
      then obtain r where "c # s = p @ r" by (auto simp: HasPrefix_iff)
      then show ?thesis by (intro exI [of _ "[]"] exI [of _ r]) simp
    next
      case 2
      then obtain a b where "s = a @ p @ b" using IH by blast
      then show ?thesis by (intro exI [of _ "c # a"] exI [of _ b]) simp
    qed
  next
    assume "\<exists>a b. c # s = a @ p @ b"
    then obtain a b where ab: "c # s = a @ p @ b" by blast
    show "Contains (c # s) p"
    proof (cases a)
      case Nil
      then have "HasPrefix (c # s) p" using ab by (auto simp: HasPrefix_iff)
      then show ?thesis by simp
    next
      case (Cons d a')
      then have "Contains s p" using ab IH by auto
      then show ?thesis by simp
    qed
  qed
qed

lemma Split_not_Nil [simp]: "Split sep s \<noteq> []"
  by (induction s) (auto split: list.splits)

section \<open>The package \<open>encoding/hex\<close>\<close>

definition hex_digit :: "nat \<Rightarrow> char" where
  "hex_digit n = char_of (if n < 10 then n + 48 else n + 87)"

definition hex_byte :: "char \<Rightarrow> string" where
  "hex_byte c = [hex_digit (of_char c div 16), hex_digit (of_char c mod 16)]"

definition hex_encode :: "bytes \<Rightarrow> string" where
  "hex_encode bs = concat (map hex_byte bs)"

definition hex_val :: "char \<Rightarrow> nat option" where
  "hex_val c =
     (let n = (of_char c :: nat) in
      if 48 \<le> n \<and> n \<le> 57 then Some (n - 48)
      else if 97 \<le> n \<and> n \<le> 102 then Some (n - 87)
      else if 65 \<le> n \<and> n \<le> 70 then Some (n - 55)
      else None)"

text \<open>\<^verbatim>\<open>hex.DecodeString\<close> fails on an odd length and on a character that is not a digit.\<close>

fun hex_decode :: "string \<Rightarrow> bytes option" where
  "hex_decode [] = Some []"
| "hex_decode [c] = None"
| "hex_decode (a # b # s) =
     (case (hex_val a, hex_val b, hex_decode s) of
        (Some x, Some y, Some bs) \<Rightarrow> Some (char_of (16 * x + y) # bs)
      | _ \<Rightarrow> None)"

lemma of_char_div_lt [simp]: "(of_char c :: nat) div 16 < 16"
  by (rule less_mult_imp_div_less) simp

lemma hex_val_digit [simp]: "n < 16 \<Longrightarrow> hex_val (hex_digit n) = Some n"
  by (auto simp: hex_val_def hex_digit_def Let_def)

lemma hex_decode_encode [simp]: "hex_decode (hex_encode bs) = Some bs"
proof (induction bs)
  case Nil
  then show ?case by (simp add: hex_encode_def)
next
  case (Cons b bs)
  show ?case using Cons.IH by (simp add: hex_encode_def hex_byte_def)
qed

lemma hex_encode_inj [simp]: "hex_encode a = hex_encode b \<longleftrightarrow> a = b"
  by (metis hex_decode_encode option.inject)

lemma length_hex_encode [simp]: "length (hex_encode bs) = 2 * length bs"
  by (induction bs) (simp_all add: hex_encode_def hex_byte_def)

lemma hex_encode_chars: "c \<in> set (hex_encode bs) \<Longrightarrow> hex_val c \<noteq> None"
proof -
  assume "c \<in> set (hex_encode bs)"
  then obtain b where "c \<in> set (hex_byte b)" by (auto simp: hex_encode_def)
  then have "c = hex_digit (of_char b div 16) \<or> c = hex_digit (of_char b mod 16)"
    by (simp add: hex_byte_def)
  then show ?thesis by auto
qed

section \<open>Decimal text\<close>

text \<open>\<^verbatim>\<open>strconv.Itoa\<close>, \<^verbatim>\<open>strconv.FormatInt\<close> in base ten, and \<^verbatim>\<open>fmt.Sprintf("%0*d", w, n)\<close> for a
  natural number.\<close>

definition dec_digit :: "nat \<Rightarrow> char" where
  "dec_digit n = char_of (n + 48)"

fun dec_nat :: "nat \<Rightarrow> string" where
  "dec_nat n = (if n < 10 then [dec_digit n] else dec_nat (n div 10) @ [dec_digit (n mod 10)])"

declare dec_nat.simps [simp del]

definition dec_int :: "int \<Rightarrow> string" where
  "dec_int i = (if i < 0 then ''-'' @ dec_nat (nat (- i)) else dec_nat (nat i))"

definition dec_pad :: "nat \<Rightarrow> nat \<Rightarrow> string" where
  "dec_pad w n = replicate (w - length (dec_nat n)) (CHR ''0'') @ dec_nat n"

definition is_digit :: "char \<Rightarrow> bool" where
  "is_digit c = (48 \<le> (of_char c :: nat) \<and> (of_char c :: nat) \<le> 57)"

text \<open>The number a digit string stands for.\<close>

definition dec_val :: "string \<Rightarrow> nat" where
  "dec_val s = foldl (\<lambda>acc c. 10 * acc + (of_char c - 48)) 0 s"

lemma dec_digit_props [simp]: "n < 10 \<Longrightarrow> is_digit (dec_digit n)" "n < 10 \<Longrightarrow> of_char (dec_digit n) = n + 48"
  by (auto simp: is_digit_def dec_digit_def)

lemma dec_nat_digits: "\<forall>c \<in> set (dec_nat n). is_digit c"
  by (induction n rule: dec_nat.induct) (subst dec_nat.simps, auto)

lemma dec_val_snoc: "dec_val (s @ [c]) = 10 * dec_val s + (of_char c - 48)"
  by (simp add: dec_val_def)

lemma dec_val_nat [simp]: "dec_val (dec_nat n) = n"
proof (induction n rule: dec_nat.induct)
  case (1 n)
  show ?case
  proof (cases "n < 10")
    case True
    then show ?thesis by (subst dec_nat.simps) (simp add: dec_val_def)
  next
    case False
    then show ?thesis using 1 by (subst dec_nat.simps) (simp add: dec_val_snoc)
  qed
qed

lemma dec_nat_inj [simp]: "dec_nat a = dec_nat b \<longleftrightarrow> a = b"
  by (metis dec_val_nat)

lemma dec_nat_length: "0 < w \<Longrightarrow> n < 10 ^ w \<Longrightarrow> length (dec_nat n) \<le> w"
proof (induction w arbitrary: n)
  case (Suc w)
  show ?case
  proof (cases "n < 10")
    case True
    then show ?thesis by (subst dec_nat.simps) simp
  next
    case False
    then have "0 < w" using Suc.prems by (cases w) auto
    moreover have "n div 10 < 10 ^ w" using Suc.prems by (simp add: div_less_iff_less_mult mult.commute)
    ultimately show ?thesis using Suc.IH [of "n div 10"] False by (subst dec_nat.simps) simp
  qed
qed simp

lemma dec_val_zeros: "dec_val (replicate k (CHR ''0'') @ s) = dec_val s"
  by (induction k) (auto simp: dec_val_def)

lemma dec_pad_props:
  "0 < w \<Longrightarrow> n < 10 ^ w \<Longrightarrow> length (dec_pad w n) = w"
  "\<forall>c \<in> set (dec_pad w n). is_digit c"
  "dec_val (dec_pad w n) = n"
  using dec_nat_length [of w n] dec_nat_digits [of n]
  by (auto simp: dec_pad_def dec_val_zeros is_digit_def)

section \<open>Parts of a world\<close>

text \<open>An operation on a part of the world.\<close>

definition lift_part :: "('w \<Rightarrow> 's) \<Rightarrow> ('s \<Rightarrow> 'w \<Rightarrow> 'w) \<Rightarrow> ('s \<Rightarrow> 'a \<times> 's) \<Rightarrow> 'w \<Rightarrow> 'a \<times> 'w" where
  "lift_part get put f w = (let (r, s) = f (get w) in (r, put s w))"

text \<open>A part of the world that can be read back after it is written.\<close>

definition part :: "('w \<Rightarrow> 's) \<Rightarrow> ('s \<Rightarrow> 'w \<Rightarrow> 'w) \<Rightarrow> bool" where
  "part get put \<longleftrightarrow> (\<forall>s w. get (put s w) = s)"

lemma part_get: "part get put \<Longrightarrow> get (put s w) = s"
  by (simp add: part_def)

lemma part_id [simp]: "part (\<lambda>w. w) (\<lambda>s w. s)"
  by (simp add: part_def)

lemma lift_part_eq: "f (get w) = (r, s) \<Longrightarrow> lift_part get put f w = (r, put s w)"
  by (simp add: lift_part_def)

lemma lift_part_iff: "lift_part get put f w = (r, w') \<longleftrightarrow> (\<exists>s. f (get w) = (r, s) \<and> w' = put s w)"
  by (auto simp: lift_part_def split: prod.splits)

section \<open>Lists\<close>

lemma removeAll_eq_Nil [simp]: "removeAll x xs = [] \<longleftrightarrow> set xs \<subseteq> {x}"
  by (induction xs) auto

lemma find_SomeD: "find P xs = Some x \<Longrightarrow> P x \<and> x \<in> set xs"
  by (auto simp: find_Some_iff)

lemma find_snoc: "\<forall>y \<in> set xs. \<not> P y \<Longrightarrow> P x \<Longrightarrow> find P (xs @ [x]) = Some x"
  by (induction xs) auto

lemma nth_in_take_iff:
  assumes "distinct xs" and "k < length xs"
  shows "xs ! k \<in> set (take n xs) \<longleftrightarrow> k < n"
proof
  assume "xs ! k \<in> set (take n xs)"
  then obtain m where "m < n" "m < length xs" "xs ! m = xs ! k" by (auto simp: in_set_conv_nth)
  then show "k < n" using assms by (simp add: nth_eq_iff_index_eq)
next
  assume "k < n"
  then have "take n xs ! k \<in> set (take n xs)" using assms by (intro nth_mem) simp
  then show "xs ! k \<in> set (take n xs)" using \<open>k < n\<close> by simp
qed

end
