(* ===== verification/Http.thy ===== *)
theory Http
  imports Prelude
begin

text \<open>
  HTTP requests as the handlers see them: headers, cookies, and the error codes of Connect RPC. A
  header maps each canonical key to its values; \<^verbatim>\<open>Header.Get\<close> gives the first one or the empty string.
\<close>

type_synonym header = "string \<Rightarrow> string list"

definition hdr_Get :: "header \<Rightarrow> string \<Rightarrow> string" where
  "hdr_Get h k = (case h k of [] \<Rightarrow> [] | v # _ \<Rightarrow> v)"

definition hdr_Values :: "header \<Rightarrow> string \<Rightarrow> string list" where
  "hdr_Values h k = h k"

section \<open>Cookies\<close>

text \<open>
  \<^verbatim>\<open>http.Request.Cookie\<close> as in the standard library: lines are cut at semicolons, parts trimmed of the
  four HTTP space characters and cut at the first equals sign, names must be tokens, values may be
  quoted and hold only the bytes allowed in a cookie value.
\<close>

definition is_http_space :: "char \<Rightarrow> bool" where
  "is_http_space c = ((of_char c :: nat) \<in> {9, 10, 13, 32})"

definition TrimString :: "string \<Rightarrow> string" where
  "TrimString s = rev (dropWhile is_http_space (rev (dropWhile is_http_space s)))"

fun Cut :: "char \<Rightarrow> string \<Rightarrow> string \<times> string" where
  "Cut sep [] = ([], [])"
| "Cut sep (c # s) = (if c = sep then ([], s) else let (a, b) = Cut sep s in (c # a, b))"

definition is_token_char :: "char \<Rightarrow> bool" where
  "is_token_char c =
     (let n = (of_char c :: nat) in
      (48 \<le> n \<and> n \<le> 57) \<or> (65 \<le> n \<and> n \<le> 90) \<or> (97 \<le> n \<and> n \<le> 122)
        \<or> n \<in> {33, 35, 36, 37, 38, 39, 42, 43, 45, 46, 94, 95, 96, 124, 126})"

definition is_token :: "string \<Rightarrow> bool" where
  "is_token s = (s \<noteq> [] \<and> list_all is_token_char s)"

definition cookie_byte :: "char \<Rightarrow> bool" where
  "cookie_byte c = (let n = (of_char c :: nat) in 32 \<le> n \<and> n < 127 \<and> n \<notin> {34, 59, 92})"

definition parseCookieValue :: "string \<Rightarrow> string option" where
  "parseCookieValue raw =
     (let v = (if 1 < length raw \<and> hd raw = char_of (34 :: nat) \<and> last raw = char_of (34 :: nat)
               then butlast (tl raw) else raw)
      in if list_all cookie_byte v then Some v else None)"

definition parseCookiePart :: "string \<Rightarrow> (string \<times> string) option" where
  "parseCookiePart p =
     (let part = TrimString p in
      if part = [] then None
      else let (n, v) = Cut (CHR ''='') part; name = TrimString n in
           if \<not> is_token name then None
           else map_option (Pair name) (parseCookieValue v))"

definition readCookies :: "string list \<Rightarrow> (string \<times> string) list" where
  "readCookies lines =
     concat (map (\<lambda>line. List.map_filter parseCookiePart (Split (CHR '';'') (TrimString line))) lines)"

definition Cookie :: "header \<Rightarrow> string \<Rightarrow> string option" where
  "Cookie h name = map_of (readCookies (h ''Cookie'')) name"

section \<open>Connect\<close>

datatype connect_code =
    CodeInvalidArgument
  | CodeDeadlineExceeded
  | CodeNotFound
  | CodeAlreadyExists
  | CodePermissionDenied
  | CodeResourceExhausted
  | CodeFailedPrecondition
  | CodeInternal
  | CodeUnauthenticated
  | CodeUnimplemented

text \<open>A handler ends with a response, with a Connect error, or with a panic (here: a method called on
  a nil interface).\<close>

datatype rpc_error = ConnectErr connect_code string | NilDereference

record AnyRequest =
  Procedure :: string
  Header :: header

section \<open>Plain HTTP handlers\<close>

text \<open>
  A response writer: its header, and status and body once written. A handler is a function of the
  writer, the request and the world.
\<close>

record http_request =
  hr_Method :: string
  hr_Path :: string
  hr_Header :: header
  hr_Query :: "string \<Rightarrow> string"
  hr_Form :: "string \<Rightarrow> string"
  hr_RemoteAddr :: string
  hr_Body :: "bytes option"
  hr_Host :: string
  hr_RawQuery :: string

text \<open>A cookie of a response, as a record: the text of the \<^verbatim>\<open>Set-Cookie\<close> header is not modelled.\<close>

record http_Cookie =
  ck_Name :: string
  ck_Value :: string
  ck_Path :: string
  ck_Domain :: string
  ck_MaxAge :: int
  ck_Secure :: bool
  ck_HttpOnly :: bool
  ck_SameSite :: string

record ResponseWriter =
  rw_Header :: header
  rw_Status :: "nat option"
  rw_Body :: string
  rw_Cookies :: "http_Cookie list"

definition rw_Set :: "string \<Rightarrow> string \<Rightarrow> ResponseWriter \<Rightarrow> ResponseWriter" where
  "rw_Set k v rw = rw\<lparr>rw_Header := (rw_Header rw)(k := [v])\<rparr>"

definition rw_Add :: "string \<Rightarrow> string \<Rightarrow> ResponseWriter \<Rightarrow> ResponseWriter" where
  "rw_Add k v rw = rw\<lparr>rw_Header := (rw_Header rw)(k := rw_Header rw k @ [v])\<rparr>"

text \<open>The first status written counts.\<close>

definition rw_WriteHeader :: "nat \<Rightarrow> ResponseWriter \<Rightarrow> ResponseWriter" where
  "rw_WriteHeader code rw = (if rw_Status rw = None then rw\<lparr>rw_Status := Some code\<rparr> else rw)"

definition rw_Write :: "string \<Rightarrow> ResponseWriter \<Rightarrow> ResponseWriter" where
  "rw_Write s rw = (let rw' = rw_WriteHeader 200 rw in rw'\<lparr>rw_Body := rw_Body rw' @ s\<rparr>)"

text \<open>\<^verbatim>\<open>http.Error\<close>.\<close>

definition http_Error :: "string \<Rightarrow> nat \<Rightarrow> ResponseWriter \<Rightarrow> ResponseWriter" where
  "http_Error msg code rw =
     rw_Write (msg @ [char_of (10 :: nat)]) (rw_WriteHeader code
       (rw_Set ''X-Content-Type-Options'' ''nosniff'' (rw_Set ''Content-Type'' ''text/plain; charset=utf-8''
         (rw\<lparr>rw_Header := (rw_Header rw)(''Content-Length'' := [])\<rparr>))))"

definition http_SetCookie :: "http_Cookie \<Rightarrow> ResponseWriter \<Rightarrow> ResponseWriter" where
  "http_SetCookie c rw = rw\<lparr>rw_Cookies := rw_Cookies rw @ [c]\<rparr>"

text \<open>\<^verbatim>\<open>http.Redirect\<close> to an absolute address: bytes outside ASCII are escaped in the header, and a GET gets a
  body with a link unless the handler chose a content type.\<close>

definition hexEscapeNonASCII :: "string \<Rightarrow> string" where
  "hexEscapeNonASCII s = concat (map (\<lambda>c. if (of_char c :: nat) < 128 then [c] else CHR ''%'' # hex_byte c) s)"

definition htmlEscape :: "string \<Rightarrow> string" where
  "htmlEscape s = concat (map (\<lambda>c.
     if c = CHR ''&'' then ''&amp;'' else if c = CHR ''<'' then ''&lt;'' else if c = CHR ''>'' then ''&gt;''
     else if c = dquote then ''&#34;'' else if c = squote then ''&#39;'' else [c]) s)"

definition http_Redirect :: "http_request \<Rightarrow> string \<Rightarrow> nat \<Rightarrow> string \<Rightarrow> ResponseWriter \<Rightarrow> ResponseWriter" where
  "http_Redirect r url code statusText rw =
     (let hadCT = (rw_Header rw ''Content-Type'' \<noteq> []);
          rw1 = rw_Set ''Location'' (hexEscapeNonASCII url) rw;
          rw2 = (if \<not> hadCT \<and> hr_Method r \<in> {''GET'', ''HEAD''} then rw_Set ''Content-Type'' ''text/html; charset=utf-8'' rw1 else rw1);
          rw3 = rw_WriteHeader code rw2
      in if \<not> hadCT \<and> hr_Method r = ''GET''
         then rw_Write (''<a href='' @ [dquote] @ htmlEscape url @ [dquote] @ ''>'' @ statusText @ ''</a>.'' @ [newline, newline]) rw3
         else rw3)"

type_synonym 'w http_handler = "ResponseWriter \<Rightarrow> http_request \<Rightarrow> 'w \<Rightarrow> ResponseWriter \<times> 'w"

lemmas rw_defs = rw_Set_def rw_Add_def rw_WriteHeader_def rw_Write_def http_Error_def

end
