(* ===== verification/Serve_Mux.thy ===== *)
theory Serve_Mux
  imports Http
begin

text \<open>
  Routing of requests: \<^verbatim>\<open>http.ServeMux\<close> with patterns that name no method, host or wildcard, as the
  entry point of the server uses it, and \<^verbatim>\<open>http.StripPrefix\<close>. A pattern that ends in a slash stands for
  all paths below it, the longest pattern that matches wins, and a request for an unclean path is
  redirected to the clean one. Paths are taken to hold no bytes that are escaped in a URL.

  A handler of the server may panic: \<^verbatim>\<open>net/http\<close> then drops the connection and no response is sent.
\<close>

section \<open>Handlers\<close>

datatype served = Replied ResponseWriter | Aborted

text \<open>The environment holds what one request finds outside of the state: the time and fresh random bytes.\<close>

type_synonym ('e, 'w) web_handler = "'e \<Rightarrow> ResponseWriter \<Rightarrow> http_request \<Rightarrow> 'w \<Rightarrow> served \<times> 'w"

definition plain :: "('e \<Rightarrow> 'w http_handler) \<Rightarrow> ('e, 'w) web_handler" where
  "plain h e rw r w = (let (rw', w') = h e rw r w in (Replied rw', w'))"

definition http_NotFound :: "('e, 'w) web_handler" where
  "http_NotFound e rw r w = (Replied (http_Error ''404 page not found'' 404 rw), w)"

definition StripPrefix :: "string \<Rightarrow> ('e, 'w) web_handler \<Rightarrow> ('e, 'w) web_handler" where
  "StripPrefix prefix h e rw r w =
     (let p = TrimPrefix (hr_Path r) prefix in
      if length p < length (hr_Path r) then h e rw (r\<lparr>hr_Path := p\<rparr>) w else http_NotFound e rw r w)"

section \<open>Clean paths\<close>

abbreviation slash :: char where "slash \<equiv> CHR ''/''"

text \<open>The segments of a rooted path without the empty ones and the dots.\<close>

fun clean_segs :: "string list \<Rightarrow> string list \<Rightarrow> string list" where
  "clean_segs acc [] = rev acc"
| "clean_segs acc (s # ss) =
     (if s = [] \<or> s = ''.'' then clean_segs acc ss
      else if s = ''..'' then clean_segs (tl acc) ss
      else clean_segs (s # acc) ss)"

fun joined :: "string list \<Rightarrow> string" where
  "joined [] = []"
| "joined (s # ss) = slash # s @ joined ss"

definition rooted :: "string list \<Rightarrow> string" where
  "rooted ss = (if ss = [] then [slash] else joined ss)"

definition cleanPath :: "string \<Rightarrow> string" where
  "cleanPath p =
     (if p = [] then [slash]
      else let q = (if hd p = slash then p else slash # p);
               np = rooted (clean_segs [] (Split slash q))
           in if last q = slash \<and> np \<noteq> [slash] then np @ [slash] else np)"

section \<open>The multiplexer\<close>

type_synonym ('e, 'w) mux = "(string \<times> ('e, 'w) web_handler) list"

definition pat_matches :: "string \<Rightarrow> string \<Rightarrow> bool" where
  "pat_matches pat path = (if HasSuffix pat [slash] then HasPrefix path pat else path = pat)"

fun mux_match :: "('e, 'w) mux \<Rightarrow> string \<Rightarrow> (string \<times> ('e, 'w) web_handler) option" where
  "mux_match [] path = None"
| "mux_match ((pat, h) # m) path =
     (case mux_match m path of
        None \<Rightarrow> if pat_matches pat path then Some (pat, h) else None
      | Some (pat', h') \<Rightarrow> if pat_matches pat path \<and> length pat' < length pat then Some (pat, h) else Some (pat', h'))"

definition movedPermanently :: "string \<Rightarrow> ('e, 'w) web_handler" where
  "movedPermanently path e rw r w =
     (Replied (http_Redirect r (path @ (if hr_RawQuery r = [] then [] else ''?'' @ hr_RawQuery r)) 301 ''Moved Permanently'' rw), w)"

definition mux_serve :: "('e, 'w) mux \<Rightarrow> ('e, 'w) web_handler" where
  "mux_serve m e rw r w =
     (let path = (if hr_Method r = ''CONNECT'' then hr_Path r else cleanPath (hr_Path r));
          n = mux_match m path;
          exact = (case n of None \<Rightarrow> False | Some (pat, _) \<Rightarrow> pat = path)
      in if \<not> exact \<and> \<not> HasSuffix path [slash] \<and> list_ex (\<lambda>(pat, _). pat = path @ [slash]) m
         then movedPermanently (cleanPath (hr_Path r) @ [slash]) e rw r w
         else if path \<noteq> hr_Path r then movedPermanently path e rw r w
         else case n of None \<Rightarrow> http_NotFound e rw r w | Some (_, h) \<Rightarrow> h e rw r w)"

lemmas routing_defs [go_simps] = pat_matches_def HasSuffix_def

section \<open>The longest pattern wins\<close>

lemma mux_match_None: "mux_match m path = None \<longleftrightarrow> (\<forall>(pat, h) \<in> set m. \<not> pat_matches pat path)"
  by (induction m path rule: mux_match.induct) (auto split: option.splits)

lemma mux_match_Some:
  "mux_match m path = Some (pat, h) \<Longrightarrow>
     (pat, h) \<in> set m \<and> pat_matches pat path \<and> (\<forall>(p, _) \<in> set m. pat_matches p path \<longrightarrow> length p \<le> length pat)"
  by (induction m path arbitrary: pat h rule: mux_match.induct) (fastforce simp: mux_match_None split: option.splits if_splits)+

text \<open>Two patterns of one length that match a path are the same, so the winner is determined by the
  patterns alone.\<close>

lemma pat_matches_unique: "pat_matches p path \<Longrightarrow> pat_matches q path \<Longrightarrow> length p = length q \<Longrightarrow> p = q"
  by (auto simp: pat_matches_def HasPrefix_iff split: if_splits)

lemma mux_match_eq:
  assumes "distinct (map fst m)" and "(pat, h) \<in> set m" and "pat_matches pat path"
    and "\<And>p g. (p, g) \<in> set m \<Longrightarrow> pat_matches p path \<Longrightarrow> length p \<le> length pat"
  shows "mux_match m path = Some (pat, h)"
proof (cases "mux_match m path")
  case None
  then show ?thesis using assms(2,3) by (auto simp: mux_match_None)
next
  case (Some ph)
  obtain p g where ph: "ph = (p, g)" by (cases ph)
  have w: "(p, g) \<in> set m \<and> pat_matches p path \<and> (\<forall>(q, _) \<in> set m. pat_matches q path \<longrightarrow> length q \<le> length p)"
    using mux_match_Some [of m path p g] Some ph by simp
  have m: "(p, g) \<in> set m" "pat_matches p path" using w by blast+
  have "length pat \<le> length p" using w assms(2,3) by blast
  with assms(4) [OF m] have "length p = length pat" by (rule le_antisym)
  then have "p = pat" by (rule pat_matches_unique [OF m(2) assms(3)])
  then have "g = h" using eq_key_imp_eq_value [OF assms(1,2), of g] m(1) by simp
  then show ?thesis using Some ph \<open>p = pat\<close> by simp
qed

section \<open>Clean paths are fixed points\<close>

text \<open>A segment of a clean path.\<close>

definition proper_seg :: "string \<Rightarrow> bool" where
  "proper_seg s \<longleftrightarrow> s \<noteq> [] \<and> s \<noteq> ''.'' \<and> s \<noteq> ''..'' \<and> slash \<notin> set s"

lemma clean_segs_proper: "list_all proper_seg ss \<Longrightarrow> clean_segs acc (ss @ rest) = clean_segs (rev ss @ acc) rest"
  by (induction ss arbitrary: acc) (auto simp: proper_seg_def)

lemma clean_segs_all:
  "list_all proper_seg acc \<Longrightarrow> list_all (\<lambda>s. slash \<notin> set s) ss \<Longrightarrow> list_all proper_seg (clean_segs acc ss)"
proof (induction ss arbitrary: acc)
  case (Cons s ss)
  moreover from Cons.prems(1) have "list_all proper_seg (tl acc)" by (cases acc) auto
  moreover have "proper_seg s" if "s \<noteq> []" "s \<noteq> ''.''" "s \<noteq> ''..''" using that Cons.prems(2) by (simp add: proper_seg_def)
  ultimately show ?case by simp
qed simp

lemma Split_no_sep: "list_all (\<lambda>s. sep \<notin> set s) (Split sep s)"
  by (induction s) (auto split: list.splits)

lemma Split_seg: "sep \<notin> set a \<Longrightarrow> Split sep (a @ sep # b) = a # Split sep b" "sep \<notin> set a \<Longrightarrow> Split sep a = [a]"
  by (induction a) auto

lemma Split_joined: "list_all (\<lambda>s. slash \<notin> set s) ss \<Longrightarrow> slash \<notin> set a \<Longrightarrow> Split slash (a @ joined ss) = a # ss"
  by (induction ss arbitrary: a) (auto simp: Split_seg)

lemma proper_no_slash: "list_all proper_seg ss \<Longrightarrow> list_all (\<lambda>s. slash \<notin> set s) ss"
  by (auto simp: proper_seg_def list_all_iff)

lemma joined_append: "joined (ss @ ts) = joined ss @ joined ts"
  by (induction ss) auto

lemma joined_Nil [simp]: "joined ss = [] \<longleftrightarrow> ss = []"
  by (cases ss) auto

lemma hd_joined: "ss \<noteq> [] \<Longrightarrow> hd (joined ss) = slash"
  by (cases ss) auto

lemma last_joined:
  assumes "list_all proper_seg ss" and "ss \<noteq> []"
  shows "last (joined ss) \<noteq> slash"
proof -
  obtain ts s where s: "ss = ts @ [s]" using assms(2) by (cases ss rule: rev_cases) auto
  then have "s \<noteq> []" "slash \<notin> set s" using assms(1) by (auto simp: proper_seg_def)
  then have "last s \<noteq> slash" using last_in_set by metis
  then show ?thesis using s \<open>s \<noteq> []\<close> by (simp add: joined_append)
qed

text \<open>The clean paths are those with proper segments, with or without a slash at the end.\<close>

definition clean_shape :: "string list \<Rightarrow> string \<Rightarrow> bool" where
  "clean_shape ss p \<longleftrightarrow> list_all proper_seg ss \<and> (p = joined ss @ [slash] \<or> p = joined ss \<and> ss \<noteq> [])"

lemma cleanPath_shape: "\<exists>ss. clean_shape ss (cleanPath p)"
proof (cases "p = []")
  case True
  then show ?thesis by (intro exI [of _ "[]"]) (simp add: cleanPath_def clean_shape_def)
next
  case False
  let ?q = "if hd p = slash then p else slash # p"
  let ?ss = "clean_segs [] (Split slash ?q)"
  have p: "cleanPath p = (if last ?q = slash \<and> rooted ?ss \<noteq> [slash] then rooted ?ss @ [slash] else rooted ?ss)"
    using False unfolding cleanPath_def Let_def by simp
  have "list_all proper_seg ?ss" using clean_segs_all [of "[]" "Split slash ?q"] Split_no_sep [of slash ?q] by simp
  then have "clean_shape ?ss (cleanPath p)"
    unfolding p clean_shape_def rooted_def by (cases "?ss = []") simp_all
  then show ?thesis by blast
qed

lemma cleanPath_fixed:
  assumes "clean_shape ss p"
  shows "cleanPath p = p"
proof -
  have a: "list_all proper_seg ss" using assms by (simp add: clean_shape_def)
  have n: "list_all (\<lambda>s. slash \<notin> set s) ss" "list_all (\<lambda>s. slash \<notin> set s) (ss @ [[]])"
    using proper_no_slash [OF a] by simp_all
  consider "p = joined ss @ [slash]" | "p = joined ss" "ss \<noteq> []" using assms by (auto simp: clean_shape_def)
  then show ?thesis
  proof cases
    case 1
    have "Split slash p = [] # ss @ [[]]" using Split_joined [OF n(2), of "[]"] 1 by (simp add: joined_append)
    then have s: "clean_segs [] (Split slash p) = ss" using clean_segs_proper [OF a, of "[]"] by simp
    have "hd p = slash" "last p = slash" "p \<noteq> []" using 1 by (cases ss; simp)+
    moreover have "joined ss \<noteq> [slash]" if "ss \<noteq> []" using last_joined [OF a that] by auto
    ultimately show ?thesis using 1 s by (cases "ss = []") (simp_all add: cleanPath_def Let_def rooted_def)
  next
    case 2
    have "Split slash p = [] # ss" using Split_joined [OF n(1), of "[]"] 2 by simp
    then have s: "clean_segs [] (Split slash p) = ss" using clean_segs_proper [OF a, of "[]" "[]"] by simp
    have "hd p = slash" "last p \<noteq> slash" "p \<noteq> []" using 2 last_joined [OF a] hd_joined by simp_all
    then show ?thesis using 2 s by (simp add: cleanPath_def Let_def rooted_def)
  qed
qed

lemma cleanPath_idem: "cleanPath (cleanPath p) = cleanPath p"
  using cleanPath_shape [of p] cleanPath_fixed by blast

lemma cleanPath_under:
  assumes "cleanPath p = p" and "proper_seg s"
  shows "cleanPath (slash # s @ p) = slash # s @ p"
proof -
  obtain ss where "clean_shape ss p" using cleanPath_shape [of p] assms(1) by auto
  then have "clean_shape (s # ss) (slash # s @ p)" using assms(2) by (auto simp: clean_shape_def)
  then show ?thesis by (rule cleanPath_fixed)
qed

section \<open>Dispatch\<close>

text \<open>A request for a clean path that is no subtree root without its slash goes to the longest pattern.\<close>

lemma mux_serve_route:
  assumes "cleanPath (hr_Path r) = hr_Path r" and "mux_match m (hr_Path r) = Some (pat, h)"
    and "hr_Path r @ [slash] \<notin> fst ` set m"
  shows "mux_serve m e rw r w = h e rw r w"
proof -
  have "\<not> list_ex (\<lambda>(pat, _). pat = hr_Path r @ [slash]) m" using assms(3) by (force simp: list_ex_iff)
  then show ?thesis using assms(1,2) by (simp add: mux_serve_def)
qed

lemma mux_serve_exact:
  assumes "cleanPath (hr_Path r) = hr_Path r" and "mux_match m (hr_Path r) = Some (hr_Path r, h)"
  shows "mux_serve m e rw r w = h e rw r w"
  using assms by (simp add: mux_serve_def)

text \<open>Whatever the multiplexer does is a redirect, a 404 or what the handler of a pattern does.\<close>

lemma mux_serve_cases:
  assumes "mux_serve m e rw r w = res"
  obtains (moved) p where "movedPermanently p e rw r w = res"
    | (missing) "http_NotFound e rw r w = res"
    | (handled) pat h where "(pat, h) \<in> set m" "pat_matches pat (hr_Path r)" "h e rw r w = res"
proof -
  let ?path = "if hr_Method r = ''CONNECT'' then hr_Path r else cleanPath (hr_Path r)"
  consider p where "movedPermanently p e rw r w = res" | "http_NotFound e rw r w = res"
    | pat h where "mux_match m ?path = Some (pat, h)" "?path = hr_Path r" "h e rw r w = res"
    using assms unfolding mux_serve_def Let_def by (auto split: if_splits option.splits)
  then show ?thesis
  proof cases
    case 3
    have "(pat, h) \<in> set m \<and> pat_matches pat (hr_Path r)" using mux_match_Some [OF 3(1)] unfolding 3(2) by blast
    then show ?thesis using handled [of pat h] 3(3) by simp
  qed (use moved missing in blast)+
qed

lemma StripPrefix_strip: "prefix \<noteq> [] \<Longrightarrow> StripPrefix prefix h e rw (r\<lparr>hr_Path := prefix @ p\<rparr>) w = h e rw (r\<lparr>hr_Path := p\<rparr>) w"
  by (simp add: StripPrefix_def)

end
