(* ===== verification/Json.thy ===== *)
theory Json
  imports Prelude
begin

text \<open>
  The part of \<^verbatim>\<open>encoding/json\<close> the sources use: struct values written as objects whose keys are the
  struct tags, and objects read back into structs. A document is an abstract syntax tree; the
  text of a well-formed document and its tree are identified. A JSON string that holds a
  timestamp (the encoding of a \<^verbatim>\<open>time.Time\<close>) is kept apart from other strings by a constructor of
  its own, so a timestamp is not accepted for a field of type string: no struct of the program
  reads as a string a key that another one writes as a timestamp.
\<close>

datatype json =
    JNull
  | JBool bool
  | JNum int
  | JStr string
  | JTime gotime
  | JArr "json list"
  | JObj "(string \<times> json) list"

text \<open>What a byte slice holds for \<^verbatim>\<open>json.Unmarshal\<close>: a document, or bytes that are not JSON.\<close>

datatype payload = Doc json | NotJson bytes

datatype json_err = SyntaxError | UnmarshalTypeError

text \<open>
  The values an object gives a struct field. Keys match a tag up to letter case; a later
  occurrence overwrites an earlier one; \<open>null\<close> leaves the field as it is; a value of another
  type makes the whole call fail; a field with no key keeps its zero value.
\<close>

definition field_values :: "string \<Rightarrow> (string \<times> json) list \<Rightarrow> json list" where
  "field_values tag kvs = map snd (filter (\<lambda>(k, v). ToLower k = ToLower tag) kvs)"

fun decode_strs :: "string \<Rightarrow> json list \<Rightarrow> json_err + string" where
  "decode_strs acc [] = Inr acc"
| "decode_strs acc (JStr s # vs) = decode_strs s vs"
| "decode_strs acc (JNull # vs) = decode_strs acc vs"
| "decode_strs acc (v # vs) = Inl UnmarshalTypeError"

fun decode_times :: "gotime \<Rightarrow> json list \<Rightarrow> json_err + gotime" where
  "decode_times acc [] = Inr acc"
| "decode_times acc (JTime t # vs) = decode_times t vs"
| "decode_times acc (JNull # vs) = decode_times acc vs"
| "decode_times acc (v # vs) = Inl UnmarshalTypeError"

text \<open>The zero \<^verbatim>\<open>time.Time\<close> is the first instant of year 1, in nanoseconds from the epoch.\<close>

definition zero_time :: gotime where
  "zero_time = seconds (- 62135596800)"

definition str_field :: "string \<Rightarrow> (string \<times> json) list \<Rightarrow> json_err + string" where
  "str_field tag kvs = decode_strs [] (field_values tag kvs)"

definition time_field :: "string \<Rightarrow> (string \<times> json) list \<Rightarrow> json_err + gotime" where
  "time_field tag kvs = decode_times zero_time (field_values tag kvs)"

text \<open>\<^verbatim>\<open>json.Unmarshal\<close> of a payload into a struct, given how the struct reads an object.\<close>

fun unmarshal :: "((string \<times> json) list \<Rightarrow> json_err + 'a) \<Rightarrow> 'a \<Rightarrow> payload \<Rightarrow> json_err + 'a" where
  "unmarshal dec zero (NotJson b) = Inl SyntaxError"
| "unmarshal dec zero (Doc JNull) = Inr zero"
| "unmarshal dec zero (Doc (JObj kvs)) = dec kvs"
| "unmarshal dec zero (Doc v) = Inl UnmarshalTypeError"

section \<open>Decoding into a value\<close>

text \<open>
  \<^verbatim>\<open>json.Unmarshal\<close> into a value that already holds something: a decoder takes the document and the old
  value. For a string, number, time, flag or struct \<open>null\<close> keeps the old value; for a slice or a map it
  gives nil. Numbers outside the range of an \<^verbatim>\<open>int32\<close> are refused.
\<close>

type_synonym 'a decoder = "json \<Rightarrow> 'a \<Rightarrow> json_err + 'a"

fun dStr :: "string decoder" where
  "dStr (JStr s) acc = Inr s"
| "dStr JNull acc = Inr acc"
| "dStr _ acc = Inl UnmarshalTypeError"

fun dTime :: "gotime decoder" where
  "dTime (JTime t) acc = Inr t"
| "dTime JNull acc = Inr acc"
| "dTime _ acc = Inl UnmarshalTypeError"

fun dBool :: "bool decoder" where
  "dBool (JBool b) acc = Inr b"
| "dBool JNull acc = Inr acc"
| "dBool _ acc = Inl UnmarshalTypeError"

fun dInt32 :: "32 word decoder" where
  "dInt32 (JNum n) acc = (if - (2 ^ 31) \<le> n \<and> n < 2 ^ 31 then Inr (word_of_int n) else Inl UnmarshalTypeError)"
| "dInt32 JNull acc = Inr acc"
| "dInt32 _ acc = Inl UnmarshalTypeError"

fun dElems :: "'a decoder \<Rightarrow> 'a \<Rightarrow> json list \<Rightarrow> json_err + 'a list" where
  "dElems d zero [] = Inr []"
| "dElems d zero (v # vs) =
     (case d v zero of
        Inl e \<Rightarrow> Inl e
      | Inr x \<Rightarrow> (case dElems d zero vs of Inl e \<Rightarrow> Inl e | Inr xs \<Rightarrow> Inr (x # xs)))"

fun dSlice :: "'a decoder \<Rightarrow> 'a \<Rightarrow> 'a list decoder" where
  "dSlice d zero (JArr vs) acc = dElems d zero vs"
| "dSlice d zero JNull acc = Inr []"
| "dSlice d zero _ acc = Inl UnmarshalTypeError"

text \<open>A map with string values, as an association list: a key that is there already is overwritten.\<close>

fun assoc_set :: "'k \<Rightarrow> 'v \<Rightarrow> ('k \<times> 'v) list \<Rightarrow> ('k \<times> 'v) list" where
  "assoc_set k v [] = [(k, v)]"
| "assoc_set k v ((a, b) # r) = (if a = k then (k, v) # r else (a, b) # assoc_set k v r)"

fun dEntries :: "(string \<times> json) list \<Rightarrow> (string \<times> string) list \<Rightarrow> json_err + (string \<times> string) list" where
  "dEntries [] acc = Inr acc"
| "dEntries ((k, v) # kvs) acc =
     (case dStr v [] of Inl e \<Rightarrow> Inl e | Inr s \<Rightarrow> dEntries kvs (assoc_set k s acc))"

fun dMap :: "(string \<times> string) list decoder" where
  "dMap (JObj kvs) acc = dEntries kvs acc"
| "dMap JNull acc = Inr []"
| "dMap _ acc = Inl UnmarshalTypeError"

fun decode_all :: "'a decoder \<Rightarrow> json list \<Rightarrow> 'a \<Rightarrow> json_err + 'a" where
  "decode_all d [] acc = Inr acc"
| "decode_all d (v # vs) acc = (case d v acc of Inl e \<Rightarrow> Inl e | Inr x \<Rightarrow> decode_all d vs x)"

text \<open>One field of a struct, given by its tag, its decoder, its selector and its update function.\<close>

type_synonym 'r field = "(string \<times> json) list \<Rightarrow> 'r \<Rightarrow> json_err + 'r"

definition fld :: "string \<Rightarrow> 'f decoder \<Rightarrow> ('r \<Rightarrow> 'f) \<Rightarrow> (('f \<Rightarrow> 'f) \<Rightarrow> 'r \<Rightarrow> 'r) \<Rightarrow> 'r field" where
  "fld tag d get upd kvs r =
     (case decode_all d (field_values tag kvs) (get r) of Inl e \<Rightarrow> Inl e | Inr v \<Rightarrow> Inr (upd (\<lambda>_. v) r))"

fun dFields :: "'r field list \<Rightarrow> (string \<times> json) list \<Rightarrow> 'r \<Rightarrow> json_err + 'r" where
  "dFields [] kvs r = Inr r"
| "dFields (f # fs) kvs r = (case f kvs r of Inl e \<Rightarrow> Inl e | Inr r' \<Rightarrow> dFields fs kvs r')"

fun dStruct :: "'r field list \<Rightarrow> 'r decoder" where
  "dStruct fs (JObj kvs) r = dFields fs kvs r"
| "dStruct fs JNull r = Inr r"
| "dStruct fs _ r = Inl UnmarshalTypeError"

text \<open>\<^verbatim>\<open>time.Time\<close> is encoded only for the years 0 to 9999.\<close>

definition json_time_ok :: "gotime \<Rightarrow> bool" where
  "json_time_ok t = (seconds (- 62167219200) \<le> t \<and> t < seconds 253402300800)"

subsection \<open>Facts for round trips\<close>

definition keys_distinct :: "(string \<times> json) list \<Rightarrow> bool" where
  "keys_distinct kvs = distinct (map (\<lambda>kv. ToLower (fst kv)) kvs)"

lemma field_values_one:
  assumes "keys_distinct kvs" and "(tag, v) \<in> set kvs"
  shows "field_values tag kvs = [v]"
  using assms
proof (induction kvs)
  case (Cons kv kvs)
  obtain k u where kv: "kv = (k, u)" by fastforce
  show ?case
  proof (cases "(k, u) = (tag, v)")
    case True
    have "\<forall>x \<in> set kvs. ToLower (fst x) \<noteq> ToLower k"
      using Cons.prems(1) by (simp add: keys_distinct_def kv image_iff) (metis)
    then have "filter (\<lambda>(k', v). ToLower k' = ToLower tag) kvs = []"
      using True by (auto simp: filter_empty_conv)
    then show ?thesis using True by (simp add: field_values_def kv)
  next
    case False
    then have "(tag, v) \<in> set kvs" using Cons.prems(2) kv by auto
    moreover have "ToLower k \<noteq> ToLower tag"
      using Cons.prems(1) calculation by (force simp: keys_distinct_def kv)
    ultimately show ?thesis using Cons by (auto simp: field_values_def keys_distinct_def kv)
  qed
qed simp

lemma fld_one:
  assumes "keys_distinct kvs" and "(tag, v) \<in> set kvs" and "d v (get r) = Inr x"
  shows "fld tag d get upd kvs r = Inr (upd (\<lambda>_. x) r)"
  by (simp add: fld_def field_values_one [OF assms(1,2)] assms(3))

lemma dElems_map:
  "(\<And>x. x \<in> set xs \<Longrightarrow> d (enc x) zero = Inr x) \<Longrightarrow> dElems d zero (map enc xs) = Inr xs"
  by (induction xs) auto

lemma assoc_set_new: "k \<notin> fst ` set acc \<Longrightarrow> assoc_set k v acc = acc @ [(k, v)]"
  by (induction acc) auto

lemma dEntries_map:
  "distinct (map fst (acc @ kvs)) \<Longrightarrow> dEntries (map (\<lambda>(k, s). (k, JStr s)) kvs) acc = Inr (acc @ kvs)"
proof (induction kvs arbitrary: acc)
  case (Cons kv kvs)
  obtain k s where kv: "kv = (k, s)" by fastforce
  have "k \<notin> fst ` set acc" using Cons.prems by (auto simp: kv)
  then show ?case using Cons.IH [of "acc @ [kv]"] Cons.prems by (simp add: kv assoc_set_new)
qed simp

lemmas json_defs = field_values_def str_field_def time_field_def ToLower_def lower_char_def Let_def

end
