(* ===== verification/Redis.thy ===== *)
theory Redis
  imports Json
begin

text \<open>
  The Redis server as the sources see it through go-redis. The server and its client library are
  not part of the repository: every operation of the stores takes the client as an argument, a
  function that runs a list of commands atomically (a single command, or the commands of a
  \<^verbatim>\<open>TxPipeline\<close> between MULTI and EXEC) at an instant and gives the replies or an error.

  The documented behaviour of the commands is \<open>cmd_step\<close> on an abstract keyspace: values with an
  optional expiry, a key past its expiry being absent. The locale \<open>redis_api\<close> states what a client
  may rely on when calls can fail; \<open>redis_up\<close> adds that no call fails for reasons of
  connectivity. Both have an executable instance.
\<close>

section \<open>Keyspace and commands\<close>

datatype rval =
    RStr payload
  | RSet "string list"
  | RZSet "(string \<times> int) list"

record rentry =
  rv :: rval
  rexp :: "gotime option"

type_synonym rstore = "string \<Rightarrow> rentry option"

text \<open>A key is visible at an instant when it is bound and its expiry, if any, lies ahead.\<close>

definition expired :: "gotime \<Rightarrow> rentry \<Rightarrow> bool" where
  "expired t e = (case rexp e of None \<Rightarrow> False | Some x \<Rightarrow> x \<le> t)"

definition entry :: "gotime \<Rightarrow> rstore \<Rightarrow> string \<Rightarrow> rentry option" where
  "entry t st k = (case st k of None \<Rightarrow> None | Some e \<Rightarrow> if expired t e then None else Some e)"

definition live :: "gotime \<Rightarrow> rstore \<Rightarrow> string \<Rightarrow> rval option" where
  "live t st k = map_option rv (entry t st k)"

datatype rcmd =
    CGet string
  | CGetDel string
  | CSet string payload duration
  | CDel string
  | CExpire string duration
  | CSAdd string string
  | CSRem string string
  | CSMembers string
  | CSCard string
  | CZRemRangeByScore string int
  | CZCard string
  | CZAdd string int string

datatype rreply =
    RepNil
  | RepVal payload
  | RepInt int
  | RepMembers "string list"
  | RepOK
  | RepWrongType

text \<open>A set or sorted set that becomes empty is removed with its key.\<close>

definition put_set :: "string \<Rightarrow> gotime option \<Rightarrow> string list \<Rightarrow> rstore \<Rightarrow> rstore" where
  "put_set k x ms st = st(k := (if ms = [] then None else Some \<lparr>rv = RSet ms, rexp = x\<rparr>))"

definition put_zset :: "string \<Rightarrow> gotime option \<Rightarrow> (string \<times> int) list \<Rightarrow> rstore \<Rightarrow> rstore" where
  "put_zset k x ms st = st(k := (if ms = [] then None else Some \<lparr>rv = RZSet ms, rexp = x\<rparr>))"

definition set_add :: "string \<Rightarrow> string list \<Rightarrow> string list" where
  "set_add m ms = (if m \<in> set ms then ms else ms @ [m])"

fun cmd_step :: "gotime \<Rightarrow> rcmd \<Rightarrow> rstore \<Rightarrow> rreply \<times> rstore" where
  "cmd_step t (CGet k) st =
     (case live t st k of
        None \<Rightarrow> (RepNil, st)
      | Some (RStr p) \<Rightarrow> (RepVal p, st)
      | Some _ \<Rightarrow> (RepWrongType, st))"
| "cmd_step t (CGetDel k) st =
     (case live t st k of
        None \<Rightarrow> (RepNil, st)
      | Some (RStr p) \<Rightarrow> (RepVal p, st(k := None))
      | Some _ \<Rightarrow> (RepWrongType, st))"
| "cmd_step t (CSet k p ttl) st = (RepOK, st(k \<mapsto> \<lparr>rv = RStr p, rexp = Some (t + ttl)\<rparr>))"
| "cmd_step t (CDel k) st =
     (RepInt (if live t st k = None then 0 else 1), st(k := None))"
| "cmd_step t (CExpire k ttl) st =
     (case entry t st k of
        None \<Rightarrow> (RepInt 0, st)
      | Some e \<Rightarrow> (RepInt 1, st(k \<mapsto> e\<lparr>rexp := Some (t + ttl)\<rparr>)))"
| "cmd_step t (CSAdd k m) st =
     (case entry t st k of
        None \<Rightarrow> (RepInt 1, put_set k None [m] st)
      | Some e \<Rightarrow> (case rv e of
          RSet ms \<Rightarrow> (RepInt (if m \<in> set ms then 0 else 1), put_set k (rexp e) (set_add m ms) st)
        | _ \<Rightarrow> (RepWrongType, st)))"
| "cmd_step t (CSRem k m) st =
     (case entry t st k of
        None \<Rightarrow> (RepInt 0, st)
      | Some e \<Rightarrow> (case rv e of
          RSet ms \<Rightarrow> (RepInt (if m \<in> set ms then 1 else 0), put_set k (rexp e) (removeAll m ms) st)
        | _ \<Rightarrow> (RepWrongType, st)))"
| "cmd_step t (CSMembers k) st =
     (case live t st k of
        None \<Rightarrow> (RepMembers [], st)
      | Some (RSet ms) \<Rightarrow> (RepMembers (remdups ms), st)
      | Some _ \<Rightarrow> (RepWrongType, st))"
| "cmd_step t (CSCard k) st =
     (case live t st k of
        None \<Rightarrow> (RepInt 0, st)
      | Some (RSet ms) \<Rightarrow> (RepInt (int (card (set ms))), st)
      | Some _ \<Rightarrow> (RepWrongType, st))"
| "cmd_step t (CZRemRangeByScore k hi) st =
     (case entry t st k of
        None \<Rightarrow> (RepInt 0, st)
      | Some e \<Rightarrow> (case rv e of
          RZSet ms \<Rightarrow> (RepInt (int (length (filter (\<lambda>m. snd m \<le> hi) ms))),
                       put_zset k (rexp e) (filter (\<lambda>m. hi < snd m) ms) st)
        | _ \<Rightarrow> (RepWrongType, st)))"
| "cmd_step t (CZCard k) st =
     (case live t st k of
        None \<Rightarrow> (RepInt 0, st)
      | Some (RZSet ms) \<Rightarrow> (RepInt (int (length ms)), st)
      | Some _ \<Rightarrow> (RepWrongType, st))"
| "cmd_step t (CZAdd k sc m) st =
     (case entry t st k of
        None \<Rightarrow> (RepInt 1, put_zset k None [(m, sc)] st)
      | Some e \<Rightarrow> (case rv e of
          RZSet ms \<Rightarrow> (RepInt (if m \<in> fst ` set ms then 0 else 1),
                       put_zset k (rexp e) (filter (\<lambda>x. fst x \<noteq> m) ms @ [(m, sc)]) st)
        | _ \<Rightarrow> (RepWrongType, st)))"

fun run_cmds :: "gotime \<Rightarrow> rcmd list \<Rightarrow> rstore \<Rightarrow> rreply list \<times> rstore" where
  "run_cmds t [] st = ([], st)"
| "run_cmds t (c # cs) st =
     (let (r, st1) = cmd_step t c st; (rs, st2) = run_cmds t cs st1 in (r # rs, st2))"

section \<open>The client\<close>

text \<open>The errors go-redis reports: the sentinel \<^verbatim>\<open>redis.Nil\<close> for an absent key, and all others.\<close>

datatype rerr = RedisNil | RedisErr string

type_synonym 's redis = "gotime \<Rightarrow> rcmd list \<Rightarrow> 's \<Rightarrow> (string + rreply list) \<times> 's"

definition unexpected :: rerr where
  "unexpected = RedisErr ''redis: unexpected reply''"

definition rdb_value :: "(string + rreply list) \<times> 's \<Rightarrow> (rerr + payload) \<times> 's" where
  "rdb_value out =
     (case out of
        (Inl e, s) \<Rightarrow> (Inl (RedisErr e), s)
      | (Inr [RepVal p], s) \<Rightarrow> (Inr p, s)
      | (Inr [RepNil], s) \<Rightarrow> (Inl RedisNil, s)
      | (Inr _, s) \<Rightarrow> (Inl unexpected, s))"

definition rdb_Get :: "'s redis \<Rightarrow> gotime \<Rightarrow> string \<Rightarrow> 's \<Rightarrow> (rerr + payload) \<times> 's" where
  "rdb_Get R t k s = rdb_value (R t [CGet k] s)"

definition rdb_GetDel :: "'s redis \<Rightarrow> gotime \<Rightarrow> string \<Rightarrow> 's \<Rightarrow> (rerr + payload) \<times> 's" where
  "rdb_GetDel R t k s = rdb_value (R t [CGetDel k] s)"

definition rdb_SMembers :: "'s redis \<Rightarrow> gotime \<Rightarrow> string \<Rightarrow> 's \<Rightarrow> (rerr + string list) \<times> 's" where
  "rdb_SMembers R t k s =
     (case R t [CSMembers k] s of
        (Inl e, s') \<Rightarrow> (Inl (RedisErr e), s')
      | (Inr [RepMembers ms], s') \<Rightarrow> (Inr ms, s')
      | (Inr _, s') \<Rightarrow> (Inl unexpected, s'))"

definition rdb_SCard :: "'s redis \<Rightarrow> gotime \<Rightarrow> string \<Rightarrow> 's \<Rightarrow> (rerr + int) \<times> 's" where
  "rdb_SCard R t k s =
     (case R t [CSCard k] s of
        (Inl e, s') \<Rightarrow> (Inl (RedisErr e), s')
      | (Inr [RepInt n], s') \<Rightarrow> (Inr n, s')
      | (Inr _, s') \<Rightarrow> (Inl unexpected, s'))"

text \<open>A pipeline, or a command whose reply is not looked at.\<close>

definition rdb_Exec :: "'s redis \<Rightarrow> gotime \<Rightarrow> rcmd list \<Rightarrow> 's \<Rightarrow> (rerr + rreply list) \<times> 's" where
  "rdb_Exec R t cs s =
     (case R t cs s of (Inl e, s') \<Rightarrow> (Inl (RedisErr e), s') | (Inr rs, s') \<Rightarrow> (Inr rs, s'))"

section \<open>What the client promises\<close>

text \<open>The members of a set come in no particular order.\<close>

fun reply_ok :: "rreply \<Rightarrow> rreply \<Rightarrow> bool" where
  "reply_ok (RepMembers xs) r = (\<exists>ys. r = RepMembers ys \<and> distinct ys \<and> set ys = set xs)"
| "reply_ok q r = (r = q)"

text \<open>Views of a key: the members of a set, and whether the key can be used as a set or a string.\<close>

definition members :: "gotime \<Rightarrow> rstore \<Rightarrow> string \<Rightarrow> string set" where
  "members t st k = (case live t st k of Some (RSet ms) \<Rightarrow> set ms | _ \<Rightarrow> {})"

definition set_key :: "gotime \<Rightarrow> rstore \<Rightarrow> string \<Rightarrow> bool" where
  "set_key t st k = (case live t st k of None \<Rightarrow> True | Some (RSet _) \<Rightarrow> True | _ \<Rightarrow> False)"

definition str_key :: "gotime \<Rightarrow> rstore \<Rightarrow> string \<Rightarrow> bool" where
  "str_key t st k = (case live t st k of None \<Rightarrow> True | Some (RStr _) \<Rightarrow> True | _ \<Rightarrow> False)"

lemma live_upd [simp]:
  "live t (st(k \<mapsto> e)) k' = (if k' = k then (if expired t e then None else Some (rv e)) else live t st k')"
  "live t (st(k := None)) k' = (if k' = k then None else live t st k')"
  by (auto simp: live_def entry_def)

lemma entry_upd [simp]:
  "entry t (st(k \<mapsto> e)) k' = (if k' = k then (if expired t e then None else Some e) else entry t st k')"
  "entry t (st(k := None)) k' = (if k' = k then None else entry t st k')"
  by (auto simp: entry_def)

lemma expired_simps [simp]:
  "expired t \<lparr>rv = v, rexp = None\<rparr> = False"
  "expired t \<lparr>rv = v, rexp = Some x\<rparr> = (x \<le> t)"
  "expired t (e\<lparr>rexp := Some x\<rparr>) = (x \<le> t)"
  "expired t (e\<lparr>rv := v\<rparr>) = expired t e"
  by (auto simp: expired_def)

lemma live_expired_mono: "live t st k = None \<Longrightarrow> t \<le> t' \<Longrightarrow> live t' st k = None"
  by (auto simp: live_def entry_def expired_def split: option.splits if_splits)

lemma live_None_entry: "live t st k = None \<longleftrightarrow> entry t st k = None"
  by (auto simp: live_def)

text \<open>The keys a command may change.\<close>

fun cmd_key :: "rcmd \<Rightarrow> string" where
  "cmd_key (CGet k) = k" | "cmd_key (CGetDel k) = k" | "cmd_key (CSet k p d) = k"
| "cmd_key (CDel k) = k" | "cmd_key (CExpire k d) = k" | "cmd_key (CSAdd k m) = k"
| "cmd_key (CSRem k m) = k" | "cmd_key (CSMembers k) = k" | "cmd_key (CSCard k) = k"
| "cmd_key (CZRemRangeByScore k h) = k" | "cmd_key (CZCard k) = k" | "cmd_key (CZAdd k c m) = k"

lemma cmd_step_frame: "k \<noteq> cmd_key c \<Longrightarrow> snd (cmd_step t c st) k = st k"
  by (cases c) (auto simp: put_set_def put_zset_def split: option.splits rval.splits)

lemma run_cmds_frame: "k \<notin> cmd_key ` set cs \<Longrightarrow> snd (run_cmds t cs st) k = st k"
  by (induction cs arbitrary: st) (auto simp: Let_def case_prod_unfold cmd_step_frame)

lemma run_cmds_append:
  "run_cmds t (cs @ ds) st =
     (let (rs, st1) = run_cmds t cs st; (qs, st2) = run_cmds t ds st1 in (rs @ qs, st2))"
  by (induction cs arbitrary: st) (auto simp: Let_def split: prod.splits)

locale redis_api =
  fixes R :: "'s redis" and absr :: "'s \<Rightarrow> rstore"
  assumes exec_ok: "R t cs s = (Inr rs, s') \<Longrightarrow>
      absr s' = snd (run_cmds t cs (absr s)) \<and> list_all2 reply_ok (fst (run_cmds t cs (absr s))) rs
        \<and> RepWrongType \<notin> set (fst (run_cmds t cs (absr s)))"
    and exec_err: "R t cs s = (Inl e, s') \<Longrightarrow>
      absr s' = absr s \<or> absr s' = snd (run_cmds t cs (absr s))"
begin

lemma exec_one_ok:
  assumes "R t [c] s = (Inr rs, s')"
  shows "\<exists>r. rs = [r] \<and> reply_ok (fst (cmd_step t c (absr s))) r
           \<and> fst (cmd_step t c (absr s)) \<noteq> RepWrongType
           \<and> absr s' = snd (cmd_step t c (absr s))"
proof -
  obtain q st where q: "cmd_step t c (absr s) = (q, st)" by fastforce
  with exec_ok [OF assms] show ?thesis by (auto simp: list_all2_Cons1)
qed

lemma exec_read:
  assumes "R t [c] s = (out, s')" and "\<And>st. snd (cmd_step t c st) = st"
  shows "absr s' = absr s"
proof (cases out)
  case (Inl e)
  with assms(1) have "R t [c] s = (Inl e, s')" by simp
  from exec_err [OF this] assms(2) show ?thesis by (auto simp: Let_def case_prod_unfold)
next
  case (Inr rs)
  with assms(1) have "R t [c] s = (Inr rs, s')" by simp
  from exec_one_ok [OF this] assms(2) show ?thesis by auto
qed

lemma Get_frame: "rdb_Get R t k s = (out, s') \<Longrightarrow> absr s' = absr s"
  using exec_read [of t "CGet k" s "fst (R t [CGet k] s)" s']
  by (auto simp: rdb_Get_def rdb_value_def split: prod.splits sum.splits list.splits rreply.splits
      option.splits rval.splits)

lemma Get_ok: "rdb_Get R t k s = (Inr p, s') \<Longrightarrow> live t (absr s) k = Some (RStr p)"
  using exec_one_ok [of t "CGet k" s "projr (fst (R t [CGet k] s))" s']
  by (auto simp: rdb_Get_def rdb_value_def split: prod.splits sum.splits list.splits rreply.splits
      option.splits rval.splits)

lemma Get_nil: "rdb_Get R t k s = (Inl RedisNil, s') \<Longrightarrow> live t (absr s) k = None"
  using exec_one_ok [of t "CGet k" s "projr (fst (R t [CGet k] s))" s']
  by (auto simp: rdb_Get_def rdb_value_def unexpected_def
      split: prod.splits sum.splits list.splits rreply.splits option.splits rval.splits)

lemma GetDel_ok:
  "rdb_GetDel R t k s = (Inr p, s') \<Longrightarrow>
     live t (absr s) k = Some (RStr p) \<and> absr s' = (absr s)(k := None)"
  using exec_one_ok [of t "CGetDel k" s "projr (fst (R t [CGetDel k] s))" s']
  by (auto simp: rdb_GetDel_def rdb_value_def
      split: prod.splits sum.splits list.splits rreply.splits option.splits rval.splits)

lemma SMembers_ok:
  "rdb_SMembers R t k s = (Inr ms, s') \<Longrightarrow> set ms = members t (absr s) k \<and> distinct ms"
  using exec_one_ok [of t "CSMembers k" s "projr (fst (R t [CSMembers k] s))" s']
  by (auto simp: rdb_SMembers_def members_def
      split: prod.splits sum.splits list.splits rreply.splits option.splits rval.splits)

lemma SMembers_frame: "rdb_SMembers R t k s = (out, s') \<Longrightarrow> absr s' = absr s"
  using exec_read [of t "CSMembers k" s "fst (R t [CSMembers k] s)" s']
  by (auto simp: rdb_SMembers_def split: prod.splits sum.splits list.splits rreply.splits
      option.splits rval.splits)

lemma SCard_ok: "rdb_SCard R t k s = (Inr n, s') \<Longrightarrow> n = int (card (members t (absr s) k))"
  using exec_one_ok [of t "CSCard k" s "projr (fst (R t [CSCard k] s))" s']
  by (auto simp: rdb_SCard_def members_def
      split: prod.splits sum.splits list.splits rreply.splits option.splits rval.splits)

lemma SCard_frame: "rdb_SCard R t k s = (out, s') \<Longrightarrow> absr s' = absr s"
  using exec_read [of t "CSCard k" s "fst (R t [CSCard k] s)" s']
  by (auto simp: rdb_SCard_def split: prod.splits sum.splits list.splits rreply.splits
      option.splits rval.splits)

lemma Exec_ok:
  "rdb_Exec R t cs s = (Inr rs, s') \<Longrightarrow>
     absr s' = snd (run_cmds t cs (absr s)) \<and> list_all2 reply_ok (fst (run_cmds t cs (absr s))) rs"
  using exec_ok [of t cs s rs s'] by (auto simp: rdb_Exec_def split: prod.splits sum.splits)

lemma Exec_any:
  "rdb_Exec R t cs s = (out, s') \<Longrightarrow> absr s' = absr s \<or> absr s' = snd (run_cmds t cs (absr s))"
  using exec_ok [of t cs s _ s'] exec_err [of t cs s _ s']
  by (fastforce simp: rdb_Exec_def split: prod.splits sum.splits)

end

locale redis_up = redis_api +
  assumes exec_up: "RepWrongType \<notin> set (fst (run_cmds t cs (absr s))) \<Longrightarrow>
      \<exists>rs s'. R t cs s = (Inr rs, s')"
begin

lemma exec_one_up:
  assumes "fst (cmd_step t c (absr s)) \<noteq> RepWrongType"
  shows "\<exists>r s'. R t [c] s = (Inr [r], s') \<and> reply_ok (fst (cmd_step t c (absr s))) r
           \<and> absr s' = snd (cmd_step t c (absr s))"
proof -
  from assms have "RepWrongType \<notin> set (fst (run_cmds t [c] (absr s)))"
    by (auto simp: Let_def case_prod_unfold)
  then obtain rs s' where run: "R t [c] s = (Inr rs, s')" using exec_up by blast
  from exec_one_ok [OF run] run show ?thesis by auto
qed

lemma Get_up_some:
  assumes "live t (absr s) k = Some (RStr p)"
  obtains s' where "rdb_Get R t k s = (Inr p, s')" "absr s' = absr s"
  using exec_one_up [of t "CGet k" s] assms that by (auto simp: rdb_Get_def rdb_value_def)

lemma Get_up_none:
  assumes "live t (absr s) k = None"
  obtains s' where "rdb_Get R t k s = (Inl RedisNil, s')" "absr s' = absr s"
  using exec_one_up [of t "CGet k" s] assms that by (auto simp: rdb_Get_def rdb_value_def)

lemma GetDel_up_some:
  assumes "live t (absr s) k = Some (RStr p)"
  obtains s' where "rdb_GetDel R t k s = (Inr p, s')" "absr s' = (absr s)(k := None)"
  using exec_one_up [of t "CGetDel k" s] assms that by (auto simp: rdb_GetDel_def rdb_value_def)

lemma GetDel_up_none:
  assumes "live t (absr s) k = None"
  obtains s' where "rdb_GetDel R t k s = (Inl RedisNil, s')" "absr s' = absr s"
  using exec_one_up [of t "CGetDel k" s] assms that by (auto simp: rdb_GetDel_def rdb_value_def)

lemma SMembers_up:
  assumes "set_key t (absr s) k"
  obtains ms s' where "rdb_SMembers R t k s = (Inr ms, s')" "absr s' = absr s"
    "set ms = members t (absr s) k" "distinct ms"
  using exec_one_up [of t "CSMembers k" s] assms that
  by (auto simp: rdb_SMembers_def set_key_def members_def split: option.splits rval.splits)

lemma SCard_up:
  assumes "set_key t (absr s) k"
  obtains s' where "rdb_SCard R t k s = (Inr (int (card (members t (absr s) k))), s')"
    "absr s' = absr s"
  using exec_one_up [of t "CSCard k" s] assms that
  by (auto simp: rdb_SCard_def set_key_def members_def split: option.splits rval.splits)

lemma Exec_up:
  assumes "RepWrongType \<notin> set (fst (run_cmds t cs (absr s)))"
  obtains rs s' where "rdb_Exec R t cs s = (Inr rs, s')" "absr s' = snd (run_cmds t cs (absr s))"
    "list_all2 reply_ok (fst (run_cmds t cs (absr s))) rs"
proof -
  obtain rs s' where "R t cs s = (Inr rs, s')" using exec_up [OF assms] by blast
  then have "rdb_Exec R t cs s = (Inr rs, s')" by (simp add: rdb_Exec_def)
  with Exec_ok [OF this] show thesis using that by blast
qed

end

section \<open>Executable servers\<close>

text \<open>
  A server that never fails: its state is the keyspace itself. A command on a key of the wrong
  type is answered with an error, the other commands of the transaction having run.
\<close>

definition reply_result :: "rreply list \<Rightarrow> string + rreply list" where
  "reply_result rs = (if RepWrongType \<in> set rs then Inl ''WRONGTYPE'' else Inr rs)"

definition pure_redis :: "rstore redis" where
  "pure_redis t cs st = (let (rs, st') = run_cmds t cs st in (reply_result rs, st'))"

text \<open>
  A server behind a network that fails as a script says, one entry per call: the call fails
  before the server has seen it, or after the server has run it, or not at all.
\<close>

datatype fault = NoFault | FailBefore | FailAfter

record faulty =
  keyspace :: rstore
  faults :: "fault list"

definition faulty_redis :: "faulty redis" where
  "faulty_redis t cs s =
     (let (rs, st') = run_cmds t cs (keyspace s); s' = s\<lparr>faults := tl (faults s)\<rparr> in
      case faults s of
        FailBefore # fs \<Rightarrow> (Inl ''i/o timeout'', s')
      | FailAfter # fs \<Rightarrow> (Inl ''i/o timeout'', s'\<lparr>keyspace := st'\<rparr>)
      | _ \<Rightarrow> (reply_result rs, s'\<lparr>keyspace := st'\<rparr>))"

lemma faulty_redis_simps [simp]:
  "faulty_redis t cs \<lparr>keyspace = k, faults = FailBefore # fs\<rparr> =
     (Inl ''i/o timeout'', \<lparr>keyspace = k, faults = fs\<rparr>)"
  "faulty_redis t cs \<lparr>keyspace = k, faults = FailAfter # fs\<rparr> =
     (Inl ''i/o timeout'', \<lparr>keyspace = snd (run_cmds t cs k), faults = fs\<rparr>)"
  "faulty_redis t cs \<lparr>keyspace = k, faults = NoFault # fs\<rparr> =
     (reply_result (fst (run_cmds t cs k)), \<lparr>keyspace = snd (run_cmds t cs k), faults = fs\<rparr>)"
  "faulty_redis t cs \<lparr>keyspace = k, faults = []\<rparr> =
     (reply_result (fst (run_cmds t cs k)), \<lparr>keyspace = snd (run_cmds t cs k), faults = []\<rparr>)"
  by (simp_all add: faulty_redis_def Let_def case_prod_unfold)

lemma reply_ok_self:
  "q = fst (cmd_step t c st) \<Longrightarrow> reply_ok q q"
  by (cases c) (auto split: option.splits rval.splits)

lemma run_cmds_replies_ok: "list_all2 reply_ok (fst (run_cmds t cs st)) (fst (run_cmds t cs st))"
  by (induction cs arbitrary: st) (auto simp: Let_def case_prod_unfold intro: reply_ok_self)

interpretation pure: redis_up pure_redis "\<lambda>st. st"
proof (standard, goal_cases)
  case (1 t cs s rs s')
  then show ?case
    using run_cmds_replies_ok [of t cs s]
    by (auto simp: pure_redis_def reply_result_def Let_def case_prod_unfold split: if_splits)
next
  case (2 t cs s e s')
  then show ?case by (auto simp: pure_redis_def Let_def case_prod_unfold)
next
  case (3 t cs s)
  then show ?case by (auto simp: pure_redis_def reply_result_def Let_def case_prod_unfold)
qed

interpretation net: redis_api faulty_redis keyspace
proof (standard, goal_cases)
  case (1 t cs s rs s')
  then show ?case
    using run_cmds_replies_ok [of t cs "keyspace s"]
    by (auto simp: faulty_redis_def reply_result_def Let_def case_prod_unfold
        split: if_splits list.splits fault.splits)
next
  case (2 t cs s e s')
  then show ?case
    by (auto simp: faulty_redis_def Let_def case_prod_unfold split: list.splits fault.splits)
qed

end
