(* ===== verification/Base64.thy ===== *)
theory Base64
  imports Prelude
begin

text \<open>
  The package \<^verbatim>\<open>encoding/base64\<close> with the standard alphabet and padding, as the encryptors use it.
  Decoding skips carriage returns and newlines, wants whole groups of four characters, accepts
  padding in the last group only, and does not look at the bits a padded group leaves over. The URL
  alphabet, with and without padding, is there for encoding only.
\<close>

section \<open>Digits\<close>

definition b64_char :: "nat \<Rightarrow> char" where
  "b64_char n = char_of (if n < 26 then n + 65 else if n < 52 then n + 71 else if n < 62 then n - 4
                         else if n = 62 then 43 else (47 :: nat))"

definition b64_val :: "char \<Rightarrow> nat option" where
  "b64_val c =
     (let n = (of_char c :: nat) in
      if 65 \<le> n \<and> n \<le> 90 then Some (n - 65)
      else if 97 \<le> n \<and> n \<le> 122 then Some (n - 71)
      else if 48 \<le> n \<and> n \<le> 57 then Some (n + 4)
      else if n = 43 then Some 62 else if n = 47 then Some 63 else None)"

abbreviation b64_pad :: char where "b64_pad \<equiv> CHR ''=''"

section \<open>Encoding and decoding\<close>

fun b64_groups :: "bytes \<Rightarrow> string" where
  "b64_groups [] = []"
| "b64_groups [a] =
     (let x = of_char a in [b64_char (x div 4), b64_char (x mod 4 * 16), b64_pad, b64_pad])"
| "b64_groups [a, b] =
     (let x = of_char a; y = of_char b in
      [b64_char (x div 4), b64_char (x mod 4 * 16 + y div 16), b64_char (y mod 16 * 4), b64_pad])"
| "b64_groups (a # b # c # s) =
     (let x = of_char a; y = of_char b; z = of_char c in
      [b64_char (x div 4), b64_char (x mod 4 * 16 + y div 16), b64_char (y mod 16 * 4 + z div 64),
       b64_char (z mod 64)] @ b64_groups s)"

definition b64_encode :: "bytes \<Rightarrow> string" where
  "b64_encode bs = b64_groups bs"

fun b64_ungroup :: "string \<Rightarrow> bytes option" where
  "b64_ungroup [] = Some []"
| "b64_ungroup (p # q # r # t # s) =
     (case (b64_val p, b64_val q) of
        (Some i, Some j) \<Rightarrow>
          (let a = char_of (i * 4 + j div 16) in
           if r = b64_pad then (if t = b64_pad \<and> s = [] then Some [a] else None)
           else case b64_val r of
                  None \<Rightarrow> None
                | Some k \<Rightarrow>
                    (let b = char_of (j mod 16 * 16 + k div 4) in
                     if t = b64_pad then (if s = [] then Some [a, b] else None)
                     else case (b64_val t, b64_ungroup s) of
                            (Some l, Some rest) \<Rightarrow> Some (a # b # char_of (k mod 4 * 64 + l) # rest)
                          | _ \<Rightarrow> None))
      | _ \<Rightarrow> None)"
| "b64_ungroup s = None"

definition b64_decode :: "string \<Rightarrow> bytes option" where
  "b64_decode s = b64_ungroup (filter (\<lambda>c. (of_char c :: nat) \<notin> {10, 13}) s)"

section \<open>Round trip\<close>

lemma of_char_lt [simp]: "(of_char c :: nat) < 256"
  by simp

lemma b64_val_char [simp]: "n < 64 \<Longrightarrow> b64_val (b64_char n) = Some n"
  by (auto simp: b64_val_def b64_char_def Let_def)

lemma b64_char_not_pad [simp]: "n < 64 \<Longrightarrow> b64_char n \<noteq> b64_pad"
  using b64_val_char [of n] by (auto simp: b64_val_def)

lemma b64_char_not_newline: "n < 64 \<Longrightarrow> (of_char (b64_char n) :: nat) \<notin> {10, 13}"
  by (auto simp: b64_char_def)

lemma digit_split:
  fixes r s u v :: nat
  shows "u < 16 \<Longrightarrow> (r * 16 + u) div 16 = r" "u < 16 \<Longrightarrow> (r * 16 + u) mod 16 = u"
    "v < 4 \<Longrightarrow> (s * 4 + v) div 4 = s" "v < 4 \<Longrightarrow> (s * 4 + v) mod 4 = v"
  by simp_all

lemma byte_div [simp]: "(of_char c :: nat) div 64 < 4" "(of_char c :: nat) div 4 < 64"
  by (rule less_mult_imp_div_less, simp)+

lemma byte_bounds:
  "(of_char x :: nat) div 4 < 64" "(of_char x :: nat) mod 4 * 16 < 64" "(of_char y :: nat) mod 16 * 4 < 64"
  "(of_char x :: nat) mod 4 * 16 + of_char y div 16 < 64" "(of_char y :: nat) mod 16 * 4 + of_char z div 64 < 64"
proof -
  have b: "(of_char y :: nat) div 16 < 16" "(of_char z :: nat) div 64 < 4" "(of_char x :: nat) mod 4 < 4"
    "(of_char y :: nat) mod 16 < 16" by simp_all
  then show "(of_char x :: nat) div 4 < 64" "(of_char x :: nat) mod 4 * 16 < 64" "(of_char y :: nat) mod 16 * 4 < 64"
    "(of_char x :: nat) mod 4 * 16 + of_char y div 16 < 64" "(of_char y :: nat) mod 16 * 4 + of_char z div 64 < 64"
    using byte_div(2) [of x] by (simp_all, linarith+)
qed

lemma b64_groups_chars: "c \<in> set (b64_groups bs) \<Longrightarrow> (of_char c :: nat) \<notin> {10, 13}"
proof (induction bs rule: b64_groups.induct)
  case (2 a)
  then show ?case using byte_bounds(1,2) [of a] b64_char_not_newline by (auto simp: Let_def)
next
  case (3 a b)
  then show ?case using byte_bounds(1) [of a] byte_bounds(4) [of a b] byte_bounds(3) [of b] b64_char_not_newline by (auto simp: Let_def)
next
  case (4 x y z s)
  then show ?case
    using byte_bounds(1) [of x] byte_bounds(4) [of x y] byte_bounds(5) [of y z] b64_char_not_newline [of "of_char z mod 64"]
      b64_char_not_newline by (auto simp: Let_def)
qed simp

lemma b64_ungroup_groups: "b64_ungroup (b64_groups bs) = Some bs"
proof (induction bs rule: b64_groups.induct)
  case (2 a)
  then show ?case using byte_bounds(1,2) [of a] by (simp add: Let_def)
next
  case (3 a b)
  then show ?case using byte_bounds(1) [of a] byte_bounds(4) [of a b] byte_bounds(3) [of b] by (simp add: Let_def digit_split)
next
  case (4 a b c s)
  then show ?case using byte_bounds(1) [of a] byte_bounds(4) [of a b] byte_bounds(5) [of b c] by (simp add: Let_def digit_split)
qed simp

lemma b64_decode_encode [simp]: "b64_decode (b64_encode bs) = Some bs"
proof -
  have "filter (\<lambda>c. (of_char c :: nat) \<notin> {10, 13}) (b64_groups bs) = b64_groups bs"
    using b64_groups_chars by (metis (no_types, lifting) filter_True)
  then show ?thesis by (simp only: b64_decode_def b64_encode_def b64_ungroup_groups)
qed

section \<open>The URL alphabet\<close>

text \<open>\<^verbatim>\<open>base64.URLEncoding\<close> has a minus and an underscore for plus and slash; \<^verbatim>\<open>base64.RawURLEncoding\<close> has no
  padding.\<close>

definition url_char :: "char \<Rightarrow> char" where
  "url_char c = (let n = (of_char c :: nat) in if n = 43 then CHR ''-'' else if n = 47 then CHR ''_'' else c)"

definition b64url_encode :: "bytes \<Rightarrow> string" where
  "b64url_encode bs = map url_char (b64_encode bs)"

definition b64rawurl_encode :: "bytes \<Rightarrow> string" where
  "b64rawurl_encode bs = filter (\<lambda>c. c \<noteq> b64_pad) (b64url_encode bs)"

definition is_url_digit :: "char \<Rightarrow> bool" where
  "is_url_digit c =
     (let n = (of_char c :: nat) in
      (48 \<le> n \<and> n \<le> 57) \<or> (65 \<le> n \<and> n \<le> 90) \<or> (97 \<le> n \<and> n \<le> 122) \<or> n = 45 \<or> n = 95)"

lemma b64_groups_digits:
  assumes P: "\<And>n. n < 64 \<Longrightarrow> P (b64_char n)" "P b64_pad"
  shows "c \<in> set (b64_groups bs) \<Longrightarrow> P c"
proof (induction bs rule: b64_groups.induct)
  case (2 a)
  then show ?case using byte_bounds(1,2) [of a] P by (auto simp: Let_def)
next
  case (3 a b)
  then show ?case using byte_bounds(1) [of a] byte_bounds(4) [of a b] byte_bounds(3) [of b] P by (auto simp: Let_def)
next
  case (4 x y z s)
  then show ?case
    using byte_bounds(1) [of x] byte_bounds(4) [of x y] byte_bounds(5) [of y z] P P(1) [of "of_char z mod 64"]
    by (auto simp: Let_def)
qed simp

lemma url_char_b64:
  "url_char (b64_char n) = (if n = 62 then CHR ''-'' else if n < 62 then b64_char n else CHR ''_'')"
  by (auto simp add: url_char_def b64_char_def Let_def)

lemma url_char_digit: "n < 64 \<Longrightarrow> is_url_digit (url_char (b64_char n))"
proof -
  have "is_url_digit (b64_char n)" if "n < 26" using that by (simp add: is_url_digit_def b64_char_def Let_def)
  moreover have "is_url_digit (b64_char n)" if "26 \<le> n" "n < 52" using that by (simp add: is_url_digit_def b64_char_def Let_def)
  moreover have "is_url_digit (b64_char n)" if "52 \<le> n" "n < 62" using that
    by (simp add: is_url_digit_def b64_char_def Let_def) arith
  moreover have "is_url_digit (CHR ''-'')" "is_url_digit (CHR ''_'')" by (simp_all add: is_url_digit_def)
  ultimately show "n < 64 \<Longrightarrow> ?thesis" by (simp add: url_char_b64) (meson leI)
qed

lemma url_char_pad [simp]: "url_char c = b64_pad \<longleftrightarrow> c = b64_pad"
  by (auto simp: url_char_def Let_def)

lemma b64rawurl_digits: "c \<in> set (b64rawurl_encode bs) \<Longrightarrow> is_url_digit c"
proof -
  assume "c \<in> set (b64rawurl_encode bs)"
  then obtain x where x: "c = url_char x" "x \<in> set (b64_groups bs)" "x \<noteq> b64_pad"
    by (auto simp: b64rawurl_encode_def b64url_encode_def b64_encode_def)
  have "x = b64_pad \<or> is_url_digit (url_char x)"
    by (rule b64_groups_digits [where P = "\<lambda>c. c = b64_pad \<or> is_url_digit (url_char c)", OF _ _ x(2)])
      (auto simp: url_char_digit)
  then show ?thesis using x by simp
qed

text \<open>Three bytes give four digits; one or two left over give two or three.\<close>

lemma b64raw_groups_length:
  "length (filter (\<lambda>c. c \<noteq> b64_pad) (b64_groups bs)) = (4 * length bs + 2) div 3"
proof (induction bs rule: b64_groups.induct)
  case (2 a)
  then show ?case using byte_bounds(1,2) [of a] by (simp add: Let_def)
next
  case (3 a b)
  then show ?case using byte_bounds(1) [of a] byte_bounds(4) [of a b] byte_bounds(3) [of b] by (simp add: Let_def)
next
  case (4 a b c s)
  have "(of_char c :: nat) mod 64 < 64" by simp
  with 4 show ?case using byte_bounds(1) [of a] byte_bounds(4) [of a b] byte_bounds(5) [of b c]
    by (simp add: Let_def)
qed simp

lemma b64rawurl_length: "length (b64rawurl_encode bs) = (4 * length bs + 2) div 3"
  by (simp add: b64rawurl_encode_def b64url_encode_def filter_map comp_def b64_encode_def b64raw_groups_length)

definition url_unchar :: "char \<Rightarrow> char" where
  "url_unchar c = (let n = (of_char c :: nat) in if n = 45 then CHR ''+'' else if n = 95 then CHR ''/'' else c)"

lemma url_unchar_digit: "n < 64 \<Longrightarrow> url_unchar (url_char (b64_char n)) = b64_char n"
proof -
  have "url_unchar (b64_char n) = b64_char n" if "n < 62" using that by (auto simp add: url_unchar_def b64_char_def Let_def)
  moreover have "b64_char n = b64_char 63" if "n < 64" "\<not> n < 62" "n \<noteq> 62"
    using that by (intro arg_cong [where f = b64_char]) simp
  moreover have "url_unchar (CHR ''-'') = b64_char 62" "url_unchar (CHR ''_'') = b64_char 63" by code_simp+
  ultimately show "n < 64 \<Longrightarrow> ?thesis" by (auto simp: url_char_b64)
qed

lemma b64url_inj [simp]: "b64url_encode a = b64url_encode b \<longleftrightarrow> a = b"
proof
  have inv: "map url_unchar (b64url_encode x) = b64_encode x" for x
  proof -
    have digit: "url_unchar (url_char c) = c" if "c \<in> set (b64_groups x)" for c
      by (rule b64_groups_digits [where P = "\<lambda>c. url_unchar (url_char c) = c", OF url_unchar_digit _ that])
        (simp_all add: url_char_def url_unchar_def Let_def)
    then show ?thesis by (simp add: b64url_encode_def b64_encode_def map_idI)
  qed
  assume "b64url_encode a = b64url_encode b"
  then have "b64_encode a = b64_encode b" using inv by metis
  then show "a = b" by (metis b64_decode_encode option.inject)
qed simp

end
