(* ===== verification/Auth_Domain.thy ===== *)
theory Auth_Domain
  imports Prelude
begin

text \<open>
  The data of \<^verbatim>\<open>internal/auth/domain\<close>: identities, sessions, one-time-password challenges,
  workspace memberships, and the sentinel errors. \<^verbatim>\<open>Provider\<close>, \<^verbatim>\<open>Role\<close> and \<^verbatim>\<open>OTPPurpose\<close> are
  string types in the source, and values outside the named constants do occur (they are read back
  from the database), so they are strings here too. A pointer to a time is an option.
\<close>

type_synonym Provider = string
type_synonym Role = string
type_synonym OTPPurpose = string

definition ProviderGitHub :: Provider where "ProviderGitHub = ''github''"
definition ProviderGoogle :: Provider where "ProviderGoogle = ''google''"
definition ProviderEmail :: Provider where "ProviderEmail = ''email''"

definition RoleOwner :: Role where "RoleOwner = ''OWNER''"
definition RoleAdmin :: Role where "RoleAdmin = ''ADMIN''"
definition RoleMember :: Role where "RoleMember = ''MEMBER''"
definition RoleViewer :: Role where "RoleViewer = ''VIEWER''"

definition OTPPurposeLogin :: OTPPurpose where "OTPPurposeLogin = ''LOGIN''"

record User =
  u_ID :: string
  u_Email :: string
  u_Name :: string
  u_AvatarURL :: string
  u_Provider :: Provider
  u_ProviderID :: string
  u_GitHubLogin :: string
  u_GitHubTokenEnc :: "bytes option"
  u_IsEmailVerified :: bool
  u_IsActive :: bool
  u_CreatedAt :: gotime
  u_UpdatedAt :: gotime
  u_LastLoginAt :: "gotime option"

record Session =
  s_ID :: string
  s_UserID :: string
  s_RefreshTokenHash :: string
  s_Fingerprint :: string
  s_ExpiresAt :: gotime
  s_CreatedAt :: gotime
  s_RevokedAt :: "gotime option"
  s_IsRevoked :: bool

record OTPChallenge =
  otp_ID :: string
  otp_Email :: string
  otp_CodeHash :: string
  otp_Purpose :: OTPPurpose
  otp_Attempts :: int
  otp_ExpiresAt :: gotime
  otp_CreatedAt :: gotime
  otp_Used :: bool

record WorkspaceMembership =
  m_UserID :: string
  m_WorkspaceID :: string
  m_Role :: Role
  m_InvitedBy :: string
  m_JoinedAt :: gotime

datatype auth_error =
    ErrUserNotFound
  | ErrUserAlreadyExists
  | ErrSessionNotFound
  | ErrSessionExpired
  | ErrSessionRevoked
  | ErrSessionFingerprintMismatch
  | ErrOTPNotFound
  | ErrOTPExpired
  | ErrOTPInvalid
  | ErrOTPMaxAttemptsReached
  | ErrOTPAlreadyUsed
  | ErrProviderMismatch
  | ErrInsufficientRole
  | ErrTokenInvalid
  | ErrTokenExpired

type_synonym aerr = "auth_error goerr"

lemmas role_defs = RoleOwner_def RoleAdmin_def RoleMember_def RoleViewer_def
lemmas provider_defs = ProviderGitHub_def ProviderGoogle_def ProviderEmail_def

end
