(* ===== verification/OAuth_State.thy ===== *)
theory OAuth_State
  imports Redis Base64 Auth_Domain
begin

text \<open>
  The shared part of the OAuth logins, \<^verbatim>\<open>internal/auth/adapter/oauth/state_store.go\<close>: the state
  tokens in Redis that protect the callbacks, and the code verifier and challenge of PKCE. The random
  bytes and the instant of a call are arguments, and so is SHA-256.
\<close>

section \<open>State tokens\<close>

definition StatePrefix :: string where "StatePrefix = ''rftw:oauth:state:''"

definition StateTTL :: duration where "StateTTL = minutes 10"

record StatePayload =
  sp_CodeVerifier :: string
  sp_RedirectURI :: string
  sp_CreatedAt :: gotime

text \<open>\<^verbatim>\<open>json.Marshal\<close> fails on an instant outside the years it can write.\<close>

definition sp_marshal :: "StatePayload \<Rightarrow> json_err + payload" where
  "sp_marshal p =
     (if json_time_ok (sp_CreatedAt p)
      then Inr (Doc (JObj [(''code_verifier'', JStr (sp_CodeVerifier p)), (''redirect_uri'', JStr (sp_RedirectURI p)),
                           (''created_at'', JTime (sp_CreatedAt p))]))
      else Inl UnmarshalTypeError)"

definition sp_decode :: "(string \<times> json) list \<Rightarrow> json_err + StatePayload" where
  "sp_decode kvs =
     (case (str_field ''code_verifier'' kvs, str_field ''redirect_uri'' kvs, time_field ''created_at'' kvs) of
        (Inr v, Inr u, Inr t) \<Rightarrow> Inr \<lparr>sp_CodeVerifier = v, sp_RedirectURI = u, sp_CreatedAt = t\<rparr>
      | _ \<Rightarrow> Inl UnmarshalTypeError)"

definition sp_unmarshal :: "payload \<Rightarrow> json_err + StatePayload" where
  "sp_unmarshal = unmarshal sp_decode \<lparr>sp_CodeVerifier = [], sp_RedirectURI = [], sp_CreatedAt = zero_time\<rparr>"

text \<open>The reader of the random source gives 32 bytes, or fails.\<close>

definition GenerateState :: "bytes option \<Rightarrow> aerr + string" where
  "GenerateState rnd =
     (case rnd of
        None \<Rightarrow> Inl (Wrapf ''oauth.GenerateState'' (Opaque ''rand''))
      | Some b \<Rightarrow> Inr (b64url_encode b))"

text \<open>A code verifier (64 random bytes) and its S256 challenge.\<close>

definition GeneratePKCE :: "(bytes \<Rightarrow> bytes) \<Rightarrow> bytes option \<Rightarrow> aerr + (string \<times> string)" where
  "GeneratePKCE sha256 rnd =
     (case rnd of
        None \<Rightarrow> Inl (Wrapf ''oauth.GeneratePKCE'' (Opaque ''rand''))
      | Some b \<Rightarrow>
          let verifier = b64rawurl_encode b;
              h = sha256 verifier;
              challenge = b64rawurl_encode h
          in Inr (verifier, challenge))"

section \<open>The store\<close>

record 'w StateStore =
  ss_Create :: "gotime \<Rightarrow> bytes option \<Rightarrow> string \<Rightarrow> string \<Rightarrow> 'w \<Rightarrow> (aerr + string) \<times> 'w"
  ss_Verify :: "gotime \<Rightarrow> string \<Rightarrow> 'w \<Rightarrow> (aerr + StatePayload) \<times> 'w"

definition stateKey :: "string \<Rightarrow> string" where
  "stateKey state = StatePrefix @ state"

definition redisMsg :: "rerr \<Rightarrow> aerr" where
  "redisMsg e = Opaque (case e of RedisNil \<Rightarrow> ''redis: nil'' | RedisErr m \<Rightarrow> m)"

definition state_Create ::
    "'s redis \<Rightarrow> gotime \<Rightarrow> bytes option \<Rightarrow> string \<Rightarrow> string \<Rightarrow> 's \<Rightarrow> (aerr + string) \<times> 's" where
  "state_Create R now rnd codeVerifier redirectURI s =
     (case GenerateState rnd of
        Inl e \<Rightarrow> (Inl e, s)
      | Inr state \<Rightarrow>
          (case sp_marshal \<lparr>sp_CodeVerifier = codeVerifier, sp_RedirectURI = redirectURI, sp_CreatedAt = now\<rparr> of
             Inl _ \<Rightarrow> (Inl (Wrapf ''stateStore.Create: marshal'' (Opaque ''json'')), s)
           | Inr jsonData \<Rightarrow>
               (case rdb_Exec R now [CSet (stateKey state) jsonData StateTTL] s of
                  (Inl e, s1) \<Rightarrow> (Inl (Wrapf ''stateStore.Create: redis set'' (redisMsg e)), s1)
                | (Inr _, s1) \<Rightarrow> (Inr state, s1))))"

definition stateNotFound :: aerr where
  "stateNotFound = Opaque ''oauth state not found or expired (CSRF protection)''"

definition state_Verify :: "'s redis \<Rightarrow> gotime \<Rightarrow> string \<Rightarrow> 's \<Rightarrow> (aerr + StatePayload) \<times> 's" where
  "state_Verify R now state s =
     (case rdb_GetDel R now (stateKey state) s of
        (Inl RedisNil, s1) \<Rightarrow> (Inl stateNotFound, s1)
      | (Inl e, s1) \<Rightarrow> (Inl (Wrapf ''stateStore.Verify: redis getdel'' (redisMsg e)), s1)
      | (Inr jsonData, s1) \<Rightarrow>
          (case sp_unmarshal jsonData of
             Inl _ \<Rightarrow> (Inl (Wrapf ''stateStore.Verify: unmarshal'' (Opaque ''json'')), s1)
           | Inr p \<Rightarrow> (Inr p, s1)))"

definition NewStateStore :: "('w \<Rightarrow> 's) \<Rightarrow> ('s \<Rightarrow> 'w \<Rightarrow> 'w) \<Rightarrow> 's redis \<Rightarrow> 'w StateStore" where
  "NewStateStore get put R = \<lparr>
     ss_Create = (\<lambda>now rnd v u. lift_part get put (state_Create R now rnd v u)),
     ss_Verify = (\<lambda>now state. lift_part get put (state_Verify R now state))\<rparr>"

section \<open>What the providers rely on\<close>

text \<open>
  \<open>pending t w state\<close> is the payload a state token stands for at an instant. A created token is
  pending for ten minutes, a verified one was pending and is so no more, and a failed verification
  brings nothing back. \<open>state_store_up\<close> is a store whose calls do not fail.
\<close>

locale state_store =
  fixes SS :: "'w StateStore" and pending :: "gotime \<Rightarrow> 'w \<Rightarrow> string \<Rightarrow> StatePayload option"
  assumes created: "ss_Create SS t rnd v u w = (Inr st, w') \<Longrightarrow> pending t' w' st' =
      (if st' = st then if t' < t + StateTTL
         then Some \<lparr>sp_CodeVerifier = v, sp_RedirectURI = u, sp_CreatedAt = t\<rparr> else None
       else pending t' w st')"
    and verified: "ss_Verify SS t st w = (Inr p, w') \<Longrightarrow> pending t w st = Some p
      \<and> pending t' w' st' = (if st' = st then None else pending t' w st')"
    and not_verified: "ss_Verify SS t st w = (Inl e, w') \<Longrightarrow> pending t' w' st' \<in> {None, pending t' w st'}"
begin

lemma single_use:
  assumes "ss_Verify SS t st w = (Inr p, w1)" and "ss_Verify SS t' st w1 = (out, w2)"
  shows "\<exists>e. out = Inl e"
  using verified [OF assms(1), of t' st] verified [of t' st w1 _ w2 t' st] assms(2) by (cases out) auto

end

locale state_store_up = state_store +
  assumes create_up: "json_time_ok t \<Longrightarrow> \<exists>w'. ss_Create SS t (Some raw) v u w = (Inr (b64url_encode raw), w')"
    and verify_up: "pending t w st = Some p \<Longrightarrow> \<exists>w'. ss_Verify SS t st w = (Inr p, w')"
begin

lemma round_trip:
  assumes "json_time_ok now"
  shows "\<exists>w1. ss_Create SS now (Some raw) v u w = (Inr (b64url_encode raw), w1)
    \<and> (\<forall>t. t < now + StateTTL \<longrightarrow> (\<exists>w2. ss_Verify SS t (b64url_encode raw) w1 =
           (Inr \<lparr>sp_CodeVerifier = v, sp_RedirectURI = u, sp_CreatedAt = now\<rparr>, w2)
         \<and> (\<forall>t'. \<exists>e w3. ss_Verify SS t' (b64url_encode raw) w2 = (Inl e, w3))))
    \<and> (\<forall>t. now + StateTTL \<le> t \<longrightarrow> (\<exists>e w2. ss_Verify SS t (b64url_encode raw) w1 = (Inl e, w2)))"
proof -
  obtain w1 where c: "ss_Create SS now (Some raw) v u w = (Inr (b64url_encode raw), w1)"
    using create_up [OF assms] by blast
  let ?p = "\<lparr>sp_CodeVerifier = v, sp_RedirectURI = u, sp_CreatedAt = now\<rparr>"
  have early: "\<exists>w2. ss_Verify SS t (b64url_encode raw) w1 = (Inr ?p, w2)
      \<and> (\<forall>t'. \<exists>e w3. ss_Verify SS t' (b64url_encode raw) w2 = (Inl e, w3))" if "t < now + StateTTL" for t
  proof -
    have "pending t w1 (b64url_encode raw) = Some ?p" using created [OF c] that by simp
    from verify_up [OF this] obtain w2 where v: "ss_Verify SS t (b64url_encode raw) w1 = (Inr ?p, w2)" by blast
    have "\<exists>e w3. ss_Verify SS t' (b64url_encode raw) w2 = (Inl e, w3)" for t'
    proof -
      obtain out w3 where o: "ss_Verify SS t' (b64url_encode raw) w2 = (out, w3)" by fastforce
      from single_use [OF v this] o show ?thesis by blast
    qed
    with v show ?thesis by blast
  qed
  have late: "\<exists>e w2. ss_Verify SS t (b64url_encode raw) w1 = (Inl e, w2)" if "now + StateTTL \<le> t" for t
  proof -
    obtain out w2 where o: "ss_Verify SS t (b64url_encode raw) w1 = (out, w2)" by fastforce
    have "pending t w1 (b64url_encode raw) = None" using created [OF c] that by simp
    then show ?thesis using verified o by (cases out) auto
  qed
  show ?thesis using c early late by blast
qed

end

section \<open>The Redis store keeps it\<close>

definition state_pending :: "gotime \<Rightarrow> rstore \<Rightarrow> string \<Rightarrow> StatePayload option" where
  "state_pending t st state =
     (case live t st (stateKey state) of
        Some (RStr p) \<Rightarrow> (case sp_unmarshal p of Inr d \<Rightarrow> Some d | Inl _ \<Rightarrow> None)
      | _ \<Rightarrow> None)"

lemma stateKey_inj [simp]: "stateKey a = stateKey b \<longleftrightarrow> a = b"
  by (simp add: stateKey_def)

lemma sp_roundtrip: "sp_marshal p = Inr j \<Longrightarrow> sp_unmarshal j = Inr p"
  by (cases p) (auto simp: sp_marshal_def sp_unmarshal_def sp_decode_def json_defs split: if_splits)

lemma state_pending_upd:
  "state_pending t (st(stateKey a := None)) b = (if b = a then None else state_pending t st b)"
  "sp_unmarshal j = Inr p \<Longrightarrow> state_pending t (st(stateKey a \<mapsto> \<lparr>rv = RStr j, rexp = Some x\<rparr>)) b =
     (if b = a then if t < x then Some p else None else state_pending t st b)"
  by (auto simp: state_pending_def)

context redis_api
begin

lemma GetDel_any:
  "rdb_GetDel R t k s = (out, s') \<Longrightarrow> absr s' = absr s \<or> absr s' = (absr s)(k := None)"
proof -
  assume g: "rdb_GetDel R t k s = (out, s')"
  obtain q s1 where q: "R t [CGetDel k] s = (q, s1)" by fastforce
  have "s1 = s'" using g q by (auto simp: rdb_GetDel_def rdb_value_def split: sum.splits list.splits rreply.splits)
  moreover have "absr s1 = absr s \<or> absr s1 = snd (run_cmds t [CGetDel k] (absr s))"
    using exec_ok [of t "[CGetDel k]" s _ s1] exec_err [of t "[CGetDel k]" s _ s1] q by (cases q) auto
  ultimately show ?thesis
    by (auto simp: Let_def case_prod_unfold split: option.splits rval.splits)
qed

lemma state_store_ok:
  assumes "part get put"
  shows "state_store (NewStateStore get put R) (\<lambda>t w. state_pending t (absr (get w)))"
proof (unfold_locales, goal_cases)
  case (1 t rnd v u w st w' t' st')
  then obtain s where "state_Create R t rnd v u (get w) = (Inr st, s)" "w' = put s w"
    by (auto simp: NewStateStore_def lift_part_iff)
  moreover from this obtain j rs where
    j: "sp_marshal \<lparr>sp_CodeVerifier = v, sp_RedirectURI = u, sp_CreatedAt = t\<rparr> = Inr j"
    and x: "rdb_Exec R t [CSet (stateKey st) j StateTTL] (get w) = (Inr rs, s)"
    by (auto simp: state_Create_def split: sum.splits prod.splits)
  ultimately show ?case
    using Exec_ok [OF x] part_get [OF assms] state_pending_upd(2) [OF sp_roundtrip [OF j]] by simp
next
  case (2 t st w p w' t' st')
  then obtain s where v: "state_Verify R t st (get w) = (Inr p, s)" and w': "w' = put s w"
    by (auto simp: NewStateStore_def lift_part_iff)
  from v obtain j where j: "rdb_GetDel R t (stateKey st) (get w) = (Inr j, s)" "sp_unmarshal j = Inr p"
    by (auto simp: state_Verify_def split: sum.splits prod.splits rerr.splits)
  show ?case using GetDel_ok [OF j(1)] j(2) w' part_get [OF assms] state_pending_upd(1) by (simp add: state_pending_def [of t])
next
  case (3 t st w e w' t' st')
  then obtain s where v: "state_Verify R t st (get w) = (Inl e, s)" and w': "w' = put s w"
    by (auto simp: NewStateStore_def lift_part_iff)
  from v obtain q where "rdb_GetDel R t (stateKey st) (get w) = (q, s)"
    by (auto simp: state_Verify_def split: sum.splits prod.splits rerr.splits)
  from GetDel_any [OF this] show ?case using w' part_get [OF assms] state_pending_upd(1) by auto
qed

end

context redis_up
begin

lemma state_store_up:
  assumes "part get put"
  shows "state_store_up (NewStateStore get put R) (\<lambda>t w. state_pending t (absr (get w)))"
proof (intro_locales, rule state_store_ok [OF assms], unfold_locales, goal_cases)
  case (1 t raw v u w)
  let ?p = "\<lparr>sp_CodeVerifier = v, sp_RedirectURI = u, sp_CreatedAt = t\<rparr>"
  obtain j where j: "sp_marshal ?p = Inr j" using 1 by (simp add: sp_marshal_def)
  obtain rs s' where "rdb_Exec R t [CSet (stateKey (b64url_encode raw)) j StateTTL] (get w) = (Inr rs, s')"
    by (rule Exec_up [of t "[CSet (stateKey (b64url_encode raw)) j StateTTL]" "get w"]) auto
  then show ?case using j by (simp add: NewStateStore_def lift_part_def state_Create_def GenerateState_def)
next
  case (2 t w st p)
  then obtain j where j: "live t (absr (get w)) (stateKey st) = Some (RStr j)" "sp_unmarshal j = Inr p"
    by (auto simp: state_pending_def split: option.splits rval.splits sum.splits)
  obtain s' where "rdb_GetDel R t (stateKey st) (get w) = (Inr j, s')" using GetDel_up_some [OF j(1)] .
  then show ?case using j(2) by (simp add: NewStateStore_def lift_part_def state_Verify_def)
qed

end

interpretation purestates: state_store_up "NewStateStore (\<lambda>w. w) (\<lambda>s w. s) pure_redis" "\<lambda>t w. state_pending t w"
  by (rule pure.state_store_up [OF part_id])

interpretation netstates: state_store "NewStateStore (\<lambda>w. w) (\<lambda>s w. s) faulty_redis" "\<lambda>t w. state_pending t (keyspace w)"
  by (rule net.state_store_ok [OF part_id])

lemma direct_store [simp]:
  "ss_Create (NewStateStore (\<lambda>w. w) (\<lambda>s w. s) R) t rnd v u = state_Create R t rnd v u"
  "ss_Verify (NewStateStore (\<lambda>w. w) (\<lambda>s w. s) R) t st = state_Verify R t st"
  by (simp_all add: NewStateStore_def lift_part_def fun_eq_iff)

section \<open>Properties\<close>

text \<open>A state token that was created verifies, for ten minutes, to the code verifier and the redirect
  address it was created with, and does so once: whatever the instant, a second verification fails.
  From ten minutes on it fails at once.\<close>

theorem oauth_state_roundtrip:
  assumes "redis_up R absr" and "json_time_ok now"
  shows "\<exists>s1. state_Create R now (Some raw) v u s = (Inr (b64url_encode raw), s1)
    \<and> (\<forall>t. t < now + StateTTL \<longrightarrow> (\<exists>s2. state_Verify R t (b64url_encode raw) s1 =
           (Inr \<lparr>sp_CodeVerifier = v, sp_RedirectURI = u, sp_CreatedAt = now\<rparr>, s2)
         \<and> (\<forall>t'. \<exists>e s3. state_Verify R t' (b64url_encode raw) s2 = (Inl e, s3))))
    \<and> (\<forall>t. now + StateTTL \<le> t \<longrightarrow> (\<exists>e s2. state_Verify R t (b64url_encode raw) s1 = (Inl e, s2)))"
  using state_store_up.round_trip [OF redis_up.state_store_up [OF assms(1) part_id] assms(2)] by simp

text \<open>The code verifier has 86 characters and the challenge 43, all of them letters, digits, minus or
  underscore, as RFC 7636 asks (43 to 128 unreserved characters).\<close>

theorem pkce_shape:
  assumes "length b = 64" and "\<And>x. length (sha256 x) = 32"
  shows "\<exists>verifier challenge. GeneratePKCE sha256 (Some b) = Inr (verifier, challenge)
    \<and> challenge = b64rawurl_encode (sha256 verifier)
    \<and> length verifier = 86 \<and> length challenge = 43
    \<and> list_all is_url_digit verifier \<and> list_all is_url_digit challenge"
  using assms b64rawurl_digits by (simp add: GeneratePKCE_def Let_def b64rawurl_length list_all_iff)

theorem oauth_state_roundtrip_witness:
  "\<exists>s1 s2. state_Create pure_redis 0 (Some ''abc'') ''v'' ''u'' (\<lambda>_. None) = (Inr ''YWJj'', s1)
    \<and> state_Verify pure_redis (minutes 9) ''YWJj'' s1 =
        (Inr \<lparr>sp_CodeVerifier = ''v'', sp_RedirectURI = ''u'', sp_CreatedAt = 0\<rparr>, s2)
    \<and> (\<exists>e s3. state_Verify pure_redis (minutes 9) ''YWJj'' s2 = (Inl e, s3))"
proof -
  have st: "b64url_encode ''abc'' = ''YWJj''" by code_simp
  have now: "json_time_ok 0" and ttl: "minutes 9 < 0 + StateTTL" by (simp_all add: json_time_ok_def StateTTL_def)
  obtain s1 where c: "state_Create pure_redis 0 (Some ''abc'') ''v'' ''u'' (\<lambda>_. None) = (Inr ''YWJj'', s1)"
    and v: "\<forall>t < 0 + StateTTL. \<exists>s2. state_Verify pure_redis t ''YWJj'' s1 =
        (Inr \<lparr>sp_CodeVerifier = ''v'', sp_RedirectURI = ''u'', sp_CreatedAt = 0\<rparr>, s2)
      \<and> (\<forall>t'. \<exists>e s3. state_Verify pure_redis t' ''YWJj'' s2 = (Inl e, s3))"
    using oauth_state_roundtrip [OF pure.redis_up_axioms now, of "''abc''" "''v''" "''u''" "\<lambda>_. None"] unfolding st by blast
  show ?thesis using c v [rule_format, OF ttl] by blast
qed

theorem pkce_shape_witness:
  "\<exists>verifier challenge. GeneratePKCE (\<lambda>x. replicate 32 (CHR ''h'')) (Some (replicate 64 (CHR 0xFF))) = Inr (verifier, challenge)
    \<and> length verifier = 86 \<and> length challenge = 43"
  using pkce_shape [of "replicate 64 (CHR 0xFF)" "\<lambda>x. replicate 32 (CHR ''h'')"] by fastforce

end
