(* ===== verification/Ingestion_Domain.thy ===== *)
theory Ingestion_Domain
  imports Prelude
begin

text \<open>
  The package \<^verbatim>\<open>internal/ingestion/domain\<close>: workloads and their validation, cloud credentials, webhook
  events and the check of their signature, and the sentinel errors. The string types of the source
  stay strings, a \<^verbatim>\<open>int32\<close> is a 32-bit word read with its sign. A slice is a list whose empty value is
  the nil slice: the program builds its slices by appending to nil. \<^verbatim>\<open>uuid.New\<close>, \<^verbatim>\<open>time.Now\<close> and random
  bytes are arguments, and so is HMAC-SHA-256.
\<close>

type_synonym int32 = "32 word"
type_synonym WorkloadID = string
type_synonym WorkloadStatus = string
type_synonym CloudProvider = string
type_synonym CredentialType = string
type_synonym WebhookProvider = string

section \<open>Errors\<close>

record ValidationError =
  ve_Field :: string
  ve_Message :: string

datatype ingest_error =
    ErrWorkloadNotFound
  | ErrWorkloadAlreadyExists
  | ErrInvalidWorkloadName
  | ErrInvalidRegion
  | ErrInvalidSource
  | ErrInvalidRTO
  | ErrInvalidRPO
  | ErrCredentialNotFound
  | ErrInvalidSignature
  | ErrMissingCredential
  | ErrEncryptionFailed
  | ErrDecryptionFailed
  | ValidationErrors "ValidationError list"

type_synonym ierr = "ingest_error goerr"

fun Join :: "string \<Rightarrow> string list \<Rightarrow> string" where
  "Join sep [] = []"
| "Join sep [x] = x"
| "Join sep (x # y # xs) = x @ sep @ Join sep (y # xs)"

definition ValidationErrors_Error :: "ValidationError list \<Rightarrow> string" where
  "ValidationErrors_Error v = Join ''; '' (map (\<lambda>e. ve_Field e @ '': '' @ ve_Message e) v)"

fun ie_Error :: "ingest_error \<Rightarrow> string" where
  "ie_Error ErrWorkloadNotFound = ''workload not found''"
| "ie_Error ErrWorkloadAlreadyExists = ''workload with this name already exists''"
| "ie_Error ErrInvalidWorkloadName = ''workload name must match ^[a-z][a-z0-9-]{2,62}$''"
| "ie_Error ErrInvalidRegion = ''invalid cloud region''"
| "ie_Error ErrInvalidSource = ''source must specify either git repo or image ref''"
| "ie_Error ErrInvalidRTO = ''rto_seconds must be between 10 and 300''"
| "ie_Error ErrInvalidRPO = ''rpo_seconds must be between 1 and 60''"
| "ie_Error ErrCredentialNotFound = ''credential not found''"
| "ie_Error ErrInvalidSignature = ''webhook signature validation failed''"
| "ie_Error ErrMissingCredential = ''no credential found for provider''"
| "ie_Error ErrEncryptionFailed = ''credential encryption failed''"
| "ie_Error ErrDecryptionFailed = ''credential decryption failed''"
| "ie_Error (ValidationErrors v) = ValidationErrors_Error v"

text \<open>The text of an error: \<^verbatim>\<open>fmt.Errorf("ctx: %w", err)\<close> puts the context in front.\<close>

fun err_Error :: "ierr \<Rightarrow> string" where
  "err_Error (Sentinel e) = ie_Error e"
| "err_Error (Opaque m) = m"
| "err_Error (Wrapf ctx e) = ctx @ '': '' @ err_Error e"

section \<open>Workloads\<close>

definition WorkloadStatusPending :: WorkloadStatus where "WorkloadStatusPending = ''PENDING''"
definition WorkloadStatusBuilding :: WorkloadStatus where "WorkloadStatusBuilding = ''BUILDING''"
definition WorkloadStatusDeploying :: WorkloadStatus where "WorkloadStatusDeploying = ''DEPLOYING''"
definition WorkloadStatusRunning :: WorkloadStatus where "WorkloadStatusRunning = ''RUNNING''"
definition WorkloadStatusFailing :: WorkloadStatus where "WorkloadStatusFailing = ''FAILING''"
definition WorkloadStatusFailed :: WorkloadStatus where "WorkloadStatusFailed = ''FAILED''"
definition WorkloadStatusFailover :: WorkloadStatus where "WorkloadStatusFailover = ''FAILOVER_IN_PROGRESS''"

lemmas WorkloadStatus_defs = WorkloadStatusPending_def WorkloadStatusBuilding_def WorkloadStatusDeploying_def
  WorkloadStatusRunning_def WorkloadStatusFailing_def WorkloadStatusFailed_def WorkloadStatusFailover_def

definition CloudProviderAWS :: CloudProvider where "CloudProviderAWS = ''aws''"
definition CloudProviderAzure :: CloudProvider where "CloudProviderAzure = ''azure''"
definition CloudProviderGCP :: CloudProvider where "CloudProviderGCP = ''gcp''"

lemmas CloudProvider_defs = CloudProviderAWS_def CloudProviderAzure_def CloudProviderGCP_def

record Region =
  r_Provider :: CloudProvider
  r_Name :: string

record ResourceSpec =
  cs_CPU :: string
  cs_Memory :: string
  cs_Replicas :: int32
  cs_Port :: int32
  cs_HealthCheckPath :: string
  cs_Env :: "(string \<times> string) list"

record DatabaseSpec =
  db_Engine :: string
  db_Version :: string
  db_StorageGB :: int32
  db_Tier :: string

record FailoverConfig =
  f_RTOSeconds :: int32
  f_RPOSeconds :: int32
  f_AutoFailover :: bool
  f_MinHealthyNodes :: int32
  f_FencingEnabled :: bool

record DataResidencyRule =
  dr_Country :: string
  dr_Regions :: "Region list"

record SourceConfig =
  src_Type :: string
  src_RepoURL :: string
  src_Branch :: string
  src_Dockerfile :: string
  src_ImageRef :: string

text \<open>\<^verbatim>\<open>ComplianceConfig\<close> has the one field \<^verbatim>\<open>DataResidency\<close>.\<close>

record Workload =
  wl_ID :: WorkloadID
  wl_Name :: string
  wl_Status :: WorkloadStatus
  wl_Source :: SourceConfig
  wl_PrimaryRegion :: Region
  wl_StandbyRegions :: "Region list"
  wl_Compute :: ResourceSpec
  wl_Database :: DatabaseSpec
  wl_Failover :: FailoverConfig
  wl_DataResidency :: "DataResidencyRule list"
  wl_CreatedAt :: gotime
  wl_UpdatedAt :: gotime

text \<open>The regular expression \<^verbatim>\<open>^[a-z][a-z0-9-]{2,62}$\<close>.\<close>

definition is_lower :: "char \<Rightarrow> bool" where
  "is_lower c = (97 \<le> (of_char c :: nat) \<and> (of_char c :: nat) \<le> 122)"

definition nameRegex :: "string \<Rightarrow> bool" where
  "nameRegex s =
     (case s of
        [] \<Rightarrow> False
      | c # cs \<Rightarrow> is_lower c \<and> 2 \<le> length cs \<and> length cs \<le> 62
                 \<and> list_all (\<lambda>x. is_lower x \<or> is_digit x \<or> x = CHR ''-'') cs)"

text \<open>The checks of \<^verbatim>\<open>Validate\<close> append to one list of errors.\<close>

definition violations :: "Workload \<Rightarrow> ValidationError list" where
  "violations w =
     (if \<not> nameRegex (wl_Name w)
      then [\<lparr>ve_Field = ''Name'', ve_Message = ie_Error ErrInvalidWorkloadName\<rparr>] else [])
     @ (if src_Type (wl_Source w) \<noteq> ''git'' \<and> src_Type (wl_Source w) \<noteq> ''image''
        then [\<lparr>ve_Field = ''Source.Type'', ve_Message = ie_Error ErrInvalidSource\<rparr>] else [])
     @ (if sint (f_RTOSeconds (wl_Failover w)) < 10 \<or> 300 < sint (f_RTOSeconds (wl_Failover w))
        then [\<lparr>ve_Field = ''Failover.RTOSeconds'', ve_Message = ie_Error ErrInvalidRTO\<rparr>] else [])
     @ (if sint (f_RPOSeconds (wl_Failover w)) < 1 \<or> 60 < sint (f_RPOSeconds (wl_Failover w))
        then [\<lparr>ve_Field = ''Failover.RPOSeconds'', ve_Message = ie_Error ErrInvalidRPO\<rparr>] else [])
     @ (if wl_StandbyRegions w = []
        then [\<lparr>ve_Field = ''StandbyRegions'', ve_Message = ''must have at least 1 standby region''\<rparr>] else [])"

definition wl_Validate :: "Workload \<Rightarrow> ierr option" where
  "wl_Validate w = (let errs = violations w in if errs \<noteq> [] then Some (Sentinel (ValidationErrors errs)) else None)"

definition NewWorkload ::
    "string \<Rightarrow> gotime \<Rightarrow> gotime \<Rightarrow> string \<Rightarrow> SourceConfig \<Rightarrow> Region \<Rightarrow> Region list \<Rightarrow> ResourceSpec
      \<Rightarrow> DatabaseSpec \<Rightarrow> FailoverConfig \<Rightarrow> ierr + Workload" where
  "NewWorkload uuid t1 t2 name source primary standbys compute db failover =
     (let w = \<lparr>wl_ID = uuid, wl_Name = name, wl_Status = WorkloadStatusPending, wl_Source = source,
               wl_PrimaryRegion = primary, wl_StandbyRegions = standbys, wl_Compute = compute,
               wl_Database = db, wl_Failover = failover, wl_DataResidency = [],
               wl_CreatedAt = t1, wl_UpdatedAt = t2\<rparr>
      in case wl_Validate w of Some e \<Rightarrow> Inl e | None \<Rightarrow> Inr w)"

definition IsActive :: "Workload \<Rightarrow> bool" where
  "IsActive w = (wl_Status w = WorkloadStatusRunning)"

definition CanFailover :: "Workload \<Rightarrow> bool" where
  "CanFailover w = (wl_Status w = WorkloadStatusRunning \<or> wl_Status w = WorkloadStatusFailing)"

section \<open>Credentials\<close>

text \<open>\<^verbatim>\<open>Encryptor\<close>: the first argument of \<open>enc_Encrypt\<close> is the random source, which yields a requested
  number of bytes or fails.\<close>

type_synonym random = "nat \<Rightarrow> bytes option"

record Encryptor =
  enc_Encrypt :: "random \<Rightarrow> bytes \<Rightarrow> ierr + bytes \<times> string"
  enc_Decrypt :: "bytes \<Rightarrow> string \<Rightarrow> ierr + bytes"

definition CredentialTypeAWSIAM :: CredentialType where "CredentialTypeAWSIAM = ''aws_iam''"
definition CredentialTypeAzureServicePrincipal :: CredentialType where
  "CredentialTypeAzureServicePrincipal = ''azure_sp''"
definition CredentialTypeGCPServiceAccount :: CredentialType where "CredentialTypeGCPServiceAccount = ''gcp_sa''"

record CloudCredential =
  cr_ID :: string
  cr_WorkloadID :: WorkloadID
  cr_Provider :: CloudProvider
  cr_Type :: CredentialType
  cr_EncryptedPayload :: bytes
  cr_KeyVersion :: string
  cr_CreatedAt :: gotime
  cr_RotatedAt :: "gotime option"

definition NewCloudCredential ::
    "random \<Rightarrow> string \<Rightarrow> gotime \<Rightarrow> WorkloadID \<Rightarrow> CloudProvider \<Rightarrow> CredentialType \<Rightarrow> bytes \<Rightarrow> Encryptor
      \<Rightarrow> ierr + CloudCredential" where
  "NewCloudCredential rnd uuid now workloadID provider credType rawPayload E =
     (if rawPayload = [] then Inl (Sentinel ErrMissingCredential)
      else case enc_Encrypt E rnd rawPayload of
             Inl _ \<Rightarrow> Inl (Sentinel ErrEncryptionFailed)
           | Inr (ciphertext, keyVersion) \<Rightarrow> Inr
               \<lparr>cr_ID = uuid, cr_WorkloadID = workloadID, cr_Provider = provider, cr_Type = credType,
                cr_EncryptedPayload = ciphertext, cr_KeyVersion = keyVersion, cr_CreatedAt = now,
                cr_RotatedAt = None\<rparr>)"

definition cred_Decrypt :: "Encryptor \<Rightarrow> CloudCredential \<Rightarrow> ierr + bytes" where
  "cred_Decrypt E c =
     (case enc_Decrypt E (cr_EncryptedPayload c) (cr_KeyVersion c) of
        Inl _ \<Rightarrow> Inl (Sentinel ErrDecryptionFailed)
      | Inr plaintext \<Rightarrow> Inr plaintext)"

text \<open>\<^verbatim>\<open>Rotate\<close> changes the credential in place; on an error it is left as it was.\<close>

definition cred_Rotate :: "random \<Rightarrow> gotime \<Rightarrow> bytes \<Rightarrow> Encryptor \<Rightarrow> CloudCredential \<Rightarrow> ierr option \<times> CloudCredential" where
  "cred_Rotate rnd now newPayload E c =
     (if newPayload = [] then (Some (Sentinel ErrMissingCredential), c)
      else case enc_Encrypt E rnd newPayload of
             Inl _ \<Rightarrow> (Some (Sentinel ErrEncryptionFailed), c)
           | Inr (ciphertext, keyVersion) \<Rightarrow>
               (None, c\<lparr>cr_EncryptedPayload := ciphertext, cr_KeyVersion := keyVersion, cr_RotatedAt := Some now\<rparr>))"

section \<open>Webhooks\<close>

definition WebhookProviderGitHub :: WebhookProvider where "WebhookProviderGitHub = ''github''"
definition WebhookProviderGitLab :: WebhookProvider where "WebhookProviderGitLab = ''gitlab''"

record WebhookEvent =
  we_ID :: string
  we_Provider :: WebhookProvider
  we_WorkloadName :: string
  we_RepoURL :: string
  we_Branch :: string
  we_CommitSHA :: string
  we_CommitMsg :: string
  we_PushedBy :: string
  we_TriggeredAt :: gotime
  we_Signature :: string
  we_RawPayload :: bytes

type_synonym hmac = "bytes \<Rightarrow> bytes \<Rightarrow> bytes"

text \<open>The bytes a signature header stands for, by provider.\<close>

definition providedMAC :: "WebhookEvent \<Rightarrow> bytes option" where
  "providedMAC e =
     (if we_Provider e = WebhookProviderGitHub
      then (if 7 < length (we_Signature e) \<and> take 7 (we_Signature e) = ''sha256=''
            then hex_decode (drop 7 (we_Signature e)) else None)
      else if we_Provider e = WebhookProviderGitLab then hex_decode (we_Signature e)
      else None)"

definition VerifySignature :: "hmac \<Rightarrow> WebhookEvent \<Rightarrow> string \<Rightarrow> ierr option" where
  "VerifySignature hmac e secret =
     (if we_Signature e = [] then Some (Sentinel ErrInvalidSignature)
      else let expectedMAC = hmac secret (we_RawPayload e) in
           case providedMAC e of
             None \<Rightarrow> Some (Sentinel ErrInvalidSignature)
           | Some mac \<Rightarrow> if mac \<noteq> expectedMAC then Some (Sentinel ErrInvalidSignature) else None)"

definition IsDefaultBranch :: "WebhookEvent \<Rightarrow> string \<Rightarrow> bool" where
  "IsDefaultBranch e configuredBranch = (we_Branch e = configuredBranch)"

section \<open>What the checks accept\<close>

definition lowercase :: string where "lowercase = ''abcdefghijklmnopqrstuvwxyz''"
definition decimals :: string where "decimals = ''0123456789''"

lemma char_range:
  "lo \<le> (of_char c :: nat) \<and> (of_char c :: nat) < hi \<Longrightarrow> c \<in> set (map char_of [lo..<hi])"
  by (metis atLeastLessThan_iff char_of_char image_eqI list.set_map set_upt)

lemma lowercase_upt: "lowercase = map char_of [97..<(123 :: nat)]" and
  decimals_upt: "decimals = map char_of [48..<(58 :: nat)]"
  unfolding lowercase_def decimals_def by code_simp+

lemma is_lower_iff: "is_lower c \<longleftrightarrow> c \<in> set lowercase"
  using char_range [of 97 c 123] by (auto simp: lowercase_upt is_lower_def)

lemma is_digit_iff: "is_digit c \<longleftrightarrow> c \<in> set decimals"
  using char_range [of 48 c 58] by (auto simp: decimals_upt is_digit_def)

lemma nameRegex_iff:
  "nameRegex s \<longleftrightarrow> 3 \<le> length s \<and> length s \<le> 63 \<and> hd s \<in> set lowercase
     \<and> set s \<subseteq> set (lowercase @ decimals @ ''-'')"
  by (cases s) (auto simp: nameRegex_def list_all_iff is_lower_iff is_digit_iff)

text \<open>A signed bound on a 32-bit word between non-negative numbers is a bound on its unsigned value:
  negative numbers are large there.\<close>

lemma sint_bounds:
  fixes x :: int32
  assumes "0 \<le> a" and "b < 2 ^ 31"
  shows "sint x < a \<or> b < sint x \<longleftrightarrow> uint x < a \<or> b < uint x"
proof -
  have "take_bit 32 (uint x) = uint x" using uint_bounded [of x] by (simp add: take_bit_int_eq_self_iff)
  then have "sint x = uint x - 2 ^ 32 * of_bool (bit (uint x) 31)"
    by (simp add: sint_uint signed_take_bit_eq_take_bit_minus)
  then have "sint x = uint x \<or> sint x = uint x - 2 ^ 32" by (cases "bit (uint x) 31") auto
  moreover have "- (2 ^ 31) \<le> sint x" "sint x < 2 ^ 31" "uint x < 2 ^ 32"
    using sint_greater_eq [of x] sint_less [of x] uint_bounded [of x] by auto
  ultimately show ?thesis using assms by auto
qed

lemma of_char_hex_digit [simp]: "n < 16 \<Longrightarrow> of_char (hex_digit n) = (if n < 10 then n + 48 else n + 87)"
  by (simp add: hex_digit_def)

lemma of_char_lower: "(of_char (lower_char c) :: nat)
    = (if 65 \<le> (of_char c :: nat) \<and> (of_char c :: nat) \<le> 90 then of_char c + 32 else of_char c)"
  by (auto simp: lower_char_def Let_def)

lemma hex_val_lower: "hex_val c = Some n \<longleftrightarrow> n < 16 \<and> lower_char c = hex_digit n"
proof -
  have "n < 16 \<Longrightarrow> lower_char c = hex_digit n \<longleftrightarrow> (of_char (lower_char c) :: nat) = of_char (hex_digit n)"
    by (metis of_char_eq_iff)
  then show ?thesis by (auto simp: hex_val_def Let_def of_char_lower split: if_splits)
qed

lemma hex_val_lt: "hex_val c = Some n \<Longrightarrow> n < 16"
  by (simp add: hex_val_lower)

text \<open>Hexadecimal text decodes to given bytes exactly when it spells them, in letters of either case.\<close>

lemma hex_decode_iff: "hex_decode s = Some bs \<longleftrightarrow> ToLower s = hex_encode bs"
proof (induction s arbitrary: bs rule: hex_decode.induct)
  case 1
  then show ?case by (cases bs) (auto simp: ToLower_def hex_encode_def hex_byte_def)
next
  case (2 c)
  then show ?case by (cases bs) (auto simp: ToLower_def hex_encode_def hex_byte_def)
next
  case (3 a b s)
  show ?case
  proof (cases bs)
    case Nil
    then show ?thesis by (auto simp: ToLower_def hex_encode_def split: option.splits)
  next
    case (Cons y ys)
    have split: "char_of (16 * x + z) = y \<longleftrightarrow> x = of_char y div 16 \<and> z = of_char y mod 16"
      if "x < 16" and "z < 16" for x z :: nat
    proof -
      have "char_of (16 * x + z) = y \<longleftrightarrow> 16 * x + z = of_char y" using that by auto
      then show ?thesis using that by auto
    qed
    have "hex_decode (a # b # s) = Some (y # ys) \<longleftrightarrow> hex_val a = Some (of_char y div 16)
        \<and> hex_val b = Some (of_char y mod 16) \<and> hex_decode s = Some ys"
      using hex_val_lt [of a] hex_val_lt [of b] by (fastforce simp: split split: option.splits)
    then show ?thesis
      using 3 Cons by (auto simp: hex_val_lower ToLower_def hex_encode_def hex_byte_def)
  qed
qed

lemma ToLower_hex_encode: "ToLower (hex_encode bs) = hex_encode bs"
  using hex_decode_iff [of "hex_encode bs" bs] by simp

section \<open>Properties\<close>

lemma violations_fields:
  "distinct (map ve_Field (violations w))
   \<and> set (map ve_Field (violations w)) =
       (if nameRegex (wl_Name w) then {} else {''Name''})
       \<union> (if src_Type (wl_Source w) \<in> {''git'', ''image''} then {} else {''Source.Type''})
       \<union> (if 10 \<le> uint (f_RTOSeconds (wl_Failover w)) \<and> uint (f_RTOSeconds (wl_Failover w)) \<le> 300
          then {} else {''Failover.RTOSeconds''})
       \<union> (if 1 \<le> uint (f_RPOSeconds (wl_Failover w)) \<and> uint (f_RPOSeconds (wl_Failover w)) \<le> 60
          then {} else {''Failover.RPOSeconds''})
       \<union> (if wl_StandbyRegions w = [] then {''StandbyRegions''} else {})"
proof -
  have rto: "sint (f_RTOSeconds (wl_Failover w)) < 10 \<or> 300 < sint (f_RTOSeconds (wl_Failover w)) \<longleftrightarrow>
      \<not> (10 \<le> uint (f_RTOSeconds (wl_Failover w)) \<and> uint (f_RTOSeconds (wl_Failover w)) \<le> 300)"
    using sint_bounds [of 10 300 "f_RTOSeconds (wl_Failover w)"] by auto
  have rpo: "sint (f_RPOSeconds (wl_Failover w)) < 1 \<or> 60 < sint (f_RPOSeconds (wl_Failover w)) \<longleftrightarrow>
      \<not> (1 \<le> uint (f_RPOSeconds (wl_Failover w)) \<and> uint (f_RPOSeconds (wl_Failover w)) \<le> 60)"
    using sint_bounds [of 1 60 "f_RPOSeconds (wl_Failover w)"] by auto
  show ?thesis unfolding violations_def rto rpo by (simp add: insert_commute)
qed

text \<open>What each field of a descriptor has to satisfy.\<close>

definition field_ok :: "string \<Rightarrow> SourceConfig \<Rightarrow> FailoverConfig \<Rightarrow> Region list \<Rightarrow> string \<Rightarrow> bool" where
  "field_ok name source fo standbys f =
     ((f = ''Name'' \<longrightarrow> 3 \<le> length name \<and> length name \<le> 63 \<and> hd name \<in> set lowercase
         \<and> set name \<subseteq> set (lowercase @ decimals @ ''-''))
      \<and> (f = ''Source.Type'' \<longrightarrow> src_Type source \<in> {''git'', ''image''})
      \<and> (f = ''Failover.RTOSeconds'' \<longrightarrow> 10 \<le> uint (f_RTOSeconds fo) \<and> uint (f_RTOSeconds fo) \<le> 300)
      \<and> (f = ''Failover.RPOSeconds'' \<longrightarrow> 1 \<le> uint (f_RPOSeconds fo) \<and> uint (f_RPOSeconds fo) \<le> 60)
      \<and> (f = ''StandbyRegions'' \<longrightarrow> standbys \<noteq> []))"

text \<open>C24: A workload is accepted exactly when its name is three to 63 lower-case letters, digits and
  hyphens starting with a letter, its source is git or image, the recovery time is 10 to 300 and the
  recovery point 1 to 60 seconds as a non-negative 32-bit number, and there is a standby region. It then
  starts as pending. Otherwise the error lists each offending field exactly once.\<close>

theorem workload_validation:
  shows "case NewWorkload uuid t1 t2 name source primary standbys compute db fo of
      Inr w \<Rightarrow> (\<forall>f. field_ok name source fo standbys f) \<and> wl_Status w = WorkloadStatusPending \<and> wl_ID w = uuid \<and> wl_Name w = name
    | Inl e \<Rightarrow> \<exists>errs. e = Sentinel (ValidationErrors errs) \<and> errs \<noteq> [] \<and> distinct (map ve_Field errs)
        \<and> set (map ve_Field errs) = {f. \<not> field_ok name source fo standbys f}"
proof -
  define w where "w = \<lparr>wl_ID = uuid, wl_Name = name, wl_Status = WorkloadStatusPending, wl_Source = source,
     wl_PrimaryRegion = primary, wl_StandbyRegions = standbys, wl_Compute = compute, wl_Database = db,
     wl_Failover = fo, wl_DataResidency = [], wl_CreatedAt = t1, wl_UpdatedAt = t2\<rparr>"
  have nw: "NewWorkload uuid t1 t2 name source primary standbys compute db fo
      = (if violations w = [] then Inr w else Inl (Sentinel (ValidationErrors (violations w))))"
    by (simp add: NewWorkload_def wl_Validate_def w_def Let_def)
  have fields: "set (map ve_Field (violations w)) = {f. \<not> field_ok name source fo standbys f}"
    unfolding violations_fields [THEN conjunct2] field_ok_def by (auto simp: w_def nameRegex_iff)
  then have "violations w = [] \<longleftrightarrow> (\<forall>f. field_ok name source fo standbys f)" by (metis (mono_tags, lifting) empty_Collect_eq map_is_Nil_conv set_empty)
  then show ?thesis
    using fields violations_fields [of w] unfolding nw by (auto simp: w_def simp del: set_map)
qed

text \<open>The values the examples use.\<close>

definition ex_source :: SourceConfig where
  "ex_source = \<lparr>src_Type = ''git'', src_RepoURL = ''https://github.com/test/repo'', src_Branch = ''main'',
     src_Dockerfile = [], src_ImageRef = []\<rparr>"

definition ex_region :: Region where "ex_region = \<lparr>r_Provider = ''aws'', r_Name = ''us-east-1''\<rparr>"

definition ex_compute :: ResourceSpec where
  "ex_compute = \<lparr>cs_CPU = ''2'', cs_Memory = ''4Gi'', cs_Replicas = 1, cs_Port = 0, cs_HealthCheckPath = [], cs_Env = []\<rparr>"

definition ex_db :: DatabaseSpec where
  "ex_db = \<lparr>db_Engine = ''postgres'', db_Version = [], db_StorageGB = 0, db_Tier = []\<rparr>"

definition ex_failover :: FailoverConfig where
  "ex_failover = \<lparr>f_RTOSeconds = 60, f_RPOSeconds = 30, f_AutoFailover = True, f_MinHealthyNodes = 1,
     f_FencingEnabled = False\<rparr>"

theorem workload_validation_witness:
  "(\<exists>w. NewWorkload ''id-1'' 0 0 ''valid-name-123'' ex_source ex_region [ex_region] ex_compute ex_db ex_failover = Inr w
      \<and> wl_Status w = WorkloadStatusPending)
   \<and> (\<exists>errs. NewWorkload ''id-1'' 0 0 ''Invalid Name!'' (ex_source\<lparr>src_Type := ''invalid''\<rparr>) ex_region [] ex_compute ex_db
        (ex_failover\<lparr>f_RTOSeconds := - 5, f_RPOSeconds := 0\<rparr>) = Inl (Sentinel (ValidationErrors errs)) \<and> length errs = 5)"
proof -
  have nl: "field_ok ''valid-name-123'' ex_source ex_failover [ex_region] f" for f
    by (simp add: field_ok_def lowercase_def decimals_def ex_source_def ex_failover_def)
  have bad: "{f. \<not> field_ok ''Invalid Name!'' (ex_source\<lparr>src_Type := ''invalid''\<rparr>)
      (ex_failover\<lparr>f_RTOSeconds := - 5, f_RPOSeconds := 0\<rparr>) [] f}
      = {''Name'', ''Source.Type'', ''Failover.RTOSeconds'', ''Failover.RPOSeconds'', ''StandbyRegions''}"
    by (auto simp: field_ok_def lowercase_def decimals_def ex_source_def ex_failover_def)
  have card: "length errs = 5" if "distinct (map ve_Field errs)" and "set (map ve_Field errs) =
      {''Name'', ''Source.Type'', ''Failover.RTOSeconds'', ''Failover.RPOSeconds'', ''StandbyRegions''}" for errs
    using distinct_card [OF that(1)] unfolding that(2) by simp
  have "\<exists>w. NewWorkload ''id-1'' 0 0 ''valid-name-123'' ex_source ex_region [ex_region] ex_compute ex_db ex_failover = Inr w
      \<and> wl_Status w = WorkloadStatusPending"
    using workload_validation [of "''valid-name-123''" ex_source ex_failover "[ex_region]" "''id-1''" 0 0 ex_region ex_compute ex_db]
      nl by (cases "NewWorkload ''id-1'' 0 0 ''valid-name-123'' ex_source ex_region [ex_region] ex_compute ex_db ex_failover") auto
  moreover have "\<exists>errs. NewWorkload ''id-1'' 0 0 ''Invalid Name!'' (ex_source\<lparr>src_Type := ''invalid''\<rparr>) ex_region []
      ex_compute ex_db (ex_failover\<lparr>f_RTOSeconds := - 5, f_RPOSeconds := 0\<rparr>) = Inl (Sentinel (ValidationErrors errs))
      \<and> length errs = 5" (is "\<exists>errs. ?nw = Inl _ \<and> _")
  proof (cases ?nw)
    case (Inl e)
    then show ?thesis
      using workload_validation [of "''Invalid Name!''" "ex_source\<lparr>src_Type := ''invalid''\<rparr>"
        "ex_failover\<lparr>f_RTOSeconds := - 5, f_RPOSeconds := 0\<rparr>" "[]" "''id-1''" 0 0 ex_region ex_compute ex_db] card
      unfolding Inl bad by auto
  next
    case (Inr w)
    then show ?thesis
      using workload_validation [of "''Invalid Name!''" "ex_source\<lparr>src_Type := ''invalid''\<rparr>"
        "ex_failover\<lparr>f_RTOSeconds := - 5, f_RPOSeconds := 0\<rparr>" "[]" "''id-1''" 0 0 ex_region ex_compute ex_db]
      by (auto simp: field_ok_def)
  qed
  ultimately show ?thesis by blast
qed

text \<open>C25: With a 32-byte MAC, a webhook signature is accepted exactly when it spells the HMAC of the payload
  under the secret in hexadecimal, in letters of either case: after \<open>sha256=\<close> for GitHub, alone for GitLab.
  No other provider is accepted.\<close>

theorem webhook_signature_exact:
  assumes "\<And>k m. length (hmac k m) = 32"
  shows "VerifySignature hmac e secret = None \<longleftrightarrow>
      we_Provider e = WebhookProviderGitHub
        \<and> (\<exists>h. we_Signature e = ''sha256='' @ h \<and> ToLower h = hex_encode (hmac secret (we_RawPayload e)))
    \<or> we_Provider e = WebhookProviderGitLab \<and> ToLower (we_Signature e) = hex_encode (hmac secret (we_RawPayload e))"
proof -
  define mac where "mac = hmac secret (we_RawPayload e)"
  have len: "length h = 64" if "ToLower h = hex_encode mac" for h
    using arg_cong [OF that, of length] assms by (simp add: ToLower_def mac_def)
  have gh: "(7 < length s \<and> take 7 s = ''sha256='' \<and> hex_decode (drop 7 s) = Some mac)
      \<longleftrightarrow> (\<exists>h. s = ''sha256='' @ h \<and> ToLower h = hex_encode mac)" for s
  proof
    assume l: "7 < length s \<and> take 7 s = ''sha256='' \<and> hex_decode (drop 7 s) = Some mac"
    then have "s = ''sha256='' @ drop 7 s" by (metis append_take_drop_id)
    then show "\<exists>h. s = ''sha256='' @ h \<and> ToLower h = hex_encode mac" using l hex_decode_iff by blast
  next
    assume "\<exists>h. s = ''sha256='' @ h \<and> ToLower h = hex_encode mac"
    then obtain h where h: "s = ''sha256='' @ h" "ToLower h = hex_encode mac" by blast
    then show "7 < length s \<and> take 7 s = ''sha256='' \<and> hex_decode (drop 7 s) = Some mac"
      using len [OF h(2)] by (simp add: hex_decode_iff)
  qed
  have "VerifySignature hmac e secret = None \<longleftrightarrow> we_Signature e \<noteq> [] \<and> providedMAC e = Some mac"
    by (auto simp: VerifySignature_def mac_def Let_def split: option.splits)
  then show ?thesis
    using gh [of "we_Signature e"] len [of "we_Signature e"]
    by (auto simp: providedMAC_def mac_def [symmetric] hex_decode_iff WebhookProviderGitHub_def WebhookProviderGitLab_def)
qed

definition ex_hmac :: hmac where
  "ex_hmac k m = char_of (length k + length m) # ''123456789abcdef0123456789abcdef''"

definition ex_event :: "string \<Rightarrow> WebhookEvent" where
  "ex_event sig = \<lparr>we_ID = [], we_Provider = ''github'', we_WorkloadName = ''test-workload'', we_RepoURL = [],
     we_Branch = ''main'', we_CommitSHA = ''abcdef'', we_CommitMsg = [], we_PushedBy = [], we_TriggeredAt = 0,
     we_Signature = sig, we_RawPayload = ''{}''\<rparr>"

theorem webhook_signature_exact_witness:
  "VerifySignature ex_hmac (ex_event (''sha256='' @ hex_encode (ex_hmac ''secret'' ''{}''))) ''secret'' = None
   \<and> VerifySignature ex_hmac (ex_event (hex_encode (ex_hmac ''secret'' ''{}''))) ''secret'' \<noteq> None"
proof -
  have l: "length (ex_hmac k m) = 32" for k m by (simp add: ex_hmac_def)
  have low: "ToLower (hex_encode (ex_hmac ''secret'' ''{}'')) = hex_encode (ex_hmac ''secret'' ''{}'')"
    by (rule ToLower_hex_encode)
  have "hd (hex_encode (ex_hmac k m)) = hex_digit (of_char (char_of (length k + length m) :: char) div 16)" for k m
    by (simp add: ex_hmac_def hex_encode_def hex_byte_def)
  from this [of "''secret''" "''{}''"] have "of_char (hd (hex_encode (ex_hmac ''secret'' ''{}''))) = (48 :: nat)"
    by (simp add: hex_digit_def)
  then have "hd (hex_encode (ex_hmac ''secret'' ''{}'')) \<noteq> CHR ''s''" by auto
  then show ?thesis
    using webhook_signature_exact [of ex_hmac "ex_event (''sha256='' @ hex_encode (ex_hmac ''secret'' ''{}''))" "''secret''", OF l]
      webhook_signature_exact [of ex_hmac "ex_event (hex_encode (ex_hmac ''secret'' ''{}''))" "''secret''", OF l] low
    by (auto simp: ex_event_def WebhookProviderGitHub_def WebhookProviderGitLab_def)
qed

end
