(* ===== verification/Encryption.thy ===== *)
theory Encryption
  imports Base64 Auth_Domain Ingestion_Domain
begin

text \<open>
  The two encryptors of the program: \<^verbatim>\<open>internal/ingestion/adapter/crypto/aes_encryptor.go\<close> (cloud
  credentials, several key versions, base64 text) and \<^verbatim>\<open>internal/auth/adapter/crypto/encryptor.go\<close>
  (OAuth tokens, one key, a version byte). AES-GCM itself is a parameter with the contract of an
  authenticated cipher; the nonce comes from a random source that is an argument.
\<close>

section \<open>AES-GCM\<close>

text \<open>\<^verbatim>\<open>Seal\<close> and \<^verbatim>\<open>Open\<close> of the AEAD made by \<^verbatim>\<open>cipher.NewGCM(aes.NewCipher(key))\<close>, without additional data;
  \<^verbatim>\<open>aes.NewCipher\<close> refuses keys of other lengths, \<^verbatim>\<open>cipher.NewGCM\<close> accepts every AES block cipher.\<close>

record gcm =
  gcm_Seal :: "bytes \<Rightarrow> bytes \<Rightarrow> bytes \<Rightarrow> bytes"
  gcm_Open :: "bytes \<Rightarrow> bytes \<Rightarrow> bytes \<Rightarrow> bytes option"

definition aes_key :: "bytes \<Rightarrow> bool" where
  "aes_key key = (length key \<in> {16, 24, 32})"

abbreviation gcm_NonceSize :: nat where "gcm_NonceSize \<equiv> 12"
abbreviation gcm_Overhead :: nat where "gcm_Overhead \<equiv> 16"

section \<open>Credentials\<close>

record AESEncryptor =
  ae_keys :: "(string \<times> bytes) list"
  ae_currentVersion :: string

definition Quote :: "string \<Rightarrow> string" where
  "Quote s = [CHR 0x22] @ s @ [CHR 0x22]"

text \<open>The key map is an association list in the order in which \<^verbatim>\<open>range\<close> visits it.\<close>

definition NewAESEncryptor :: "(string \<times> bytes) list \<Rightarrow> string \<Rightarrow> ierr + AESEncryptor" where
  "NewAESEncryptor keys currentVersion =
     (if length keys = 0 then Inl (Opaque ''no keys provided'')
      else if map_of keys currentVersion = None
      then Inl (Opaque (''current key version '' @ Quote currentVersion @ '' not found in keys map''))
      else case find (\<lambda>(version, key). length key \<noteq> 32) keys of
             Some (version, _) \<Rightarrow> Inl (Opaque (''invalid key length for version '' @ Quote version
                                          @ '': must be exactly 32 bytes for AES-256''))
           | None \<Rightarrow> Inr \<lparr>ae_keys = keys, ae_currentVersion = currentVersion\<rparr>)"

definition aes_Encrypt :: "gcm \<Rightarrow> AESEncryptor \<Rightarrow> random \<Rightarrow> bytes \<Rightarrow> ierr + bytes \<times> string" where
  "aes_Encrypt G e rnd plaintext =
     (let key = (case map_of (ae_keys e) (ae_currentVersion e) of None \<Rightarrow> [] | Some k \<Rightarrow> k) in
      if \<not> aes_key key then Inl (Sentinel ErrEncryptionFailed)
      else case rnd gcm_NonceSize of
             None \<Rightarrow> Inl (Sentinel ErrEncryptionFailed)
           | Some nonce \<Rightarrow>
               let sealed = gcm_Seal G key nonce plaintext; combined = nonce @ sealed
               in Inr (b64_encode combined, ae_currentVersion e))"

definition aes_Decrypt :: "gcm \<Rightarrow> AESEncryptor \<Rightarrow> bytes \<Rightarrow> string \<Rightarrow> ierr + bytes" where
  "aes_Decrypt G e ciphertext keyVersion =
     (case map_of (ae_keys e) keyVersion of
        None \<Rightarrow> Inl (Sentinel ErrDecryptionFailed)
      | Some key \<Rightarrow>
          (case b64_decode ciphertext of
             None \<Rightarrow> Inl (Sentinel ErrDecryptionFailed)
           | Some decoded \<Rightarrow>
               if \<not> aes_key key then Inl (Sentinel ErrDecryptionFailed)
               else if length decoded < gcm_NonceSize then Inl (Sentinel ErrDecryptionFailed)
               else case gcm_Open G key (take gcm_NonceSize decoded) (drop gcm_NonceSize decoded) of
                      None \<Rightarrow> Inl (Sentinel ErrDecryptionFailed)
                    | Some plaintext \<Rightarrow> Inr plaintext))"

definition aesEncryptor :: "gcm \<Rightarrow> AESEncryptor \<Rightarrow> Encryptor" where
  "aesEncryptor G e = \<lparr>enc_Encrypt = aes_Encrypt G e, enc_Decrypt = aes_Decrypt G e\<rparr>"

section \<open>OAuth tokens\<close>

definition currentVersion :: char where "currentVersion = CHR 0x01"

abbreviation keySize :: nat where "keySize \<equiv> 32"

text \<open>An encryptor is the key its AEAD was made from. The plaintext and the data may be nil.\<close>

definition NewEncryptor :: "bytes \<Rightarrow> aerr + bytes" where
  "NewEncryptor key =
     (if length key \<noteq> keySize
      then Inl (Opaque (''crypto.NewEncryptor: key must be exactly '' @ dec_nat keySize @ '' bytes, got ''
                        @ dec_nat (length key)))
      else if \<not> aes_key key then Inl (Wrapf ''crypto.NewEncryptor'' (Opaque ''crypto/aes: invalid key size''))
      else Inr key)"

definition tok_Encrypt :: "gcm \<Rightarrow> bytes \<Rightarrow> random \<Rightarrow> bytes option \<Rightarrow> aerr + bytes" where
  "tok_Encrypt G key rnd plaintext =
     (case plaintext of
        None \<Rightarrow> Inl (Opaque ''crypto.Encrypt: plaintext must not be nil'')
      | Some p \<Rightarrow>
          (case rnd gcm_NonceSize of
             None \<Rightarrow> Inl (Wrapf ''crypto.Encrypt: failed to generate nonce'' (Opaque ''rand''))
           | Some nonce \<Rightarrow> Inr ([currentVersion] @ nonce @ gcm_Seal G key nonce p)))"

definition tok_Decrypt :: "gcm \<Rightarrow> bytes \<Rightarrow> bytes option \<Rightarrow> aerr + bytes" where
  "tok_Decrypt G key d =
     (case d of
        None \<Rightarrow> Inl (Opaque ''crypto.Decrypt: ciphertext must not be nil'')
      | Some data \<Rightarrow>
          let minLen = 1 + gcm_NonceSize + gcm_Overhead in
          if length data < minLen then Inl (Opaque ''crypto.Decrypt: ciphertext too short'')
          else let version = data ! 0 in
               if version \<noteq> currentVersion
               then Inl (Opaque (''crypto.Decrypt: unsupported version '' @ dec_nat (of_char version)))
               else let nonce = take gcm_NonceSize (drop 1 data); ciphertext = drop (1 + gcm_NonceSize) data in
                    case gcm_Open G key nonce ciphertext of
                      None \<Rightarrow> Inl (Wrapf ''crypto.Decrypt: decryption failed (tampered or wrong key)''
                                    (Opaque ''cipher: message authentication failed''))
                    | Some plaintext \<Rightarrow> Inr plaintext)"

section \<open>Contracts\<close>

definition random_ok :: "random \<Rightarrow> bool" where
  "random_ok rnd = (\<forall>n b. rnd n = Some b \<longrightarrow> length b = n)"

text \<open>An authenticated cipher: it opens what it sealed, and nothing else.\<close>

locale aead =
  fixes G :: gcm
  assumes open_seal: "aes_key k \<Longrightarrow> length n = gcm_NonceSize \<Longrightarrow> gcm_Open G k n (gcm_Seal G k n p) = Some p"
    and open_sound: "aes_key k \<Longrightarrow> length n = gcm_NonceSize \<Longrightarrow> gcm_Open G k n c = Some p \<Longrightarrow> c = gcm_Seal G k n p"
    and seal_length: "aes_key k \<Longrightarrow> length n = gcm_NonceSize \<Longrightarrow> length (gcm_Seal G k n p) = length p + gcm_Overhead"

text \<open>What the credentials rely on: the text an encryptor made decrypts under its version.\<close>

locale credential_encryptor =
  fixes E :: Encryptor
  assumes enc_dec: "random_ok rnd \<Longrightarrow> enc_Encrypt E rnd p = Inr (c, v) \<Longrightarrow> enc_Decrypt E c v = Inr p"
begin

lemma new_credential:
  assumes "random_ok rnd" and "NewCloudCredential rnd uuid now wid prov ty raw E = Inr c"
  shows "cred_Decrypt E c = Inr raw \<and> cr_WorkloadID c = wid \<and> cr_Provider c = prov \<and> cr_Type c = ty \<and> cr_ID c = uuid"
  using assms enc_dec by (auto simp: NewCloudCredential_def cred_Decrypt_def split: if_splits sum.splits)

lemma rotated_credential:
  assumes "random_ok rnd" and "cred_Rotate rnd now raw E c = (res, c')"
  shows "(res = None \<longrightarrow> cred_Decrypt E c' = Inr raw \<and> cr_RotatedAt c' = Some now) \<and> (res \<noteq> None \<longrightarrow> c' = c)"
  using assms enc_dec by (auto simp: cred_Rotate_def cred_Decrypt_def split: if_splits sum.splits)

end

definition aes_wf :: "AESEncryptor \<Rightarrow> bool" where
  "aes_wf e = (map_of (ae_keys e) (ae_currentVersion e) \<noteq> None \<and> (\<forall>(v, k) \<in> set (ae_keys e). length k = 32))"

lemma NewAESEncryptor_iff:
  "NewAESEncryptor keys v = Inr e \<longleftrightarrow> e = \<lparr>ae_keys = keys, ae_currentVersion = v\<rparr> \<and> aes_wf e"
  by (auto simp: NewAESEncryptor_def aes_wf_def find_None_iff split: option.splits dest!: find_SomeD)

lemma aes_wf_key: "aes_wf e \<Longrightarrow> map_of (ae_keys e) v = Some k \<Longrightarrow> length k = 32 \<and> aes_key k"
  by (auto simp: aes_wf_def aes_key_def dest!: map_of_SomeD)

context aead
begin

lemma aes_Encrypt_up:
  assumes "aes_wf e" and "rnd gcm_NonceSize = Some n"
  shows "\<exists>k. map_of (ae_keys e) (ae_currentVersion e) = Some k
    \<and> aes_Encrypt G e rnd p = Inr (b64_encode (n @ gcm_Seal G k n p), ae_currentVersion e)"
proof -
  obtain k where k: "map_of (ae_keys e) (ae_currentVersion e) = Some k"
    using assms(1) by (auto simp: aes_wf_def)
  then show ?thesis using aes_wf_key [OF assms(1) k] assms(2) by (simp add: aes_Encrypt_def Let_def)
qed

lemma aes_Encrypt_out:
  assumes "aes_wf e" and "aes_Encrypt G e rnd p = Inr (c, v)"
  shows "v = ae_currentVersion e \<and> (\<exists>n k. rnd gcm_NonceSize = Some n \<and> map_of (ae_keys e) v = Some k
    \<and> c = b64_encode (n @ gcm_Seal G k n p))"
  using assms by (auto simp: aes_Encrypt_def aes_key_def Let_def split: if_splits option.splits)

lemma aes_Decrypt_sealed:
  assumes "aes_wf e" and "map_of (ae_keys e) v = Some k" and "length n = gcm_NonceSize"
  shows "aes_Decrypt G e (b64_encode (n @ gcm_Seal G k n p)) v = Inr p"
  using assms aes_wf_key [OF assms(1,2)] open_seal [of k n p] by (simp add: aes_Decrypt_def)

lemma aes_Decrypt_sound:
  assumes "aes_wf e" and "aes_Decrypt G e c v = Inr p"
  shows "\<exists>k n. map_of (ae_keys e) v = Some k \<and> length n = gcm_NonceSize \<and> b64_decode c = Some (n @ gcm_Seal G k n p)"
proof -
  obtain k d where k: "map_of (ae_keys e) v = Some k" "b64_decode c = Some d" "aes_key k"
      "gcm_NonceSize \<le> length d" "gcm_Open G k (take gcm_NonceSize d) (drop gcm_NonceSize d) = Some p"
    using assms(2) by (auto simp: aes_Decrypt_def split: option.splits if_splits)
  then have "drop gcm_NonceSize d = gcm_Seal G k (take gcm_NonceSize d) p" by (intro open_sound) auto
  then have "d = take gcm_NonceSize d @ gcm_Seal G k (take gcm_NonceSize d) p" by (metis append_take_drop_id)
  then show ?thesis using k by (metis length_take min.absorb2)
qed

end

text \<open>Every encryptor that \<^verbatim>\<open>NewAESEncryptor\<close> makes meets the contract of the credentials.\<close>

locale aes_setup = aead +
  fixes e :: AESEncryptor
  assumes wf: "aes_wf e"

sublocale aes_setup \<subseteq> credential_encryptor "aesEncryptor G e"
proof
  fix rnd p c v
  assume "random_ok rnd" and "enc_Encrypt (aesEncryptor G e) rnd p = Inr (c, v)"
  then show "enc_Decrypt (aesEncryptor G e) c v = Inr p"
    using aes_Encrypt_out [OF wf, of rnd p c v] aes_Decrypt_sealed [OF wf, of v]
    by (auto simp: aesEncryptor_def random_ok_def)
qed

context aes_setup
begin

lemma encryptor: "credential_encryptor (aesEncryptor G e)"
  by (rule credential_encryptor_axioms)

end

lemma NewAESEncryptor_setup: "aead G \<Longrightarrow> NewAESEncryptor keys v = Inr e \<Longrightarrow> credential_encryptor (aesEncryptor G e)"
  by (intro aes_setup.encryptor aes_setup.intro aes_setup_axioms.intro) (auto simp: NewAESEncryptor_iff)

text \<open>A cipher that meets the contract: the text followed by a tag made of the key and the nonce.\<close>

definition tag_gcm :: gcm where
  "tag_gcm = \<lparr>gcm_Seal = (\<lambda>k n p. p @ take 4 n @ take 12 k),
     gcm_Open = (\<lambda>k n c. let m = length c - 16 in
       if 16 \<le> length c \<and> drop m c = take 4 n @ take 12 k then Some (take m c) else None)\<rparr>"

interpretation tagged: aead tag_gcm
proof (standard, goal_cases)
  case (1 k n p)
  then show ?case by (auto simp: tag_gcm_def aes_key_def)
next
  case (2 k n c p)
  then have c: "drop (length c - 16) c = take 4 n @ take 12 k" "p = take (length c - 16) c"
    by (auto simp: tag_gcm_def Let_def split: if_splits)
  then have "c = p @ take 4 n @ take 12 k" by (metis append_take_drop_id)
  then show ?case by (simp add: tag_gcm_def)
next
  case (3 k n p)
  then show ?case by (auto simp: tag_gcm_def aes_key_def)
qed

interpretation plain_setup: aes_setup tag_gcm "\<lparr>ae_keys = [(''v1'', replicate 32 (CHR ''k''))], ae_currentVersion = ''v1''\<rparr>"
  by standard (simp add: aes_wf_def)

section \<open>Properties\<close>

text \<open>C27: Credentials survive a key rotation. Whatever text an encryptor made under its current version
  decrypts to the plaintext under any later encryptor that still holds that version's key, whichever version
  is current there; and encryption succeeds whenever the random source does.\<close>

theorem credential_key_rotation:
  assumes "aead G" and "NewAESEncryptor keys cv = Inr e" and "NewAESEncryptor keys' cv' = Inr e'"
    and "map_of keys' cv = map_of keys cv" and "random_ok rnd" and "rnd gcm_NonceSize \<noteq> None"
  shows "\<exists>c. aes_Encrypt G e rnd p = Inr (c, cv) \<and> aes_Decrypt G e' c cv = Inr p \<and> aes_Decrypt G e c cv = Inr p"
proof -
  have e: "aes_wf e" "ae_keys e = keys" "ae_currentVersion e = cv"
    and e': "aes_wf e'" "ae_keys e' = keys'" using assms(2,3) by (auto simp: NewAESEncryptor_iff)
  obtain n where n: "rnd gcm_NonceSize = Some n" "length n = gcm_NonceSize"
    using assms(5,6) by (auto simp: random_ok_def)
  obtain k where k: "map_of keys cv = Some k"
      "aes_Encrypt G e rnd p = Inr (b64_encode (n @ gcm_Seal G k n p), cv)"
    using aead.aes_Encrypt_up [OF assms(1) e(1), of rnd n p] n e by auto
  then show ?thesis
    using aead.aes_Decrypt_sealed [OF assms(1) e(1), of cv k n p] aead.aes_Decrypt_sealed [OF assms(1) e'(1), of cv k n p]
      assms(4) n(2) e e' by auto
qed

definition ex_k1 :: bytes where "ex_k1 = replicate 32 (CHR ''a'')"
definition ex_k2 :: bytes where "ex_k2 = replicate 32 (CHR ''b'')"

theorem credential_key_rotation_witness:
  "\<exists>e e' c. NewAESEncryptor [(''v1'', ex_k1)] ''v1'' = Inr e \<and> NewAESEncryptor [(''v2'', ex_k2), (''v1'', ex_k1)] ''v2'' = Inr e'
    \<and> aes_Encrypt tag_gcm e (\<lambda>n. Some (replicate n (CHR ''r''))) ''payload'' = Inr (c, ''v1'')
    \<and> aes_Decrypt tag_gcm e' c ''v1'' = Inr ''payload''"
proof -
  have e: "NewAESEncryptor [(''v1'', ex_k1)] ''v1'' = Inr \<lparr>ae_keys = [(''v1'', ex_k1)], ae_currentVersion = ''v1''\<rparr>"
    and e': "NewAESEncryptor [(''v2'', ex_k2), (''v1'', ex_k1)] ''v2''
      = Inr \<lparr>ae_keys = [(''v2'', ex_k2), (''v1'', ex_k1)], ae_currentVersion = ''v2''\<rparr>"
    by (simp_all add: NewAESEncryptor_def ex_k1_def ex_k2_def)
  show ?thesis
    using credential_key_rotation [OF tagged.aead_axioms e e', of "\<lambda>n. Some (replicate n (CHR ''r''))" "''payload''"] e e'
    by (auto simp: random_ok_def)
qed

text \<open>Decryption of a credential is authentic. It succeeds only on the base64 text of a nonce followed by what
  sealing the returned plaintext under the key of the named version with that nonce gives: other text, other
  versions and other keys are refused.\<close>

theorem credential_decrypt_authentic:
  assumes "aead G" and "NewAESEncryptor keys cv = Inr e"
  shows "aes_Decrypt G e c v = Inr p \<longleftrightarrow>
    (\<exists>k n. map_of keys v = Some k \<and> length n = gcm_NonceSize \<and> b64_decode c = Some (n @ gcm_Seal G k n p))"
proof
  have e: "aes_wf e" "ae_keys e = keys" using assms(2) by (auto simp: NewAESEncryptor_iff)
  then show "aes_Decrypt G e c v = Inr p \<Longrightarrow>
      \<exists>k n. map_of keys v = Some k \<and> length n = gcm_NonceSize \<and> b64_decode c = Some (n @ gcm_Seal G k n p)"
    using aead.aes_Decrypt_sound [OF assms(1)] by blast
  assume "\<exists>k n. map_of keys v = Some k \<and> length n = gcm_NonceSize \<and> b64_decode c = Some (n @ gcm_Seal G k n p)"
  then obtain k n where k: "map_of keys v = Some k" "length n = gcm_NonceSize"
      "b64_decode c = Some (n @ gcm_Seal G k n p)" by blast
  then show "aes_Decrypt G e c v = Inr p"
    using aead.open_seal [OF assms(1), of k n p] aes_wf_key [OF e(1), of v k] e(2) by (simp add: aes_Decrypt_def)
qed

theorem credential_decrypt_authentic_witness:
  "aes_Decrypt tag_gcm \<lparr>ae_keys = [(''v1'', replicate 32 (CHR ''a''))], ae_currentVersion = ''v1''\<rparr> ''not base64'' ''v1'' \<noteq> Inr ''x''"
proof -
  have e: "NewAESEncryptor [(''v1'', replicate 32 (CHR ''a''))] ''v1''
      = Inr \<lparr>ae_keys = [(''v1'', replicate 32 (CHR ''a''))], ae_currentVersion = ''v1''\<rparr>"
    by (simp add: NewAESEncryptor_def)
  have "b64_decode ''not base64'' = None" by code_simp
  then show ?thesis using credential_decrypt_authentic [OF tagged.aead_axioms e, of "''not base64''" "''v1''" "''x''"] by simp
qed

text \<open>The encryptor of OAuth tokens accepts 32-byte keys only; what it encrypts starts with the version byte,
  is 29 bytes longer than the plaintext and decrypts to it; and it decrypts nothing but such data.\<close>

theorem token_encryptor_roundtrip:
  assumes "aead G" and "NewEncryptor key = Inr e" and "random_ok rnd" and "rnd gcm_NonceSize \<noteq> None"
  shows "length key = 32
    \<and> (\<exists>d. tok_Encrypt G e rnd (Some p) = Inr d \<and> hd d = CHR 0x01 \<and> length d = length p + 29
         \<and> tok_Decrypt G e (Some d) = Inr p)
    \<and> (tok_Decrypt G e (Some x) = Inr q \<longleftrightarrow> (\<exists>n. length n = gcm_NonceSize \<and> x = CHR 0x01 # n @ gcm_Seal G key n q))"
proof -
  have e: "e = key" "length key = 32" using assms(2) by (auto simp: NewEncryptor_def split: if_splits)
  then have k: "aes_key key" by (simp add: aes_key_def)
  obtain n where n: "rnd gcm_NonceSize = Some n" "length n = gcm_NonceSize"
    using assms(3,4) by (auto simp: random_ok_def)
  have dec: "tok_Decrypt G key (Some (CHR 0x01 # m @ gcm_Seal G key m r)) = Inr r" if "length m = gcm_NonceSize" for m r
    using that aead.open_seal [OF assms(1) k that] aead.seal_length [OF assms(1) k that]
    by (simp add: tok_Decrypt_def currentVersion_def Let_def)
  have snd: "\<exists>m. length m = gcm_NonceSize \<and> x = CHR 0x01 # m @ gcm_Seal G key m q"
    if a: "tok_Decrypt G key (Some x) = Inr q"
  proof -
    obtain c y where x: "x = c # y" using a by (cases x) (auto simp: tok_Decrypt_def)
    have c: "c = CHR 0x01" "gcm_NonceSize \<le> length y"
        "gcm_Open G key (take gcm_NonceSize y) (drop gcm_NonceSize y) = Some q"
      using a by (auto simp: x tok_Decrypt_def currentVersion_def Let_def split: if_splits option.splits)
    have "drop gcm_NonceSize y = gcm_Seal G key (take gcm_NonceSize y) q"
      using aead.open_sound [OF assms(1) k _ c(3)] c(2) by simp
    then have "y = take gcm_NonceSize y @ gcm_Seal G key (take gcm_NonceSize y) q" by (metis append_take_drop_id)
    then show ?thesis using c x by (metis length_take min.absorb2)
  qed
  have enc: "tok_Encrypt G key rnd (Some p) = Inr (CHR 0x01 # n @ gcm_Seal G key n p)"
    using n by (simp add: tok_Encrypt_def currentVersion_def)
  show ?thesis
    using e enc dec [OF n(2)] dec snd n(2) aead.seal_length [OF assms(1) k n(2)] by auto
qed

theorem token_encryptor_roundtrip_witness:
  "\<exists>d. tok_Encrypt tag_gcm (replicate 32 (CHR ''a'')) (\<lambda>n. Some (replicate n (CHR ''r''))) (Some ''ghp_x'') = Inr d
     \<and> tok_Decrypt tag_gcm (replicate 32 (CHR ''a'')) (Some d) = Inr ''ghp_x''"
proof -
  have e: "NewEncryptor (replicate 32 (CHR ''a'')) = Inr (replicate 32 (CHR ''a''))"
    by (simp add: NewEncryptor_def aes_key_def)
  show ?thesis
    using token_encryptor_roundtrip [OF tagged.aead_axioms e, of "\<lambda>n. Some (replicate n (CHR ''r''))" "''ghp_x''" "[]" "[]"]
    by (auto simp: random_ok_def)
qed

end
