(* ===== verification/Refresh_Tokens.thy ===== *)
theory Refresh_Tokens
  imports Redis Auth_Domain "HOL-Library.Multiset"
begin

text \<open>
  The refresh-token store of \<^verbatim>\<open>internal/auth/adapter/redis/refresh_token_store.go\<close>. Tokens are
  opaque random strings; Redis holds, under the SHA-256 hash of each token, the JSON of a
  \<open>refreshTokenData\<close> with a lifetime of seven days, and per user the set of the hashes (the index)
  by which all sessions of a user can be revoked.

  Every operation takes the Redis client, the hash function, the instant at which it runs and, where
  the code draws random bytes, the bytes drawn (or none, when the generator fails). The operations
  are composed of the same sequence of Redis calls as in the source; each call may fail.
\<close>

section \<open>Data and keys\<close>

definition RefreshTokenTTL :: duration where "RefreshTokenTTL = hours (7 * 24)"
definition MaxSessionsPerUser :: int where "MaxSessionsPerUser = 5"
definition refreshTokenPrefix :: string where "refreshTokenPrefix = ''rftw:rt:''"
definition userIndexPrefix :: string where "userIndexPrefix = ''rftw:rt:user:''"

record refreshTokenData =
  rt_SessionID :: string
  rt_UserID :: string
  rt_Fingerprint :: string
  rt_CreatedAt :: gotime

definition rtd_zero :: refreshTokenData where
  "rtd_zero = \<lparr>rt_SessionID = [], rt_UserID = [], rt_Fingerprint = [], rt_CreatedAt = zero_time\<rparr>"

definition rtd_marshal :: "refreshTokenData \<Rightarrow> payload" where
  "rtd_marshal d = Doc (JObj
     [(''session_id'', JStr (rt_SessionID d)), (''user_id'', JStr (rt_UserID d)),
      (''fingerprint'', JStr (rt_Fingerprint d)), (''created_at'', JTime (rt_CreatedAt d))])"

definition rtd_decode :: "(string \<times> json) list \<Rightarrow> json_err + refreshTokenData" where
  "rtd_decode kvs =
     (case (str_field ''session_id'' kvs, str_field ''user_id'' kvs,
            str_field ''fingerprint'' kvs, time_field ''created_at'' kvs) of
        (Inr sid, Inr uid, Inr fp, Inr t) \<Rightarrow>
          Inr \<lparr>rt_SessionID = sid, rt_UserID = uid, rt_Fingerprint = fp, rt_CreatedAt = t\<rparr>
      | _ \<Rightarrow> Inl UnmarshalTypeError)"

definition rtd_unmarshal :: "payload \<Rightarrow> json_err + refreshTokenData" where
  "rtd_unmarshal = unmarshal rtd_decode rtd_zero"

definition generateOpaqueToken ::
    "(bytes \<Rightarrow> bytes) \<Rightarrow> bytes option \<Rightarrow> aerr + (string \<times> string)" where
  "generateOpaqueToken sha256 rnd =
     (case rnd of
        None \<Rightarrow> Inl (Wrapf ''generateOpaqueToken'' (Opaque ''rand''))
      | Some raw \<Rightarrow>
          let plaintext = hex_encode raw; h = sha256 plaintext in Inr (plaintext, hex_encode h))"

definition tokenKey :: "string \<Rightarrow> string" where
  "tokenKey hash = refreshTokenPrefix @ hash"

definition userKey :: "string \<Rightarrow> string" where
  "userKey userID = userIndexPrefix @ userID"

definition hashToken :: "(bytes \<Rightarrow> bytes) \<Rightarrow> string \<Rightarrow> string" where
  "hashToken sha256 plaintext = hex_encode (sha256 plaintext)"

definition BuildFingerprint :: "(bytes \<Rightarrow> bytes) \<Rightarrow> string \<Rightarrow> string \<Rightarrow> string" where
  "BuildFingerprint sha256 userAgent ip = hex_encode (sha256 (userAgent @ '':'' @ ip))"

section \<open>Session limit\<close>

record tokenAge =
  ta_hash :: string
  ta_createdAt :: gotime

text \<open>
  The loop that reads the creation time of every indexed token. A token that cannot be read, for
  whatever reason, is taken out of the index; one that does not parse is skipped.
\<close>

fun collectTokens ::
    "'s redis \<Rightarrow> gotime \<Rightarrow> string \<Rightarrow> string list \<Rightarrow> 's \<Rightarrow> tokenAge list \<times> 's" where
  "collectTokens R now uKey [] s = ([], s)"
| "collectTokens R now uKey (h # hs) s =
     (case rdb_Get R now (tokenKey h) s of
        (Inl _, s1) \<Rightarrow>
          let (_, s2) = rdb_Exec R now [CSRem uKey h] s1 in collectTokens R now uKey hs s2
      | (Inr p, s1) \<Rightarrow>
          (case rtd_unmarshal p of
             Inl _ \<Rightarrow> collectTokens R now uKey hs s1
           | Inr d \<Rightarrow>
               let (ts, s2) = collectTokens R now uKey hs s1
               in (\<lparr>ta_hash = h, ta_createdAt = rt_CreatedAt d\<rparr> # ts, s2)))"

text \<open>The inner loop of the selection: the position of the oldest token from \<open>i\<close> on.\<close>

function oldestFrom :: "tokenAge list \<Rightarrow> nat \<Rightarrow> nat \<Rightarrow> nat" where
  "oldestFrom tokens oldest j =
     (if j < length tokens
      then oldestFrom tokens
             (if ta_createdAt (tokens ! j) < ta_createdAt (tokens ! oldest) then j else oldest) (Suc j)
      else oldest)"
  by pat_completeness auto
termination
  by (relation "measure (\<lambda>(tokens, oldest, j). length tokens - j)") auto

declare oldestFrom.simps [simp del]

definition swap :: "'a list \<Rightarrow> nat \<Rightarrow> nat \<Rightarrow> 'a list" where
  "swap xs i j = xs[i := xs ! j, j := xs ! i]"

text \<open>The outer loop: \<open>n\<close> rounds are left, the next one works at position \<open>i\<close>.\<close>

fun evictOldest ::
    "'s redis \<Rightarrow> gotime \<Rightarrow> string \<Rightarrow> nat \<Rightarrow> nat \<Rightarrow> tokenAge list \<Rightarrow> 's \<Rightarrow> 's" where
  "evictOldest R now uKey 0 i tokens s = s"
| "evictOldest R now uKey (Suc n) i tokens s =
     (let tokens' = swap tokens i (oldestFrom tokens i (Suc i));
          (_, s') = rdb_Exec R now
            [CDel (tokenKey (ta_hash (tokens' ! i))), CSRem uKey (ta_hash (tokens' ! i))] s
      in evictOldest R now uKey n (Suc i) tokens' s')"

definition enforceMaxSessions ::
    "'s redis \<Rightarrow> gotime \<Rightarrow> string \<Rightarrow> 's \<Rightarrow> rerr option \<times> 's" where
  "enforceMaxSessions R now userID s =
     (let uKey = userKey userID in
      case rdb_SCard R now uKey s of
        (Inl e, s1) \<Rightarrow> (Some e, s1)
      | (Inr cnt, s1) \<Rightarrow>
          if cnt \<le> MaxSessionsPerUser then (None, s1)
          else case rdb_SMembers R now uKey s1 of
            (Inl e, s2) \<Rightarrow> (Some e, s2)
          | (Inr hashes, s2) \<Rightarrow>
              let (tokens, s3) = collectTokens R now uKey hashes s2;
                  excess = int (length tokens) - MaxSessionsPerUser
              in if excess \<le> 0 then (None, s3)
                 else (None, evictOldest R now uKey (nat excess) 0 tokens s3))"

section \<open>Operations\<close>

definition infra :: "string \<Rightarrow> rerr \<Rightarrow> aerr" where
  "infra ctx e = Wrapf ctx (Opaque (case e of RedisNil \<Rightarrow> ''redis: nil'' | RedisErr m \<Rightarrow> m))"

definition issueCmds :: "string \<Rightarrow> string \<Rightarrow> payload \<Rightarrow> rcmd list" where
  "issueCmds userID hash jsonData =
     [CSet (tokenKey hash) jsonData RefreshTokenTTL,
      CSAdd (userKey userID) hash,
      CExpire (userKey userID) RefreshTokenTTL]"

definition rt_Issue ::
    "'s redis \<Rightarrow> (bytes \<Rightarrow> bytes) \<Rightarrow> bytes option \<Rightarrow> gotime \<Rightarrow> string \<Rightarrow> string \<Rightarrow> string
      \<Rightarrow> 's \<Rightarrow> (aerr + string) \<times> 's" where
  "rt_Issue R sha256 rnd now sessionID userID fingerprint s =
     (case generateOpaqueToken sha256 rnd of
        Inl e \<Rightarrow> (Inl e, s)
      | Inr (plaintext, hash) \<Rightarrow>
          let data = \<lparr>rt_SessionID = sessionID, rt_UserID = userID, rt_Fingerprint = fingerprint,
                      rt_CreatedAt = now\<rparr>
          in case rdb_Exec R now (issueCmds userID hash (rtd_marshal data)) s of
               (Inl e, s1) \<Rightarrow> (Inl (infra ''refreshTokenStore.Issue: redis exec'' e), s1)
             | (Inr _, s1) \<Rightarrow> (Inr plaintext, snd (enforceMaxSessions R now userID s1)))"

definition rt_RevokeAll :: "'s redis \<Rightarrow> gotime \<Rightarrow> string \<Rightarrow> 's \<Rightarrow> aerr option \<times> 's" where
  "rt_RevokeAll R now userID s =
     (let uKey = userKey userID in
      case rdb_SMembers R now uKey s of
        (Inl e, s1) \<Rightarrow> (Some (infra ''refreshTokenStore.RevokeAll: smembers'' e), s1)
      | (Inr hashes, s1) \<Rightarrow>
          if hashes = [] then (None, s1)
          else case rdb_Exec R now (map (\<lambda>h. CDel (tokenKey h)) hashes @ [CDel uKey]) s1 of
            (Inl e, s2) \<Rightarrow> (Some (infra ''refreshTokenStore.RevokeAll: redis exec'' e), s2)
          | (Inr _, s2) \<Rightarrow> (None, s2))"

text \<open>
  The reading half that Verify and Rotate share in shape: look the hash up, parse, compare the
  fingerprint, and revoke all sessions of the user on a mismatch.
\<close>

definition rt_Verify ::
    "'s redis \<Rightarrow> (bytes \<Rightarrow> bytes) \<Rightarrow> gotime \<Rightarrow> string \<Rightarrow> string \<Rightarrow> 's \<Rightarrow> (aerr + string) \<times> 's" where
  "rt_Verify R sha256 now plaintextToken fingerprint s =
     (let hash = hashToken sha256 plaintextToken; key = tokenKey hash in
      case rdb_Get R now key s of
        (Inl RedisNil, s1) \<Rightarrow> (Inl (Sentinel ErrSessionNotFound), s1)
      | (Inl e, s1) \<Rightarrow> (Inl (infra ''refreshTokenStore.Verify: redis get'' e), s1)
      | (Inr p, s1) \<Rightarrow>
          (case rtd_unmarshal p of
             Inl _ \<Rightarrow> (Inl (Wrapf ''refreshTokenStore.Verify: unmarshal'' (Opaque ''json'')), s1)
           | Inr data \<Rightarrow>
               if rt_Fingerprint data \<noteq> fingerprint
               then let (_, s2) = rt_RevokeAll R now (rt_UserID data) s1
                    in (Inl (Sentinel ErrSessionFingerprintMismatch), s2)
               else (Inr (rt_SessionID data), s1)))"

text \<open>
  Rotate in the two phases between which other requests can run: the first reads and checks the
  presented token, the second swaps it for a new one in one transaction.
\<close>

definition rotateRead ::
    "'s redis \<Rightarrow> (bytes \<Rightarrow> bytes) \<Rightarrow> gotime \<Rightarrow> string \<Rightarrow> string \<Rightarrow> 's
      \<Rightarrow> (aerr + refreshTokenData) \<times> 's" where
  "rotateRead R sha256 now oldPlaintextToken fingerprint s =
     (let oldHash = hashToken sha256 oldPlaintextToken; oldKey = tokenKey oldHash in
      case rdb_Get R now oldKey s of
        (Inl RedisNil, s1) \<Rightarrow> (Inl (Sentinel ErrSessionNotFound), s1)
      | (Inl e, s1) \<Rightarrow> (Inl (infra ''refreshTokenStore.Rotate: redis get'' e), s1)
      | (Inr p, s1) \<Rightarrow>
          (case rtd_unmarshal p of
             Inl _ \<Rightarrow> (Inl (Wrapf ''refreshTokenStore.Rotate: unmarshal'' (Opaque ''json'')), s1)
           | Inr oldData \<Rightarrow>
               if rt_Fingerprint oldData \<noteq> fingerprint
               then let (_, s2) = rt_RevokeAll R now (rt_UserID oldData) s1
                    in (Inl (Sentinel ErrSessionFingerprintMismatch), s2)
               else (Inr oldData, s1)))"

definition rotateCmds :: "string \<Rightarrow> string \<Rightarrow> string \<Rightarrow> payload \<Rightarrow> rcmd list" where
  "rotateCmds userID oldHash newHash newJSON =
     [CDel (tokenKey oldHash), CSRem (userKey userID) oldHash,
      CSet (tokenKey newHash) newJSON RefreshTokenTTL, CSAdd (userKey userID) newHash]"

definition rotateSwap ::
    "'s redis \<Rightarrow> (bytes \<Rightarrow> bytes) \<Rightarrow> bytes option \<Rightarrow> string \<Rightarrow> gotime \<Rightarrow> string \<Rightarrow> string
      \<Rightarrow> refreshTokenData \<Rightarrow> 's \<Rightarrow> (aerr + (string \<times> string)) \<times> 's" where
  "rotateSwap R sha256 rnd uuid now oldPlaintextToken fingerprint oldData s =
     (case generateOpaqueToken sha256 rnd of
        Inl e \<Rightarrow> (Inl e, s)
      | Inr (newPlaintext, newHash) \<Rightarrow>
          let newData = \<lparr>rt_SessionID = uuid, rt_UserID = rt_UserID oldData,
                         rt_Fingerprint = fingerprint, rt_CreatedAt = now\<rparr>
          in case rdb_Exec R now (rotateCmds (rt_UserID oldData)
                    (hashToken sha256 oldPlaintextToken) newHash (rtd_marshal newData)) s of
               (Inl e, s1) \<Rightarrow> (Inl (infra ''refreshTokenStore.Rotate: redis exec'' e), s1)
             | (Inr _, s1) \<Rightarrow> (Inr (newPlaintext, uuid), s1))"

definition rt_Rotate ::
    "'s redis \<Rightarrow> (bytes \<Rightarrow> bytes) \<Rightarrow> bytes option \<Rightarrow> string \<Rightarrow> gotime \<Rightarrow> string \<Rightarrow> string
      \<Rightarrow> 's \<Rightarrow> (aerr + (string \<times> string)) \<times> 's" where
  "rt_Rotate R sha256 rnd uuid now oldPlaintextToken fingerprint s =
     (case rotateRead R sha256 now oldPlaintextToken fingerprint s of
        (Inl e, s1) \<Rightarrow> (Inl e, s1)
      | (Inr oldData, s1) \<Rightarrow>
          rotateSwap R sha256 rnd uuid now oldPlaintextToken fingerprint oldData s1)"

definition rt_Revoke :: "'s redis \<Rightarrow> (bytes \<Rightarrow> bytes) \<Rightarrow> gotime \<Rightarrow> string \<Rightarrow> 's \<Rightarrow> aerr option \<times> 's" where
  "rt_Revoke R sha256 now plaintextToken s =
     (let hash = hashToken sha256 plaintextToken; key = tokenKey hash in
      case rdb_Get R now key s of
        (Inl RedisNil, s1) \<Rightarrow> (None, s1)
      | (Inl e, s1) \<Rightarrow> (Some (infra ''refreshTokenStore.Revoke: redis get'' e), s1)
      | (Inr p, s1) \<Rightarrow>
          (case rtd_unmarshal p of
             Inl _ \<Rightarrow> (Some (Wrapf ''refreshTokenStore.Revoke: unmarshal'' (Opaque ''json'')), s1)
           | Inr data \<Rightarrow>
               (case rdb_Exec R now [CDel key, CSRem (userKey (rt_UserID data)) hash] s1 of
                  (Inl e, s2) \<Rightarrow> (Some (infra ''refreshTokenStore.Revoke: redis exec'' e), s2)
                | (Inr _, s2) \<Rightarrow> (None, s2))))"

section \<open>Views, keys and well-formedness\<close>

text \<open>The session a hash stands for at an instant, and the hashes indexed under a user.\<close>

definition session :: "gotime \<Rightarrow> rstore \<Rightarrow> string \<Rightarrow> refreshTokenData option" where
  "session t st h =
     (case live t st (tokenKey h) of
        Some (RStr p) \<Rightarrow> (case rtd_unmarshal p of Inr d \<Rightarrow> Some d | Inl _ \<Rightarrow> None)
      | _ \<Rightarrow> None)"

definition index :: "gotime \<Rightarrow> rstore \<Rightarrow> string \<Rightarrow> string set" where
  "index t st uid = members t st (userKey uid)"

definition is_hash :: "string \<Rightarrow> bool" where
  "is_hash h = (hex_decode h \<noteq> None \<and> hex_encode (the (hex_decode h)) = h)"

text \<open>
  The part of the keyspace the store owns is well formed: token keys hold JSON that parses, index
  keys hold sets of hashes.
\<close>

definition rt_wf :: "gotime \<Rightarrow> rstore \<Rightarrow> bool" where
  "rt_wf t st \<longleftrightarrow>
     (\<forall>h v. is_hash h \<longrightarrow> live t st (tokenKey h) = Some v \<longrightarrow> (\<exists>p d. v = RStr p \<and> rtd_unmarshal p = Inr d))
   \<and> (\<forall>u v. live t st (userKey u) = Some v \<longrightarrow> (\<exists>ms. v = RSet ms \<and> (\<forall>h \<in> set ms. is_hash h)))"

lemma is_hash_hex [simp]: "is_hash (hex_encode b)"
  by (simp add: is_hash_def)

lemma is_hash_hashToken [simp]: "is_hash (hashToken sha x)"
  by (simp add: hashToken_def)

lemma is_hashE: "is_hash h \<Longrightarrow> \<exists>b. h = hex_encode b"
  by (auto simp: is_hash_def dest: sym)

lemma tokenKey_inj [simp]: "tokenKey a = tokenKey b \<longleftrightarrow> a = b"
  by (simp add: tokenKey_def)

lemma userKey_inj [simp]: "userKey a = userKey b \<longleftrightarrow> a = b"
  by (simp add: userKey_def)

text \<open>
  The two key families share a prefix, yet a token key is never an index key: the rest of a token
  key is hexadecimal and the rest of an index key starts with the letter \<open>u\<close>.
\<close>

lemma tokenKey_neq_userKey: "is_hash h \<Longrightarrow> tokenKey h \<noteq> userKey u"
proof
  assume "is_hash h" and eq: "tokenKey h = userKey u"
  then obtain b where b: "h = hex_encode b" using is_hashE by blast
  from eq have "h = ''user:'' @ u"
    by (simp add: tokenKey_def userKey_def refreshTokenPrefix_def userIndexPrefix_def)
  then have "CHR ''u'' \<in> set (hex_encode b)" using b by (metis append_Cons list.set_intros(1))
  from hex_encode_chars [OF this] show False by (simp add: hex_val_def)
qed

lemmas key_neq [simp] = tokenKey_neq_userKey tokenKey_neq_userKey [THEN not_sym]

lemma rtd_roundtrip [simp]: "rtd_unmarshal (rtd_marshal d) = Inr d"
  by (cases d) (simp add: rtd_unmarshal_def rtd_marshal_def rtd_decode_def json_defs)

lemma live_later: "live t' st k = Some v \<Longrightarrow> t \<le> t' \<Longrightarrow> live t st k = Some v"
  by (auto simp: live_def entry_def expired_def split: option.splits if_splits)

lemma rt_wf_later: "rt_wf t st \<Longrightarrow> t \<le> t' \<Longrightarrow> rt_wf t' st"
  unfolding rt_wf_def by (meson live_later)

lemma rt_wf_set_key: "rt_wf t st \<Longrightarrow> set_key t st (userKey u)"
  by (fastforce simp: rt_wf_def set_key_def split: option.splits)

lemma rt_wf_session:
  "rt_wf t st \<Longrightarrow> is_hash h \<Longrightarrow> session t st h = None \<longleftrightarrow> live t st (tokenKey h) = None"
  by (fastforce simp: rt_wf_def session_def split: option.splits)

lemma sessionE:
  assumes "session t st h = Some d"
  obtains p where "live t st (tokenKey h) = Some (RStr p)" "rtd_unmarshal p = Inr d"
  using assms that by (auto simp: session_def split: option.splits rval.splits sum.splits)

lemma index_hash: "rt_wf t st \<Longrightarrow> h \<in> index t st u \<Longrightarrow> is_hash h"
  by (fastforce simp: rt_wf_def index_def members_def split: option.splits)

lemma session_later: "session t' st h = Some d \<Longrightarrow> t \<le> t' \<Longrightarrow> session t st h = Some d"
  by (auto simp: session_def split: option.splits rval.splits sum.splits dest: live_later)

section \<open>What the store's commands do\<close>

text \<open>The commands the store sends, and that they keep its part of the keyspace well formed.\<close>

inductive rt_cmd :: "rcmd \<Rightarrow> bool" where
  "is_hash h \<Longrightarrow> rt_cmd (CSet (tokenKey h) (rtd_marshal d) RefreshTokenTTL)"
| "is_hash h \<Longrightarrow> rt_cmd (CDel (tokenKey h))"
| "rt_cmd (CDel (userKey u))"
| "is_hash h \<Longrightarrow> rt_cmd (CSAdd (userKey u) h)"
| "is_hash h \<Longrightarrow> rt_cmd (CSRem (userKey u) h)"
| "rt_cmd (CExpire (userKey u) RefreshTokenTTL)"

declare rt_cmd.intros [simp, intro]

lemma TTL_pos [simp]: "0 < RefreshTokenTTL" "\<not> RefreshTokenTTL \<le> 0"
  by (simp_all add: RefreshTokenTTL_def)

lemma rt_wfI:
  assumes "\<And>h v. is_hash h \<Longrightarrow> live t st (tokenKey h) = Some v \<Longrightarrow> \<exists>p d. v = RStr p \<and> rtd_unmarshal p = Inr d"
    and "\<And>u v. live t st (userKey u) = Some v \<Longrightarrow> \<exists>ms. v = RSet ms \<and> (\<forall>h \<in> set ms. is_hash h)"
  shows "rt_wf t st"
  using assms by (simp add: rt_wf_def)

lemma rt_wf_tok: "rt_wf t st \<Longrightarrow> is_hash h \<Longrightarrow> live t st (tokenKey h) = Some v \<Longrightarrow>
    \<exists>p d. v = RStr p \<and> rtd_unmarshal p = Inr d"
  by (simp add: rt_wf_def)

lemma rt_wf_idx: "rt_wf t st \<Longrightarrow> live t st (userKey u) = Some v \<Longrightarrow>
    \<exists>ms. v = RSet ms \<and> (\<forall>h \<in> set ms. is_hash h)"
  by (simp add: rt_wf_def)

lemma rt_wf_upd_tok:
  "rt_wf t st \<Longrightarrow> is_hash h \<Longrightarrow> rt_wf t (st(tokenKey h \<mapsto> \<lparr>rv = RStr (rtd_marshal d), rexp = x\<rparr>))"
  by (rule rt_wfI) (auto split: if_splits dest: rt_wf_tok rt_wf_idx)

lemma rt_wf_upd_None: "rt_wf t st \<Longrightarrow> rt_wf t (st(k := None))"
  by (rule rt_wfI) (auto split: if_splits dest: rt_wf_tok rt_wf_idx)

lemma rt_wf_upd_idx:
  "rt_wf t st \<Longrightarrow> \<forall>h \<in> set ms. is_hash h \<Longrightarrow> rt_wf t (st(userKey u \<mapsto> \<lparr>rv = RSet ms, rexp = x\<rparr>))"
  by (rule rt_wfI) (auto split: if_splits dest: rt_wf_tok rt_wf_idx)

lemma rt_wf_put_set:
  "rt_wf t st \<Longrightarrow> \<forall>h \<in> set ms. is_hash h \<Longrightarrow> rt_wf t (put_set (userKey u) x ms st)"
  by (simp add: put_set_def rt_wf_upd_idx rt_wf_upd_None)

lemma userKey_entry:
  assumes "rt_wf t st"
  obtains (absent) "entry t st (userKey u) = None" "index t st u = {}"
    | (present) ms x where "entry t st (userKey u) = Some \<lparr>rv = RSet ms, rexp = x\<rparr>"
        "\<And>v. \<not> expired t \<lparr>rv = v, rexp = x\<rparr>" "index t st u = set ms" "\<forall>h \<in> set ms. is_hash h"
proof (cases "entry t st (userKey u)")
  case None
  then show ?thesis using absent by (simp add: index_def members_def live_def)
next
  case (Some e)
  then have "live t st (userKey u) = Some (rv e)" by (simp add: live_def)
  then obtain ms where ms: "rv e = RSet ms" "\<forall>h \<in> set ms. is_hash h"
    using rt_wf_idx [OF assms] by blast
  have "\<not> expired t \<lparr>rv = v, rexp = rexp e\<rparr>" for v
    using Some by (auto simp: entry_def expired_def split: option.splits if_splits)
  with Some ms show ?thesis
    using present [of ms "rexp e"] by (cases e) (simp add: index_def members_def live_def)
qed

lemma cmd_step_wf: "rt_cmd c \<Longrightarrow> rt_wf t st \<Longrightarrow> rt_wf t (snd (cmd_step t c st))"
proof (induction rule: rt_cmd.induct)
  case (4 h u)
  from \<open>rt_wf t st\<close> show ?case
    by (cases rule: userKey_entry [of t st u]) (use 4 in \<open>auto simp: set_add_def rt_wf_put_set\<close>)
next
  case (5 h u)
  from \<open>rt_wf t st\<close> show ?case
    by (cases rule: userKey_entry [of t st u]) (use 5 in \<open>auto simp: rt_wf_put_set\<close>)
next
  case (6 u)
  from \<open>rt_wf t st\<close> show ?case
    by (cases rule: userKey_entry [of t st u]) (use 6 in \<open>auto simp: rt_wf_upd_idx simp del: fun_upd_apply\<close>)
qed (auto simp: rt_wf_upd_tok rt_wf_upd_None)

lemma cmd_step_typed: "rt_cmd c \<Longrightarrow> rt_wf t st \<Longrightarrow> fst (cmd_step t c st) \<noteq> RepWrongType"
proof (induction rule: rt_cmd.induct)
  case (4 h u)
  from \<open>rt_wf t st\<close> show ?case by (cases rule: userKey_entry [of t st u]) auto
next
  case (5 h u)
  from \<open>rt_wf t st\<close> show ?case by (cases rule: userKey_entry [of t st u]) auto
next
  case (6 u)
  then show ?case by (auto split: option.splits)
qed auto

lemma run_cmds_wf: "list_all rt_cmd cs \<Longrightarrow> rt_wf t st \<Longrightarrow> rt_wf t (snd (run_cmds t cs st))"
  by (induction cs arbitrary: st) (auto simp: Let_def case_prod_unfold cmd_step_wf)

lemma run_cmds_typed:
  "list_all rt_cmd cs \<Longrightarrow> rt_wf t st \<Longrightarrow> RepWrongType \<notin> set (fst (run_cmds t cs st))"
proof (induction cs arbitrary: st)
  case (Cons c cs)
  then show ?case
    using cmd_step_typed [of c t st] by (auto simp: Let_def case_prod_unfold cmd_step_wf dest: sym)
qed simp

text \<open>Their effect on the sessions and on the indexes.\<close>

lemma session_upd_tok:
  "is_hash h \<Longrightarrow> session t (st(tokenKey h \<mapsto> e)) g =
     (if g = h then (if expired t e then None else
        case rv e of RStr p \<Rightarrow> (case rtd_unmarshal p of Inr d \<Rightarrow> Some d | _ \<Rightarrow> None) | _ \<Rightarrow> None)
      else session t st g)"
  by (auto simp: session_def split: rval.splits)

lemma session_upd_idx: "is_hash g \<Longrightarrow> session t (st(userKey u := x)) g = session t st g"
  by (cases x) (auto simp: session_def)

lemma index_upd_tok: "is_hash h \<Longrightarrow> index t (st(tokenKey h := x)) u = index t st u"
  by (cases x) (auto simp: index_def members_def)

lemma session_step:
  assumes "is_hash g"
  shows "is_hash h \<Longrightarrow> session t (snd (cmd_step t (CSet (tokenKey h) (rtd_marshal d) RefreshTokenTTL) st)) g
          = (if g = h then Some d else session t st g)"
    and "is_hash h \<Longrightarrow> session t (snd (cmd_step t (CDel (tokenKey h)) st)) g
          = (if g = h then None else session t st g)"
    and "session t (snd (cmd_step t (CDel (userKey u)) st)) g = session t st g"
    and "session t (snd (cmd_step t (CSAdd (userKey u) h) st)) g = session t st g"
    and "session t (snd (cmd_step t (CSRem (userKey u) h) st)) g = session t st g"
    and "session t (snd (cmd_step t (CExpire (userKey u) ttl) st)) g = session t st g"
  using assms
  by (auto simp: session_upd_tok session_upd_idx put_set_def session_def split: option.splits rval.splits)

lemma index_step:
  assumes "rt_wf t st"
  shows "is_hash h \<Longrightarrow> index t (snd (cmd_step t (CSet (tokenKey h) p ttl) st)) w = index t st w"
    and "is_hash h \<Longrightarrow> index t (snd (cmd_step t (CDel (tokenKey h)) st)) w = index t st w"
    and "index t (snd (cmd_step t (CDel (userKey u)) st)) w = (if w = u then {} else index t st w)"
    and "index t (snd (cmd_step t (CSAdd (userKey u) h) st)) w
          = (if w = u then insert h (index t st w) else index t st w)"
    and "index t (snd (cmd_step t (CSRem (userKey u) h) st)) w
          = (if w = u then index t st w - {h} else index t st w)"
    and "index t (snd (cmd_step t (CExpire (userKey u) RefreshTokenTTL) st)) w = index t st w"
proof -
  from assms show "index t (snd (cmd_step t (CSAdd (userKey u) h) st)) w
      = (if w = u then insert h (index t st w) else index t st w)"
    by (cases rule: userKey_entry [of t st u])
      (auto simp: index_def members_def put_set_def set_add_def split: if_splits)
  from assms show "index t (snd (cmd_step t (CSRem (userKey u) h) st)) w
      = (if w = u then index t st w - {h} else index t st w)"
    by (cases rule: userKey_entry [of t st u])
      (auto simp: index_def members_def put_set_def split: if_splits)
  from assms show "index t (snd (cmd_step t (CExpire (userKey u) RefreshTokenTTL) st)) w = index t st w"
    by (cases rule: userKey_entry [of t st u])
      (auto simp: index_def members_def split: if_splits)
qed (auto simp: index_def members_def)

lemmas rt_steps = session_step index_step cmd_step_wf

section \<open>Selecting the oldest sessions\<close>

text \<open>
  The eviction loop without its Redis calls: the rearranged list after \<open>n\<close> rounds, and the hashes
  removed on the way.
\<close>

fun selectRounds :: "nat \<Rightarrow> nat \<Rightarrow> tokenAge list \<Rightarrow> tokenAge list" where
  "selectRounds 0 i ts = ts"
| "selectRounds (Suc n) i ts = selectRounds n (Suc i) (swap ts i (oldestFrom ts i (Suc i)))"

fun evictPlan :: "nat \<Rightarrow> nat \<Rightarrow> tokenAge list \<Rightarrow> string list" where
  "evictPlan 0 i ts = []"
| "evictPlan (Suc n) i ts =
     (let ts' = swap ts i (oldestFrom ts i (Suc i)) in ta_hash (ts' ! i) # evictPlan n (Suc i) ts')"

lemma oldestFrom_spec:
  "oldest < length ts \<Longrightarrow> oldest < j \<Longrightarrow>
     (oldestFrom ts oldest j = oldest \<or> j \<le> oldestFrom ts oldest j)
   \<and> oldestFrom ts oldest j < length ts
   \<and> ta_createdAt (ts ! oldestFrom ts oldest j) \<le> ta_createdAt (ts ! oldest)
   \<and> (\<forall>k. j \<le> k \<longrightarrow> k < length ts \<longrightarrow> ta_createdAt (ts ! oldestFrom ts oldest j) \<le> ta_createdAt (ts ! k))"
proof (induction ts oldest j rule: oldestFrom.induct)
  case (1 ts oldest j)
  show ?case
  proof (cases "j < length ts")
    case False
    then show ?thesis using 1(2) by (simp add: oldestFrom.simps [of ts oldest j])
  next
    case True
    let ?o = "if ta_createdAt (ts ! j) < ta_createdAt (ts ! oldest) then j else oldest"
    have eq: "oldestFrom ts oldest j = oldestFrom ts ?o (Suc j)"
      using True by (simp add: oldestFrom.simps [of ts oldest j])
    have IH: "(oldestFrom ts ?o (Suc j) = ?o \<or> Suc j \<le> oldestFrom ts ?o (Suc j))
        \<and> oldestFrom ts ?o (Suc j) < length ts
        \<and> ta_createdAt (ts ! oldestFrom ts ?o (Suc j)) \<le> ta_createdAt (ts ! ?o)
        \<and> (\<forall>k. Suc j \<le> k \<longrightarrow> k < length ts \<longrightarrow>
              ta_createdAt (ts ! oldestFrom ts ?o (Suc j)) \<le> ta_createdAt (ts ! k))"
      using 1(1) [OF True] 1(2,3) True by simp
    have "ta_createdAt (ts ! oldestFrom ts ?o (Suc j)) \<le> ta_createdAt (ts ! k)"
      if "j \<le> k" "k < length ts" for k
      using that IH by (cases "k = j") (auto split: if_splits)
    then show ?thesis using IH 1(3) by (auto simp: eq split: if_splits)
  qed
qed

lemma swap_length [simp]: "length (swap xs i j) = length xs"
  by (simp add: swap_def)

lemma swap_mset: "i < length xs \<Longrightarrow> j < length xs \<Longrightarrow> mset (swap xs i j) = mset xs"
  by (simp add: swap_def mset_swap)

lemma swap_nth:
  "i < length xs \<Longrightarrow> j < length xs \<Longrightarrow> k < length xs \<Longrightarrow>
     swap xs i j ! k = (if k = i then xs ! j else if k = j then xs ! i else xs ! k)"
  by (auto simp: swap_def nth_list_update)

lemma swap_take: "k \<le> i \<Longrightarrow> i \<le> j \<Longrightarrow> take k (swap xs i j) = take k xs"
  by (simp add: swap_def take_update_cancel)

lemma oldestFrom_bounds:
  assumes "i < length ts"
  shows "i \<le> oldestFrom ts i (Suc i)" and "oldestFrom ts i (Suc i) < length ts"
  using oldestFrom_spec [of i ts "Suc i"] assms by auto

lemma oldestFrom_least:
  "i < length ts \<Longrightarrow> i \<le> k \<Longrightarrow> k < length ts \<Longrightarrow>
     ta_createdAt (ts ! oldestFrom ts i (Suc i)) \<le> ta_createdAt (ts ! k)"
  using oldestFrom_spec [of i ts "Suc i"] by (cases "k = i") auto

lemma selectRounds_mset: "i + n \<le> length ts \<Longrightarrow> mset (selectRounds n i ts) = mset ts"
  by (induction n arbitrary: i ts) (auto simp: swap_mset oldestFrom_bounds)

lemma selectRounds_length: "i + n \<le> length ts \<Longrightarrow> length (selectRounds n i ts) = length ts"
  using selectRounds_mset mset_eq_length by blast

lemma selectRounds_take:
  "i + n \<le> length ts \<Longrightarrow> k \<le> i \<Longrightarrow> take k (selectRounds n i ts) = take k ts"
proof (induction n arbitrary: i ts)
  case (Suc n)
  then have "i < length ts" by simp
  with Suc show ?case by (simp add: swap_take oldestFrom_bounds)
qed simp

lemma selectRounds_nth:
  "i + n \<le> length ts \<Longrightarrow> k < i \<Longrightarrow> selectRounds n i ts ! k = ts ! k"
  using selectRounds_take [of i n ts "Suc k"] by (metis Suc_leI lessI nth_take)

lemma selectRounds_drop_set:
  assumes "i + n \<le> length ts"
  shows "set (drop i (selectRounds n i ts)) = set (drop i ts)"
proof -
  have "mset (take i (selectRounds n i ts)) + mset (drop i (selectRounds n i ts))
      = mset (take i ts) + mset (drop i ts)"
    using selectRounds_mset [OF assms] by (simp flip: mset_append)
  then have "mset (drop i (selectRounds n i ts)) = mset (drop i ts)"
    using selectRounds_take [OF assms, of i] by simp
  then show ?thesis by (metis set_mset_mset)
qed

text \<open>Position \<open>i\<close> holds the oldest of the rest after a round, and keeps it.\<close>

lemma selectRounds_first_least:
  assumes "i + Suc n \<le> length ts" and "i \<le> b" and "b < length ts"
  shows "ta_createdAt (selectRounds (Suc n) i ts ! i) \<le> ta_createdAt (selectRounds (Suc n) i ts ! b)"
proof -
  let ?j = "oldestFrom ts i (Suc i)"
  let ?ts = "selectRounds (Suc n) i ts"
  have i: "i < length ts" using assms by simp
  have len: "length ?ts = length ts" using selectRounds_length assms(1) by blast
  have "?ts ! i = swap ts i ?j ! i" using assms(1) by (simp add: selectRounds_nth)
  then have fst: "?ts ! i = ts ! ?j" using i oldestFrom_bounds [OF i] by (simp add: swap_nth)
  have "drop i ?ts ! (b - i) \<in> set (drop i ?ts)"
    using assms(2,3) len by (intro nth_mem) (simp del: selectRounds.simps)
  then have "?ts ! b \<in> set (drop i ?ts)"
    using assms(2,3) len by (simp del: selectRounds.simps)
  then have "?ts ! b \<in> set (drop i ts)" using selectRounds_drop_set [OF assms(1)] by blast
  then obtain m where "m < length ts - i" "?ts ! b = ts ! (i + m)"
    by (auto simp: in_set_conv_nth)
  then show ?thesis using oldestFrom_least [OF i, of "i + m"] fst by simp
qed

lemma selectRounds_sorted:
  "i + n \<le> length ts \<Longrightarrow> i \<le> a \<Longrightarrow> a < i + n \<Longrightarrow> a \<le> b \<Longrightarrow> b < length ts \<Longrightarrow>
     ta_createdAt (selectRounds n i ts ! a) \<le> ta_createdAt (selectRounds n i ts ! b)"
proof (induction n arbitrary: i ts)
  case (Suc n)
  show ?case
  proof (cases "a = i")
    case True
    then show ?thesis using selectRounds_first_least [of i n ts b] Suc.prems by simp
  next
    case False
    then show ?thesis using Suc.IH [of "Suc i" "swap ts i (oldestFrom ts i (Suc i))"] Suc.prems by simp
  qed
qed simp

lemma evictPlan_eq:
  "i + n \<le> length ts \<Longrightarrow> evictPlan n i ts = map ta_hash (take n (drop i (selectRounds n i ts)))"
proof (induction n arbitrary: i ts)
  case (Suc n)
  let ?ts = "swap ts i (oldestFrom ts i (Suc i))"
  have len: "length (selectRounds n (Suc i) ?ts) = length ts"
    using Suc.prems selectRounds_length [of "Suc i" n ?ts] by simp
  have "drop i (selectRounds n (Suc i) ?ts) = ?ts ! i # drop (Suc i) (selectRounds n (Suc i) ?ts)"
    using Suc.prems len selectRounds_nth [of "Suc i" n ?ts i] by (simp add: Cons_nth_drop_Suc [symmetric])
  then show ?case using Suc.IH [of "Suc i" ?ts] Suc.prems by (simp add: Let_def)
qed simp

text \<open>Taken together: the plan removes \<open>n\<close> of the tokens, none of them newer than one that stays.\<close>

lemma evictPlan_oldest:
  assumes "n \<le> length ts" and "distinct (map ta_hash ts)"
  shows "set (evictPlan n 0 ts) \<subseteq> ta_hash ` set ts"
    and "card (set (evictPlan n 0 ts)) = n"
    and "x \<in> set ts \<Longrightarrow> ta_hash x \<in> set (evictPlan n 0 ts) \<Longrightarrow> y \<in> set ts \<Longrightarrow>
         ta_hash y \<notin> set (evictPlan n 0 ts) \<Longrightarrow> ta_createdAt x \<le> ta_createdAt y"
proof -
  let ?ts = "selectRounds n 0 ts"
  have m: "mset ?ts = mset ts" using selectRounds_mset [of 0 n ts] assms by simp
  then have st: "set ?ts = set ts" and len: "length ?ts = length ts"
    by (metis set_mset_mset, metis mset_eq_length)
  have dist: "distinct (map ta_hash ?ts)"
    using m assms(2) by (metis mset_eq_imp_distinct_iff mset_map)
  have plan: "evictPlan n 0 ts = take n (map ta_hash ?ts)"
    using evictPlan_eq [of 0 n ts] assms(1) by (simp add: take_map)
  show "set (evictPlan n 0 ts) \<subseteq> ta_hash ` set ts"
    using plan st by (metis set_take_subset set_map)
  show "card (set (evictPlan n 0 ts)) = n"
    using plan dist assms(1) len by (simp add: distinct_card)
  show "ta_createdAt x \<le> ta_createdAt y"
    if xy: "x \<in> set ts" "ta_hash x \<in> set (evictPlan n 0 ts)" "y \<in> set ts"
      "ta_hash y \<notin> set (evictPlan n 0 ts)"
  proof -
    obtain a where a: "a < length ts" "x = ?ts ! a" using xy st len by (metis in_set_conv_nth)
    obtain b where b: "b < length ts" "y = ?ts ! b" using xy st len by (metis in_set_conv_nth)
    have mem: "ta_hash (?ts ! k) \<in> set (evictPlan n 0 ts) \<longleftrightarrow> k < n" if "k < length ts" for k
      using nth_in_take_iff [OF dist, of k n] plan len that by simp
    from mem a b xy have "a < n" "\<not> b < n" by auto
    then show ?thesis using selectRounds_sorted [of 0 n ts a b] a b assms(1) by simp
  qed
qed

section \<open>Operations on any Redis\<close>

text \<open>
  What holds whatever fails: every operation keeps the keyspace well formed, a token is accepted
  only if a live session with that fingerprint stands behind it, and a rotation happens as a whole
  or not at all.
\<close>

lemma issueCmds_rt: "is_hash h \<Longrightarrow> list_all rt_cmd (issueCmds u h (rtd_marshal d))"
  by (simp add: issueCmds_def)

lemma rotateCmds_rt:
  "is_hash h \<Longrightarrow> is_hash g \<Longrightarrow> list_all rt_cmd (rotateCmds u h g (rtd_marshal d))"
  by (simp add: rotateCmds_def)

lemma revokeCmds_rt:
  "\<forall>h \<in> set hs. is_hash h \<Longrightarrow> list_all rt_cmd (map (\<lambda>h. CDel (tokenKey h)) hs @ [CDel (userKey u)])"
  by (auto simp: list_all_iff)

lemma generateOpaqueToken_hash:
  "generateOpaqueToken sha rnd = Inr (p, h) \<Longrightarrow> h = hashToken sha p"
  by (auto simp: generateOpaqueToken_def hashToken_def Let_def split: option.splits)

lemma revokeCmds_effect:
  assumes "\<forall>h \<in> set hs. is_hash h" and "rt_wf t st"
  shows "is_hash g \<Longrightarrow> session t (snd (run_cmds t (map (\<lambda>h. CDel (tokenKey h)) hs @ [CDel (userKey u)]) st)) g =
      (if g \<in> set hs then None else session t st g)"
    and "index t (snd (run_cmds t (map (\<lambda>h. CDel (tokenKey h)) hs @ [CDel (userKey u)]) st)) w =
      (if w = u then {} else index t st w)"
proof -
  let ?run = "\<lambda>hs st. snd (run_cmds t (map (\<lambda>h. CDel (tokenKey h)) hs @ [CDel (userKey u)]) st)"
  have "(is_hash g \<longrightarrow> session t (?run hs st) g = (if g \<in> set hs then None else session t st g))
    \<and> index t (?run hs st) w = (if w = u then {} else index t st w)"
    using assms
  proof (induction hs arbitrary: st)
    case Nil
    then show ?case by (simp add: Let_def case_prod_unfold rt_steps del: cmd_step.simps)
  next
    case (Cons h hs)
    let ?st = "snd (cmd_step t (CDel (tokenKey h)) st)"
    have "rt_wf t ?st" using Cons.prems by (intro cmd_step_wf) auto
    then show ?case
      using Cons.IH [of ?st] Cons.prems
      by (auto simp: Let_def case_prod_unfold rt_steps simp del: cmd_step.simps)
  qed
  then show "is_hash g \<Longrightarrow> session t (?run hs st) g = (if g \<in> set hs then None else session t st g)"
    and "index t (?run hs st) w = (if w = u then {} else index t st w)" by auto
qed

lemma rotateCmds_effect:
  assumes "rt_wf t st" and "is_hash h" and "is_hash n"
  shows "is_hash g \<Longrightarrow> session t (snd (run_cmds t (rotateCmds u h n (rtd_marshal d)) st)) g =
      (if g = n then Some d else if g = h then None else session t st g)"
    and "index t (snd (run_cmds t (rotateCmds u h n (rtd_marshal d)) st)) w =
      (if w = u then insert n (index t st u - {h}) else index t st w)"
  using assms
  by (auto simp: rotateCmds_def Let_def case_prod_unfold rt_steps simp del: cmd_step.simps)

lemma issueCmds_effect:
  assumes "rt_wf t st" and "is_hash h"
  shows "is_hash g \<Longrightarrow> session t (snd (run_cmds t (issueCmds u h (rtd_marshal d)) st)) g =
      (if g = h then Some d else session t st g)"
    and "index t (snd (run_cmds t (issueCmds u h (rtd_marshal d)) st)) w =
      (if w = u then insert h (index t st u) else index t st w)"
  using assms
  by (auto simp: issueCmds_def Let_def case_prod_unfold rt_steps simp del: cmd_step.simps)

lemma dropCmds_effect:
  assumes "rt_wf t st" and "is_hash h"
  shows "is_hash g \<Longrightarrow> session t (snd (run_cmds t [CDel (tokenKey h), CSRem (userKey u) h] st)) g =
      (if g = h then None else session t st g)"
    and "index t (snd (run_cmds t [CDel (tokenKey h), CSRem (userKey u) h] st)) w =
      (if w = u then index t st u - {h} else index t st w)"
  using assms by (auto simp: Let_def case_prod_unfold rt_steps simp del: cmd_step.simps)

end
