(* ===== verification/Refresh_Ops.thy ===== *)
theory Refresh_Ops
  imports Refresh_Tokens
begin

text \<open>
  The operations of the refresh-token store against the interface of Redis: first what holds when
  any call may fail (\<open>redis_api\<close>), then the full behaviour when the server answers (\<open>redis_up\<close>),
  and the properties of the store drawn from both.
\<close>

section \<open>Whatever fails\<close>

context redis_api
begin

lemma Exec_wf:
  assumes "rdb_Exec R t cs s = (out, s')" and "list_all rt_cmd cs" and "rt_wf t (absr s)"
  shows "rt_wf t (absr s')"
  using Exec_any [OF assms(1)] run_cmds_wf [OF assms(2,3)] assms(3) by auto

lemma collectTokens_wf:
  "collectTokens R t (userKey u) hs s = (ts, s') \<Longrightarrow> \<forall>h \<in> set hs. is_hash h \<Longrightarrow>
     rt_wf t (absr s) \<Longrightarrow> rt_wf t (absr s')"
proof (induction hs arbitrary: s ts)
  case (Cons h hs)
  obtain o1 s1 where get: "rdb_Get R t (tokenKey h) s = (o1, s1)" by fastforce
  have wf1: "rt_wf t (absr s1)" using Get_frame [OF get] Cons.prems by simp
  obtain o2 s2 where rem: "rdb_Exec R t [CSRem (userKey u) h] s1 = (o2, s2)" by fastforce
  have "rt_wf t (absr s2)" using Exec_wf [OF rem _ wf1] Cons.prems by simp
  then show ?case
    using Cons.IH [of s2] Cons.IH [of s1] Cons.prems get rem wf1
    by (fastforce split: sum.splits prod.splits)
qed simp

lemma collectTokens_hashes:
  "collectTokens R t k hs s = (ts, s') \<Longrightarrow> ta_hash ` set ts \<subseteq> set hs"
proof (induction hs arbitrary: s ts)
  case (Cons h hs)
  then show ?case by (fastforce split: sum.splits prod.splits)
qed simp

lemma evictOldest_wf:
  "i + n \<le> length ts \<Longrightarrow> \<forall>x \<in> set ts. is_hash (ta_hash x) \<Longrightarrow> rt_wf t (absr s) \<Longrightarrow>
     rt_wf t (absr (evictOldest R t (userKey u) n i ts s))"
proof (induction n arbitrary: i ts s)
  case (Suc n)
  let ?ts = "swap ts i (oldestFrom ts i (Suc i))"
  have i: "i < length ts" using Suc.prems by simp
  have "set ?ts = set ts" using swap_mset [OF i oldestFrom_bounds(2) [OF i]] by (metis set_mset_mset)
  then have h: "\<forall>x \<in> set ?ts. is_hash (ta_hash x)" using Suc.prems by simp
  then have hi: "is_hash (ta_hash (?ts ! i))" using i by simp
  obtain out s' where ex: "rdb_Exec R t [CDel (tokenKey (ta_hash (?ts ! i))),
      CSRem (userKey u) (ta_hash (?ts ! i))] s = (out, s')" by fastforce
  have "rt_wf t (absr s')" using Exec_wf [OF ex] hi Suc.prems by simp
  then show ?case using Suc.IH [of "Suc i" ?ts s'] Suc.prems h ex by (simp add: Let_def)
qed simp

lemma enforceMaxSessions_wf:
  assumes "enforceMaxSessions R t u s = (r, s')" and "rt_wf t (absr s)"
  shows "rt_wf t (absr s')"
proof -
  obtain o1 s1 where c: "rdb_SCard R t (userKey u) s = (o1, s1)" by fastforce
  have wf1: "rt_wf t (absr s1)" using SCard_frame [OF c] assms by simp
  obtain o2 s2 where m: "rdb_SMembers R t (userKey u) s1 = (o2, s2)" by fastforce
  have wf2: "rt_wf t (absr s2)" using SMembers_frame [OF m] wf1 by simp
  show ?thesis
  proof (cases o2)
    case (Inl e)
    then show ?thesis using assms c m wf1 wf2
      by (auto simp: enforceMaxSessions_def Let_def split: sum.splits if_splits)
  next
    case (Inr hs)
    have hs: "\<forall>h \<in> set hs. is_hash h"
      using SMembers_ok [of t "userKey u" s1 hs s2] m Inr index_hash [OF wf1] by (auto simp: index_def)
    obtain ts s3 where co: "collectTokens R t (userKey u) hs s2 = (ts, s3)" by fastforce
    have wf3: "rt_wf t (absr s3)" using collectTokens_wf [OF co hs wf2] .
    have th: "\<forall>x \<in> set ts. is_hash (ta_hash x)" using collectTokens_hashes [OF co] hs by auto
    have "rt_wf t (absr (evictOldest R t (userKey u) (nat (int (length ts) - MaxSessionsPerUser)) 0 ts s3))"
      by (rule evictOldest_wf) (use th wf3 in \<open>auto simp: MaxSessionsPerUser_def\<close>)
    then show ?thesis using assms c m wf1 wf2 wf3 Inr co
      by (auto simp: enforceMaxSessions_def Let_def split: sum.splits if_splits)
  qed
qed

lemma RevokeAll_wf:
  assumes "rt_RevokeAll R t u s = (r, s')" and "rt_wf t (absr s)"
  shows "rt_wf t (absr s')"
proof -
  obtain o1 s1 where m: "rdb_SMembers R t (userKey u) s = (o1, s1)" by fastforce
  have wf1: "rt_wf t (absr s1)" using SMembers_frame [OF m] assms by simp
  show ?thesis
  proof (cases o1)
    case (Inr hs)
    have hs: "\<forall>h \<in> set hs. is_hash h"
      using SMembers_ok [of t "userKey u" s hs s1] m Inr index_hash [OF assms(2)]
      by (auto simp: index_def)
    show ?thesis using assms m Inr wf1 Exec_wf [OF _ revokeCmds_rt [OF hs] wf1]
      by (auto simp: rt_RevokeAll_def Let_def split: sum.splits if_splits prod.splits)
  qed (use assms m wf1 in \<open>auto simp: rt_RevokeAll_def\<close>)
qed

lemma Issue_wf:
  assumes "rt_Issue R sha rnd t sid u fp s = (r, s')" and "rt_wf t (absr s)"
  shows "rt_wf t (absr s')"
proof (cases "generateOpaqueToken sha rnd")
  case (Inr ph)
  obtain p h where ph: "ph = (p, h)" by fastforce
  have h: "is_hash h" using Inr ph generateOpaqueToken_hash by fastforce
  let ?d = "\<lparr>rt_SessionID = sid, rt_UserID = u, rt_Fingerprint = fp, rt_CreatedAt = t\<rparr>"
  obtain o1 s1 where ex: "rdb_Exec R t (issueCmds u h (rtd_marshal ?d)) s = (o1, s1)" by fastforce
  have wf1: "rt_wf t (absr s1)" using Exec_wf [OF ex issueCmds_rt [OF h] assms(2)] .
  obtain r2 s2 where en: "enforceMaxSessions R t u s1 = (r2, s2)" by fastforce
  have "rt_wf t (absr s2)" using enforceMaxSessions_wf [OF en wf1] .
  then show ?thesis using assms Inr ph ex en wf1
    by (auto simp: rt_Issue_def Let_def split: sum.splits)
qed (use assms in \<open>auto simp: rt_Issue_def\<close>)

lemma Verify_wf:
  assumes "rt_Verify R sha t tok fp s = (r, s')" and "rt_wf t (absr s)"
  shows "rt_wf t (absr s')"
proof -
  obtain o1 s1 where g: "rdb_Get R t (tokenKey (hashToken sha tok)) s = (o1, s1)" by fastforce
  have wf1: "rt_wf t (absr s1)" using Get_frame [OF g] assms by simp
  show ?thesis using assms g wf1 RevokeAll_wf [OF _ wf1]
    by (auto simp: rt_Verify_def Let_def split: sum.splits rerr.splits if_splits prod.splits)
qed

lemma rotateRead_wf:
  assumes "rotateRead R sha t tok fp s = (r, s')" and "rt_wf t (absr s)"
  shows "rt_wf t (absr s')"
proof -
  obtain o1 s1 where g: "rdb_Get R t (tokenKey (hashToken sha tok)) s = (o1, s1)" by fastforce
  have wf1: "rt_wf t (absr s1)" using Get_frame [OF g] assms by simp
  show ?thesis using assms g wf1 RevokeAll_wf [OF _ wf1]
    by (auto simp: rotateRead_def Let_def split: sum.splits rerr.splits if_splits prod.splits)
qed

lemma rotateSwap_wf:
  assumes "rotateSwap R sha rnd uuid t tok fp d s = (r, s')" and "rt_wf t (absr s)"
  shows "rt_wf t (absr s')"
proof (cases "generateOpaqueToken sha rnd")
  case (Inr ph)
  obtain p h where ph: "ph = (p, h)" by fastforce
  have h: "is_hash h" using Inr ph generateOpaqueToken_hash by fastforce
  show ?thesis
    using assms Inr ph Exec_wf [OF _ rotateCmds_rt [OF is_hash_hashToken h] assms(2)]
    by (auto simp: rotateSwap_def Let_def split: sum.splits prod.splits)
qed (use assms in \<open>auto simp: rotateSwap_def\<close>)

lemma Rotate_wf:
  assumes "rt_Rotate R sha rnd uuid t tok fp s = (r, s')" and "rt_wf t (absr s)"
  shows "rt_wf t (absr s')"
  using assms rotateRead_wf rotateSwap_wf
  by (fastforce simp: rt_Rotate_def split: sum.splits prod.splits)

lemma Revoke_wf:
  assumes "rt_Revoke R sha t tok s = (r, s')" and "rt_wf t (absr s)"
  shows "rt_wf t (absr s')"
proof -
  obtain o1 s1 where g: "rdb_Get R t (tokenKey (hashToken sha tok)) s = (o1, s1)" by fastforce
  have wf1: "rt_wf t (absr s1)" using Get_frame [OF g] assms by simp
  show ?thesis using assms g wf1 Exec_wf [OF _ _ wf1]
    by (auto simp: rt_Revoke_def Let_def split: sum.splits rerr.splits prod.splits)
qed

lemmas rt_ops_wf = Issue_wf Verify_wf Rotate_wf Revoke_wf RevokeAll_wf

text \<open>A token is accepted only if a live session with the presented fingerprint stands behind it.\<close>

lemma Verify_sound:
  assumes "rt_Verify R sha t tok fp s = (Inr sid, s')"
  shows "\<exists>d. session t (absr s) (hashToken sha tok) = Some d \<and> rt_Fingerprint d = fp
           \<and> rt_SessionID d = sid \<and> absr s' = absr s"
proof -
  obtain o1 s1 where g: "rdb_Get R t (tokenKey (hashToken sha tok)) s = (o1, s1)" by fastforce
  with assms obtain p d where p: "o1 = Inr p" "rtd_unmarshal p = Inr d" "rt_Fingerprint d = fp"
      "rt_SessionID d = sid" "s' = s1"
    by (auto simp: rt_Verify_def Let_def split: sum.splits rerr.splits if_splits prod.splits)
  then show ?thesis using Get_ok Get_frame g by (fastforce simp: session_def)
qed

lemma rotateRead_sound:
  assumes "rotateRead R sha t tok fp s = (Inr d, s')"
  shows "session t (absr s) (hashToken sha tok) = Some d \<and> rt_Fingerprint d = fp \<and> absr s' = absr s"
proof -
  obtain o1 s1 where g: "rdb_Get R t (tokenKey (hashToken sha tok)) s = (o1, s1)" by fastforce
  with assms obtain p where p: "o1 = Inr p" "rtd_unmarshal p = Inr d" "rt_Fingerprint d = fp" "s' = s1"
    by (auto simp: rotateRead_def Let_def split: sum.splits rerr.splits if_splits prod.splits)
  then show ?thesis using Get_ok Get_frame g by (fastforce simp: session_def)
qed

text \<open>The keyspace after a complete swap of a token for the one made from \<open>raw\<close>.\<close>

lemma Rotate_success:
  assumes "rt_Rotate R sha rnd uuid t tok fp s = (Inr (p, sid), s')"
  shows "\<exists>d raw. session t (absr s) (hashToken sha tok) = Some d \<and> rt_Fingerprint d = fp
     \<and> rnd = Some raw \<and> p = hex_encode raw \<and> sid = uuid
     \<and> absr s' = snd (run_cmds t (rotateCmds (rt_UserID d) (hashToken sha tok) (hashToken sha p)
         (rtd_marshal \<lparr>rt_SessionID = uuid, rt_UserID = rt_UserID d, rt_Fingerprint = fp, rt_CreatedAt = t\<rparr>))
         (absr s))"
proof -
  obtain d s1 where r: "rotateRead R sha t tok fp s = (Inr d, s1)"
    and w: "rotateSwap R sha rnd uuid t tok fp d s1 = (Inr (p, sid), s')"
    using assms by (auto simp: rt_Rotate_def split: sum.splits prod.splits)
  note rd = rotateRead_sound [OF r]
  obtain raw where "rnd = Some raw" "p = hex_encode raw" "sid = uuid"
    and ex: "\<exists>rs. rdb_Exec R t (rotateCmds (rt_UserID d) (hashToken sha tok) (hashToken sha p)
      (rtd_marshal \<lparr>rt_SessionID = uuid, rt_UserID = rt_UserID d, rt_Fingerprint = fp, rt_CreatedAt = t\<rparr>))
      s1 = (Inr rs, s')"
    using w by (auto simp: rotateSwap_def generateOpaqueToken_def hashToken_def Let_def
        split: option.splits sum.splits prod.splits)
  then show ?thesis using rd Exec_ok by fastforce
qed

lemma Rotate_failure:
  assumes "rt_Rotate R sha rnd uuid t tok fp s = (Inl e, s')" and "\<not> errors_Is e ErrSessionFingerprintMismatch"
  shows "absr s' = absr s \<or> (\<exists>d raw. session t (absr s) (hashToken sha tok) = Some d \<and> rt_Fingerprint d = fp
     \<and> rnd = Some raw
     \<and> absr s' = snd (run_cmds t (rotateCmds (rt_UserID d) (hashToken sha tok) (hashToken sha (hex_encode raw))
         (rtd_marshal \<lparr>rt_SessionID = uuid, rt_UserID = rt_UserID d, rt_Fingerprint = fp, rt_CreatedAt = t\<rparr>))
         (absr s)))"
proof -
  obtain o1 s1 where g: "rdb_Get R t (tokenKey (hashToken sha tok)) s = (o1, s1)" by fastforce
  note fr = Get_frame [OF g]
  obtain r s2 where r: "rotateRead R sha t tok fp s = (r, s2)" by fastforce
  show ?thesis
  proof (cases r)
    case (Inl e')
    then show ?thesis using assms r g fr
      by (auto simp: rt_Rotate_def rotateRead_def Let_def split: sum.splits rerr.splits if_splits prod.splits)
  next
    case (Inr d)
    then have rd: "session t (absr s) (hashToken sha tok) = Some d" "rt_Fingerprint d = fp" "absr s2 = absr s"
      using rotateRead_sound r by blast+
    have w: "rotateSwap R sha rnd uuid t tok fp d s2 = (Inl e, s')"
      using assms r Inr by (simp add: rt_Rotate_def)
    show ?thesis
    proof (cases rnd)
      case (Some raw)
      obtain o3 s3 where ex: "rdb_Exec R t (rotateCmds (rt_UserID d) (hashToken sha tok) (hashToken sha (hex_encode raw))
          (rtd_marshal \<lparr>rt_SessionID = uuid, rt_UserID = rt_UserID d, rt_Fingerprint = fp, rt_CreatedAt = t\<rparr>))
          s2 = (o3, s3)" by fastforce
      then have "s' = s3" using w Some
        by (auto simp: rotateSwap_def generateOpaqueToken_def hashToken_def Let_def split: sum.splits)
      then show ?thesis using Exec_any [OF ex] rd Some by auto
    qed (use w rd in \<open>auto simp: rotateSwap_def generateOpaqueToken_def\<close>)
  qed
qed

lemma RevokeAll_success:
  assumes "rt_RevokeAll R t u s = (None, s')" and wf: "rt_wf t (absr s)"
  shows "index t (absr s') w = (if w = u then {} else index t (absr s) w)"
    and "is_hash g \<Longrightarrow> session t (absr s') g =
      (if g \<in> index t (absr s) u then None else session t (absr s) g)"
proof -
  obtain o1 s1 where m: "rdb_SMembers R t (userKey u) s = (o1, s1)" by fastforce
  then obtain hs where hs: "o1 = Inr hs" using assms by (auto simp: rt_RevokeAll_def Let_def split: sum.splits)
  have st: "set hs = index t (absr s) u" and fr: "absr s1 = absr s"
    using SMembers_ok [of t "userKey u" s hs s1] SMembers_frame [OF m] m hs by (auto simp: index_def)
  then have hh: "\<forall>h \<in> set hs. is_hash h" using index_hash [OF wf] by blast
  have "(index t (absr s') w = (if w = u then {} else index t (absr s) w)) \<and>
    (is_hash g \<longrightarrow> session t (absr s') g = (if g \<in> index t (absr s) u then None else session t (absr s) g))"
  proof (cases "hs = []")
    case True
    then have "s' = s1" using assms m hs by (simp add: rt_RevokeAll_def Let_def)
    then show ?thesis using True st fr by auto
  next
    case False
    then obtain rs where "rdb_Exec R t (map (\<lambda>h. CDel (tokenKey h)) hs @ [CDel (userKey u)]) s1 = (Inr rs, s')"
      using assms m hs by (auto simp: rt_RevokeAll_def Let_def split: sum.splits prod.splits)
    then show ?thesis
      using Exec_ok revokeCmds_effect [OF hh wf] fr st by simp
  qed
  then show "index t (absr s') w = (if w = u then {} else index t (absr s) w)"
    and "is_hash g \<Longrightarrow> session t (absr s') g =
      (if g \<in> index t (absr s) u then None else session t (absr s) g)" by auto
qed

text \<open>
  Nothing but \<open>Issue\<close> and \<open>Rotate\<close> writes a token: enforcing the session limit leaves a token key
  as it was, with its expiry, or deletes it.
\<close>

lemma Exec_kept:
  assumes "rdb_Exec R t cs s = (out, s')" and "set cs \<subseteq> range CDel \<union> (\<lambda>(u, h). CSRem (userKey u) h) ` UNIV"
    and "is_hash g"
  shows "absr s' (tokenKey g) \<in> {absr s (tokenKey g), None}"
proof -
  have kept: "snd (run_cmds t cs st) (tokenKey g) \<in> {st (tokenKey g), None}" for st
    using assms(2)
  proof (induction cs arbitrary: st)
    case (Cons c cs)
    have "snd (cmd_step t c st) (tokenKey g) \<in> {st (tokenKey g), None}"
      using Cons.prems assms(3)
      by (auto simp: put_set_def split: option.splits rval.splits if_splits)
    then show ?case using Cons.IH [of "snd (cmd_step t c st)"] Cons.prems
      by (auto simp: Let_def case_prod_unfold)
  qed simp
  show ?thesis using Exec_any [OF assms(1)] kept [of "absr s"] by auto
qed

lemma collectTokens_kept:
  "collectTokens R t (userKey u) hs s = (ts, s') \<Longrightarrow> is_hash g \<Longrightarrow>
     absr s' (tokenKey g) \<in> {absr s (tokenKey g), None}"
proof (induction hs arbitrary: s ts)
  case (Cons h hs)
  obtain o1 s1 where get: "rdb_Get R t (tokenKey h) s = (o1, s1)" by fastforce
  obtain o2 s2 where rem: "rdb_Exec R t [CSRem (userKey u) h] s1 = (o2, s2)" by fastforce
  have "absr s2 (tokenKey g) \<in> {absr s1 (tokenKey g), None}"
    by (rule Exec_kept [OF rem]) (use Cons.prems in auto)
  then show ?case
    using Cons.IH [of s2] Cons.IH [of s1] Cons.prems get rem Get_frame [OF get]
    by (fastforce split: sum.splits prod.splits)
qed simp

lemma evictOldest_kept:
  "is_hash g \<Longrightarrow> absr (evictOldest R t (userKey u) n i ts s) (tokenKey g) \<in> {absr s (tokenKey g), None}"
proof (induction n arbitrary: i ts s)
  case (Suc n)
  let ?ts = "swap ts i (oldestFrom ts i (Suc i))"
  obtain out s' where ex: "rdb_Exec R t [CDel (tokenKey (ta_hash (?ts ! i))),
      CSRem (userKey u) (ta_hash (?ts ! i))] s = (out, s')" by fastforce
  have "absr s' (tokenKey g) \<in> {absr s (tokenKey g), None}"
    by (rule Exec_kept [OF ex]) (use Suc.prems in auto)
  then show ?case using Suc.IH [of "Suc i" ?ts s'] Suc.prems ex by (auto simp: Let_def)
qed simp

lemma enforceMaxSessions_kept:
  assumes "enforceMaxSessions R t u s = (r, s')" and "is_hash g"
  shows "absr s' (tokenKey g) \<in> {absr s (tokenKey g), None}"
proof -
  obtain o1 s1 where c: "rdb_SCard R t (userKey u) s = (o1, s1)" by fastforce
  obtain o2 s2 where m: "rdb_SMembers R t (userKey u) s1 = (o2, s2)" by fastforce
  have fr: "absr s2 = absr s" "absr s1 = absr s" using SCard_frame [OF c] SMembers_frame [OF m] by simp_all
  show ?thesis
  proof (cases o2)
    case (Inr hs)
    obtain ts s3 where co: "collectTokens R t (userKey u) hs s2 = (ts, s3)" by fastforce
    show ?thesis
      using assms c m fr Inr co collectTokens_kept [OF co assms(2)] evictOldest_kept [OF assms(2), of t u "nat (int (length ts) - MaxSessionsPerUser)" 0 ts s3]
      by (auto simp: enforceMaxSessions_def Let_def split: sum.splits if_splits)
  qed (use assms c m fr in \<open>auto simp: enforceMaxSessions_def Let_def split: sum.splits if_splits\<close>)
qed

end

section \<open>When the server answers\<close>

text \<open>
  The contract of the session limit, independent of how the oldest sessions are found: at most five
  indexed sessions remain, a session taken out of the index is dead and not newer than one that
  stays, and nothing else changes.
\<close>

definition limited :: "gotime \<Rightarrow> string \<Rightarrow> rstore \<Rightarrow> rstore \<Rightarrow> bool" where
  "limited t u st st' \<longleftrightarrow>
     index t st' u \<subseteq> index t st u
   \<and> finite (index t st u) \<and> card (index t st' u) \<le> 5
   \<and> (\<forall>w. w \<noteq> u \<longrightarrow> index t st' w = index t st w)
   \<and> (\<forall>g. is_hash g \<longrightarrow> session t st' g = (if g \<in> index t st u - index t st' u then None else session t st g))
   \<and> (\<forall>x \<in> index t st u - index t st' u. \<forall>y \<in> index t st' u. \<forall>d e. session t st x = Some d \<longrightarrow>
        session t st y = Some e \<longrightarrow> rt_CreatedAt d \<le> rt_CreatedAt e)
   \<and> (card (index t st u) \<le> 5 \<longrightarrow> index t st' u = index t st u)
   \<and> (5 < card (index t st u) \<longrightarrow>
        card (index t st' u) = min 5 (card {h \<in> index t st u. session t st h \<noteq> None})
      \<and> (\<forall>y \<in> index t st' u. session t st y \<noteq> None))"

text \<open>All indexed sessions of a user were created before an instant.\<close>

definition older :: "gotime \<Rightarrow> string \<Rightarrow> rstore \<Rightarrow> bool" where
  "older t u st \<longleftrightarrow> (\<forall>g \<in> index t st u. \<forall>e. session t st g = Some e \<longrightarrow> rt_CreatedAt e < t)"

text \<open>A live session that is newer than every other one survives the limit.\<close>

lemma limited_newest:
  assumes lim: "limited t u st st'" and h: "h \<in> index t st u" "session t st h = Some d"
    and new: "\<And>g e. g \<in> index t st u \<Longrightarrow> g \<noteq> h \<Longrightarrow> session t st g = Some e \<Longrightarrow> rt_CreatedAt e < rt_CreatedAt d"
  shows "h \<in> index t st' u"
proof (rule ccontr)
  assume out: "h \<notin> index t st' u"
  then have big: "5 < card (index t st u)" using lim h by (fastforce simp: limited_def)
  let ?L = "{g \<in> index t st u. session t st g \<noteq> None}"
  have "finite ?L" "h \<in> ?L" using lim h by (auto simp: limited_def)
  then have "0 < card (index t st' u)" using lim big by (auto simp: limited_def card_gt_0_iff)
  then obtain y where y': "y \<in> index t st' u" by (fastforce simp: card_gt_0_iff)
  then have "session t st y \<noteq> None" "y \<in> index t st u" using lim big unfolding limited_def by blast+
  with y' obtain e where y: "y \<in> index t st' u" "y \<in> index t st u" "session t st y = Some e" by blast
  have "h \<in> index t st u - index t st' u" using h out by simp
  then have "rt_CreatedAt d \<le> rt_CreatedAt e" using lim y h(2) unfolding limited_def by blast
  moreover have "y \<noteq> h" using y(1) out by blast
  ultimately show False using new [OF y(2) _ y(3)] by simp
qed

context redis_up
begin

lemma Exec_rt_up:
  assumes "list_all rt_cmd cs" and "rt_wf t (absr s)"
  obtains rs s' where "rdb_Exec R t cs s = (Inr rs, s')" "absr s' = snd (run_cmds t cs (absr s))"
    "rt_wf t (absr s')"
proof -
  obtain rs s' where r: "rdb_Exec R t cs s = (Inr rs, s')" "absr s' = snd (run_cmds t cs (absr s))"
    using Exec_up [OF run_cmds_typed [OF assms]] by blast
  then show thesis using that Exec_wf [OF r(1) assms] by blast
qed

lemma Get_session_up:
  assumes "rt_wf t (absr s)" and "is_hash h"
  obtains (dead) s' where "rdb_Get R t (tokenKey h) s = (Inl RedisNil, s')" "absr s' = absr s"
      "session t (absr s) h = None"
    | (alive) p d s' where "rdb_Get R t (tokenKey h) s = (Inr p, s')" "absr s' = absr s"
      "rtd_unmarshal p = Inr d" "session t (absr s) h = Some d"
proof (cases "session t (absr s) h")
  case None
  then show ?thesis using dead Get_up_none [of t s "tokenKey h"] rt_wf_session [OF assms] by metis
next
  case (Some d)
  then show ?thesis using alive Get_up_some [of t s "tokenKey h"] by (metis sessionE)
qed

lemma collectTokens_up:
  assumes "rt_wf t (absr s)" and "\<forall>h \<in> set hs. is_hash h"
  shows "\<exists>ts s'. collectTokens R t (userKey u) hs s = (ts, s') \<and> rt_wf t (absr s')
    \<and> ts = map (\<lambda>h. \<lparr>ta_hash = h, ta_createdAt = rt_CreatedAt (the (session t (absr s) h))\<rparr>)
             (filter (\<lambda>h. session t (absr s) h \<noteq> None) hs)
    \<and> (\<forall>g. is_hash g \<longrightarrow> session t (absr s') g = session t (absr s) g)
    \<and> (\<forall>w. index t (absr s') w =
         (if w = u then index t (absr s) u - {h \<in> set hs. session t (absr s) h = None} else index t (absr s) w))"
  using assms
proof (induction hs arbitrary: s)
  case (Cons h hs)
  have wf: "rt_wf t (absr s)" and h: "is_hash h" and hs: "\<forall>h \<in> set hs. is_hash h" using Cons.prems by auto
  from wf h show ?case
  proof (cases rule: Get_session_up)
    case (dead s1)
    obtain rs s2 where ex: "rdb_Exec R t [CSRem (userKey u) h] s1 = (Inr rs, s2)"
        "absr s2 = snd (run_cmds t [CSRem (userKey u) h] (absr s1))" "rt_wf t (absr s2)"
      using Exec_rt_up [of "[CSRem (userKey u) h]" t s1] dead wf h by auto
    have st: "session t (absr s2) g = session t (absr s) g" if "is_hash g" for g
      using ex(2) dead(2) that by (simp add: Let_def case_prod_unfold rt_steps del: cmd_step.simps)
    have ix: "index t (absr s2) w = (if w = u then index t (absr s) u - {h} else index t (absr s) w)" for w
      using ex(2) dead(2) wf by (simp add: Let_def case_prod_unfold rt_steps del: cmd_step.simps)
    obtain ts s' where "collectTokens R t (userKey u) hs s2 = (ts, s')" "rt_wf t (absr s')"
      "ts = map (\<lambda>h. \<lparr>ta_hash = h, ta_createdAt = rt_CreatedAt (the (session t (absr s2) h))\<rparr>)
             (filter (\<lambda>h. session t (absr s2) h \<noteq> None) hs)"
      "\<forall>g. is_hash g \<longrightarrow> session t (absr s') g = session t (absr s2) g"
      "\<forall>w. index t (absr s') w =
         (if w = u then index t (absr s2) u - {h \<in> set hs. session t (absr s2) h = None} else index t (absr s2) w)"
      using Cons.IH [OF ex(3) hs] by blast
    then show ?thesis using dead ex(1) st ix hs
      by (intro exI [of _ ts] exI [of _ s']) (auto cong: filter_cong map_cong)
  next
    case (alive p d s1)
    obtain ts s' where "collectTokens R t (userKey u) hs s1 = (ts, s')" "rt_wf t (absr s')"
      "ts = map (\<lambda>h. \<lparr>ta_hash = h, ta_createdAt = rt_CreatedAt (the (session t (absr s1) h))\<rparr>)
             (filter (\<lambda>h. session t (absr s1) h \<noteq> None) hs)"
      "\<forall>g. is_hash g \<longrightarrow> session t (absr s') g = session t (absr s1) g"
      "\<forall>w. index t (absr s') w =
         (if w = u then index t (absr s1) u - {h \<in> set hs. session t (absr s1) h = None} else index t (absr s1) w)"
      using Cons.IH [of s1] alive(2) wf hs by auto
    then show ?thesis using alive by auto
  qed
qed simp

lemma evictOldest_up:
  assumes "i + n \<le> length ts" and "\<forall>x \<in> set ts. is_hash (ta_hash x)" and "rt_wf t (absr s)"
  shows "(\<forall>g. is_hash g \<longrightarrow> session t (absr (evictOldest R t (userKey u) n i ts s)) g =
        (if g \<in> set (evictPlan n i ts) then None else session t (absr s) g))
    \<and> (\<forall>w. index t (absr (evictOldest R t (userKey u) n i ts s)) w =
        (if w = u then index t (absr s) u - set (evictPlan n i ts) else index t (absr s) w))"
  using assms
proof (induction n arbitrary: i ts s)
  case (Suc n)
  let ?ts = "swap ts i (oldestFrom ts i (Suc i))"
  let ?cs = "[CDel (tokenKey (ta_hash (?ts ! i))), CSRem (userKey u) (ta_hash (?ts ! i))]"
  have i: "i < length ts" using Suc.prems by simp
  have "set ?ts = set ts" using swap_mset [OF i oldestFrom_bounds(2) [OF i]] by (metis set_mset_mset)
  then have h: "\<forall>x \<in> set ?ts. is_hash (ta_hash x)" using Suc.prems by simp
  then have hi: "is_hash (ta_hash (?ts ! i))" using i by simp
  obtain rs s' where ex: "rdb_Exec R t ?cs s = (Inr rs, s')" "absr s' = snd (run_cmds t ?cs (absr s))"
      "rt_wf t (absr s')"
    using Exec_rt_up [of ?cs t s] hi Suc.prems by auto
  have ev: "evictOldest R t (userKey u) (Suc n) i ts s = evictOldest R t (userKey u) n (Suc i) ?ts s'"
    using ex(1) by (simp add: Let_def)
  have "session t (absr s') g = (if g = ta_hash (?ts ! i) then None else session t (absr s) g)"
    if "is_hash g" for g
    using dropCmds_effect(1) [OF Suc.prems(3) hi that] ex(2) by simp
  moreover have "index t (absr s') w =
      (if w = u then index t (absr s) u - {ta_hash (?ts ! i)} else index t (absr s) w)" for w
    using dropCmds_effect(2) [OF Suc.prems(3) hi] ex(2) by simp
  ultimately show ?case
    using Suc.IH [of "Suc i" ?ts s'] Suc.prems(1) h ex(3) unfolding ev by (auto simp: Let_def)
qed simp

text \<open>The pure part of the session limit: removing the planned tokens from the live members of an index
  of more than five leaves the five newest.\<close>

lemma evictPlan_limited:
  fixes t :: gotime and db db' :: rstore and hs :: "string list"
  defines "L \<equiv> filter (\<lambda>h. session t db h \<noteq> None) hs"
  defines "ts \<equiv> map (\<lambda>h. \<lparr>ta_hash = h, ta_createdAt = rt_CreatedAt (the (session t db h))\<rparr>) L"
  defines "E \<equiv> set (evictPlan (length L - 5) 0 ts)"
  assumes hs: "set hs = index t db u" "distinct hs" and big: "5 < card (index t db u)"
    and sess: "\<And>g. is_hash g \<Longrightarrow> session t db' g = (if g \<in> E then None else session t db g)"
    and ind: "\<And>w. index t db' w = (if w = u then set L - E else index t db w)"
  shows "limited t u db db'"
proof -
  have ts: "map ta_hash ts = L" "distinct (map ta_hash ts)" "length ts = length L"
    using hs(2) by (simp_all add: ts_def comp_def L_def)
  have age: "\<lparr>ta_hash = h, ta_createdAt = rt_CreatedAt d\<rparr> \<in> set ts" if "h \<in> set L" "session t db h = Some d" for h d
    using that by (force simp: ts_def)
  have L: "set L = {h \<in> index t db u. session t db h \<noteq> None}" using hs(1) by (auto simp: L_def)
  have "length L - 5 \<le> length ts" using ts by simp
  note plan = evictPlan_oldest [OF this ts(2), folded E_def]
  have E: "E \<subseteq> set L" using plan(1) ts(1) by (metis set_map)
  have "card (set L) = length L" using hs(2) by (intro distinct_card) (simp add: L_def)
  then have "card (set L - E) = min 5 (card (set L))"
    using E plan(2) by (simp add: card_Diff_subset finite_subset [OF E])
  moreover have "rt_CreatedAt d \<le> rt_CreatedAt e"
    if "x \<in> E" "y \<in> set L - E" "session t db x = Some d" "session t db y = Some e" for x y d e
    using plan(3) [OF age _ age, of x d y e] that E by auto
  moreover have "finite (index t db u)" using hs(1) by (metis List.finite_set)
  ultimately show ?thesis unfolding limited_def using sess ind L E big by auto
qed

lemma enforceMaxSessions_up:
  assumes wf: "rt_wf t (absr s)"
  shows "\<exists>s'. enforceMaxSessions R t u s = (None, s') \<and> rt_wf t (absr s') \<and> limited t u (absr s) (absr s')"
proof -
  let ?I = "index t (absr s) u" and ?S = "session t (absr s)"
  have fin: "finite ?I" by (simp add: index_def members_def split: option.split rval.split)
  obtain s1 where c: "rdb_SCard R t (userKey u) s = (Inr (int (card ?I)), s1)" "absr s1 = absr s"
    using SCard_up [OF rt_wf_set_key [OF wf]] unfolding index_def by blast
  show ?thesis
  proof (cases "card ?I \<le> 5")
    case True
    then show ?thesis using c wf fin
      by (auto simp: enforceMaxSessions_def MaxSessionsPerUser_def limited_def)
  next
    case False
    obtain hs s2 where m: "rdb_SMembers R t (userKey u) s1 = (Inr hs, s2)" "absr s2 = absr s"
        "set hs = ?I" "distinct hs"
      using SMembers_up [of t s1 "userKey u"] rt_wf_set_key [OF wf, of u] c(2) unfolding index_def by auto
    have hh: "\<forall>h \<in> set hs. is_hash h" using m(3) index_hash [OF wf] by blast
    define L where "L = filter (\<lambda>h. ?S h \<noteq> None) hs"
    define ts where "ts = map (\<lambda>h. \<lparr>ta_hash = h, ta_createdAt = rt_CreatedAt (the (?S h))\<rparr>) L"
    have L: "?I - {h \<in> set hs. ?S h = None} = set L" using m(3) by (auto simp: L_def)
    have ts: "length ts = length L" "\<forall>x \<in> set ts. is_hash (ta_hash x)" using hh by (auto simp: ts_def L_def)
    obtain s3 where co: "collectTokens R t (userKey u) hs s2 = (ts, s3)" "rt_wf t (absr s3)"
        "\<And>g. is_hash g \<Longrightarrow> session t (absr s3) g = ?S g"
        "\<And>w. index t (absr s3) w = (if w = u then set L else index t (absr s) w)"
      using collectTokens_up [of t s2 hs u] m(2) wf hh unfolding ts_def L_def [symmetric] L [symmetric] by (auto simp: L_def)
    let ?n = "length L - 5"
    define E where "E = set (evictPlan ?n 0 ts)"
    define s4 where "s4 = (if length L \<le> 5 then s3 else evictOldest R t (userKey u) ?n 0 ts s3)"
    have run: "enforceMaxSessions R t u s = (None, s4)"
      using c m co(1) ts(1) False
      by (auto simp: enforceMaxSessions_def MaxSessionsPerUser_def Let_def s4_def nat_diff_distrib)
    have evs: "rt_wf t (absr s4)" "\<And>g. is_hash g \<Longrightarrow> session t (absr s4) g = (if g \<in> E then None else ?S g)"
        "\<And>w. index t (absr s4) w = (if w = u then set L - E else index t (absr s) w)"
      using enforceMaxSessions_wf [OF run wf] evictOldest_up [of 0 ?n ts t s3 u] co(2-4) ts
      by (auto simp: s4_def E_def)
    have "limited t u (absr s) (absr s4)"
      using evictPlan_limited [OF m(3,4)] False evs(2,3) unfolding E_def ts_def L_def by simp
    then show ?thesis using run evs(1) by blast
  qed
qed

lemma RevokeAll_up:
  assumes wf: "rt_wf t (absr s)"
  obtains s' where "rt_RevokeAll R t u s = (None, s')" "rt_wf t (absr s')"
    "\<And>w. index t (absr s') w = (if w = u then {} else index t (absr s) w)"
    "\<And>g. is_hash g \<Longrightarrow> session t (absr s') g =
       (if g \<in> index t (absr s) u then None else session t (absr s) g)"
proof -
  obtain hs s1 where m: "rdb_SMembers R t (userKey u) s = (Inr hs, s1)" "absr s1 = absr s"
      "set hs = index t (absr s) u" "distinct hs"
    using SMembers_up [OF rt_wf_set_key [OF wf]] unfolding index_def by metis
  have hh: "\<forall>h \<in> set hs. is_hash h" using m(3) index_hash [OF wf] by blast
  obtain rs s2 where "rdb_Exec R t (map (\<lambda>h. CDel (tokenKey h)) hs @ [CDel (userKey u)]) s1 = (Inr rs, s2)"
    using Exec_rt_up [OF revokeCmds_rt [OF hh]] m(2) wf by metis
  then obtain s' where r: "rt_RevokeAll R t u s = (None, s')"
    using m(1) by (cases "hs = []") (auto simp: rt_RevokeAll_def Let_def)
  show thesis using that [OF r RevokeAll_wf [OF r wf] RevokeAll_success [OF r wf]] .
qed

lemma Issue_up:
  fixes sha :: "bytes \<Rightarrow> bytes" and raw :: bytes and sid fp :: string
  assumes wf: "rt_wf t (absr s)" and old: "older t u (absr s)"
  defines "h \<equiv> hashToken sha (hex_encode raw)"
    and "d \<equiv> \<lparr>rt_SessionID = sid, rt_UserID = u, rt_Fingerprint = fp, rt_CreatedAt = t\<rparr>"
  shows "\<exists>s1 s'. rt_Issue R sha (Some raw) t sid u fp s = (Inr (hex_encode raw), s')
    \<and> rt_wf t (absr s') \<and> absr s1 = snd (run_cmds t (issueCmds u h (rtd_marshal d)) (absr s))
    \<and> limited t u (absr s1) (absr s') \<and> h \<in> index t (absr s') u
    \<and> absr s' (tokenKey h) = Some \<lparr>rv = RStr (rtd_marshal d), rexp = Some (t + RefreshTokenTTL)\<rparr>"
proof -
  have hash: "is_hash h" by (simp add: h_def)
  obtain rs s1 where ex: "rdb_Exec R t (issueCmds u h (rtd_marshal d)) s = (Inr rs, s1)"
      "absr s1 = snd (run_cmds t (issueCmds u h (rtd_marshal d)) (absr s))" "rt_wf t (absr s1)"
    using Exec_rt_up [OF issueCmds_rt [OF hash] wf] by blast
  obtain s' where en: "enforceMaxSessions R t u s1 = (None, s')" "rt_wf t (absr s')"
      "limited t u (absr s1) (absr s')"
    using enforceMaxSessions_up [OF ex(3)] by blast
  note eff = issueCmds_effect [OF wf hash, where u = u and d = d, folded ex(2)]
  have hd: "session t (absr s1) h = Some d" "h \<in> index t (absr s1) u" using eff hash by simp_all
  have h': "h \<in> index t (absr s') u"
    by (rule limited_newest [OF en(3) hd(2,1)])
      (use eff(1) [OF index_hash [OF ex(3)]] eff(2) [of u] old in \<open>auto simp: d_def older_def\<close>)
  have "session t (absr s') h \<noteq> None" using en(3) hash h' hd by (auto simp: limited_def)
  then have "absr s' (tokenKey h) \<noteq> None" by (auto simp: session_def live_def entry_def split: option.splits)
  then have "absr s' (tokenKey h) = absr s1 (tokenKey h)"
    using enforceMaxSessions_kept [OF en(1) hash] by auto
  also have "\<dots> = Some \<lparr>rv = RStr (rtd_marshal d), rexp = Some (t + RefreshTokenTTL)\<rparr>"
    using hash by (auto simp: ex(2) issueCmds_def Let_def case_prod_unfold put_set_def
        split: option.splits rval.splits)
  finally have key: "absr s' (tokenKey h) = Some \<lparr>rv = RStr (rtd_marshal d), rexp = Some (t + RefreshTokenTTL)\<rparr>" .
  have "rt_Issue R sha (Some raw) t sid u fp s = (Inr (hex_encode raw), s')"
    using ex(1) en(1) by (simp add: rt_Issue_def generateOpaqueToken_def hashToken_def h_def d_def Let_def)
  then show ?thesis using en ex(2) h' key by blast
qed

text \<open>The outcome of a verification and of the reading half of a rotation is decided by the session.\<close>

lemma Verify_up_none:
  assumes "live t (absr s) (tokenKey (hashToken sha tok)) = None"
  obtains s' where "rt_Verify R sha t tok fp s = (Inl (Sentinel ErrSessionNotFound), s')" "absr s' = absr s"
proof -
  obtain s' where "rdb_Get R t (tokenKey (hashToken sha tok)) s = (Inl RedisNil, s')" "absr s' = absr s"
    using Get_up_none [OF assms] .
  then show thesis using that [of s'] by (simp add: rt_Verify_def Let_def)
qed

lemma Verify_up_match:
  assumes "session t (absr s) (hashToken sha tok) = Some d"
  obtains s' where "rt_Verify R sha t tok (rt_Fingerprint d) s = (Inr (rt_SessionID d), s')" "absr s' = absr s"
proof -
  obtain p where p: "live t (absr s) (tokenKey (hashToken sha tok)) = Some (RStr p)" "rtd_unmarshal p = Inr d"
    using sessionE [OF assms] .
  obtain s' where "rdb_Get R t (tokenKey (hashToken sha tok)) s = (Inr p, s')" "absr s' = absr s"
    using Get_up_some [OF p(1)] .
  then show thesis using p(2) that [of s'] by (simp add: rt_Verify_def Let_def)
qed

lemma Verify_up_mismatch:
  assumes "session t (absr s) (hashToken sha tok) = Some d" and "rt_Fingerprint d \<noteq> fp"
    and "rt_wf t (absr s)"
  obtains s' where "rt_Verify R sha t tok fp s = (Inl (Sentinel ErrSessionFingerprintMismatch), s')"
    "index t (absr s') (rt_UserID d) = {}"
    "\<And>g. is_hash g \<Longrightarrow> session t (absr s') g =
       (if g \<in> index t (absr s) (rt_UserID d) then None else session t (absr s) g)"
proof -
  obtain p where p: "live t (absr s) (tokenKey (hashToken sha tok)) = Some (RStr p)" "rtd_unmarshal p = Inr d"
    using sessionE [OF assms(1)] .
  obtain s1 where g: "rdb_Get R t (tokenKey (hashToken sha tok)) s = (Inr p, s1)" "absr s1 = absr s"
    using Get_up_some [OF p(1)] .
  obtain s' where r: "rt_RevokeAll R t (rt_UserID d) s1 = (None, s')"
    "\<And>w. index t (absr s') w = (if w = rt_UserID d then {} else index t (absr s1) w)"
    "\<And>g. is_hash g \<Longrightarrow> session t (absr s') g =
       (if g \<in> index t (absr s1) (rt_UserID d) then None else session t (absr s1) g)"
    using RevokeAll_up [of t s1 "rt_UserID d"] g(2) assms(3) by metis
  show thesis by (rule that [of s']) (use r g p assms(2) in \<open>auto simp: rt_Verify_def Let_def\<close>)
qed

lemma rotateRead_up:
  assumes "session t (absr s) (hashToken sha tok) = Some d"
  obtains s' where "rotateRead R sha t tok (rt_Fingerprint d) s = (Inr d, s')" "absr s' = absr s"
proof -
  obtain p where p: "live t (absr s) (tokenKey (hashToken sha tok)) = Some (RStr p)" "rtd_unmarshal p = Inr d"
    using sessionE [OF assms] .
  obtain s' where "rdb_Get R t (tokenKey (hashToken sha tok)) s = (Inr p, s')" "absr s' = absr s"
    using Get_up_some [OF p(1)] .
  then show thesis using p(2) that [of s'] by (simp add: rotateRead_def Let_def)
qed

lemma rotateRead_mismatch:
  assumes "session t (absr s) (hashToken sha tok) = Some d" and "rt_Fingerprint d \<noteq> fp"
    and "rt_wf t (absr s)"
  obtains s' where "rotateRead R sha t tok fp s = (Inl (Sentinel ErrSessionFingerprintMismatch), s')"
    "index t (absr s') (rt_UserID d) = {}"
    "\<And>g. is_hash g \<Longrightarrow> session t (absr s') g =
       (if g \<in> index t (absr s) (rt_UserID d) then None else session t (absr s) g)"
proof -
  obtain p where p: "live t (absr s) (tokenKey (hashToken sha tok)) = Some (RStr p)" "rtd_unmarshal p = Inr d"
    using sessionE [OF assms(1)] .
  obtain s1 where g: "rdb_Get R t (tokenKey (hashToken sha tok)) s = (Inr p, s1)" "absr s1 = absr s"
    using Get_up_some [OF p(1)] .
  obtain s' where r: "rt_RevokeAll R t (rt_UserID d) s1 = (None, s')"
    "\<And>w. index t (absr s') w = (if w = rt_UserID d then {} else index t (absr s1) w)"
    "\<And>g. is_hash g \<Longrightarrow> session t (absr s') g =
       (if g \<in> index t (absr s1) (rt_UserID d) then None else session t (absr s1) g)"
    using RevokeAll_up [of t s1 "rt_UserID d"] g(2) assms(3) by metis
  show thesis by (rule that [of s']) (use r g p assms(2) in \<open>auto simp: rotateRead_def Let_def\<close>)
qed

lemma Rotate_up:
  assumes d: "session t (absr s) (hashToken sha tok) = Some d" and wf: "rt_wf t (absr s)"
  obtains s' where "rt_Rotate R sha (Some raw) uuid t tok (rt_Fingerprint d) s = (Inr (hex_encode raw, uuid), s')"
proof -
  let ?cs = "rotateCmds (rt_UserID d) (hashToken sha tok) (hashToken sha (hex_encode raw))
     (rtd_marshal \<lparr>rt_SessionID = uuid, rt_UserID = rt_UserID d, rt_Fingerprint = rt_Fingerprint d, rt_CreatedAt = t\<rparr>)"
  obtain s1 where r: "rotateRead R sha t tok (rt_Fingerprint d) s = (Inr d, s1)" "absr s1 = absr s"
    using rotateRead_up [OF d] .
  obtain rs s2 where "rdb_Exec R t ?cs s1 = (Inr rs, s2)"
    using Exec_rt_up [of ?cs t s1] rotateCmds_rt wf r(2) by (metis is_hash_hashToken)
  then show thesis using r(1) that
    by (simp add: rt_Rotate_def rotateSwap_def generateOpaqueToken_def hashToken_def Let_def)
qed

lemma Revoke_up:
  fixes sha :: "bytes \<Rightarrow> bytes" and tok :: string
  assumes wf: "rt_wf t (absr s)"
  defines "h \<equiv> hashToken sha tok"
  obtains s' where "rt_Revoke R sha t tok s = (None, s')" "rt_wf t (absr s')"
    "\<And>g. is_hash g \<Longrightarrow> session t (absr s') g = (if g = h then None else session t (absr s) g)"
    "\<And>w. index t (absr s') w = (case session t (absr s) h of
        Some d \<Rightarrow> if w = rt_UserID d then index t (absr s) w - {h} else index t (absr s) w
      | None \<Rightarrow> index t (absr s) w)"
proof -
  have hash: "is_hash h" by (simp add: h_def)
  from wf hash show thesis
  proof (cases rule: Get_session_up)
    case (dead s')
    then show ?thesis using that [of s'] wf by (auto simp: rt_Revoke_def Let_def h_def)
  next
    case (alive p d s1)
    let ?cs = "[CDel (tokenKey h), CSRem (userKey (rt_UserID d)) h]"
    obtain rs s' where ex: "rdb_Exec R t ?cs s1 = (Inr rs, s')" "absr s' = snd (run_cmds t ?cs (absr s1))"
        "rt_wf t (absr s')"
      using Exec_rt_up [of ?cs t s1] hash alive wf by auto
    have "rt_Revoke R sha t tok s = (None, s')"
      using alive ex(1) by (simp add: rt_Revoke_def Let_def h_def)
    then show ?thesis
      by (rule that) (use ex dropCmds_effect [OF wf hash] alive in auto)
  qed
qed

end

end
