(* ===== verification/Refresh_Properties.thy ===== *)
theory Refresh_Properties
  imports Refresh_Ops
begin

text \<open>
  The properties of the refresh-token store. Those about success need a Redis that answers
  (\<open>redis_up\<close>), those about safety hold whatever call fails (\<open>redis_api\<close>). The requests of concurrent
  clients are sequences of steps of \<open>rt_step\<close>, in which the two halves of a rotation are steps of
  their own.
\<close>

section \<open>Interleaved requests\<close>

record 's rt_system =
  store :: 's
  clock :: gotime
  pending :: "(string \<times> string \<times> refreshTokenData) list"

text \<open>
  One step of the system: a request, or half of a rotation, at an instant that is not earlier than
  the last one. The pending list holds the rotations whose first half has succeeded.
\<close>

inductive rt_step :: "'s redis \<Rightarrow> (bytes \<Rightarrow> bytes) \<Rightarrow> 's rt_system \<Rightarrow> 's rt_system \<Rightarrow> bool"
  for R :: "'s redis" and sha :: "bytes \<Rightarrow> bytes" where
  issue: "clock c \<le> t \<Longrightarrow> rt_Issue R sha rnd t sid u fp (store c) = (out, s') \<Longrightarrow>
     rt_step R sha c (c\<lparr>store := s', clock := t\<rparr>)"
| verify: "clock c \<le> t \<Longrightarrow> rt_Verify R sha t tok fp (store c) = (out, s') \<Longrightarrow>
     rt_step R sha c (c\<lparr>store := s', clock := t\<rparr>)"
| rotate_refused: "clock c \<le> t \<Longrightarrow> rotateRead R sha t tok fp (store c) = (Inl e, s') \<Longrightarrow>
     rt_step R sha c (c\<lparr>store := s', clock := t\<rparr>)"
| rotate_read: "clock c \<le> t \<Longrightarrow> rotateRead R sha t tok fp (store c) = (Inr d, s') \<Longrightarrow>
     rt_step R sha c (c\<lparr>store := s', clock := t, pending := (tok, fp, d) # pending c\<rparr>)"
| rotate_swap: "clock c \<le> t \<Longrightarrow> pending c = ps @ (tok, fp, d) # qs \<Longrightarrow>
     rotateSwap R sha rnd uuid t tok fp d (store c) = (out, s') \<Longrightarrow>
     rt_step R sha c (c\<lparr>store := s', clock := t, pending := ps @ qs\<rparr>)"
| revoke: "clock c \<le> t \<Longrightarrow> rt_Revoke R sha t tok (store c) = (out, s') \<Longrightarrow>
     rt_step R sha c (c\<lparr>store := s', clock := t\<rparr>)"
| revoke_all: "clock c \<le> t \<Longrightarrow> rt_RevokeAll R t u (store c) = (out, s') \<Longrightarrow>
     rt_step R sha c (c\<lparr>store := s', clock := t\<rparr>)"

inductive rt_run :: "'s redis \<Rightarrow> (bytes \<Rightarrow> bytes) \<Rightarrow> 's rt_system \<Rightarrow> 's rt_system \<Rightarrow> bool"
  for R :: "'s redis" and sha :: "bytes \<Rightarrow> bytes" where
  refl: "rt_run R sha c c"
| step: "rt_run R sha a b \<Longrightarrow> rt_step R sha b c \<Longrightarrow> rt_run R sha a c"

inductive_cases rt_stepE: "rt_step R sha c c'"

text \<open>Time does not go back.\<close>

lemma step_clock: "rt_step R sha c c' \<Longrightarrow> clock c \<le> clock c'"
  by (erule rt_stepE) simp_all

lemma run_clock: "rt_run R sha a b \<Longrightarrow> clock a \<le> clock b"
  by (induction rule: rt_run.induct) (auto dest: step_clock)

context redis_api
begin

lemma step_wf:
  "rt_step R sha c c' \<Longrightarrow> rt_wf (clock c) (absr (store c)) \<Longrightarrow> rt_wf (clock c') (absr (store c'))"
proof (induction rule: rt_step.induct)
  case (issue c t rnd sid u fp out s')
  then show ?case using Issue_wf [OF issue(2) rt_wf_later] by auto
next
  case (verify c t tok fp out s')
  then show ?case using Verify_wf [OF verify(2) rt_wf_later] by auto
next
  case (rotate_refused c t tok fp e s')
  then show ?case using rotateRead_wf [OF rotate_refused(2) rt_wf_later] by auto
next
  case (rotate_read c t tok fp d s')
  then show ?case using rotateRead_wf [OF rotate_read(2) rt_wf_later] by auto
next
  case (rotate_swap c t ps tok fp d qs rnd uuid out s')
  then show ?case using rotateSwap_wf [OF rotate_swap(3) rt_wf_later] by auto
next
  case (revoke c t tok out s')
  then show ?case using Revoke_wf [OF revoke(2) rt_wf_later] by auto
next
  case (revoke_all c t u out s')
  then show ?case using RevokeAll_wf [OF revoke_all(2) rt_wf_later] by auto
qed

lemma run_wf:
  "rt_run R sha a b \<Longrightarrow> rt_wf (clock a) (absr (store a)) \<Longrightarrow> rt_wf (clock b) (absr (store b))"
  by (induction rule: rt_run.induct) (auto dest: step_wf)

lemma Rotate_outcome:
  assumes run: "rt_Rotate R sha rnd uuid t tok fp s = (out, s')" and wf: "rt_wf t (absr s)"
    and ok: "\<And>e. out = Inl e \<Longrightarrow> \<not> errors_Is e ErrSessionFingerprintMismatch"
    and fresh: "\<And>raw. rnd = Some raw \<Longrightarrow> hashToken sha (hex_encode raw) \<noteq> hashToken sha tok"
  shows "(absr s' = absr s \<and> (\<exists>e. out = Inl e)) \<or>
    (\<exists>d raw. session t (absr s) (hashToken sha tok) = Some d \<and> rt_Fingerprint d = fp \<and> rnd = Some raw
      \<and> (out = Inr (hex_encode raw, uuid) \<or> (\<exists>e. out = Inl e))
      \<and> session t (absr s') (hashToken sha tok) = None
      \<and> session t (absr s') (hashToken sha (hex_encode raw)) =
          Some \<lparr>rt_SessionID = uuid, rt_UserID = rt_UserID d, rt_Fingerprint = fp, rt_CreatedAt = t\<rparr>
      \<and> (\<forall>g. is_hash g \<longrightarrow> g \<notin> {hashToken sha tok, hashToken sha (hex_encode raw)} \<longrightarrow>
            session t (absr s') g = session t (absr s) g)
      \<and> index t (absr s') (rt_UserID d) =
          insert (hashToken sha (hex_encode raw)) (index t (absr s) (rt_UserID d) - {hashToken sha tok}))"
proof (cases "absr s' = absr s \<and> (\<exists>e. out = Inl e)")
  case False
  then obtain d raw where d: "session t (absr s) (hashToken sha tok) = Some d" "rt_Fingerprint d = fp" "rnd = Some raw"
      "out = Inr (hex_encode raw, uuid) \<or> (\<exists>e. out = Inl e)"
      "absr s' = snd (run_cmds t (rotateCmds (rt_UserID d) (hashToken sha tok) (hashToken sha (hex_encode raw))
         (rtd_marshal \<lparr>rt_SessionID = uuid, rt_UserID = rt_UserID d, rt_Fingerprint = fp, rt_CreatedAt = t\<rparr>))
         (absr s))"
    using Rotate_success [of sha rnd uuid t tok fp s] Rotate_failure [of sha rnd uuid t tok fp s] run ok
    by (cases out) fastforce+
  note eff = rotateCmds_effect [OF wf is_hash_hashToken [of sha tok] is_hash_hashToken [of sha "hex_encode raw"],
      where u = "rt_UserID d" and d = "\<lparr>rt_SessionID = uuid, rt_UserID = rt_UserID d, rt_Fingerprint = fp, rt_CreatedAt = t\<rparr>",
      folded d(5)]
  have "hashToken sha (hex_encode raw) \<noteq> hashToken sha tok" using fresh d(3) by blast
  with d eff(1) eff(2) [of "rt_UserID d"] show ?thesis by fastforce
qed simp

end

section \<open>Shared facts\<close>

lemma dead_later:
  assumes "session t st h = None" and "rt_wf t st" and "is_hash h" and "t \<le> t'"
  shows "live t' st (tokenKey h) = None"
  using live_expired_mono [OF _ assms(4)] rt_wf_session [OF assms(2,3)] assms(1) by blast

lemma session_at:
  "st (tokenKey h) = Some \<lparr>rv = RStr (rtd_marshal d), rexp = Some x\<rparr> \<Longrightarrow>
     session t st h = (if t < x then Some d else None)"
  by (simp add: session_def live_def entry_def)

lemma live_at:
  "st k = Some \<lparr>rv = v, rexp = Some x\<rparr> \<Longrightarrow> x \<le> t \<Longrightarrow> live t st k = None"
  by (simp add: live_def entry_def)

lemma rotated_key:
  assumes "is_hash h" and "is_hash n"
  shows "snd (run_cmds t (rotateCmds u h n p) st) (tokenKey n) =
     Some \<lparr>rv = RStr p, rexp = Some (t + RefreshTokenTTL)\<rparr>"
  using assms by (auto simp: rotateCmds_def Let_def case_prod_unfold put_set_def split: option.splits rval.splits)

lemma rt_wf_empty [simp]: "rt_wf t (\<lambda>_. None)"
  by (simp add: rt_wf_def live_def entry_def)

lemma view_empty [simp]: "session t (\<lambda>_. None) h = None" "index t (\<lambda>_. None) u = {}"
  by (simp_all add: session_def index_def members_def live_def entry_def)

text \<open>
  A small keyspace for concrete runs: the user \<open>u\<close> holds one session, made from the token \<open>6b\<close> by a
  client with the fingerprint \<open>f\<close>; the hash function is the identity.
\<close>

definition ex_data :: refreshTokenData where
  "ex_data = \<lparr>rt_SessionID = ''s'', rt_UserID = ''u'', rt_Fingerprint = ''f'', rt_CreatedAt = 0\<rparr>"

definition ex_hash :: string where
  "ex_hash = hashToken (\<lambda>b. b) ''6b''"

definition ex_store :: rstore where
  "ex_store = (\<lambda>_. None)(tokenKey ex_hash \<mapsto> \<lparr>rv = RStr (rtd_marshal ex_data), rexp = Some 1000\<rparr>,
     userKey ''u'' \<mapsto> \<lparr>rv = RSet [ex_hash], rexp = Some 1000\<rparr>)"

lemma ex_is_hash [simp]: "is_hash ex_hash"
  by (simp add: ex_hash_def)

lemma ex_wf: "rt_wf t ex_store"
  unfolding ex_store_def by (intro rt_wf_upd_idx rt_wf_upd_tok) auto

lemma ex_views:
  "t < 1000 \<Longrightarrow> session t ex_store ex_hash = Some ex_data"
  "t < 1000 \<Longrightarrow> index t ex_store ''u'' = {ex_hash}"
  by (simp_all add: ex_store_def session_def index_def members_def)

lemma ex_hex: "hex_encode ''key'' = ''6b6579''"
  by code_simp

lemma ex_old: "older 5 ''u'' ex_store"
  by (auto simp: older_def ex_views ex_data_def)

section \<open>Properties\<close>

text \<open>C1: A refresh token that was issued is accepted with its fingerprint, giving back the session
  it was issued for, at every instant of its seven days of life, and is unknown afterwards. The
  sessions the user already had must be older than the issuing instant (with a clock that stands
  still the session limit could pick the new token).\<close>

theorem refresh_issue_verify:
  assumes up: "redis_up R absr" and wf: "rt_wf t (absr s)"
    and old: "older t u (absr s)"
  shows "\<exists>s'. rt_Issue R sha (Some raw) t sid u fp s = (Inr (hex_encode raw), s')
    \<and> (\<forall>t'. t \<le> t' \<longrightarrow> t' < t + RefreshTokenTTL \<longrightarrow>
          (\<exists>s''. rt_Verify R sha t' (hex_encode raw) fp s' = (Inr sid, s'')))
    \<and> (\<forall>t'. t + RefreshTokenTTL \<le> t' \<longrightarrow>
          (\<exists>s''. rt_Verify R sha t' (hex_encode raw) fp s' = (Inl (Sentinel ErrSessionNotFound), s'')))"
proof -
  let ?h = "hashToken sha (hex_encode raw)"
  let ?d = "\<lparr>rt_SessionID = sid, rt_UserID = u, rt_Fingerprint = fp, rt_CreatedAt = t\<rparr>"
  obtain s' where iss: "rt_Issue R sha (Some raw) t sid u fp s = (Inr (hex_encode raw), s')"
    and key: "absr s' (tokenKey ?h) = Some \<lparr>rv = RStr (rtd_marshal ?d), rexp = Some (t + RefreshTokenTTL)\<rparr>"
    using redis_up.Issue_up [OF up wf old, of sha raw sid fp] by blast
  have "\<exists>s''. rt_Verify R sha t' (hex_encode raw) fp s' = (Inr sid, s'')" if "t' < t + RefreshTokenTTL" for t'
    using redis_up.Verify_up_match [OF up, of t' s' sha "hex_encode raw" ?d]
      session_at [of "absr s'" ?h ?d "t + RefreshTokenTTL" t', OF key] that by auto
  moreover have "\<exists>s''. rt_Verify R sha t' (hex_encode raw) fp s' = (Inl (Sentinel ErrSessionNotFound), s'')"
    if "t + RefreshTokenTTL \<le> t'" for t'
    using redis_up.Verify_up_none [OF up live_at [of "absr s'" "tokenKey ?h", OF key that]] by metis
  ultimately show ?thesis using iss by blast
qed

theorem refresh_issue_verify_witness:
  "\<exists>s'. rt_Issue pure_redis (\<lambda>b. b) (Some ''key'') 5 ''s2'' ''u'' ''f'' ex_store = (Inr ''6b6579'', s')
    \<and> (\<exists>s''. rt_Verify pure_redis (\<lambda>b. b) 9 ''6b6579'' ''f'' s' = (Inr ''s2'', s''))"
  using refresh_issue_verify [of pure_redis "\<lambda>st. st" 5 ex_store "''u''" "\<lambda>b. b" "''key''" "''s2''" "''f''",
      OF pure.redis_up_axioms ex_wf ex_old]
  by (auto simp: ex_hex RefreshTokenTTL_def)



text \<open>C6: Whatever fails in Redis, a token is accepted only if a session with the presented
  fingerprint is stored under its hash and has not expired, the caller gets that session's id, and
  the store is left as it was.\<close>

theorem refresh_verify_sound:
  assumes "redis_api R absr" and "rt_Verify R sha t tok fp s = (Inr sid, s')"
  shows "\<exists>d. session t (absr s) (hashToken sha tok) = Some d \<and> rt_Fingerprint d = fp
           \<and> rt_SessionID d = sid \<and> absr s' = absr s"
  using assms by (rule redis_api.Verify_sound)

lemma ex_verify: "rt_Verify pure_redis (\<lambda>b. b) 5 ''6b'' ''f'' ex_store = (Inr ''s'', ex_store)"
proof -
  have "live 5 ex_store (tokenKey (hashToken (\<lambda>b. b) ''6b'')) = Some (RStr (rtd_marshal ex_data))"
    by (simp add: ex_store_def ex_hash_def)
  then show ?thesis
    by (simp add: rt_Verify_def rdb_Get_def rdb_value_def pure_redis_def reply_result_def ex_data_def)
qed

theorem refresh_verify_sound_witness:
  "\<exists>d. session 5 ex_store ex_hash = Some d \<and> rt_Fingerprint d = ''f'' \<and> rt_SessionID d = ''s''"
  using refresh_verify_sound [OF pure.redis_api_axioms ex_verify] by (auto simp: ex_hash_def)

text \<open>C5: Whatever fails in Redis, a rotation that is not refused for its fingerprint happens as a
  whole or not at all. Either the store is unchanged and the caller gets an error, or the presented
  token is dead, the new one stands for the same user with the new session id, every other session
  is as it was and the index lists the new token in place of the old one. Success is reported only
  in the second case.\<close>

theorem refresh_rotate_atomic:
  assumes "redis_api R absr" and "rt_Rotate R sha rnd uuid t tok fp s = (out, s')" and "rt_wf t (absr s)"
    and "\<And>e. out = Inl e \<Longrightarrow> \<not> errors_Is e ErrSessionFingerprintMismatch"
    and "\<And>raw. rnd = Some raw \<Longrightarrow> hashToken sha (hex_encode raw) \<noteq> hashToken sha tok"
  shows "(absr s' = absr s \<and> (\<exists>e. out = Inl e)) \<or>
    (\<exists>d raw. session t (absr s) (hashToken sha tok) = Some d \<and> rt_Fingerprint d = fp \<and> rnd = Some raw
      \<and> (out = Inr (hex_encode raw, uuid) \<or> (\<exists>e. out = Inl e))
      \<and> session t (absr s') (hashToken sha tok) = None
      \<and> session t (absr s') (hashToken sha (hex_encode raw)) =
          Some \<lparr>rt_SessionID = uuid, rt_UserID = rt_UserID d, rt_Fingerprint = fp, rt_CreatedAt = t\<rparr>
      \<and> (\<forall>g. is_hash g \<longrightarrow> g \<notin> {hashToken sha tok, hashToken sha (hex_encode raw)} \<longrightarrow>
            session t (absr s') g = session t (absr s) g)
      \<and> index t (absr s') (rt_UserID d) =
          insert (hashToken sha (hex_encode raw)) (index t (absr s) (rt_UserID d) - {hashToken sha tok}))"
  using assms by (rule redis_api.Rotate_outcome)

text \<open>The reply of the transaction is lost: the caller sees an error, the swap has happened.\<close>

lemma ex_rotate_lost:
  "\<exists>s'. rt_Rotate faulty_redis (\<lambda>b. b) (Some ''n'') ''s2'' 5 ''6b'' ''f''
      \<lparr>keyspace = ex_store, faults = [NoFault, FailAfter]\<rparr> =
    (Inl (Wrapf ''refreshTokenStore.Rotate: redis exec'' (Opaque ''i/o timeout'')), s')"
proof -
  have "live 5 ex_store (tokenKey (hashToken (\<lambda>b. b) ''6b'')) = Some (RStr (rtd_marshal ex_data))"
    by (simp add: ex_store_def ex_hash_def)
  then show ?thesis
    by (simp add: rt_Rotate_def rotateRead_def rotateSwap_def rdb_Get_def rdb_value_def rdb_Exec_def
        reply_result_def ex_data_def generateOpaqueToken_def infra_def Let_def)
qed

theorem refresh_rotate_atomic_witness:
  "\<exists>s'. rt_Rotate faulty_redis (\<lambda>b. b) (Some ''n'') ''s2'' 5 ''6b'' ''f''
      \<lparr>keyspace = ex_store, faults = [NoFault, FailAfter]\<rparr> =
    (Inl (Wrapf ''refreshTokenStore.Rotate: redis exec'' (Opaque ''i/o timeout'')), s')
    \<and> (keyspace s' = ex_store \<or> session 5 (keyspace s') ex_hash = None)"
proof -
  obtain s' where r: "rt_Rotate faulty_redis (\<lambda>b. b) (Some ''n'') ''s2'' 5 ''6b'' ''f''
      \<lparr>keyspace = ex_store, faults = [NoFault, FailAfter]\<rparr> =
    (Inl (Wrapf ''refreshTokenStore.Rotate: redis exec'' (Opaque ''i/o timeout'')), s')"
    using ex_rotate_lost by blast
  have "hex_encode ''n'' \<noteq> ''6b''" by code_simp
  then show ?thesis using refresh_rotate_atomic [OF net.redis_api_axioms r] r
    by (auto simp: ex_wf ex_hash_def hashToken_def)
qed

text \<open>C15: After a rotation the old token is refused at every later instant and the new one is
  accepted for seven days.\<close>

theorem refresh_rotate_replay:
  assumes up: "redis_up R absr" and wf: "rt_wf t (absr s)"
    and d: "session t (absr s) (hashToken sha tok) = Some d"
    and fresh: "hashToken sha (hex_encode raw) \<noteq> hashToken sha tok"
  shows "\<exists>s'. rt_Rotate R sha (Some raw) uuid t tok (rt_Fingerprint d) s = (Inr (hex_encode raw, uuid), s')
    \<and> (\<forall>t' fp. t \<le> t' \<longrightarrow> (\<exists>s''. rt_Verify R sha t' tok fp s' = (Inl (Sentinel ErrSessionNotFound), s'')))
    \<and> (\<forall>t'. t' < t + RefreshTokenTTL \<longrightarrow>
         (\<exists>s''. rt_Verify R sha t' (hex_encode raw) (rt_Fingerprint d) s' = (Inr uuid, s'')))"
proof -
  let ?n = "hashToken sha (hex_encode raw)"
  let ?d = "\<lparr>rt_SessionID = uuid, rt_UserID = rt_UserID d, rt_Fingerprint = rt_Fingerprint d, rt_CreatedAt = t\<rparr>"
  have api: "redis_api R absr" using up by (simp add: redis_up_def)
  obtain s' where rot: "rt_Rotate R sha (Some raw) uuid t tok (rt_Fingerprint d) s = (Inr (hex_encode raw, uuid), s')"
    using redis_up.Rotate_up [OF up d wf] by metis
  then have st: "absr s' = snd (run_cmds t (rotateCmds (rt_UserID d) (hashToken sha tok) ?n (rtd_marshal ?d)) (absr s))"
    using redis_api.Rotate_success [OF api rot] d by fastforce
  have wf': "rt_wf t (absr s')" using redis_api.Rotate_wf [OF api rot wf] .
  have "session t (absr s') (hashToken sha tok) = None"
    using rotateCmds_effect(1) [OF wf is_hash_hashToken is_hash_hashToken is_hash_hashToken] fresh st by simp
  then have old: "live t' (absr s') (tokenKey (hashToken sha tok)) = None" if "t \<le> t'" for t'
    using dead_later [OF _ wf' _ that] by simp
  have key: "absr s' (tokenKey ?n) = Some \<lparr>rv = RStr (rtd_marshal ?d), rexp = Some (t + RefreshTokenTTL)\<rparr>"
    using rotated_key st by simp
  have "\<exists>s''. rt_Verify R sha t' (hex_encode raw) (rt_Fingerprint d) s' = (Inr uuid, s'')"
    if "t' < t + RefreshTokenTTL" for t'
    using redis_up.Verify_up_match [OF up, of t' s' sha "hex_encode raw" ?d]
      session_at [of "absr s'" ?n ?d "t + RefreshTokenTTL" t', OF key] that by auto
  moreover have "\<exists>s''. rt_Verify R sha t' tok fp s' = (Inl (Sentinel ErrSessionNotFound), s'')" if "t \<le> t'" for t' fp
    using redis_up.Verify_up_none [OF up old [OF that]] by metis
  ultimately show ?thesis using rot by blast
qed

theorem refresh_rotate_replay_witness:
  "\<exists>s'. rt_Rotate pure_redis (\<lambda>b. b) (Some ''key'') ''s2'' 5 ''6b'' ''f'' ex_store = (Inr (''6b6579'', ''s2''), s')
    \<and> (\<exists>s''. rt_Verify pure_redis (\<lambda>b. b) 7 ''6b'' ''f'' s' = (Inl (Sentinel ErrSessionNotFound), s''))
    \<and> (\<exists>s''. rt_Verify pure_redis (\<lambda>b. b) 7 ''6b6579'' ''f'' s' = (Inr ''s2'', s''))"
proof -
  have "session 5 ex_store (hashToken (\<lambda>b. b) ''6b'') = Some ex_data" using ex_views(1) [of 5] by (simp add: ex_hash_def)
  moreover have "hashToken (\<lambda>b. b) (hex_encode ''key'') \<noteq> hashToken (\<lambda>b. b) ''6b''" by code_simp
  ultimately show ?thesis
    using refresh_rotate_replay [of pure_redis "\<lambda>st. st" 5 ex_store "\<lambda>b. b" "''6b''" ex_data "''key''" "''s2''",
        OF pure.redis_up_axioms ex_wf]
    by (fastforce simp: ex_hex ex_data_def RefreshTokenTTL_def)
qed

text \<open>Whatever fails in Redis, when RevokeAll reports success every session listed under the user
  is dead, the user's index is empty, and no other session or index has changed.\<close>

theorem refresh_revoke_all_complete:
  assumes "redis_api R absr" and "rt_RevokeAll R t u s = (None, s')" and "rt_wf t (absr s)"
  shows "(\<forall>h \<in> index t (absr s) u. session t (absr s') h = None)
    \<and> (\<forall>g. is_hash g \<longrightarrow> g \<notin> index t (absr s) u \<longrightarrow> session t (absr s') g = session t (absr s) g)
    \<and> (\<forall>w. index t (absr s') w = (if w = u then {} else index t (absr s) w))"
  using redis_api.RevokeAll_success [OF assms] index_hash [OF assms(3)] by simp

theorem refresh_revoke_all_complete_witness:
  "\<exists>s'. rt_RevokeAll pure_redis 5 ''u'' ex_store = (None, s') \<and> session 5 s' ex_hash = None"
proof -
  obtain s' where "rt_RevokeAll pure_redis 5 ''u'' ex_store = (None, s')"
    using pure.RevokeAll_up [OF ex_wf] by metis
  with refresh_revoke_all_complete [OF pure.redis_api_axioms this] ex_wf ex_views(2) [of 5] show ?thesis by auto
qed

text \<open>A token presented with another fingerprint is refused, and the theft alarm revokes every
  indexed session of its owner: none of the tokens listed for the owner is accepted afterwards.\<close>

theorem refresh_theft_revokes_all:
  assumes up: "redis_up R absr" and wf: "rt_wf t (absr s)"
    and d: "session t (absr s) (hashToken sha tok) = Some d" and fp: "rt_Fingerprint d \<noteq> fp"
  shows "\<exists>s'. rt_Verify R sha t tok fp s = (Inl (Sentinel ErrSessionFingerprintMismatch), s')
    \<and> index t (absr s') (rt_UserID d) = {}
    \<and> (\<forall>tok' fp' t'. hashToken sha tok' \<in> index t (absr s) (rt_UserID d) \<longrightarrow> t \<le> t' \<longrightarrow>
         (\<exists>s''. rt_Verify R sha t' tok' fp' s' = (Inl (Sentinel ErrSessionNotFound), s'')))"
proof -
  have api: "redis_api R absr" using up by (simp add: redis_up_def)
  obtain s' where v: "rt_Verify R sha t tok fp s = (Inl (Sentinel ErrSessionFingerprintMismatch), s')"
      "index t (absr s') (rt_UserID d) = {}"
      "\<And>g. is_hash g \<Longrightarrow> session t (absr s') g =
         (if g \<in> index t (absr s) (rt_UserID d) then None else session t (absr s) g)"
    using redis_up.Verify_up_mismatch [OF up d fp wf] by metis
  have "\<exists>s''. rt_Verify R sha t' tok' fp' s' = (Inl (Sentinel ErrSessionNotFound), s'')"
    if "hashToken sha tok' \<in> index t (absr s) (rt_UserID d)" "t \<le> t'" for tok' fp' t'
    using redis_up.Verify_up_none [OF up dead_later [OF _ redis_api.Verify_wf [OF api v(1) wf] _ that(2)]]
      v(3) that(1) by (metis is_hash_hashToken)
  then show ?thesis using v by blast
qed

theorem refresh_theft_revokes_all_witness:
  "\<exists>s'. rt_Verify pure_redis (\<lambda>b. b) 5 ''6b'' ''thief'' ex_store =
        (Inl (Sentinel ErrSessionFingerprintMismatch), s')
    \<and> (\<exists>s''. rt_Verify pure_redis (\<lambda>b. b) 6 ''6b'' ''f'' s' = (Inl (Sentinel ErrSessionNotFound), s''))"
proof -
  have "session 5 ex_store (hashToken (\<lambda>b. b) ''6b'') = Some ex_data"
    "hashToken (\<lambda>b. b) ''6b'' \<in> index 5 ex_store (rt_UserID ex_data)" "rt_Fingerprint ex_data \<noteq> ''thief''"
    using ex_views [of 5] by (simp_all add: ex_hash_def ex_data_def)
  then show ?thesis
    using refresh_theft_revokes_all [of pure_redis "\<lambda>st. st" 5 ex_store "\<lambda>b. b" "''6b''" ex_data "''thief''",
        OF pure.redis_up_axioms ex_wf] by fastforce
qed

text \<open>Logging out ends the session of the presented token for good and touches no other session;
  a second logout with the same token succeeds and changes nothing.\<close>

theorem refresh_revoke_idempotent:
  assumes up: "redis_up R absr" and wf: "rt_wf t (absr s)"
  shows "\<exists>s'. rt_Revoke R sha t tok s = (None, s')
    \<and> (\<forall>g. is_hash g \<longrightarrow> g \<noteq> hashToken sha tok \<longrightarrow> session t (absr s') g = session t (absr s) g)
    \<and> (\<forall>t' fp. t \<le> t' \<longrightarrow>
         (\<exists>s''. rt_Verify R sha t' tok fp s' = (Inl (Sentinel ErrSessionNotFound), s''))
       \<and> (\<exists>s''. rt_Revoke R sha t' tok s' = (None, s'') \<and> absr s'' = absr s'))"
proof -
  obtain s' where r: "rt_Revoke R sha t tok s = (None, s')" "rt_wf t (absr s')"
      "\<And>g. is_hash g \<Longrightarrow> session t (absr s') g = (if g = hashToken sha tok then None else session t (absr s) g)"
    using redis_up.Revoke_up [OF up wf, of sha tok] by metis
  have dead: "live t' (absr s') (tokenKey (hashToken sha tok)) = None" if "t \<le> t'" for t'
    using dead_later [OF _ r(2) _ that] r(3) by simp
  have "\<exists>s''. rt_Revoke R sha t' tok s' = (None, s'') \<and> absr s'' = absr s'" if le: "t \<le> t'" for t'
  proof -
    obtain s'' where "rdb_Get R t' (tokenKey (hashToken sha tok)) s' = (Inl RedisNil, s'')" "absr s'' = absr s'"
      by (rule redis_up.Get_up_none [OF up dead [OF le]])
    then show ?thesis by (simp add: rt_Revoke_def)
  qed
  moreover have "\<exists>s''. rt_Verify R sha t' tok fp s' = (Inl (Sentinel ErrSessionNotFound), s'')"
    if "t \<le> t'" for t' fp
    using redis_up.Verify_up_none [OF up dead [OF that]] by metis
  ultimately show ?thesis using r(1,3) by (intro exI [of _ s']) auto
qed

theorem refresh_revoke_idempotent_witness:
  "\<exists>s'. rt_Revoke pure_redis (\<lambda>b. b) 5 ''6b'' ex_store = (None, s')
    \<and> (\<exists>s''. rt_Verify pure_redis (\<lambda>b. b) 6 ''6b'' ''f'' s' = (Inl (Sentinel ErrSessionNotFound), s''))"
  using refresh_revoke_idempotent [of pure_redis "\<lambda>st. st" 5 ex_store "\<lambda>b. b" "''6b''",
      OF pure.redis_up_axioms ex_wf] by fastforce



section \<open>What the store does not guarantee\<close>

text \<open>Rotation is not protected against a second use of the same token at the same time. When
  two rotations both read the token before either swaps it, both succeed, and two different refresh
  tokens are live afterwards: the swap deletes the old key without checking that it was there.\<close>

theorem refresh_concurrent_rotation:
  assumes up: "redis_up R absr" and wf: "rt_wf t (absr s)"
    and d: "session t (absr s) (hashToken sha tok) = Some d"
    and fresh: "distinct [hashToken sha tok, hashToken sha (hex_encode raw1), hashToken sha (hex_encode raw2)]"
  shows "\<exists>s1 s2 s3 s4. rotateRead R sha t tok (rt_Fingerprint d) s = (Inr d, s1)
    \<and> rotateRead R sha t tok (rt_Fingerprint d) s1 = (Inr d, s2)
    \<and> rotateSwap R sha (Some raw1) id1 t tok (rt_Fingerprint d) d s2 = (Inr (hex_encode raw1, id1), s3)
    \<and> rotateSwap R sha (Some raw2) id2 t tok (rt_Fingerprint d) d s3 = (Inr (hex_encode raw2, id2), s4)
    \<and> session t (absr s4) (hashToken sha (hex_encode raw1)) \<noteq> None
    \<and> session t (absr s4) (hashToken sha (hex_encode raw2)) \<noteq> None"
proof -
  let ?c = "\<lambda>raw i. rotateCmds (rt_UserID d) (hashToken sha tok) (hashToken sha (hex_encode raw)) (rtd_marshal
     \<lparr>rt_SessionID = i, rt_UserID = rt_UserID d, rt_Fingerprint = rt_Fingerprint d, rt_CreatedAt = t\<rparr>)"
  have rt: "list_all rt_cmd (?c raw i)" for raw i by (simp add: rotateCmds_rt)
  obtain s1 where r1: "rotateRead R sha t tok (rt_Fingerprint d) s = (Inr d, s1)" "absr s1 = absr s"
    by (rule redis_up.rotateRead_up [OF up d])
  then have "session t (absr s1) (hashToken sha tok) = Some d" using d by simp
  from redis_up.rotateRead_up [OF up this]
  obtain s2 where r2: "rotateRead R sha t tok (rt_Fingerprint d) s1 = (Inr d, s2)" "absr s2 = absr s1" .
  have wf2: "rt_wf t (absr s2)" using wf r1 r2 by simp
  from redis_up.Exec_rt_up [OF up rt [of raw1 id1] wf2]
  obtain q1 s3 where e1: "rdb_Exec R t (?c raw1 id1) s2 = (Inr q1, s3)"
    "absr s3 = snd (run_cmds t (?c raw1 id1) (absr s2))" "rt_wf t (absr s3)" .
  from redis_up.Exec_rt_up [OF up rt [of raw2 id2] e1(3)]
  obtain q2 s4 where e2: "rdb_Exec R t (?c raw2 id2) s3 = (Inr q2, s4)"
    "absr s4 = snd (run_cmds t (?c raw2 id2) (absr s3))" "rt_wf t (absr s4)" .
  have "session t (absr s4) (hashToken sha (hex_encode raw2)) \<noteq> None"
    "session t (absr s4) (hashToken sha (hex_encode raw1)) \<noteq> None"
    using rotateCmds_effect(1) [OF e1(3)] rotateCmds_effect(1) [OF wf2] e1(2) e2(2) fresh by auto
  then show ?thesis using r1(1) r2(1) e1(1) e2(1)
    by (simp add: rotateSwap_def generateOpaqueToken_def hashToken_def Let_def)
qed

theorem refresh_concurrent_rotation_witness:
  "\<exists>s1 s2 s3 s4. rotateRead pure_redis (\<lambda>b. b) 5 ''6b'' ''f'' ex_store = (Inr ex_data, s1)
    \<and> rotateRead pure_redis (\<lambda>b. b) 5 ''6b'' ''f'' s1 = (Inr ex_data, s2)
    \<and> rotateSwap pure_redis (\<lambda>b. b) (Some ''key'') ''s1'' 5 ''6b'' ''f'' ex_data s2 = (Inr (hex_encode ''key'', ''s1''), s3)
    \<and> rotateSwap pure_redis (\<lambda>b. b) (Some ''lock'') ''s2'' 5 ''6b'' ''f'' ex_data s3 = (Inr (hex_encode ''lock'', ''s2''), s4)"
proof -
  have "session 5 ex_store (hashToken (\<lambda>b. b) ''6b'') = Some ex_data" using ex_views(1) [of 5] by (simp add: ex_hash_def)
  moreover have "distinct [hashToken (\<lambda>b. b) ''6b'', hashToken (\<lambda>b. b) (hex_encode ''key''),
      hashToken (\<lambda>b. b) (hex_encode ''lock'')]" by code_simp
  moreover have "rt_Fingerprint ex_data = ''f''" by (simp add: ex_data_def)
  ultimately show ?thesis
    using refresh_concurrent_rotation [of pure_redis "\<lambda>st. st" 5 ex_store "\<lambda>b. b" "''6b''" ex_data "''key''" "''lock''"
        "''s1''" "''s2''", OF pure.redis_up_axioms ex_wf] by metis
qed

text \<open>A rotated token can outlive the index it is listed in, because only Issue renews the
  lifetime of the index. From the instant at which the index expires, RevokeAll reports success and
  leaves the rotated token alive.\<close>

theorem refresh_index_expires_first:
  assumes up: "redis_up R absr" and wf: "rt_wf t (absr s)"
    and d: "session t (absr s) (hashToken sha tok) = Some d"
    and ix: "absr s (userKey (rt_UserID d)) = Some \<lparr>rv = RSet ms, rexp = Some x\<rparr>" and x: "t < x"
    and keep: "g \<in> set ms" "g \<noteq> hashToken sha tok"
  shows "\<exists>s'. rt_Rotate R sha (Some raw) uuid t tok (rt_Fingerprint d) s = (Inr (hex_encode raw, uuid), s')
    \<and> (\<forall>t'. x \<le> t' \<longrightarrow> t' < t + RefreshTokenTTL \<longrightarrow> index t' (absr s') (rt_UserID d) = {}
        \<and> (\<exists>s''. rt_RevokeAll R t' (rt_UserID d) s' = (None, s'')
             \<and> session t' (absr s'') (hashToken sha (hex_encode raw)) \<noteq> None))"
proof -
  let ?n = "hashToken sha (hex_encode raw)" and ?k = "userKey (rt_UserID d)" and ?h = "hashToken sha tok"
  let ?d = "\<lparr>rt_SessionID = uuid, rt_UserID = rt_UserID d, rt_Fingerprint = rt_Fingerprint d, rt_CreatedAt = t\<rparr>"
  have api: "redis_api R absr" using up by (simp add: redis_up_def)
  from redis_up.Rotate_up [OF up d wf, of raw uuid] obtain s'
    where rot: "rt_Rotate R sha (Some raw) uuid t tok (rt_Fingerprint d) s = (Inr (hex_encode raw, uuid), s')" .
  then have st: "absr s' = snd (run_cmds t (rotateCmds (rt_UserID d) ?h ?n (rtd_marshal ?d)) (absr s))"
    using redis_api.Rotate_success [OF api rot] d by fastforce
  have wf': "rt_wf t (absr s')" using redis_api.Rotate_wf [OF api rot wf] .
  have key: "absr s' (tokenKey ?n) = Some \<lparr>rv = RStr (rtd_marshal ?d), rexp = Some (t + RefreshTokenTTL)\<rparr>"
    using rotated_key st by simp
  have "\<exists>ms'. absr s' ?k = Some \<lparr>rv = RSet ms', rexp = Some x\<rparr>"
    using ix x keep unfolding st rotateCmds_def
    by (auto simp: Let_def case_prod_unfold entry_def put_set_def set_add_def)
  then have ix': "live t' (absr s') ?k = None" if "x \<le> t'" for t'
    using live_at [of "absr s'" ?k] that by metis
  have "index t' (absr s') (rt_UserID d) = {} \<and> (\<exists>s''. rt_RevokeAll R t' (rt_UserID d) s' = (None, s'')
      \<and> session t' (absr s'') ?n \<noteq> None)" if t': "x \<le> t'" "t' < t + RefreshTokenTTL" for t'
  proof -
    have i: "index t' (absr s') (rt_UserID d) = {}" using ix' [OF t'(1)] by (simp add: index_def members_def)
    have wft: "rt_wf t' (absr s')" using wf' rt_wf_later x t'(1) by auto
    obtain s'' where "rt_RevokeAll R t' (rt_UserID d) s' = (None, s'')"
      "session t' (absr s'') ?n = (if ?n \<in> index t' (absr s') (rt_UserID d) then None else session t' (absr s') ?n)"
      using redis_up.RevokeAll_up [OF up wft] is_hash_hashToken by metis
    then show ?thesis using i session_at [of "absr s'" ?n ?d "t + RefreshTokenTTL" t', OF key] t'(2) by auto
  qed
  then show ?thesis using rot by blast
qed

text \<open>A user with two sessions, for the concrete run.\<close>

definition ex_store2 :: rstore where
  "ex_store2 = ex_store(userKey ''u'' \<mapsto> \<lparr>rv = RSet [ex_hash, hex_encode ''z''], rexp = Some 1000\<rparr>)"

theorem refresh_index_expires_first_witness:
  "\<exists>s'. rt_Rotate pure_redis (\<lambda>b. b) (Some ''key'') ''s2'' 5 ''6b'' ''f'' ex_store2 = (Inr (''6b6579'', ''s2''), s')
    \<and> (\<exists>s''. rt_RevokeAll pure_redis 1000 ''u'' s' = (None, s'')
         \<and> session 1000 s'' (hashToken (\<lambda>b. b) ''6b6579'') \<noteq> None)"
proof -
  have "rt_wf 5 ex_store2" unfolding ex_store2_def by (intro rt_wf_upd_idx ex_wf) auto
  moreover have "session 5 ex_store2 (hashToken (\<lambda>b. b) ''6b'') = Some ex_data"
    using ex_views(1) [of 5] by (simp add: ex_store2_def session_upd_idx ex_hash_def)
  moreover have "ex_store2 (userKey (rt_UserID ex_data)) = Some \<lparr>rv = RSet [ex_hash, hex_encode ''z''], rexp = Some 1000\<rparr>"
    by (simp add: ex_store2_def ex_data_def)
  moreover have "hex_encode ''z'' \<noteq> hashToken (\<lambda>b. b) ''6b''" by code_simp
  ultimately show ?thesis
    using refresh_index_expires_first [of pure_redis "\<lambda>st. st" 5 ex_store2 "\<lambda>b. b" "''6b''" ex_data
        "[ex_hash, hex_encode ''z'']" 1000 "hex_encode ''z''" "''key''" "''s2''", OF pure.redis_up_axioms]
    by (auto simp: ex_hex ex_data_def RefreshTokenTTL_def)
qed

text \<open>While the session limit is enforced, a read of a token that fails for a transient reason is
  taken for an expired token: the hash is removed from the index although the session is still
  alive, so that RevokeAll does not find it any more.\<close>

theorem refresh_transient_failure_unindexes:
  assumes "rt_wf t st" and "is_hash h"
  shows "\<exists>s'. collectTokens faulty_redis t (userKey u) [h] \<lparr>keyspace = st, faults = [FailBefore]\<rparr> = ([], s')
    \<and> session t (keyspace s') h = session t st h \<and> h \<notin> index t (keyspace s') u"
  using assms
  by (auto simp: rdb_Get_def rdb_value_def rdb_Exec_def Let_def case_prod_unfold rt_steps reply_result_def
      simp del: cmd_step.simps split: sum.splits)

theorem refresh_transient_failure_unindexes_witness:
  "\<exists>s'. collectTokens faulty_redis 5 (userKey ''u'') [ex_hash] \<lparr>keyspace = ex_store, faults = [FailBefore]\<rparr> = ([], s')
    \<and> session 5 (keyspace s') ex_hash = Some ex_data \<and> ex_hash \<notin> index 5 (keyspace s') ''u''"
  using refresh_transient_failure_unindexes [OF ex_wf [of 5] ex_is_hash] ex_views(1) [of 5] by auto

end
