(* ===== verification/Otp.thy ===== *)
theory Otp
  imports Auth_Domain
begin

text \<open>
  Passwordless login by one-time passwords: \<^verbatim>\<open>internal/auth/adapter/otp/generator.go\<close> and
  \<^verbatim>\<open>mailer.go\<close>, against the interface \<^verbatim>\<open>domain.OTPRepository\<close>.

  An interface value is a record of functions over a common world: the repository, the optional
  rate limiter and the optional mailer of a generator all read and change the same world. The repository has
  no implementation among the sources; the locale \<open>otp_repository\<close> states what the generator relies
  on, and the in-memory repository of \<^verbatim>\<open>generator_test.go\<close> is an instance. bcrypt, the random number
  and the UUIDs are arguments.
\<close>

section \<open>Interfaces\<close>

record 'w OTPRepository =
  or_Create :: "OTPChallenge \<Rightarrow> 'w \<Rightarrow> aerr option \<times> 'w"
  or_GetByID :: "string \<Rightarrow> 'w \<Rightarrow> (aerr + OTPChallenge) \<times> 'w"
  or_IncrementAttempts :: "string \<Rightarrow> 'w \<Rightarrow> (int \<times> aerr option) \<times> 'w"
  or_MarkUsed :: "string \<Rightarrow> 'w \<Rightarrow> aerr option \<times> 'w"
  or_DeleteByEmail :: "string \<Rightarrow> 'w \<Rightarrow> aerr option \<times> 'w"

type_synonym 'w RateLimiter = "string \<Rightarrow> 'w \<Rightarrow> (aerr + bool) \<times> 'w"

record 'w Mailer =
  SendOTP :: "string \<Rightarrow> string \<Rightarrow> gotime \<Rightarrow> 'w \<Rightarrow> aerr option \<times> 'w"
  SendSecurityAlert :: "string \<Rightarrow> string \<Rightarrow> 'w \<Rightarrow> aerr option \<times> 'w"
  SendAccountLinked :: "string \<Rightarrow> string \<Rightarrow> 'w \<Rightarrow> aerr option \<times> 'w"

record 'w generator =
  otpRepo :: "'w OTPRepository"
  mailer :: "'w Mailer option"
  rateLimiter :: "'w RateLimiter option"

text \<open>The library \<^verbatim>\<open>golang.org/x/crypto/bcrypt\<close>: hashing may fail, comparing gives yes or no.\<close>

record bcrypt =
  GenerateFromPassword :: "bytes \<Rightarrow> aerr + bytes"
  CompareHashAndPassword :: "bytes \<Rightarrow> bytes \<Rightarrow> bool"

section \<open>The mailers\<close>

definition smtpMailer :: "'w Mailer" where
  "smtpMailer = \<lparr>
     SendOTP = (\<lambda>toEmail otpCode expiresAt w.
       (if toEmail = [] \<or> otpCode = []
        then Some (Opaque ''mailer.SendOTP: toEmail and otpCode are required'') else None, w)),
     SendSecurityAlert = (\<lambda>toEmail msg w.
       (if toEmail = [] then Some (Opaque ''mailer.SendSecurityAlert: toEmail is required'') else None, w)),
     SendAccountLinked = (\<lambda>toEmail provider w.
       (if toEmail = [] then Some (Opaque ''mailer.SendAccountLinked: toEmail is required'') else None, w))\<rparr>"

definition NoopMailer :: "'w Mailer" where
  "NoopMailer = \<lparr>SendOTP = (\<lambda>_ _ _ w. (None, w)), SendSecurityAlert = (\<lambda>_ _ w. (None, w)),
     SendAccountLinked = (\<lambda>_ _ w. (None, w))\<rparr>"

section \<open>The generator\<close>

definition OTPLength :: nat where "OTPLength = 6"
definition OTPMaxAttempts :: int where "OTPMaxAttempts = 3"
definition OTPTTL :: int where "OTPTTL = 10 * 60"

text \<open>\<^verbatim>\<open>rand.Int\<close> gives a number below its bound, or fails.\<close>

definition generateNumericOTP :: "nat \<Rightarrow> (nat \<Rightarrow> nat option) \<Rightarrow> aerr + string" where
  "generateNumericOTP digits rand_Int =
     (case rand_Int (10 ^ digits) of
        None \<Rightarrow> Inl (Wrapf ''generateNumericOTP'' (Opaque ''rand''))
      | Some n \<Rightarrow> Inr (dec_pad digits n))"

text \<open>The part of Issue that follows the rate-limit check.\<close>

definition issueChallenge ::
    "'w generator \<Rightarrow> bcrypt \<Rightarrow> (nat \<Rightarrow> nat option) \<Rightarrow> string \<Rightarrow> gotime \<Rightarrow> string \<Rightarrow> OTPPurpose
      \<Rightarrow> 'w \<Rightarrow> (aerr + string) \<times> 'w" where
  "issueChallenge g bc rnd uuid now email purpose w =
     (let (_, w1) = or_DeleteByEmail (otpRepo g) email w in
      case generateNumericOTP OTPLength rnd of
        Inl e \<Rightarrow> (Inl (Wrapf ''otp.Issue: generate'' e), w1)
      | Inr code \<Rightarrow>
          (case GenerateFromPassword bc code of
             Inl e \<Rightarrow> (Inl (Wrapf ''otp.Issue: hash'' e), w1)
           | Inr hash \<Rightarrow>
               let challenge = \<lparr>otp_ID = uuid, otp_Email = email, otp_CodeHash = hash,
                     otp_Purpose = purpose, otp_Attempts = 0, otp_ExpiresAt = now + seconds OTPTTL,
                     otp_CreatedAt = now, otp_Used = False\<rparr>
               in case or_Create (otpRepo g) challenge w1 of
                    (Some e, w2) \<Rightarrow> (Inl (Wrapf ''otp.Issue: store'' e), w2)
                  | (None, w2) \<Rightarrow>
                      (case mailer g of
                         None \<Rightarrow> (Inr uuid, w2)
                       | Some m \<Rightarrow>
                           let (_, w3) = SendOTP m email code (otp_ExpiresAt challenge) w2
                           in (Inr uuid, w3))))"

definition otp_Issue ::
    "'w generator \<Rightarrow> bcrypt \<Rightarrow> (nat \<Rightarrow> nat option) \<Rightarrow> string \<Rightarrow> gotime \<Rightarrow> string \<Rightarrow> OTPPurpose
      \<Rightarrow> 'w \<Rightarrow> (aerr + string) \<times> 'w" where
  "otp_Issue g bc rnd uuid now email purpose w =
     (case rateLimiter g of
        None \<Rightarrow> issueChallenge g bc rnd uuid now email purpose w
      | Some allow \<Rightarrow>
          (case allow (''otp:'' @ email) w of
             (Inl e, w1) \<Rightarrow> (Inl (Wrapf ''otp.Issue: rate limiter'' e), w1)
           | (Inr False, w1) \<Rightarrow> (Inr uuid, w1)
           | (Inr True, w1) \<Rightarrow> issueChallenge g bc rnd uuid now email purpose w1))"

definition otp_Verify ::
    "'w generator \<Rightarrow> bcrypt \<Rightarrow> gotime \<Rightarrow> string \<Rightarrow> string \<Rightarrow> 'w \<Rightarrow> (aerr + string) \<times> 'w" where
  "otp_Verify g bc now challengeID code w =
     (case or_GetByID (otpRepo g) challengeID w of
        (Inl _, w1) \<Rightarrow> (Inl (Sentinel ErrOTPNotFound), w1)
      | (Inr challenge, w1) \<Rightarrow>
          if otp_Used challenge then (Inl (Sentinel ErrOTPAlreadyUsed), w1)
          else if otp_ExpiresAt challenge < now then (Inl (Sentinel ErrOTPExpired), w1)
          else if OTPMaxAttempts \<le> otp_Attempts challenge
          then let (_, w2) = or_DeleteByEmail (otpRepo g) (otp_Email challenge) w1
               in (Inl (Sentinel ErrOTPMaxAttemptsReached), w2)
          else if \<not> CompareHashAndPassword bc (otp_CodeHash challenge) code
          then (case or_IncrementAttempts (otpRepo g) challengeID w1 of
                  ((attempts, _), w2) \<Rightarrow>
                    if OTPMaxAttempts \<le> attempts
                    then let (_, w3) = or_DeleteByEmail (otpRepo g) (otp_Email challenge) w2
                         in (Inl (Sentinel ErrOTPMaxAttemptsReached), w3)
                    else (Inl (Sentinel ErrOTPInvalid), w2))
          else (case or_MarkUsed (otpRepo g) challengeID w1 of
                  (Some e, w2) \<Rightarrow> (Inl (Wrapf ''otp.Verify: mark used'' e), w2)
                | (None, w2) \<Rightarrow> (Inr (otp_Email challenge), w2)))"

text \<open>There is no limiter, or it lets the request through.\<close>

definition limiter_allows :: "'w generator \<Rightarrow> string \<Rightarrow> 'w \<Rightarrow> bool" where
  "limiter_allows g email w =
     (case rateLimiter g of None \<Rightarrow> True | Some allow \<Rightarrow> fst (allow (''otp:'' @ email) w) = Inr True)"

text \<open>A sequence of verification requests for one challenge, each at its instant, and their results.\<close>

fun guesses ::
    "'w generator \<Rightarrow> bcrypt \<Rightarrow> string \<Rightarrow> (gotime \<times> string) list \<Rightarrow> 'w \<Rightarrow> (aerr + string) list \<times> 'w" where
  "guesses g bc i [] w = ([], w)"
| "guesses g bc i ((t, c) # xs) w =
     (let (r, w1) = otp_Verify g bc t i c w; (rs, w2) = guesses g bc i xs w1 in (r # rs, w2))"

section \<open>What the generator relies on\<close>

text \<open>
  \<open>chal\<close> gives the stored challenges by their id. An operation may fail and then changes nothing; the limiter and the mailer
  do not touch the challenges. \<open>otp_repository_up\<close> adds that only a missing challenge is an error.
\<close>

locale otp_repository =
  fixes repo :: "'w OTPRepository" and chal :: "'w \<Rightarrow> string \<Rightarrow> OTPChallenge option"
  assumes create: "or_Create repo c w = (r, w') \<Longrightarrow>
      chal w' = (if r = None then (chal w)(otp_ID c \<mapsto> c) else chal w)"
    and get: "or_GetByID repo i w = (got, w') \<Longrightarrow> chal w' = chal w \<and> (\<forall>c. got = Inr c \<longrightarrow> chal w i = Some c)"
    and incr: "or_IncrementAttempts repo i w = ((n, r), w') \<Longrightarrow>
      (r = None \<longrightarrow> (\<exists>c. chal w i = Some c \<and> n = otp_Attempts c + 1
          \<and> chal w' = (chal w)(i \<mapsto> c\<lparr>otp_Attempts := n\<rparr>))) \<and> (r \<noteq> None \<longrightarrow> n = 0 \<and> chal w' = chal w)"
    and used: "or_MarkUsed repo i w = (r, w') \<Longrightarrow>
      (r = None \<longrightarrow> (\<exists>c. chal w i = Some c \<and> chal w' = (chal w)(i \<mapsto> c\<lparr>otp_Used := True\<rparr>)))
        \<and> (r \<noteq> None \<longrightarrow> chal w' = chal w)"
    and del: "or_DeleteByEmail repo e w = (r, w') \<Longrightarrow>
      chal w' = (if r = None then (\<lambda>i. case chal w i of Some c \<Rightarrow> if otp_Email c = e then None else Some c | None \<Rightarrow> None)
                 else chal w)"

locale otp_repository_up = otp_repository +
  assumes create_up: "fst (or_Create repo c w) = None"
    and get_up: "chal w i = Some c \<Longrightarrow> fst (or_GetByID repo i w) = Inr c"
    and incr_up: "chal w i = Some c \<Longrightarrow> snd (fst (or_IncrementAttempts repo i w)) = None"
    and used_up: "chal w i = Some c \<Longrightarrow> fst (or_MarkUsed repo i w) = None"
    and del_up: "fst (or_DeleteByEmail repo e w) = None"

locale otp_service = otp_repository_up "otpRepo g" chal for g :: "'w generator" and chal +
  fixes bc :: bcrypt
  assumes allow_frame: "rateLimiter g = Some f \<Longrightarrow> chal (snd (f k w)) = chal w"
    and send_frame: "mailer g = Some m \<Longrightarrow> chal (snd (SendOTP m e c t w)) = chal w"
    and bcrypt_ok: "GenerateFromPassword bc p = Inr h \<Longrightarrow> CompareHashAndPassword bc h p"
begin

lemma Verify_missing:
  assumes "chal w i = None"
  shows "fst (otp_Verify g bc t i c w) = Inl (Sentinel ErrOTPNotFound) \<and> chal (snd (otp_Verify g bc t i c w)) = chal w"
proof -
  obtain r w1 where "or_GetByID (otpRepo g) i w = (r, w1)" by fastforce
  with get [OF this] assms show ?thesis by (cases r) (auto simp: otp_Verify_def)
qed

text \<open>The result of a verification of a stored challenge, and the challenges afterwards.\<close>

lemma Verify_known:
  assumes ch: "chal w i = Some ch"
  shows "otp_Used ch \<Longrightarrow> fst (otp_Verify g bc t i c w) = Inl (Sentinel ErrOTPAlreadyUsed)
           \<and> chal (snd (otp_Verify g bc t i c w)) = chal w"
    and "\<not> otp_Used ch \<Longrightarrow> otp_ExpiresAt ch < t \<Longrightarrow> fst (otp_Verify g bc t i c w) = Inl (Sentinel ErrOTPExpired)
           \<and> chal (snd (otp_Verify g bc t i c w)) = chal w"
    and "\<not> otp_Used ch \<Longrightarrow> t \<le> otp_ExpiresAt ch \<Longrightarrow> otp_Attempts ch < OTPMaxAttempts \<Longrightarrow>
         CompareHashAndPassword bc (otp_CodeHash ch) c \<Longrightarrow>
         fst (otp_Verify g bc t i c w) = Inr (otp_Email ch)
           \<and> chal (snd (otp_Verify g bc t i c w)) = (chal w)(i \<mapsto> ch\<lparr>otp_Used := True\<rparr>)"
    and "\<not> otp_Used ch \<Longrightarrow> t \<le> otp_ExpiresAt ch \<Longrightarrow> otp_Attempts ch + 1 < OTPMaxAttempts \<Longrightarrow>
         \<not> CompareHashAndPassword bc (otp_CodeHash ch) c \<Longrightarrow>
         fst (otp_Verify g bc t i c w) = Inl (Sentinel ErrOTPInvalid)
           \<and> chal (snd (otp_Verify g bc t i c w)) = (chal w)(i \<mapsto> ch\<lparr>otp_Attempts := otp_Attempts ch + 1\<rparr>)"
    and "\<not> otp_Used ch \<Longrightarrow> t \<le> otp_ExpiresAt ch \<Longrightarrow> OTPMaxAttempts \<le> otp_Attempts ch + 1 \<Longrightarrow>
         OTPMaxAttempts \<le> otp_Attempts ch \<or> \<not> CompareHashAndPassword bc (otp_CodeHash ch) c \<Longrightarrow>
         fst (otp_Verify g bc t i c w) = Inl (Sentinel ErrOTPMaxAttemptsReached)
           \<and> chal (snd (otp_Verify g bc t i c w)) i = None"
proof -
  obtain w1 where g1: "or_GetByID (otpRepo g) i w = (Inr ch, w1)" using get_up [OF ch] by (metis prod.collapse)
  have w1: "chal w1 = chal w" using get [OF g1] by simp
  obtain w2 where i1: "or_IncrementAttempts (otpRepo g) i w1 = ((otp_Attempts ch + 1, None), w2)"
    "chal w2 = (chal w)(i \<mapsto> ch\<lparr>otp_Attempts := otp_Attempts ch + 1\<rparr>)"
    using incr_up [of w1 i ch] incr [of i w1] w1 ch
    by (cases "or_IncrementAttempts (otpRepo g) i w1") (fastforce split: prod.splits)
  obtain w3 where m1: "or_MarkUsed (otpRepo g) i w1 = (None, w3)" "chal w3 = (chal w)(i \<mapsto> ch\<lparr>otp_Used := True\<rparr>)"
    using used_up [of w1 i ch] used [of i w1] w1 ch by (cases "or_MarkUsed (otpRepo g) i w1") fastforce
  obtain r4 w4 where d1: "or_DeleteByEmail (otpRepo g) (otp_Email ch) w1 = (r4, w4)" by fastforce
  obtain r5 w5 where d2: "or_DeleteByEmail (otpRepo g) (otp_Email ch) w2 = (r5, w5)" by fastforce
  have d: "chal w4 i = None" "chal w5 i = None"
    using del [OF d1] del [OF d2] del_up [of "otp_Email ch" w1] del_up [of "otp_Email ch" w2] d1 d2 w1 ch i1(2) by simp_all
  note sims = otp_Verify_def g1 w1 i1 m1 d1 d2 d
  show "otp_Used ch \<Longrightarrow> fst (otp_Verify g bc t i c w) = Inl (Sentinel ErrOTPAlreadyUsed)
           \<and> chal (snd (otp_Verify g bc t i c w)) = chal w" by (simp add: sims)
  show "\<not> otp_Used ch \<Longrightarrow> otp_ExpiresAt ch < t \<Longrightarrow> fst (otp_Verify g bc t i c w) = Inl (Sentinel ErrOTPExpired)
           \<and> chal (snd (otp_Verify g bc t i c w)) = chal w" by (simp add: sims)
  show "\<not> otp_Used ch \<Longrightarrow> t \<le> otp_ExpiresAt ch \<Longrightarrow> otp_Attempts ch < OTPMaxAttempts \<Longrightarrow>
         CompareHashAndPassword bc (otp_CodeHash ch) c \<Longrightarrow>
         fst (otp_Verify g bc t i c w) = Inr (otp_Email ch)
           \<and> chal (snd (otp_Verify g bc t i c w)) = (chal w)(i \<mapsto> ch\<lparr>otp_Used := True\<rparr>)" by (simp add: sims)
  show "\<not> otp_Used ch \<Longrightarrow> t \<le> otp_ExpiresAt ch \<Longrightarrow> otp_Attempts ch + 1 < OTPMaxAttempts \<Longrightarrow>
         \<not> CompareHashAndPassword bc (otp_CodeHash ch) c \<Longrightarrow>
         fst (otp_Verify g bc t i c w) = Inl (Sentinel ErrOTPInvalid)
           \<and> chal (snd (otp_Verify g bc t i c w)) = (chal w)(i \<mapsto> ch\<lparr>otp_Attempts := otp_Attempts ch + 1\<rparr>)"
    by (simp add: sims)
  show "\<not> otp_Used ch \<Longrightarrow> t \<le> otp_ExpiresAt ch \<Longrightarrow> OTPMaxAttempts \<le> otp_Attempts ch + 1 \<Longrightarrow>
         OTPMaxAttempts \<le> otp_Attempts ch \<or> \<not> CompareHashAndPassword bc (otp_CodeHash ch) c \<Longrightarrow>
         fst (otp_Verify g bc t i c w) = Inl (Sentinel ErrOTPMaxAttemptsReached)
           \<and> chal (snd (otp_Verify g bc t i c w)) i = None"
    by (auto simp: sims)
qed

text \<open>Issuing: what is stored when the limiter allows the request, and nothing when it does not.\<close>

lemma Issue_allowed:
  assumes lim: "limiter_allows g email w"
    and n: "rnd (10 ^ OTPLength) = Some n" and h: "GenerateFromPassword bc (dec_pad OTPLength n) = Inr h"
  shows "fst (otp_Issue g bc rnd uuid t email purpose w) = Inr uuid"
    and "chal (snd (otp_Issue g bc rnd uuid t email purpose w)) =
      (\<lambda>i. case chal w i of Some c \<Rightarrow> if otp_Email c = email then None else Some c | None \<Rightarrow> None)
      (uuid \<mapsto> \<lparr>otp_ID = uuid, otp_Email = email, otp_CodeHash = h, otp_Purpose = purpose, otp_Attempts = 0,
         otp_ExpiresAt = t + seconds OTPTTL, otp_CreatedAt = t, otp_Used = False\<rparr>)"
proof -
  let ?c = "\<lparr>otp_ID = uuid, otp_Email = email, otp_CodeHash = h, otp_Purpose = purpose, otp_Attempts = 0,
         otp_ExpiresAt = t + seconds OTPTTL, otp_CreatedAt = t, otp_Used = False\<rparr>"
  define w0 where "w0 = (case rateLimiter g of None \<Rightarrow> w | Some f \<Rightarrow> snd (f (''otp:'' @ email) w))"
  have w0: "chal w0 = chal w" using allow_frame by (auto simp: w0_def split: option.splits)
  have iss: "otp_Issue g bc rnd uuid t email purpose w = issueChallenge g bc rnd uuid t email purpose w0"
    using lim by (auto simp: otp_Issue_def w0_def limiter_allows_def split: option.splits sum.splits bool.splits prod.splits)
  obtain r1 w1 where d: "or_DeleteByEmail (otpRepo g) email w0 = (r1, w1)" by fastforce
  obtain r2 w2 where c: "or_Create (otpRepo g) ?c w1 = (r2, w2)" by fastforce
  have "r1 = None" "r2 = None" using del_up [of email w0] create_up [of ?c w1] d c by simp_all
  then have w2: "chal w2 = (\<lambda>i. case chal w i of Some c \<Rightarrow> if otp_Email c = email then None else Some c | None \<Rightarrow> None)(uuid \<mapsto> ?c)"
    using del [OF d] create [OF c] w0 by simp
  have fin: "fst (issueChallenge g bc rnd uuid t email purpose w0) = Inr uuid
      \<and> chal (snd (issueChallenge g bc rnd uuid t email purpose w0)) = chal w2"
    using d c n h \<open>r2 = None\<close> send_frame
    by (auto simp: issueChallenge_def generateNumericOTP_def Let_def case_prod_unfold split: option.splits)
  then show "fst (otp_Issue g bc rnd uuid t email purpose w) = Inr uuid"
    and "chal (snd (otp_Issue g bc rnd uuid t email purpose w)) =
      (\<lambda>i. case chal w i of Some c \<Rightarrow> if otp_Email c = email then None else Some c | None \<Rightarrow> None)(uuid \<mapsto> ?c)"
    using iss w2 by simp_all
qed

lemma Issue_denied:
  assumes "rateLimiter g = Some f" and "fst (f (''otp:'' @ email) w) = Inr False"
  shows "fst (otp_Issue g bc rnd uuid t email purpose w) = Inr uuid
    \<and> chal (snd (otp_Issue g bc rnd uuid t email purpose w)) = chal w"
  using assms allow_frame [OF assms(1), of "''otp:'' @ email" w]
  by (auto simp: otp_Issue_def split: sum.splits bool.splits prod.splits)

end

text \<open>The outcomes of wrong guesses at a challenge with \<open>k\<close> attempts left.\<close>

definition wrong_outcomes :: "nat \<Rightarrow> nat \<Rightarrow> (aerr + string) list" where
  "wrong_outcomes k n = map (\<lambda>j. Inl (Sentinel (if j + 1 < k then ErrOTPInvalid
     else if j + 1 = k then ErrOTPMaxAttemptsReached else ErrOTPNotFound))) [0..<n]"

lemma wrong_outcomes_Suc:
  "wrong_outcomes (Suc (Suc k)) (Suc n) = Inl (Sentinel ErrOTPInvalid) # wrong_outcomes (Suc k) n"
  "wrong_outcomes (Suc 0) (Suc n) = Inl (Sentinel ErrOTPMaxAttemptsReached) # wrong_outcomes 0 n"
  "wrong_outcomes 0 (Suc n) = Inl (Sentinel ErrOTPNotFound) # wrong_outcomes 0 n"
  unfolding wrong_outcomes_def upt_conv_Cons [OF zero_less_Suc] list.map map_Suc_upt [symmetric] map_map
  by (simp_all add: comp_def)

context otp_service
begin

lemma guesses_missing:
  "chal w i = None \<Longrightarrow> fst (guesses g bc i xs w) = wrong_outcomes 0 (length xs)"
proof (induction xs arbitrary: w)
  case (Cons x xs)
  obtain t c where x: "x = (t, c)" by fastforce
  show ?case using Verify_missing [OF Cons.prems, of t c] Cons.IH [of "snd (otp_Verify g bc t i c w)"] Cons.prems
    by (simp add: x Let_def case_prod_unfold wrong_outcomes_Suc)
qed (simp add: wrong_outcomes_def)

lemma guesses_wrong:
  "chal w i = Some ch \<Longrightarrow> \<not> otp_Used ch \<Longrightarrow> int (Suc k) = OTPMaxAttempts - otp_Attempts ch \<Longrightarrow>
   \<forall>(t, c) \<in> set xs. t \<le> otp_ExpiresAt ch \<and> \<not> CompareHashAndPassword bc (otp_CodeHash ch) c \<Longrightarrow>
   fst (guesses g bc i xs w) = wrong_outcomes (Suc k) (length xs)"
proof (induction xs arbitrary: w ch k)
  case (Cons x xs)
  obtain t c where x: "x = (t, c)" by fastforce
  have ok: "t \<le> otp_ExpiresAt ch" "\<not> CompareHashAndPassword bc (otp_CodeHash ch) c" using Cons.prems x by auto
  let ?w = "snd (otp_Verify g bc t i c w)"
  show ?case
  proof (cases k)
    case 0
    then have "fst (otp_Verify g bc t i c w) = Inl (Sentinel ErrOTPMaxAttemptsReached)" "chal ?w i = None"
      using Verify_known(5) [OF Cons.prems(1,2) ok(1)] Cons.prems(3) ok(2) by auto
    then show ?thesis using guesses_missing [of ?w i xs] 0
      by (simp add: x Let_def case_prod_unfold wrong_outcomes_Suc)
  next
    case (Suc m)
    then have "fst (otp_Verify g bc t i c w) = Inl (Sentinel ErrOTPInvalid)"
      "chal ?w = (chal w)(i \<mapsto> ch\<lparr>otp_Attempts := otp_Attempts ch + 1\<rparr>)"
      using Verify_known(4) [OF Cons.prems(1,2) ok(1) _ ok(2)] Cons.prems(3) by auto
    then show ?thesis
      using Cons.IH [of ?w "ch\<lparr>otp_Attempts := otp_Attempts ch + 1\<rparr>" m] Cons.prems Suc
      by (simp add: x Let_def case_prod_unfold wrong_outcomes_Suc)
  qed
qed (simp add: wrong_outcomes_def)

text \<open>Once a challenge is gone or used up, nothing is accepted for it.\<close>

lemma guesses_closed:
  "(\<And>ch. chal w i = Some ch \<Longrightarrow> otp_Used ch) \<Longrightarrow> filter (\<lambda>r. \<not> isl r) (fst (guesses g bc i xs w)) = []"
proof (induction xs arbitrary: w)
  case (Cons x xs)
  obtain t c where x: "x = (t, c)" by fastforce
  have "isl (fst (otp_Verify g bc t i c w)) \<and> chal (snd (otp_Verify g bc t i c w)) = chal w"
    using Verify_missing [of w i t c] Verify_known(1) [of w i _ t c] Cons.prems by (cases "chal w i") auto
  then show ?case using Cons.IH [of "snd (otp_Verify g bc t i c w)"] Cons.prems
    by (simp add: x Let_def case_prod_unfold)
qed simp

lemma Verify_accept:
  assumes "\<not> isl (fst (otp_Verify g bc t i c w))" and "chal (snd (otp_Verify g bc t i c w)) i = Some ch"
  shows "otp_Used ch"
proof (cases "chal w i")
  case None
  then show ?thesis using assms Verify_missing [OF None, of t c] by simp
next
  case (Some d)
  note known = Verify_known [OF Some, of t c]
  have live: "\<not> otp_Used d" "t \<le> otp_ExpiresAt d"
    using assms(1) known(1,2) by (auto simp: isl_def not_less [symmetric])
  have "otp_Attempts d < OTPMaxAttempts \<and> CompareHashAndPassword bc (otp_CodeHash d) c"
    using assms(1) known(4,5) [OF live] by (cases "otp_Attempts d + 1 < OTPMaxAttempts") (auto simp: isl_def not_le [symmetric])
  then show ?thesis using assms(2) known(3) [OF live] by auto
qed

lemma guesses_once: "length (filter (\<lambda>r. \<not> isl r) (fst (guesses g bc i xs w))) \<le> 1"
proof (induction xs arbitrary: w)
  case (Cons x xs)
  obtain t c where x: "x = (t, c)" by fastforce
  let ?w = "snd (otp_Verify g bc t i c w)"
  show ?case
  proof (cases "isl (fst (otp_Verify g bc t i c w))")
    case True
    then show ?thesis using Cons.IH [of ?w] by (simp add: x Let_def case_prod_unfold)
  next
    case False
    then have "filter (\<lambda>r. \<not> isl r) (fst (guesses g bc i xs ?w)) = []"
      using Verify_accept by (intro guesses_closed) blast
    then show ?thesis by (simp add: x Let_def case_prod_unfold)
  qed
qed simp

end

section \<open>The in-memory repository\<close>

record mem_world =
  challenges :: "string \<Rightarrow> OTPChallenge option"
  calls :: "string \<Rightarrow> nat"

definition memOTPRepo :: "mem_world OTPRepository" where
  "memOTPRepo = \<lparr>
     or_Create = (\<lambda>c w. (None, w\<lparr>challenges := (challenges w)(otp_ID c \<mapsto> c)\<rparr>)),
     or_GetByID = (\<lambda>i w. (case challenges w i of None \<Rightarrow> Inl (Sentinel ErrOTPNotFound) | Some c \<Rightarrow> Inr c, w)),
     or_IncrementAttempts = (\<lambda>i w. case challenges w i of
         None \<Rightarrow> ((0, Some (Sentinel ErrOTPNotFound)), w)
       | Some c \<Rightarrow> ((otp_Attempts c + 1, None),
           w\<lparr>challenges := (challenges w)(i \<mapsto> c\<lparr>otp_Attempts := otp_Attempts c + 1\<rparr>)\<rparr>)),
     or_MarkUsed = (\<lambda>i w. case challenges w i of
         None \<Rightarrow> (Some (Sentinel ErrOTPNotFound), w)
       | Some c \<Rightarrow> (None, w\<lparr>challenges := (challenges w)(i \<mapsto> c\<lparr>otp_Used := True\<rparr>)\<rparr>)),
     or_DeleteByEmail = (\<lambda>e w. (None, w\<lparr>challenges := (\<lambda>i. case challenges w i of
         Some c \<Rightarrow> if otp_Email c = e then None else Some c | None \<Rightarrow> None)\<rparr>))\<rparr>"

text \<open>The limiter of the tests: it allows the first \<open>mx\<close> calls for a key.\<close>

definition countingLimiter :: "nat \<Rightarrow> mem_world RateLimiter" where
  "countingLimiter mx k w = (Inr (calls w k + 1 \<le> mx), w\<lparr>calls := (calls w)(k := calls w k + 1)\<rparr>)"

definition memGenerator :: "nat \<Rightarrow> mem_world generator" where
  "memGenerator mx = \<lparr>otpRepo = memOTPRepo, mailer = Some smtpMailer, rateLimiter = Some (countingLimiter mx)\<rparr>"

text \<open>A stand-in for bcrypt in concrete runs.\<close>

definition ex_bcrypt :: bcrypt where
  "ex_bcrypt = \<lparr>GenerateFromPassword = (\<lambda>p. Inr (''$2a$10$'' @ p)), CompareHashAndPassword = (\<lambda>h p. h = ''$2a$10$'' @ p)\<rparr>"

interpretation mem: otp_service "memGenerator mx" challenges ex_bcrypt
  by unfold_locales
    (auto simp: memGenerator_def memOTPRepo_def countingLimiter_def smtpMailer_def ex_bcrypt_def split: option.splits)

section \<open>Properties\<close>

text \<open>C16: A code that was sent is good for one login: within ten minutes of its issue (the last
  instant included) the right code gives back the address, after that instant the challenge has
  expired, and a second use of the challenge, with whatever code, is refused.\<close>

theorem otp_single_use:
  assumes svc: "otp_service g chal bc"
    and lim: "limiter_allows g email w"
    and n: "rnd (10 ^ OTPLength) = Some n" and h: "GenerateFromPassword bc (dec_pad OTPLength n) = Inr h"
  shows "\<exists>w1. otp_Issue g bc rnd uuid t email purpose w = (Inr uuid, w1)
    \<and> (\<forall>t' \<le> t + minutes 10. \<exists>w2. otp_Verify g bc t' uuid (dec_pad OTPLength n) w1 = (Inr email, w2)
         \<and> (\<forall>t'' c. fst (otp_Verify g bc t'' uuid c w2) = Inl (Sentinel ErrOTPAlreadyUsed)))
    \<and> (\<forall>t' > t + minutes 10. \<forall>c. fst (otp_Verify g bc t' uuid c w1) = Inl (Sentinel ErrOTPExpired))"
proof -
  let ?ch = "\<lparr>otp_ID = uuid, otp_Email = email, otp_CodeHash = h, otp_Purpose = purpose, otp_Attempts = 0,
     otp_ExpiresAt = t + seconds OTPTTL, otp_CreatedAt = t, otp_Used = False\<rparr>"
  note iss = otp_service.Issue_allowed [of g chal bc email w rnd n h, OF svc lim n h, of uuid t purpose]
  define w1 where "w1 = snd (otp_Issue g bc rnd uuid t email purpose w)"
  have w1: "otp_Issue g bc rnd uuid t email purpose w = (Inr uuid, w1)" "chal w1 uuid = Some ?ch"
    using iss by (simp_all add: w1_def prod_eq_iff)
  have "\<exists>w2. otp_Verify g bc t' uuid (dec_pad OTPLength n) w1 = (Inr email, w2)
      \<and> (\<forall>t'' c. fst (otp_Verify g bc t'' uuid c w2) = Inl (Sentinel ErrOTPAlreadyUsed))"
    if "t' \<le> t + minutes 10" for t'
  proof -
    let ?v = "otp_Verify g bc t' uuid (dec_pad OTPLength n) w1"
    have v: "fst ?v = Inr email" "chal (snd ?v) uuid = Some (?ch\<lparr>otp_Used := True\<rparr>)"
      using otp_service.Verify_known(3) [OF svc w1(2), of t' "dec_pad OTPLength n"] that otp_service.bcrypt_ok [OF svc h]
      by (simp_all add: OTPTTL_def OTPMaxAttempts_def)
    obtain w2 where w2: "?v = (Inr email, w2)" using v(1) by (metis prod.collapse)
    show ?thesis using otp_service.Verify_known(1) [OF svc v(2)] w2 by simp
  qed
  moreover have "fst (otp_Verify g bc t' uuid c w1) = Inl (Sentinel ErrOTPExpired)" if "t' > t + minutes 10" for t' c
    using otp_service.Verify_known(2) [OF svc w1(2), of t' c] that by (simp add: OTPTTL_def)
  ultimately show ?thesis using w1(1) by blast
qed

text \<open>C17: Guessing is bounded. Of any sequence of requests for a challenge at most one is accepted;
  and wrong codes sent in time to a fresh challenge are answered with "incorrect" twice, then
  with "too many attempts", and from then on the challenge does not exist, whatever code comes.\<close>

theorem otp_attempt_limit:
  assumes svc: "otp_service g chal bc" and ch: "chal w i = Some ch" "\<not> otp_Used ch" "otp_Attempts ch = 0"
    and wrong: "\<forall>(t, c) \<in> set xs. t \<le> otp_ExpiresAt ch \<and> \<not> CompareHashAndPassword bc (otp_CodeHash ch) c"
  shows "fst (guesses g bc i xs w) = map (\<lambda>j. Inl (Sentinel (if j < 2 then ErrOTPInvalid
       else if j = 2 then ErrOTPMaxAttemptsReached else ErrOTPNotFound))) [0..<length xs]
    \<and> length (filter (\<lambda>r. \<not> isl r) (fst (guesses g bc i ys w))) \<le> 1"
proof
  let ?once = "length (filter (\<lambda>r. \<not> isl r) (fst (guesses g bc i ys w))) \<le> 1"
  have "fst (guesses g bc i xs w) = wrong_outcomes (Suc 2) (length xs)"
    by (rule otp_service.guesses_wrong [OF svc ch(1,2) _ wrong]) (simp add: ch(3) OTPMaxAttempts_def)
  then show "fst (guesses g bc i xs w) = map (\<lambda>j. Inl (Sentinel (if j < 2 then ErrOTPInvalid
       else if j = 2 then ErrOTPMaxAttemptsReached else ErrOTPNotFound))) [0..<length xs]"
    by (simp add: wrong_outcomes_def)
  show ?once
    by (rule otp_service.guesses_once [OF svc])
qed

text \<open>A new code replaces the old ones: after a request that the limiter allows, no earlier
  challenge of the address can be verified, and those of other addresses are as they were. A
  request over the limit gets an answer of the same shape, and no challenge changes.\<close>

theorem otp_issue_replaces:
  assumes svc: "otp_service g chal bc" and n: "rnd (10 ^ OTPLength) = Some n"
    and h: "GenerateFromPassword bc (dec_pad OTPLength n) = Inr h"
    and old: "chal w i = Some old" "i \<noteq> uuid"
    and lim: "rateLimiter g = Some f" "fst (f (''otp:'' @ email) w) = Inr ok"
  shows "\<exists>w1. otp_Issue g bc rnd uuid t email purpose w = (Inr uuid, w1)
    \<and> (if ok \<and> otp_Email old = email
       then \<forall>t' c. fst (otp_Verify g bc t' i c w1) = Inl (Sentinel ErrOTPNotFound)
       else chal w1 i = Some old)"
proof (cases ok)
  case True
  then have "limiter_allows g email w" using lim by (simp add: limiter_allows_def)
  note iss = otp_service.Issue_allowed [of g chal bc email w rnd n h, OF svc this n h, of uuid t purpose]
  define w1 where "w1 = snd (otp_Issue g bc rnd uuid t email purpose w)"
  have w1: "otp_Issue g bc rnd uuid t email purpose w = (Inr uuid, w1)" using iss(1) by (simp add: w1_def prod_eq_iff)
  have c: "chal w1 i = (if otp_Email old = email then None else Some old)" using iss(2) old by (simp add: w1_def)
  then show ?thesis
    using w1 True otp_service.Verify_missing [OF svc, of w1 i] by auto
next
  case False
  then show ?thesis using otp_service.Issue_denied [OF svc lim(1), of email w rnd uuid t purpose] lim(2) old(1)
    by (auto simp: prod_eq_iff)
qed

text \<open>A generated code has exactly the requested number of decimal digits, and every number below
  the bound has a code of its own, so that the code is as hard to guess as the number.\<close>

theorem otp_code_shape:
  assumes "0 < digits" and "rnd (10 ^ digits) = Some n" and "n < 10 ^ digits"
  shows "\<exists>code. generateNumericOTP digits rnd = Inr code \<and> length code = digits
    \<and> (\<forall>c \<in> set code. is_digit c) \<and> dec_val code = n"
  using assms dec_pad_props [of digits n] by (simp add: generateNumericOTP_def)

section \<open>Concrete runs\<close>

definition ex_world :: mem_world where
  "ex_world = \<lparr>challenges = (\<lambda>_. None), calls = (\<lambda>_. 0)\<rparr>"

lemma ex_code: "dec_pad OTPLength 42 = ''000042''"
  unfolding OTPLength_def by code_simp

theorem otp_single_use_witness:
  "\<exists>w1. otp_Issue (memGenerator 3) ex_bcrypt (\<lambda>_. Some 42) ''id'' 0 ''a@b'' ''LOGIN'' ex_world = (Inr ''id'', w1)
    \<and> (\<exists>w2. otp_Verify (memGenerator 3) ex_bcrypt (seconds 30) ''id'' ''000042'' w1 = (Inr ''a@b'', w2)
         \<and> fst (otp_Verify (memGenerator 3) ex_bcrypt (seconds 31) ''id'' ''000042'' w2) = Inl (Sentinel ErrOTPAlreadyUsed))"
proof -
  have "limiter_allows (memGenerator 3) ''a@b'' ex_world"
    by (simp add: limiter_allows_def memGenerator_def countingLimiter_def ex_world_def)
  moreover have "GenerateFromPassword ex_bcrypt (dec_pad OTPLength 42) = Inr (''$2a$10$'' @ ''000042'')"
    by (simp add: ex_bcrypt_def ex_code)
  ultimately obtain w1 where "otp_Issue (memGenerator 3) ex_bcrypt (\<lambda>_. Some 42) ''id'' 0 ''a@b'' ''LOGIN'' ex_world = (Inr ''id'', w1)"
    and v: "\<forall>t' \<le> 0 + minutes 10. \<exists>w2. otp_Verify (memGenerator 3) ex_bcrypt t' ''id'' ''000042'' w1 = (Inr ''a@b'', w2)
         \<and> (\<forall>t'' c. fst (otp_Verify (memGenerator 3) ex_bcrypt t'' ''id'' c w2) = Inl (Sentinel ErrOTPAlreadyUsed))"
    using otp_single_use [of "memGenerator 3" challenges ex_bcrypt "''a@b''" ex_world "\<lambda>_. Some 42" 42
        "''$2a$10$'' @ ''000042''" "''id''" 0 "''LOGIN''", OF mem.otp_service_axioms]
    unfolding ex_code by blast
  moreover have "seconds 30 \<le> 0 + minutes 10" by simp
  ultimately show ?thesis by blast
qed

definition ex_challenge :: OTPChallenge where
  "ex_challenge = \<lparr>otp_ID = ''id'', otp_Email = ''a@b'', otp_CodeHash = ''$2a$10$000042'', otp_Purpose = ''LOGIN'',
     otp_Attempts = 0, otp_ExpiresAt = minutes 10, otp_CreatedAt = 0, otp_Used = False\<rparr>"

definition ex_world1 :: mem_world where
  "ex_world1 = ex_world\<lparr>challenges := [''id'' \<mapsto> ex_challenge]\<rparr>"

theorem otp_attempt_limit_witness:
  "fst (guesses (memGenerator 3) ex_bcrypt ''id'' [(1, ''000000''), (2, ''000001''), (3, ''000002''), (4, ''000003'')] ex_world1)
     = map (\<lambda>e. Inl (Sentinel e)) [ErrOTPInvalid, ErrOTPInvalid, ErrOTPMaxAttemptsReached, ErrOTPNotFound]"
  using otp_attempt_limit [of "memGenerator 3" challenges ex_bcrypt ex_world1 "''id''" ex_challenge
      "[(1, ''000000''), (2, ''000001''), (3, ''000002''), (4, ''000003'')]", OF mem.otp_service_axioms]
  by (simp add: ex_world1_def ex_challenge_def ex_bcrypt_def upt_conv_Cons)

theorem otp_issue_replaces_witness:
  "\<exists>w1. otp_Issue (memGenerator 3) ex_bcrypt (\<lambda>_. Some 42) ''id2'' 5 ''a@b'' ''LOGIN'' ex_world1 = (Inr ''id2'', w1)
    \<and> fst (otp_Verify (memGenerator 3) ex_bcrypt 6 ''id'' ''000042'' w1) = Inl (Sentinel ErrOTPNotFound)"
proof -
  have "GenerateFromPassword ex_bcrypt (dec_pad OTPLength 42) = Inr ''$2a$10$000042''" "rateLimiter (memGenerator 3) = Some (countingLimiter 3)"
    "fst (countingLimiter 3 (''otp:'' @ ''a@b'') ex_world1) = Inr True" "challenges ex_world1 ''id'' = Some ex_challenge"
    "otp_Email ex_challenge = ''a@b''"
    by (simp_all add: ex_bcrypt_def ex_code memGenerator_def countingLimiter_def ex_world1_def ex_world_def ex_challenge_def)
  then show ?thesis
    using otp_issue_replaces [of "memGenerator 3" challenges ex_bcrypt "\<lambda>_. Some 42" 42 "''$2a$10$000042''" ex_world1 "''id''"
        ex_challenge "''id2''" "countingLimiter 3" "''a@b''" True 5 "''LOGIN''", OF mem.otp_service_axioms] by auto
qed

theorem otp_code_shape_witness:
  "\<exists>code. generateNumericOTP 6 (\<lambda>_. Some 42) = Inr code \<and> length code = 6 \<and> dec_val code = 42"
  using otp_code_shape [of 6 "\<lambda>_. Some 42" 42] by auto

end
