(* ===== verification/Jwt.thy ===== *)
theory Jwt
  imports Auth_Domain Http
begin

text \<open>
  Access tokens: \<^verbatim>\<open>internal/auth/adapter/jwt/issuer.go\<close>. The library golang-jwt and RSA are
  parameters: signing, parsing with options, and the relation between a token text and the claims it
  carries under a key. The locale \<open>jwt_lib\<close> states their documented behaviour.
\<close>

section \<open>Claims and the issuer\<close>

type_synonym roles = "string \<Rightarrow> string option"

record Claims =
  rc_Issuer :: string
  rc_Audience :: "string list"
  rc_ExpiresAt :: "gotime option"
  rc_NotBefore :: "gotime option"
  rc_IssuedAt :: "gotime option"
  rc_ID :: string
  rc_Subject :: string
  c_UserID :: string
  c_Email :: string
  c_Name :: string
  c_Provider :: Provider
  c_SessionID :: string
  c_Roles :: roles
  c_TokenType :: string

text \<open>\<^verbatim>\<open>jwt.NewNumericDate\<close> cuts an instant down to the second.\<close>

definition NewNumericDate :: "gotime \<Rightarrow> gotime" where
  "NewNumericDate t = t - t mod seconds 1"

record ('priv, 'pub) rsaIssuer =
  i_privateKey :: 'priv
  i_publicKey :: 'pub
  i_issuer :: string
  i_audience :: "string list"

text \<open>The parser's options, its errors, and the library as a record of its functions.\<close>

record parser_opts =
  WithIssuer :: string
  WithAudience :: string
  WithValidMethods :: "string list"

datatype jwt_err = ErrJwtExpired | ErrJwtOther string

record ('priv, 'pub) jwtlib =
  ParseRSAPrivateKeyFromPEM :: "bytes \<Rightarrow> 'priv option"
  PublicKeyOf :: "'priv \<Rightarrow> 'pub"
  SignRS256 :: "'priv \<Rightarrow> Claims \<Rightarrow> string option"
  ParseWithClaims :: "parser_opts \<Rightarrow> (string \<Rightarrow> aerr + 'pub) \<Rightarrow> gotime \<Rightarrow> string \<Rightarrow> jwt_err + Claims"

definition jwt_New ::
    "('priv, 'pub) jwtlib \<Rightarrow> bytes \<Rightarrow> string \<Rightarrow> string list \<Rightarrow> aerr + ('priv, 'pub) rsaIssuer" where
  "jwt_New L privateKeyPEM iss audience =
     (case ParseRSAPrivateKeyFromPEM L privateKeyPEM of
        None \<Rightarrow> Inl (Wrapf ''jwt.New: invalid private key'' (Opaque ''pem''))
      | Some key \<Rightarrow> Inr \<lparr>i_privateKey = key, i_publicKey = PublicKeyOf L key, i_issuer = iss,
                         i_audience = audience\<rparr>)"

definition accessClaims ::
    "('priv, 'pub) rsaIssuer \<Rightarrow> gotime \<Rightarrow> string \<Rightarrow> User \<Rightarrow> string \<Rightarrow> roles \<Rightarrow> Claims" where
  "accessClaims i now jti user sessionID rs =
     \<lparr>rc_Issuer = i_issuer i, rc_Audience = i_audience i,
      rc_ExpiresAt = Some (NewNumericDate (now + minutes 15)),
      rc_NotBefore = Some (NewNumericDate now), rc_IssuedAt = Some (NewNumericDate now),
      rc_ID = jti, rc_Subject = u_ID user, c_UserID = u_ID user, c_Email = u_Email user,
      c_Name = u_Name user, c_Provider = u_Provider user, c_SessionID = sessionID, c_Roles = rs,
      c_TokenType = ''access''\<rparr>"

definition IssueAccessToken ::
    "('priv, 'pub) jwtlib \<Rightarrow> ('priv, 'pub) rsaIssuer \<Rightarrow> gotime \<Rightarrow> string \<Rightarrow> User \<Rightarrow> string \<Rightarrow> roles
      \<Rightarrow> aerr + string" where
  "IssueAccessToken L i now jti user sessionID rs =
     (case SignRS256 L (i_privateKey i) (accessClaims i now jti user sessionID rs) of
        None \<Rightarrow> Inl (Wrapf ''jwt.IssueAccessToken: failed to sign token'' (Opaque ''sign''))
      | Some s \<Rightarrow> Inr s)"

text \<open>The key function refuses methods outside the RSA family.\<close>

definition keyFunc :: "('priv, 'pub) rsaIssuer \<Rightarrow> string \<Rightarrow> aerr + 'pub" where
  "keyFunc i alg =
     (if alg \<in> {''RS256'', ''RS384'', ''RS512''} then Inr (i_publicKey i)
      else Inl (Opaque (''unexpected signing method: '' @ alg)))"

text \<open>The access to the first audience panics on an issuer without one: then there is no result.\<close>

definition Validate ::
    "('priv, 'pub) jwtlib \<Rightarrow> ('priv, 'pub) rsaIssuer \<Rightarrow> gotime \<Rightarrow> string \<Rightarrow> (aerr + Claims) option" where
  "Validate L i now tokenStr =
     (case i_audience i of
        [] \<Rightarrow> None
      | aud # _ \<Rightarrow> Some
          (case ParseWithClaims L \<lparr>WithIssuer = i_issuer i, WithAudience = aud, WithValidMethods = [''RS256'']\<rparr>
                  (keyFunc i) now tokenStr of
             Inl ErrJwtExpired \<Rightarrow> Inl (Sentinel ErrTokenExpired)
           | Inl _ \<Rightarrow> Inl (Sentinel ErrTokenInvalid)
           | Inr claims \<Rightarrow>
               if c_TokenType claims \<noteq> ''access'' then Inl (Sentinel ErrTokenInvalid) else Inr claims))"

section \<open>The library's contract\<close>

text \<open>The checks of the claims validator, with no leeway.\<close>

definition not_expired :: "gotime \<Rightarrow> Claims \<Rightarrow> bool" where
  "not_expired now c = (case rc_ExpiresAt c of None \<Rightarrow> True | Some x \<Rightarrow> now < x)"

definition claims_ok :: "parser_opts \<Rightarrow> gotime \<Rightarrow> Claims \<Rightarrow> bool" where
  "claims_ok opts now c =
     (not_expired now c
      \<and> (case rc_NotBefore c of None \<Rightarrow> True | Some x \<Rightarrow> x \<le> now)
      \<and> rc_Issuer c = WithIssuer opts \<and> WithAudience opts \<in> set (rc_Audience c))"

text \<open>
  \<open>alg s\<close> is the method named in the header of a token text; \<open>carries m pk s\<close> are the claims of \<open>s\<close>
  when its signature by method \<open>m\<close> verifies under \<open>pk\<close>.
\<close>

locale jwt_lib =
  fixes L :: "('priv, 'pub) jwtlib" and alg :: "string \<Rightarrow> string"
    and carries :: "string \<Rightarrow> 'pub \<Rightarrow> string \<Rightarrow> Claims option"
  assumes sign_carries: "SignRS256 L k c = Some s \<Longrightarrow>
      alg s = ''RS256'' \<and> carries ''RS256'' (PublicKeyOf L k) s = Some c"
    and parse_sound: "ParseWithClaims L opts kf now s = Inr c \<Longrightarrow>
      alg s \<in> set (WithValidMethods opts)
        \<and> (\<exists>pk. kf (alg s) = Inr pk \<and> carries (alg s) pk s = Some c) \<and> claims_ok opts now c"
    and parse_complete: "alg s \<in> set (WithValidMethods opts) \<Longrightarrow> kf (alg s) = Inr pk \<Longrightarrow>
      carries (alg s) pk s = Some c \<Longrightarrow> claims_ok opts now c \<Longrightarrow> ParseWithClaims L opts kf now s = Inr c"
    and parse_expired: "alg s \<in> set (WithValidMethods opts) \<Longrightarrow> kf (alg s) = Inr pk \<Longrightarrow>
      carries (alg s) pk s = Some c \<Longrightarrow> \<not> not_expired now c \<Longrightarrow>
      ParseWithClaims L opts kf now s = Inl ErrJwtExpired"
begin

lemma Validate_sound:
  assumes "Validate L i now s = Some (Inr c)"
  shows "alg s = ''RS256'' \<and> carries ''RS256'' (i_publicKey i) s = Some c \<and> not_expired now c
    \<and> rc_Issuer c = i_issuer i \<and> hd (i_audience i) \<in> set (rc_Audience c) \<and> c_TokenType c = ''access''"
proof -
  obtain aud r where aud: "i_audience i = aud # r" using assms by (auto simp: Validate_def split: list.splits)
  have p: "ParseWithClaims L \<lparr>WithIssuer = i_issuer i, WithAudience = aud, WithValidMethods = [''RS256'']\<rparr>
      (keyFunc i) now s = Inr c" and ty: "c_TokenType c = ''access''"
    using assms by (auto simp: Validate_def aud split: sum.splits jwt_err.splits if_splits)
  show ?thesis using parse_sound [OF p] ty aud by (auto simp: keyFunc_def claims_ok_def)
qed

lemma Validate_issued:
  assumes iss: "IssueAccessToken L i now jti user sid rs = Inr s" and pk: "i_publicKey i = PublicKeyOf L (i_privateKey i)"
    and aud: "i_audience i \<noteq> []"
  shows "now \<le> t \<Longrightarrow> t < NewNumericDate (now + minutes 15) \<Longrightarrow>
      Validate L i t s = Some (Inr (accessClaims i now jti user sid rs))"
    and "NewNumericDate (now + minutes 15) \<le> t \<Longrightarrow> Validate L i t s = Some (Inl (Sentinel ErrTokenExpired))"
proof -
  let ?c = "accessClaims i now jti user sid rs"
  have "SignRS256 L (i_privateKey i) ?c = Some s"
    using iss by (auto simp: IssueAccessToken_def split: option.splits)
  then have car: "alg s = ''RS256''" "carries (alg s) (i_publicKey i) s = Some ?c"
    using sign_carries pk by auto
  have kf: "keyFunc i (alg s) = Inr (i_publicKey i)" using car(1) by (simp add: keyFunc_def)
  let ?o = "\<lparr>WithIssuer = i_issuer i, WithAudience = hd (i_audience i), WithValidMethods = [''RS256'']\<rparr>"
  have m: "alg s \<in> set (WithValidMethods ?o)" using car(1) by simp
  have "claims_ok ?o t ?c" if "now \<le> t" "t < NewNumericDate (now + minutes 15)"
    using that aud by (auto simp: claims_ok_def not_expired_def accessClaims_def NewNumericDate_def
        intro: order_trans [OF _ that(1)])
  then show "Validate L i t s = Some (Inr ?c)" if "now \<le> t" "t < NewNumericDate (now + minutes 15)"
    using parse_complete [of s ?o "keyFunc i", OF m kf car(2), of t] that aud
    by (auto simp: Validate_def neq_Nil_conv accessClaims_def)
  have "\<not> not_expired t ?c" if "NewNumericDate (now + minutes 15) \<le> t"
    using that by (simp add: not_expired_def accessClaims_def)
  then show "Validate L i t s = Some (Inl (Sentinel ErrTokenExpired))" if "NewNumericDate (now + minutes 15) \<le> t"
    using parse_expired [of s ?o "keyFunc i", OF m kf car(2), of t] that aud by (auto simp: Validate_def neq_Nil_conv)
qed

end

section \<open>An executable stand-in for the library\<close>

text \<open>It knows how to sign one set of claims; keys are strings and the public key is the key itself.\<close>

definition stub_carries :: "Claims \<Rightarrow> string \<Rightarrow> string \<Rightarrow> string \<Rightarrow> Claims option" where
  "stub_carries c0 m pk s = (if m = ''RS256'' \<and> s = ''tok.'' @ pk then Some c0 else None)"

definition stub_alg :: "string \<Rightarrow> string" where
  "stub_alg s = (if HasPrefix s ''tok.'' then ''RS256'' else ''none'')"

definition stub_parse ::
    "Claims \<Rightarrow> parser_opts \<Rightarrow> (string \<Rightarrow> aerr + string) \<Rightarrow> gotime \<Rightarrow> string \<Rightarrow> jwt_err + Claims" where
  "stub_parse c0 opts kf now s =
     (if stub_alg s \<notin> set (WithValidMethods opts) then Inl (ErrJwtOther ''method'')
      else case kf (stub_alg s) of
        Inl e \<Rightarrow> Inl (ErrJwtOther ''unverifiable'')
      | Inr pk \<Rightarrow>
          (case stub_carries c0 (stub_alg s) pk s of
             None \<Rightarrow> Inl (ErrJwtOther ''signature'')
           | Some c \<Rightarrow>
               if \<not> not_expired now c then Inl ErrJwtExpired
               else if claims_ok opts now c then Inr c else Inl (ErrJwtOther ''claims'')))"

definition stub_jwtlib :: "Claims \<Rightarrow> (string, string) jwtlib" where
  "stub_jwtlib c0 = \<lparr>ParseRSAPrivateKeyFromPEM = (\<lambda>p. if p = [] then None else Some p),
     PublicKeyOf = (\<lambda>k. k), SignRS256 = (\<lambda>k c. if c = c0 then Some (''tok.'' @ k) else None),
     ParseWithClaims = stub_parse c0\<rparr>"

interpretation stub: jwt_lib "stub_jwtlib c0" stub_alg "stub_carries c0"
  by unfold_locales
    (auto simp: stub_jwtlib_def stub_parse_def stub_alg_def stub_carries_def claims_ok_def
      split: if_splits sum.splits option.splits)

section \<open>Properties\<close>

text \<open>C18: An access token validates to exactly the claims it was issued with (user, session, roles)
  from its issue until its expiry is reached, which is fifteen minutes later cut down to the second;
  from then on it is reported as expired.\<close>

theorem jwt_issue_validate:
  assumes "jwt_lib L alg carries" and "IssueAccessToken L i now jti user sid rs = Inr s"
    and "i_publicKey i = PublicKeyOf L (i_privateKey i)" and "i_audience i \<noteq> []"
  shows "(\<forall>t. now \<le> t \<longrightarrow> t < NewNumericDate (now + minutes 15) \<longrightarrow>
            Validate L i t s = Some (Inr (accessClaims i now jti user sid rs)))
    \<and> (\<forall>t. now + minutes 15 \<le> t \<longrightarrow> Validate L i t s = Some (Inl (Sentinel ErrTokenExpired)))"
proof -
  have "NewNumericDate (now + minutes 15) \<le> now + minutes 15" by (simp add: NewNumericDate_def)
  then show ?thesis using jwt_lib.Validate_issued [OF assms] by (meson order_trans)
qed

text \<open>C19: Validation accepts a token only if its header names RS256, its signature verifies under
  the issuer's public key, it was issued by this issuer for the first audience, has not expired, and
  is an access token.\<close>

theorem jwt_validate_sound:
  assumes "jwt_lib L alg carries" and "Validate L i now s = Some (Inr c)"
  shows "alg s = ''RS256'' \<and> carries ''RS256'' (i_publicKey i) s = Some c \<and> not_expired now c
    \<and> rc_Issuer c = i_issuer i \<and> hd (i_audience i) \<in> set (rc_Audience c) \<and> c_TokenType c = ''access''"
  using assms by (rule jwt_lib.Validate_sound)

definition ex_user :: User where
  "ex_user = \<lparr>u_ID = ''u'', u_Email = ''a@b'', u_Name = ''A'', u_AvatarURL = [], u_Provider = ProviderEmail,
     u_ProviderID = ''a@b'', u_GitHubLogin = [], u_GitHubTokenEnc = None, u_IsEmailVerified = True,
     u_IsActive = True, u_CreatedAt = 0, u_UpdatedAt = 0, u_LastLoginAt = None\<rparr>"

definition ex_issuer :: "(string, string) rsaIssuer" where
  "ex_issuer = \<lparr>i_privateKey = ''k'', i_publicKey = ''k'', i_issuer = ''raftweave-auth'',
     i_audience = [''raftweave-dashboard'']\<rparr>"

definition ex_claims :: Claims where
  "ex_claims = accessClaims ex_issuer 0 ''j'' ex_user ''s'' [''w'' \<mapsto> ''ADMIN'']"

lemma ex_issue: "IssueAccessToken (stub_jwtlib ex_claims) ex_issuer 0 ''j'' ex_user ''s'' [''w'' \<mapsto> ''ADMIN''] = Inr ''tok.k''"
  by (simp add: IssueAccessToken_def stub_jwtlib_def ex_claims_def ex_issuer_def)

lemma ex_pub: "i_publicKey ex_issuer = PublicKeyOf (stub_jwtlib ex_claims) (i_privateKey ex_issuer)" "i_audience ex_issuer \<noteq> []"
  by (simp_all add: ex_issuer_def stub_jwtlib_def)

theorem jwt_issue_validate_witness:
  "Validate (stub_jwtlib ex_claims) ex_issuer (minutes 14) ''tok.k'' = Some (Inr ex_claims)
   \<and> Validate (stub_jwtlib ex_claims) ex_issuer (minutes 15) ''tok.k'' = Some (Inl (Sentinel ErrTokenExpired))"
  using jwt_issue_validate [OF stub.jwt_lib_axioms ex_issue ex_pub]
  by (simp add: ex_claims_def NewNumericDate_def)

lemma ex_validate: "Validate (stub_jwtlib ex_claims) ex_issuer 5 ''tok.k'' = Some (Inr ex_claims)"
  by (simp add: Validate_def stub_jwtlib_def stub_parse_def stub_alg_def stub_carries_def keyFunc_def ex_issuer_def
      ex_claims_def accessClaims_def not_expired_def claims_ok_def NewNumericDate_def)

theorem jwt_validate_sound_witness:
  "stub_alg ''tok.k'' = ''RS256'' \<and> not_expired 5 ex_claims \<and> c_TokenType ex_claims = ''access''"
  using jwt_validate_sound [OF stub.jwt_lib_axioms ex_validate] by simp

end
