(* ===== verification/Auth_Middleware.thy ===== *)
theory Auth_Middleware
  imports Jwt
begin

text \<open>
  The Connect interceptors: \<^verbatim>\<open>internal/middleware/auth.go\<close> (authentication and role checks) and
  \<^verbatim>\<open>internal/auth/handler/rpc/interceptor.go\<close> (the one the auth service installs). A handler is a
  function of the request context, the request and the world.

  Both packages keep the validated claims in the context under a key of a type of their own, so a
  context has a slot for each package.
\<close>

section \<open>Contexts\<close>

record gctx =
  mw_claims :: "Claims option"
  mw_userID :: "string option"
  mw_sessionID :: "string option"
  rpc_claims :: "Claims option"

definition background :: gctx where
  "background = \<lparr>mw_claims = None, mw_userID = None, mw_sessionID = None, rpc_claims = None\<rparr>"

type_synonym ('w, 'r) unary = "gctx \<Rightarrow> AnyRequest \<Rightarrow> 'w \<Rightarrow> (rpc_error + 'r) \<times> 'w"

definition mw_ClaimsFromContext :: "gctx \<Rightarrow> Claims option" where
  "mw_ClaimsFromContext c = mw_claims c"

definition rpc_ClaimsFromContext :: "gctx \<Rightarrow> Claims option" where
  "rpc_ClaimsFromContext c = rpc_claims c"

section \<open>Roles\<close>

definition roleHierarchy :: "Role \<Rightarrow> int option" where
  "roleHierarchy r =
     (if r = RoleViewer then Some 1
      else if r = RoleMember then Some 2
      else if r = RoleAdmin then Some 3
      else if r = RoleOwner then Some 4
      else None)"

definition isRoleSufficient :: "Role \<Rightarrow> Role \<Rightarrow> bool" where
  "isRoleSufficient userRole minRole =
     (case (roleHierarchy userRole, roleHierarchy minRole) of
        (Some userLevel, Some minLevel) \<Rightarrow> minLevel \<le> userLevel
      | _ \<Rightarrow> False)"

definition RequireWorkspaceRole :: "gctx \<Rightarrow> string \<Rightarrow> Role \<Rightarrow> aerr option" where
  "RequireWorkspaceRole ctx workspaceID minRole =
     (case mw_ClaimsFromContext ctx of
        None \<Rightarrow> Some (Sentinel ErrInsufficientRole)
      | Some claims \<Rightarrow>
          (case c_Roles claims workspaceID of
             None \<Rightarrow> Some (Sentinel ErrInsufficientRole)
           | Some userRole \<Rightarrow>
               if \<not> isRoleSufficient userRole minRole then Some (Sentinel ErrInsufficientRole) else None))"

section \<open>Finding the token\<close>

definition cookieName :: string where
  "cookieName = ''raftweave_at=''"

fun firstTokenPart :: "string list \<Rightarrow> string option" where
  "firstTokenPart [] = None"
| "firstTokenPart (p # ps) =
     (let part = TrimSpace p in
      if HasPrefix part cookieName then Some (TrimPrefix part cookieName) else firstTokenPart ps)"

definition extractToken :: "AnyRequest \<Rightarrow> string" where
  "extractToken req =
     (let auth = hdr_Get (Header req) ''Authorization'' in
      if HasPrefix auth ''Bearer '' then TrimPrefix auth ''Bearer ''
      else case firstTokenPart (concat (map (Split (CHR '';'')) (hdr_Values (Header req) ''Cookie''))) of
        None \<Rightarrow> []
      | Some tok \<Rightarrow> tok)"

section \<open>Interceptors\<close>

definition PublicRoutes :: "string list" where
  "PublicRoutes = [''/auth.v1.AuthService/RequestOTP'', ''/auth.v1.AuthService/VerifyOTP'',
     ''/auth.v1.AuthService/RefreshToken'']"

text \<open>The issuer is the function that validates a token text at the instant of the request.\<close>

definition mw_NewAuthInterceptor ::
    "(string \<Rightarrow> aerr + Claims) \<Rightarrow> string list \<Rightarrow> ('w, 'r) unary \<Rightarrow> ('w, 'r) unary" where
  "mw_NewAuthInterceptor validate publicRoutes next ctx req w =
     (if Procedure req \<in> set publicRoutes then next ctx req w
      else let tokenStr = extractToken req in
        if tokenStr = [] then (Inl (ConnectErr CodeUnauthenticated ''missing authentication token''), w)
        else case validate tokenStr of
          Inl e \<Rightarrow>
            if errors_Is e ErrTokenExpired then (Inl (ConnectErr CodeUnauthenticated ''token expired''), w)
            else (Inl (ConnectErr CodeUnauthenticated ''invalid token''), w)
        | Inr claims \<Rightarrow>
            next (ctx\<lparr>mw_claims := Some claims, mw_userID := Some (c_UserID claims),
                      mw_sessionID := Some (c_SessionID claims)\<rparr>) req w)"

definition NewRequireRole :: "Role \<Rightarrow> ('w, 'r) unary \<Rightarrow> ('w, 'r) unary" where
  "NewRequireRole minRole next ctx req w =
     (case mw_ClaimsFromContext ctx of
        None \<Rightarrow> (Inl (ConnectErr CodeUnauthenticated ''not authenticated''), w)
      | Some claims \<Rightarrow>
          let workspaceID = hdr_Get (Header req) ''X-Workspace-Id'' in
          if workspaceID = [] then (Inl (ConnectErr CodeInvalidArgument ''x-workspace-id header required''), w)
          else if RequireWorkspaceRole ctx workspaceID minRole \<noteq> None
          then (Inl (ConnectErr CodePermissionDenied ''insufficient permissions''), w)
          else next ctx req w)"

text \<open>The interceptor of the auth service: a request without a token is passed on without claims.\<close>

definition rpc_tokenStr :: "AnyRequest \<Rightarrow> string" where
  "rpc_tokenStr req =
     (let auth = hdr_Get (Header req) ''Authorization'';
          bearer = (if 7 < length auth \<and> take 7 auth = ''Bearer '' then drop 7 auth else [])
      in if bearer \<noteq> [] then bearer
         else let cookieHeader = hdr_Get (Header req) ''Cookie'' in
           if cookieHeader = [] then []
           else case Cookie (\<lambda>k. if k = ''Cookie'' then [cookieHeader] else []) ''raftweave_at'' of
             None \<Rightarrow> [] | Some v \<Rightarrow> v)"

definition rpc_NewAuthInterceptor ::
    "(string \<Rightarrow> aerr + Claims) \<Rightarrow> ('w, 'r) unary \<Rightarrow> ('w, 'r) unary" where
  "rpc_NewAuthInterceptor validate next ctx req w =
     (if Procedure req = ''/auth.v1.AuthService/RequestOTP'' \<or> Procedure req = ''/auth.v1.AuthService/VerifyOTP''
      then next ctx req w
      else if rpc_tokenStr req = [] then next ctx req w
      else case validate (rpc_tokenStr req) of
        Inl e \<Rightarrow> (Inl (ConnectErr CodeUnauthenticated ''invalid token''), w)
      | Inr claims \<Rightarrow> next (ctx\<lparr>rpc_claims := Some claims\<rparr>) req w)"

section \<open>Facts about roles and tokens\<close>

lemma role_neq [simp]:
  "RoleViewer \<noteq> RoleMember" "RoleViewer \<noteq> RoleAdmin" "RoleViewer \<noteq> RoleOwner"
  "RoleMember \<noteq> RoleAdmin" "RoleMember \<noteq> RoleOwner" "RoleAdmin \<noteq> RoleOwner"
  "RoleMember \<noteq> RoleViewer" "RoleAdmin \<noteq> RoleViewer" "RoleOwner \<noteq> RoleViewer"
  "RoleAdmin \<noteq> RoleMember" "RoleOwner \<noteq> RoleMember" "RoleOwner \<noteq> RoleAdmin"
  by (simp_all add: role_defs)

text \<open>The roles from the least to the most powerful, as the comments of the source order them.\<close>

definition role_chain :: "Role list" where
  "role_chain = [RoleViewer, RoleMember, RoleAdmin, RoleOwner]"

lemma roleHierarchy_chain:
  "roleHierarchy r = Some l \<longleftrightarrow> (\<exists>i < length role_chain. r = role_chain ! i \<and> l = int i + 1)"
  by (auto simp: roleHierarchy_def role_chain_def Ex_less_Suc2)

lemma Split_append:
  "sep \<notin> set a \<Longrightarrow> Split sep (a @ sep # b) = a # Split sep b"
  by (induction a) auto

lemma Split_single: "sep \<notin> set a \<Longrightarrow> Split sep a = [a]"
  by (induction a) auto

lemma TrimSpace_id: "s = [] \<or> (\<not> is_space (hd s) \<and> \<not> is_space (last s)) \<Longrightarrow> TrimSpace s = s"
proof (cases "s = []")
  case False
  assume "s = [] \<or> (\<not> is_space (hd s) \<and> \<not> is_space (last s))"
  then have "dropWhile is_space s = s" "dropWhile is_space (rev s) = rev s"
    using False by (simp_all add: dropWhile_eq_self_iff hd_rev)
  then show ?thesis by (simp add: TrimSpace_def)
qed (simp add: TrimSpace_def)

lemma TrimSpace_blank: "TrimSpace (CHR '' '' # s) = TrimSpace s"
  by (simp add: TrimSpace_def is_space_def)

section \<open>Properties\<close>

text \<open>A user's role suffices for a required role exactly when both are among the four known roles
  and the user's stands at the same place or later in the order viewer, member, admin, owner; a role
  the program does not know neither passes nor is passed.\<close>

theorem role_order:
  "isRoleSufficient u m \<longleftrightarrow>
     (\<exists>i j. i \<le> j \<and> j < length role_chain \<and> m = role_chain ! i \<and> u = role_chain ! j)"
proof -
  have "isRoleSufficient u m \<longleftrightarrow> (\<exists>lu lm. roleHierarchy u = Some lu \<and> roleHierarchy m = Some lm \<and> lm \<le> lu)"
    by (auto simp: isRoleSufficient_def split: option.splits)
  also have "\<dots> \<longleftrightarrow> (\<exists>i < length role_chain. \<exists>j < length role_chain. i \<le> j \<and> m = role_chain ! i \<and> u = role_chain ! j)"
    unfolding roleHierarchy_chain by fastforce
  also have "\<dots> \<longleftrightarrow> (\<exists>i j. i \<le> j \<and> j < length role_chain \<and> m = role_chain ! i \<and> u = role_chain ! j)"
    using le_less_trans by blast
  finally show ?thesis .
qed

text \<open>C10: Behind the authentication and role interceptors a handler of a protected route runs exactly
  when the token of the request validates and its claims give the caller a sufficient role in the
  workspace named by the request. It then sees those claims. In every other case the caller gets an
  error and the world is untouched. On a public route the role check refuses, since no claims are
  present.\<close>

theorem rbac_chain:
  fixes nxt :: "('w, 'r) unary"
  defines "ws \<equiv> \<lambda>req. hdr_Get (Header req) ''X-Workspace-Id''"
  defines "granted \<equiv> \<lambda>validate req minRole c. validate (extractToken req) = Inr c \<and> extractToken req \<noteq> []
     \<and> ws req \<noteq> [] \<and> (\<exists>r. c_Roles c (ws req) = Some r \<and> isRoleSufficient r minRole)"
  defines "run \<equiv> \<lambda>validate minRole req w.
     mw_NewAuthInterceptor validate PublicRoutes (NewRequireRole minRole nxt) background req w"
  shows "(\<forall>c. Procedure req \<notin> set PublicRoutes \<and> granted validate req minRole c \<longrightarrow>
            run validate minRole req w =
              nxt (background\<lparr>mw_claims := Some c, mw_userID := Some (c_UserID c), mw_sessionID := Some (c_SessionID c)\<rparr>) req w)
    \<and> ((Procedure req \<in> set PublicRoutes \<or> (\<forall>c. \<not> granted validate req minRole c)) \<longrightarrow>
         (\<exists>code msg. run validate minRole req w = (Inl (ConnectErr code msg), w)
            \<and> code \<in> {CodeUnauthenticated, CodeInvalidArgument, CodePermissionDenied}))"
  unfolding run_def granted_def ws_def
  by (cases "validate (extractToken req)")
    (auto simp: mw_NewAuthInterceptor_def NewRequireRole_def RequireWorkspaceRole_def mw_ClaimsFromContext_def
      background_def Let_def split: option.splits)

text \<open>The token is taken from where the client put it: after \<open>Bearer\<close> in the Authorization header,
  or else from the cookie of that name wherever it stands in the Cookie header, among cookies whose
  names do not start like it.\<close>

theorem extractToken_finds:
  assumes "\<forall>p \<in> set before. CHR '';'' \<notin> set p \<and> \<not> HasPrefix (TrimSpace p) cookieName"
    and "CHR '';'' \<notin> set tok" and "tok \<noteq> []" and "\<not> is_space (last tok)"
    and "hdr_Values (Header req) ''Cookie'' =
      [concat (map (\<lambda>p. p @ ''; '') before) @ cookieName @ tok @ rest]" and "rest = [] \<or> hd rest = CHR '';''"
  shows "extractToken req =
    (let auth = hdr_Get (Header req) ''Authorization'' in
     if HasPrefix auth ''Bearer '' then drop (length ''Bearer '') auth else tok)"
proof -
  have tok: "TrimSpace (cookieName @ tok) = cookieName @ tok"
    using assms(3,4) by (intro TrimSpace_id) (simp add: cookieName_def is_space_def)
  have split_tok: "\<exists>ps. Split (CHR '';'') (pre @ cookieName @ tok @ rest) = (pre @ cookieName @ tok) # ps"
    if "CHR '';'' \<notin> set pre" for pre
  proof (cases rest)
    case Nil
    have "CHR '';'' \<notin> set (pre @ cookieName @ tok)" using assms(2) that by (simp add: cookieName_def)
    then show ?thesis using Nil Split_single [of _ "pre @ cookieName @ tok"] by simp
  next
    case (Cons c r)
    have "CHR '';'' \<notin> set (pre @ cookieName @ tok)" using assms(2) that by (simp add: cookieName_def)
    then show ?thesis using Split_append [of _ "pre @ cookieName @ tok" r] assms(6) Cons by simp
  qed
  have found: "firstTokenPart ((pre @ cookieName @ tok) # ps) = Some tok" if "pre \<in> {[], '' ''}" for pre ps
    using that tok TrimSpace_blank [of "cookieName @ tok"] by (auto simp: Let_def)
  have "firstTokenPart (Split (CHR '';'') (pre @ concat (map (\<lambda>p. p @ ''; '') before) @ cookieName @ tok @ rest)) = Some tok"
    if "pre \<in> {[], '' ''}" for pre
    using assms(1) that
  proof (induction before arbitrary: pre)
    case Nil
    then obtain ps where "Split (CHR '';'') (pre @ cookieName @ tok @ rest) = (pre @ cookieName @ tok) # ps"
      using split_tok [of pre] by auto
    then show ?case using found Nil by simp
  next
    case (Cons p before)
    have sp: "CHR '';'' \<notin> set (pre @ p)" using Cons.prems by auto
    have "TrimSpace (pre @ p) = TrimSpace p" using Cons.prems(2) TrimSpace_blank by auto
    then show ?case
      using Split_append [OF sp, of "'' '' @ concat (map (\<lambda>p. p @ ''; '') before) @ cookieName @ tok @ rest"]
        Cons.IH [of "'' ''"] Cons.prems by (simp add: Let_def)
  qed
  from this [of "[]"] show ?thesis
    using assms(5) by (auto simp: extractToken_def Let_def TrimPrefix_def)
qed

definition ex_req :: AnyRequest where
  "ex_req = \<lparr>Procedure = ''/ingestion.v1.IngestionService/SubmitWorkload'',
     Header = (\<lambda>k. if k = ''Cookie'' then [''theme=dark; raftweave_at=tok.k; x=1'']
       else if k = ''X-Workspace-Id'' then [''w''] else [])\<rparr>"

theorem extractToken_finds_witness: "extractToken ex_req = ''tok.k''"
proof -
  have "\<forall>p \<in> set [''theme=dark'']. CHR '';'' \<notin> set p \<and> \<not> HasPrefix (TrimSpace p) cookieName"
    by (simp add: cookieName_def TrimSpace_def is_space_def)
  then show ?thesis
    using extractToken_finds [of "[''theme=dark'']" "''tok.k''" ex_req "''; x=1''"]
    by (simp add: ex_req_def hdr_Values_def hdr_Get_def cookieName_def is_space_def Let_def)
qed

theorem rbac_chain_witness:
  "mw_NewAuthInterceptor (\<lambda>s. if s = ''tok.k'' then Inr ex_claims else Inl (Sentinel ErrTokenInvalid)) PublicRoutes
     (NewRequireRole RoleMember (\<lambda>ctx req w. (Inr (mw_userID ctx), w))) background ex_req () = (Inr (Some ''u''), ())
   \<and> mw_NewAuthInterceptor (\<lambda>s. Inl (Sentinel ErrTokenExpired)) PublicRoutes
     (NewRequireRole RoleMember (\<lambda>ctx req w. (Inr (mw_userID ctx), w))) background ex_req () =
     (Inl (ConnectErr CodeUnauthenticated ''token expired''), ())"
proof -
  have t: "extractToken ex_req = ''tok.k''" by code_simp
  have r: "c_Roles ex_claims ''w'' = Some RoleAdmin" "c_UserID ex_claims = ''u''"
    by (simp_all add: ex_claims_def accessClaims_def role_defs ex_user_def)
  have p: "Procedure ex_req \<notin> set PublicRoutes" by (simp add: ex_req_def PublicRoutes_def)
  have h: "hdr_Get (Header ex_req) ''X-Workspace-Id'' = ''w''" by (simp add: ex_req_def hdr_Get_def)
  have s: "isRoleSufficient RoleAdmin RoleMember" by (simp add: isRoleSufficient_def roleHierarchy_def)
  show ?thesis
    using rbac_chain [of ex_req "\<lambda>s. if s = ''tok.k'' then Inr ex_claims else Inl (Sentinel ErrTokenInvalid)" RoleMember
        "\<lambda>ctx req w. (Inr (mw_userID ctx), w)" "()"] t r p h s
    by (auto simp: mw_NewAuthInterceptor_def Let_def)
qed

end
