(* ===== verification/Postgres.thy ===== *)
theory Postgres
  imports Prelude "HOL-Library.Multiset"
begin

text \<open>
  PostgreSQL as the repositories see it through pgx. The server is not part of the repository: an
  operation takes a function that runs one statement on a table. The statements are those of the
  sources with their conditions as functions of a row; \<open>sql_step\<close> gives their meaning on a table,
  a list of rows of which no two violate a unique constraint (\<open>clash\<close>). A constraint between tables
  is one of the reasons for which a statement may fail.
\<close>

section \<open>Statements\<close>

datatype 'r sql =
    SInsert 'r
  | SUpsert 'r "'r \<Rightarrow> bool" "'r \<Rightarrow> 'r"
  | SSelect "'r \<Rightarrow> bool"
  | SSelectDesc "'r \<Rightarrow> bool" "'r \<Rightarrow> int"
  | SUpdate "'r \<Rightarrow> bool" "'r \<Rightarrow> 'r"
  | SDelete "'r \<Rightarrow> bool"

datatype pgerr = UniqueViolation | PgErr string

fun uniq :: "('r \<Rightarrow> 'r \<Rightarrow> bool) \<Rightarrow> 'r list \<Rightarrow> bool" where
  "uniq clash [] = True"
| "uniq clash (r # rs) = ((\<forall>x \<in> set rs. \<not> clash r x) \<and> uniq clash rs)"

text \<open>
  The rows a statement returns and the number of rows it affects, and the new table. An insert with
  \<^verbatim>\<open>ON CONFLICT ... DO UPDATE\<close> changes the rows that meet the conflict target instead of adding one.
\<close>

fun sql_step :: "('r \<Rightarrow> 'r \<Rightarrow> bool) \<Rightarrow> 'r sql \<Rightarrow> 'r list \<Rightarrow> (pgerr + 'r list \<times> nat) \<times> 'r list" where
  "sql_step clash (SInsert r) tb =
     (if \<exists>x \<in> set tb. clash x r then (Inl UniqueViolation, tb) else (Inr ([], 1), tb @ [r]))"
| "sql_step clash (SUpsert r target f) tb =
     (if \<exists>x \<in> set tb. target x then (Inr ([], 1), map (\<lambda>x. if target x then f x else x) tb)
      else if \<exists>x \<in> set tb. clash x r then (Inl UniqueViolation, tb) else (Inr ([], 1), tb @ [r]))"
| "sql_step clash (SSelect p) tb = (Inr (filter p tb, length (filter p tb)), tb)"
| "sql_step clash (SSelectDesc p key) tb =
     (Inr (rev (sort_key key (filter p tb)), length (filter p tb)), tb)"
| "sql_step clash (SUpdate p f) tb =
     (let tb' = map (\<lambda>x. if p x then f x else x) tb in
      if uniq clash tb' then (Inr ([], length (filter p tb)), tb') else (Inl UniqueViolation, tb))"
| "sql_step clash (SDelete p) tb =
     (Inr ([], length (filter p tb)), filter (\<lambda>x. \<not> p x) tb)"

type_synonym ('r, 's) pgx = "'r sql \<Rightarrow> 's \<Rightarrow> (pgerr + 'r list \<times> nat) \<times> 's"

text \<open>Rows come in no particular order unless the statement asks for one; rows with equal keys may
  come in either order.\<close>

fun rows_ok :: "'r sql \<Rightarrow> 'r list \<Rightarrow> 'r list \<Rightarrow> bool" where
  "rows_ok (SSelectDesc p key) spec rows =
     (mset rows = mset spec \<and> sorted_wrt (\<lambda>a b. key b \<le> key a) rows)"
| "rows_ok st spec rows = (mset rows = mset spec)"

section \<open>Calls\<close>

definition pgMsg :: "pgerr \<Rightarrow> 'e goerr" where
  "pgMsg e = Opaque (case e of UniqueViolation \<Rightarrow> ''23505'' | PgErr m \<Rightarrow> m)"

text \<open>\<^verbatim>\<open>pool.Exec\<close> with its error wrapped.\<close>

definition pg_Exec :: "('r, 's) pgx \<Rightarrow> string \<Rightarrow> 'r sql \<Rightarrow> 's \<Rightarrow> 'e goerr option \<times> 's" where
  "pg_Exec Q ctx st s =
     (case Q st s of (Inl e, s') \<Rightarrow> (Some (Wrapf ctx (pgMsg e)), s') | (Inr _, s') \<Rightarrow> (None, s'))"

section \<open>What the client promises\<close>

locale pg_api =
  fixes Q :: "('r, 's) pgx" and tbl :: "'s \<Rightarrow> 'r list" and clash :: "'r \<Rightarrow> 'r \<Rightarrow> bool"
  assumes pg_ok: "Q st s = (Inr (rows, n), s') \<Longrightarrow>
      \<exists>spec. sql_step clash st (tbl s) = (Inr (spec, n), tbl s') \<and> rows_ok st spec rows"
    and pg_unique: "Q st s = (Inl UniqueViolation, s') \<Longrightarrow>
      sql_step clash st (tbl s) = (Inl UniqueViolation, tbl s) \<and> tbl s' = tbl s"
    and pg_err: "Q st s = (Inl (PgErr e), s') \<Longrightarrow> tbl s' = tbl s \<or> tbl s' = snd (sql_step clash st (tbl s))"
begin

lemma select_ok:
  assumes "Q (SSelect p) s = (Inr (rows, n), s')"
  shows "set rows = {r \<in> set (tbl s). p r} \<and> mset rows = mset (filter p (tbl s)) \<and> tbl s' = tbl s"
proof -
  have m: "mset rows = mset (filter p (tbl s))" "tbl s' = tbl s" using pg_ok [OF assms] by auto
  then show ?thesis using mset_eq_setD [OF m(1)] by auto
qed

lemma select_desc_ok:
  assumes "Q (SSelectDesc p key) s = (Inr (rows, n), s')"
  shows "mset rows = mset (filter p (tbl s)) \<and> sorted_wrt (\<lambda>a b. key b \<le> key a) rows \<and> tbl s' = tbl s"
  using pg_ok [OF assms] by auto

lemma any_step: "Q st s = (out, s') \<Longrightarrow> tbl s' = tbl s \<or> tbl s' = snd (sql_step clash st (tbl s))"
proof (cases out)
  case (Inl e)
  assume "Q st s = (out, s')"
  then show ?thesis using Inl pg_unique [of st s s'] pg_err [of st s _ s'] by (cases e) auto
next
  case (Inr rn)
  assume q: "Q st s = (out, s')"
  obtain rows n where "rn = (rows, n)" by fastforce
  then show ?thesis using pg_ok [of st s rows n s'] q Inr by auto
qed

lemma select_frame: "Q (SSelect p) s = (out, s') \<Longrightarrow> tbl s' = tbl s"
  using any_step [of "SSelect p" s out s'] by simp

end

locale pg_up = pg_api +
  assumes pg_total: "sql_step clash st (tbl s) = (Inr (spec, n), tb') \<Longrightarrow> \<exists>rows s'. Q st s = (Inr (rows, n), s')"
    and pg_refuses: "sql_step clash st (tbl s) = (Inl UniqueViolation, tb') \<Longrightarrow> \<exists>s'. Q st s = (Inl UniqueViolation, s')"
begin

lemma step_up:
  assumes "sql_step clash st (tbl s) = (Inr (spec, n), tb')"
  obtains rows s' where "Q st s = (Inr (rows, n), s')" "tbl s' = tb'" "rows_ok st spec rows"
proof -
  obtain rows s' where q: "Q st s = (Inr (rows, n), s')" using pg_total [OF assms] by blast
  from pg_ok [OF q] assms have "tbl s' = tb'" "rows_ok st spec rows" by auto
  with q show thesis using that by blast
qed

lemma refuse_up:
  assumes "sql_step clash st (tbl s) = (Inl UniqueViolation, tb')"
  obtains s' where "Q st s = (Inl UniqueViolation, s')" "tbl s' = tbl s"
  using pg_refuses [OF assms] pg_unique that by blast

end

section \<open>An executable server\<close>

definition pure_pg :: "('r \<Rightarrow> 'r \<Rightarrow> bool) \<Rightarrow> ('r, 'r list) pgx" where
  "pure_pg clash st tb = sql_step clash st tb"

lemma rev_sort_desc: "sorted_wrt (\<lambda>a b. key b \<le> key a) (rev (sort_key key xs))"
  using sorted_sort_key [of key xs] by (simp add: sorted_wrt_rev sorted_map)

lemma rows_ok_self: "sql_step clash st tb = (Inr (spec, n), tb') \<Longrightarrow> rows_ok st spec spec"
  by (cases st) (auto simp: rev_sort_desc)

interpretation purepg: pg_up "pure_pg clash" "\<lambda>tb. tb" clash
proof (standard, goal_cases)
  case (1 st s rows n s')
  then show ?case using rows_ok_self by (fastforce simp: pure_pg_def)
next
  case (2 st s s')
  then show ?case by (cases st) (auto simp: pure_pg_def Let_def split: if_splits)
next
  case (3 st s e s')
  then show ?case by (auto simp: pure_pg_def)
next
  case (4 st s spec n tb')
  then show ?case by (auto simp: pure_pg_def)
next
  case (5 st s tb')
  then show ?case by (auto simp: pure_pg_def)
qed

text \<open>Two tables of one database, each reached by its own statements.\<close>

definition fst_pg :: "('r, 'a) pgx \<Rightarrow> ('r, 'a \<times> 'b) pgx" where
  "fst_pg Q st s = (let (out, a) = Q st (fst s) in (out, (a, snd s)))"

definition snd_pg :: "('r, 'b) pgx \<Rightarrow> ('r, 'a \<times> 'b) pgx" where
  "snd_pg Q st s = (let (out, b) = Q st (snd s) in (out, (fst s, b)))"

lemma fst_pg_eq: "fst_pg Q st s = (out, s') \<longleftrightarrow> (\<exists>a. Q st (fst s) = (out, a) \<and> s' = (a, snd s))"
  by (auto simp: fst_pg_def split: prod.splits)

lemma snd_pg_eq: "snd_pg Q st s = (out, s') \<longleftrightarrow> (\<exists>b. Q st (snd s) = (out, b) \<and> s' = (fst s, b))"
  by (auto simp: snd_pg_def split: prod.splits)

lemma pg_up_fst: "pg_up Q tbl clash \<Longrightarrow> pg_up (fst_pg Q) (\<lambda>s. tbl (fst s)) clash"
  unfolding pg_up_def pg_api_def pg_up_axioms_def by (fastforce simp: fst_pg_eq)

lemma pg_up_snd: "pg_up Q tbl clash \<Longrightarrow> pg_up (snd_pg Q) (\<lambda>s. tbl (snd s)) clash"
  unfolding pg_up_def pg_api_def pg_up_axioms_def by (fastforce simp: snd_pg_eq)

section \<open>Unique rows\<close>

lemma uniq_append:
  "uniq clash (xs @ ys) \<longleftrightarrow> uniq clash xs \<and> uniq clash ys \<and> (\<forall>x \<in> set xs. \<forall>y \<in> set ys. \<not> clash x y)"
  by (induction xs) auto

lemma uniq_map:
  "(\<And>x y. clash (f x) (f y) = clash x y) \<Longrightarrow> uniq clash (map f xs) = uniq clash xs"
  by (induction xs) auto

lemma uniq_filter: "uniq clash xs \<Longrightarrow> uniq clash (filter p xs)"
  by (induction xs) auto

text \<open>In a table without clashes a condition that makes rows clash picks one row at most.\<close>

lemma uniq_filter_single:
  assumes "uniq clash xs" and "\<And>x y. p x \<Longrightarrow> p y \<Longrightarrow> clash x y" and "r \<in> set xs" and "p r"
  shows "filter p xs = [r]"
  using assms
proof (induction xs)
  case (Cons x xs)
  show ?case
  proof (cases "p x")
    case True
    then have "\<forall>y \<in> set xs. \<not> p y" using Cons.prems(1,2) by auto
    then show ?thesis using Cons.prems True by (auto simp: filter_empty_conv)
  next
    case False
    then show ?thesis using Cons by auto
  qed
qed simp

end
