(* ===== verification/User_Repo.thy ===== *)
theory User_Repo
  imports Postgres Auth_Domain
begin

text \<open>
  The repositories of \<^verbatim>\<open>internal/auth/adapter/postgres/user_repository.go\<close>: users, sessions and
  workspace memberships, each on its table, and the interfaces of \<^verbatim>\<open>domain/repository.go\<close> as records
  of functions over a world.
\<close>

section \<open>Tables and interfaces\<close>

text \<open>The unique constraints of the migration: the id, the address as it is written, and the provider
  with its id.\<close>

definition user_clash :: "User \<Rightarrow> User \<Rightarrow> bool" where
  "user_clash a b = (u_ID a = u_ID b \<or> u_Email a = u_Email b
     \<or> (u_Provider a = u_Provider b \<and> u_ProviderID a = u_ProviderID b))"

definition session_clash :: "Session \<Rightarrow> Session \<Rightarrow> bool" where
  "session_clash a b = (s_ID a = s_ID b)"

definition member_clash :: "WorkspaceMembership \<Rightarrow> WorkspaceMembership \<Rightarrow> bool" where
  "member_clash a b = (m_UserID a = m_UserID b \<and> m_WorkspaceID a = m_WorkspaceID b)"

record 'w UserRepository =
  ur_Create :: "User \<Rightarrow> 'w \<Rightarrow> aerr option \<times> 'w"
  ur_GetByID :: "string \<Rightarrow> 'w \<Rightarrow> (aerr + User) \<times> 'w"
  ur_GetByEmail :: "string \<Rightarrow> 'w \<Rightarrow> (aerr + User) \<times> 'w"
  ur_GetByProviderID :: "Provider \<Rightarrow> string \<Rightarrow> 'w \<Rightarrow> (aerr + User) \<times> 'w"
  ur_UpdateGitHubToken :: "gotime \<Rightarrow> string \<Rightarrow> bytes \<Rightarrow> 'w \<Rightarrow> aerr option \<times> 'w"
  ur_UpdateLastLogin :: "gotime \<Rightarrow> string \<Rightarrow> 'w \<Rightarrow> aerr option \<times> 'w"
  ur_UpdateEmailVerified :: "gotime \<Rightarrow> string \<Rightarrow> 'w \<Rightarrow> aerr option \<times> 'w"
  ur_SoftDelete :: "gotime \<Rightarrow> string \<Rightarrow> 'w \<Rightarrow> aerr option \<times> 'w"

record 'w SessionRepository =
  sr_Create :: "Session \<Rightarrow> 'w \<Rightarrow> aerr option \<times> 'w"
  sr_GetByID :: "string \<Rightarrow> 'w \<Rightarrow> (aerr + Session) \<times> 'w"
  sr_GetByUserID :: "string \<Rightarrow> 'w \<Rightarrow> (aerr + Session list) \<times> 'w"
  sr_Revoke :: "gotime \<Rightarrow> string \<Rightarrow> 'w \<Rightarrow> aerr option \<times> 'w"
  sr_RevokeAllForUser :: "gotime \<Rightarrow> string \<Rightarrow> 'w \<Rightarrow> aerr option \<times> 'w"
  sr_DeleteExpired :: "gotime \<Rightarrow> 'w \<Rightarrow> (aerr + int) \<times> 'w"

record 'w MembershipRepository =
  mr_Upsert :: "WorkspaceMembership \<Rightarrow> 'w \<Rightarrow> aerr option \<times> 'w"
  mr_GetByUserAndWorkspace :: "string \<Rightarrow> string \<Rightarrow> 'w \<Rightarrow> (aerr + WorkspaceMembership) \<times> 'w"
  mr_GetUserWorkspaces :: "string \<Rightarrow> 'w \<Rightarrow> (aerr + WorkspaceMembership list) \<times> 'w"
  mr_RemoveMember :: "string \<Rightarrow> string \<Rightarrow> 'w \<Rightarrow> aerr option \<times> 'w"

section \<open>Users\<close>

definition user_Create :: "(User, 's) pgx \<Rightarrow> User \<Rightarrow> 's \<Rightarrow> aerr option \<times> 's" where
  "user_Create Q u s =
     (case Q (SInsert u) s of
        (Inl UniqueViolation, s') \<Rightarrow> (Some (Sentinel ErrUserAlreadyExists), s')
      | (Inl e, s') \<Rightarrow> (Some (Wrapf ''userRepo.Create'' (pgMsg e)), s')
      | (Inr _, s') \<Rightarrow> (None, s'))"

definition scanUser :: "(User, 's) pgx \<Rightarrow> (User \<Rightarrow> bool) \<Rightarrow> 's \<Rightarrow> (aerr + User) \<times> 's" where
  "scanUser Q cond s =
     (case Q (SSelect cond) s of
        (Inl e, s') \<Rightarrow> (Inl (Wrapf ''userRepo.scanUser'' (pgMsg e)), s')
      | (Inr ([], _), s') \<Rightarrow> (Inl (Sentinel ErrUserNotFound), s')
      | (Inr (row # _, _), s') \<Rightarrow> (Inr (row\<lparr>u_Provider := ToLower (u_Provider row)\<rparr>), s'))"

definition user_GetByID :: "(User, 's) pgx \<Rightarrow> string \<Rightarrow> 's \<Rightarrow> (aerr + User) \<times> 's" where
  "user_GetByID Q i = scanUser Q (\<lambda>r. u_ID r = i \<and> u_IsActive r)"

definition user_GetByEmail :: "(User, 's) pgx \<Rightarrow> string \<Rightarrow> 's \<Rightarrow> (aerr + User) \<times> 's" where
  "user_GetByEmail Q email = scanUser Q (\<lambda>r. ToLower (u_Email r) = ToLower email \<and> u_IsActive r)"

definition user_GetByProviderID :: "(User, 's) pgx \<Rightarrow> Provider \<Rightarrow> string \<Rightarrow> 's \<Rightarrow> (aerr + User) \<times> 's" where
  "user_GetByProviderID Q provider providerID =
     scanUser Q (\<lambda>r. u_Provider r = provider \<and> u_ProviderID r = providerID \<and> u_IsActive r)"

definition user_UpdateGitHubToken :: "(User, 's) pgx \<Rightarrow> gotime \<Rightarrow> string \<Rightarrow> bytes \<Rightarrow> 's \<Rightarrow> aerr option \<times> 's" where
  "user_UpdateGitHubToken Q now userID encToken =
     pg_Exec Q ''userRepo.UpdateGitHubToken''
       (SUpdate (\<lambda>r. u_ID r = userID) (\<lambda>r. r\<lparr>u_GitHubTokenEnc := Some encToken, u_UpdatedAt := now\<rparr>))"

definition user_UpdateLastLogin :: "(User, 's) pgx \<Rightarrow> gotime \<Rightarrow> string \<Rightarrow> 's \<Rightarrow> aerr option \<times> 's" where
  "user_UpdateLastLogin Q now userID =
     pg_Exec Q ''userRepo.UpdateLastLogin''
       (SUpdate (\<lambda>r. u_ID r = userID) (\<lambda>r. r\<lparr>u_LastLoginAt := Some now, u_UpdatedAt := now\<rparr>))"

definition user_UpdateEmailVerified :: "(User, 's) pgx \<Rightarrow> gotime \<Rightarrow> string \<Rightarrow> 's \<Rightarrow> aerr option \<times> 's" where
  "user_UpdateEmailVerified Q now userID =
     pg_Exec Q ''userRepo.UpdateEmailVerified''
       (SUpdate (\<lambda>r. u_ID r = userID) (\<lambda>r. r\<lparr>u_IsEmailVerified := True, u_UpdatedAt := now\<rparr>))"

definition user_SoftDelete :: "(User, 's) pgx \<Rightarrow> gotime \<Rightarrow> string \<Rightarrow> 's \<Rightarrow> aerr option \<times> 's" where
  "user_SoftDelete Q now userID =
     pg_Exec Q ''userRepo.SoftDelete''
       (SUpdate (\<lambda>r. u_ID r = userID) (\<lambda>r. r\<lparr>u_IsActive := False, u_UpdatedAt := now\<rparr>))"

definition pgUserRepo :: "(User, 's) pgx \<Rightarrow> 's UserRepository" where
  "pgUserRepo Q = \<lparr>ur_Create = user_Create Q, ur_GetByID = user_GetByID Q, ur_GetByEmail = user_GetByEmail Q,
     ur_GetByProviderID = user_GetByProviderID Q, ur_UpdateGitHubToken = user_UpdateGitHubToken Q,
     ur_UpdateLastLogin = user_UpdateLastLogin Q, ur_UpdateEmailVerified = user_UpdateEmailVerified Q,
     ur_SoftDelete = user_SoftDelete Q\<rparr>"

section \<open>Sessions\<close>

text \<open>The insert leaves \<open>revoked_at\<close> to its default, which is NULL.\<close>

definition session_Create :: "(Session, 's) pgx \<Rightarrow> Session \<Rightarrow> 's \<Rightarrow> aerr option \<times> 's" where
  "session_Create Q x = pg_Exec Q ''sessionRepo.Create'' (SInsert (x\<lparr>s_RevokedAt := None\<rparr>))"

definition session_GetByID :: "(Session, 's) pgx \<Rightarrow> string \<Rightarrow> 's \<Rightarrow> (aerr + Session) \<times> 's" where
  "session_GetByID Q i s =
     (case Q (SSelect (\<lambda>r. s_ID r = i)) s of
        (Inl e, s') \<Rightarrow> (Inl (Wrapf ''sessionRepo.GetByID'' (pgMsg e)), s')
      | (Inr ([], _), s') \<Rightarrow> (Inl (Sentinel ErrSessionNotFound), s')
      | (Inr (row # _, _), s') \<Rightarrow> (Inr row, s'))"

definition session_GetByUserID :: "(Session, 's) pgx \<Rightarrow> string \<Rightarrow> 's \<Rightarrow> (aerr + Session list) \<times> 's" where
  "session_GetByUserID Q userID s =
     (case Q (SSelectDesc (\<lambda>r. s_UserID r = userID) s_CreatedAt) s of
        (Inl e, s') \<Rightarrow> (Inl (Wrapf ''sessionRepo.GetByUserID'' (pgMsg e)), s')
      | (Inr (rows, _), s') \<Rightarrow> (Inr rows, s'))"

definition session_Revoke :: "(Session, 's) pgx \<Rightarrow> gotime \<Rightarrow> string \<Rightarrow> 's \<Rightarrow> aerr option \<times> 's" where
  "session_Revoke Q now i =
     pg_Exec Q ''sessionRepo.Revoke''
       (SUpdate (\<lambda>r. s_ID r = i) (\<lambda>r. r\<lparr>s_IsRevoked := True, s_RevokedAt := Some now\<rparr>))"

definition session_RevokeAllForUser :: "(Session, 's) pgx \<Rightarrow> gotime \<Rightarrow> string \<Rightarrow> 's \<Rightarrow> aerr option \<times> 's" where
  "session_RevokeAllForUser Q now userID =
     pg_Exec Q ''sessionRepo.RevokeAllForUser''
       (SUpdate (\<lambda>r. s_UserID r = userID \<and> \<not> s_IsRevoked r)
          (\<lambda>r. r\<lparr>s_IsRevoked := True, s_RevokedAt := Some now\<rparr>))"

definition session_DeleteExpired :: "(Session, 's) pgx \<Rightarrow> gotime \<Rightarrow> 's \<Rightarrow> (aerr + int) \<times> 's" where
  "session_DeleteExpired Q now s =
     (case Q (SDelete (\<lambda>r. s_ExpiresAt r < now)) s of
        (Inl e, s') \<Rightarrow> (Inl (Wrapf ''sessionRepo.DeleteExpired'' (pgMsg e)), s')
      | (Inr (_, n), s') \<Rightarrow> (Inr (int n), s'))"

definition pgSessionRepo :: "(Session, 's) pgx \<Rightarrow> 's SessionRepository" where
  "pgSessionRepo Q = \<lparr>sr_Create = session_Create Q, sr_GetByID = session_GetByID Q,
     sr_GetByUserID = session_GetByUserID Q, sr_Revoke = session_Revoke Q,
     sr_RevokeAllForUser = session_RevokeAllForUser Q, sr_DeleteExpired = session_DeleteExpired Q\<rparr>"

section \<open>Memberships\<close>

definition member_Upsert :: "(WorkspaceMembership, 's) pgx \<Rightarrow> WorkspaceMembership \<Rightarrow> 's \<Rightarrow> aerr option \<times> 's" where
  "member_Upsert Q m =
     pg_Exec Q ''membershipRepo.Upsert'' (SUpsert m (\<lambda>r. member_clash r m) (\<lambda>r. r\<lparr>m_Role := m_Role m\<rparr>))"

definition member_GetByUserAndWorkspace ::
    "(WorkspaceMembership, 's) pgx \<Rightarrow> string \<Rightarrow> string \<Rightarrow> 's \<Rightarrow> (aerr + WorkspaceMembership) \<times> 's" where
  "member_GetByUserAndWorkspace Q userID workspaceID s =
     (case Q (SSelect (\<lambda>r. m_UserID r = userID \<and> m_WorkspaceID r = workspaceID)) s of
        (Inl e, s') \<Rightarrow> (Inl (Wrapf ''membershipRepo.GetByUserAndWorkspace'' (pgMsg e)), s')
      | (Inr ([], _), s') \<Rightarrow> (Inl (Sentinel ErrUserNotFound), s')
      | (Inr (row # _, _), s') \<Rightarrow> (Inr row, s'))"

definition member_GetUserWorkspaces ::
    "(WorkspaceMembership, 's) pgx \<Rightarrow> string \<Rightarrow> 's \<Rightarrow> (aerr + WorkspaceMembership list) \<times> 's" where
  "member_GetUserWorkspaces Q userID s =
     (case Q (SSelect (\<lambda>r. m_UserID r = userID)) s of
        (Inl e, s') \<Rightarrow> (Inl (Wrapf ''membershipRepo.GetUserWorkspaces'' (pgMsg e)), s')
      | (Inr (rows, _), s') \<Rightarrow> (Inr rows, s'))"

definition member_RemoveMember :: "(WorkspaceMembership, 's) pgx \<Rightarrow> string \<Rightarrow> string \<Rightarrow> 's \<Rightarrow> aerr option \<times> 's" where
  "member_RemoveMember Q userID workspaceID =
     pg_Exec Q ''membershipRepo.RemoveMember''
       (SDelete (\<lambda>r. m_UserID r = userID \<and> m_WorkspaceID r = workspaceID))"

definition pgMembershipRepo :: "(WorkspaceMembership, 's) pgx \<Rightarrow> 's MembershipRepository" where
  "pgMembershipRepo Q = \<lparr>mr_Upsert = member_Upsert Q, mr_GetByUserAndWorkspace = member_GetByUserAndWorkspace Q,
     mr_GetUserWorkspaces = member_GetUserWorkspaces Q, mr_RemoveMember = member_RemoveMember Q\<rparr>"

section \<open>The contract of a user repository\<close>

definition email_match :: "string \<Rightarrow> User \<Rightarrow> bool" where
  "email_match e r = (ToLower (u_Email r) = ToLower e \<and> u_IsActive r)"

definition scanned :: "User \<Rightarrow> User" where
  "scanned r = r\<lparr>u_Provider := ToLower (u_Provider r)\<rparr>"

text \<open>What a client relies on when calls may fail, and when they do not.\<close>

locale user_repository =
  fixes UR :: "'w UserRepository" and users :: "'w \<Rightarrow> User list"
  assumes by_email: "ur_GetByEmail UR e w = (out, w') \<Longrightarrow> users w' = users w
      \<and> (\<forall>u. out = Inr u \<longrightarrow> (\<exists>r \<in> set (users w). email_match e r \<and> u = scanned r))"
    and by_id: "ur_GetByID UR i w = (out, w') \<Longrightarrow> users w' = users w
      \<and> (\<forall>u. out = Inr u \<longrightarrow> (\<exists>r \<in> set (users w). u_ID r = i \<and> u_IsActive r \<and> u = scanned r))"
    and create: "ur_Create UR u w = (res, w') \<Longrightarrow>
      (res = None \<longrightarrow> users w' = users w @ [u] \<and> (\<forall>x \<in> set (users w). \<not> user_clash x u))
      \<and> (res = Some (Sentinel ErrUserAlreadyExists) \<longrightarrow> users w' = users w \<and> (\<exists>x \<in> set (users w). user_clash x u))"

locale user_repository_up = user_repository +
  assumes by_email_up: "(\<exists>r \<in> set (users w). email_match e r) \<Longrightarrow> \<exists>u w'. ur_GetByEmail UR e w = (Inr u, w')"
    and by_email_none: "\<forall>r \<in> set (users w). \<not> email_match e r \<Longrightarrow>
      \<exists>w'. ur_GetByEmail UR e w = (Inl (Sentinel ErrUserNotFound), w')"
    and create_up: "\<forall>x \<in> set (users w). \<not> user_clash x u \<Longrightarrow> \<exists>w'. ur_Create UR u w = (None, w')"
    and create_dup: "\<exists>x \<in> set (users w). user_clash x u \<Longrightarrow>
      \<exists>w'. ur_Create UR u w = (Some (Sentinel ErrUserAlreadyExists), w')"

text \<open>The Postgres repository keeps it, whatever the server behind it.\<close>

locale pg_users = pg_up Q tbl user_clash for Q :: "(User, 's) pgx" and tbl
begin

lemma scanUser_ok:
  assumes "scanUser Q p s = (out, s')"
  shows "tbl s' = tbl s \<and> (\<forall>u. out = Inr u \<longrightarrow> (\<exists>r \<in> set (tbl s). p r \<and> u = scanned r))"
proof -
  obtain q s1 where q: "Q (SSelect p) s = (q, s1)" by fastforce
  have s': "s' = s1" using assms q by (auto simp: scanUser_def split: sum.splits list.splits prod.splits)
  have "\<exists>r \<in> set (tbl s). p r \<and> u = scanned r" if u: "out = Inr u" for u
  proof -
    have "\<exists>r rows n. q = Inr (r # rows, n) \<and> u = scanned r"
      using u assms q by (auto simp: scanUser_def scanned_def split: sum.splits list.splits prod.splits)
    then obtain r rows n where "q = Inr (r # rows, n)" "u = scanned r" by blast
    then show ?thesis using select_ok [of p s "r # rows" n s1] q by auto
  qed
  then show ?thesis using select_frame [OF q] s' by simp
qed

lemma scanUser_up:
  "(\<exists>r \<in> set (tbl s). p r) \<Longrightarrow> \<exists>u s'. scanUser Q p s = (Inr u, s')"
  "\<forall>r \<in> set (tbl s). \<not> p r \<Longrightarrow> \<exists>s'. scanUser Q p s = (Inl (Sentinel ErrUserNotFound), s')"
proof -
  obtain rows s' where q: "Q (SSelect p) s = (Inr (rows, length (filter p (tbl s))), s')"
    using step_up [of "SSelect p" s] by (metis sql_step.simps(3))
  have rows: "set rows = {r \<in> set (tbl s). p r}" using select_ok [OF q] by simp
  show "\<exists>u s'. scanUser Q p s = (Inr u, s')" if "\<exists>r \<in> set (tbl s). p r"
    using q rows that by (cases rows) (auto simp: scanUser_def)
  show "\<exists>s'. scanUser Q p s = (Inl (Sentinel ErrUserNotFound), s')" if "\<forall>r \<in> set (tbl s). \<not> p r"
    using q rows that by (cases rows) (auto simp: scanUser_def)
qed

end

sublocale pg_users \<subseteq> user_repository_up "pgUserRepo Q" tbl
proof (unfold_locales, goal_cases)
  case (1 e w out w')
  then show ?case using scanUser_ok [of "email_match e" w out w']
    by (simp add: pgUserRepo_def user_GetByEmail_def email_match_def [abs_def])
next
  case (2 i w out w')
  then show ?case using scanUser_ok [of "\<lambda>r. u_ID r = i \<and> u_IsActive r" w out w']
    by (simp add: pgUserRepo_def user_GetByID_def)
next
  case (3 u w res w')
  then show ?case using pg_ok [of "SInsert u" w] pg_unique [of "SInsert u" w]
    by (auto simp: pgUserRepo_def user_Create_def split: sum.splits prod.splits pgerr.splits if_splits)
next
  case (4 w e)
  then show ?case using scanUser_up(1) [of w "email_match e"]
    by (simp add: pgUserRepo_def user_GetByEmail_def email_match_def [abs_def])
next
  case (5 w e)
  then show ?case using scanUser_up(2) [of w "email_match e"]
    by (simp add: pgUserRepo_def user_GetByEmail_def email_match_def [abs_def])
next
  case (6 w u)
  then have "sql_step user_clash (SInsert u) (tbl w) = (Inr ([], 1), tbl w @ [u])" by simp
  from pg_total [OF this] show ?case by (auto simp: pgUserRepo_def user_Create_def)
next
  case (7 w u)
  then have "sql_step user_clash (SInsert u) (tbl w) = (Inl UniqueViolation, tbl w)" by simp
  from pg_refuses [OF this] show ?case by (auto simp: pgUserRepo_def user_Create_def)
qed

context pg_users
begin

lemma axioms_repo: "user_repository_up (pgUserRepo Q) tbl"
  by (rule user_repository_up_axioms)

end

interpretation pureusers: pg_users "pure_pg user_clash" "\<lambda>tb. tb"
  by (simp add: pg_users_def purepg.pg_up_axioms)

section \<open>Memberships\<close>

text \<open>Recording a membership gives the user exactly that role in the workspace, whether there was a
  membership before or not: a lookup afterwards finds it, and the memberships of other users and
  workspaces are as before.\<close>

theorem member_upsert_get:
  assumes up: "pg_up Q tbl member_clash" and u: "uniq member_clash (tbl s)"
  shows "\<exists>s'. member_Upsert Q m s = (None, s') \<and> uniq member_clash (tbl s')
    \<and> filter (\<lambda>r. \<not> member_clash r m) (tbl s') = filter (\<lambda>r. \<not> member_clash r m) (tbl s)
    \<and> (\<exists>r s''. member_GetByUserAndWorkspace Q (m_UserID m) (m_WorkspaceID m) s' = (Inr r, s'')
         \<and> m_UserID r = m_UserID m \<and> m_WorkspaceID r = m_WorkspaceID m \<and> m_Role r = m_Role m)"
proof -
  let ?f = "\<lambda>x. if member_clash x m then x\<lparr>m_Role := m_Role m\<rparr> else x"
  let ?tb = "if \<exists>x \<in> set (tbl s). member_clash x m then map ?f (tbl s) else tbl s @ [m]"
  have st: "sql_step member_clash (SUpsert m (\<lambda>r. member_clash r m) (\<lambda>r. r\<lparr>m_Role := m_Role m\<rparr>)) (tbl s) = (Inr ([], 1), ?tb)"
    by (auto simp: member_clash_def)
  from pg_up.step_up [OF up this] obtain rows s' where
    q: "Q (SUpsert m (\<lambda>r. member_clash r m) (\<lambda>r. r\<lparr>m_Role := m_Role m\<rparr>)) s = (Inr (rows, 1), s')" "tbl s' = ?tb" .
  have ins: "member_Upsert Q m s = (None, s')" using q(1) by (simp add: member_Upsert_def pg_Exec_def)
  have uq: "uniq member_clash (map ?f (tbl s))" using u by (subst uniq_map) (auto simp: member_clash_def)
  have uq': "uniq member_clash (tbl s')"
    using q(2) u uq by (auto simp: uniq_append member_clash_def)
  have other: "filter (\<lambda>r. \<not> member_clash r m) (tbl s') = filter (\<lambda>r. \<not> member_clash r m) (tbl s)"
  proof -
    have "filter (\<lambda>r. \<not> member_clash r m) (map ?f xs) = filter (\<lambda>r. \<not> member_clash r m) xs" for xs
      by (induction xs) (auto simp: member_clash_def)
    then show ?thesis using q(2) by (auto simp: member_clash_def)
  qed
  let ?p = "\<lambda>r. m_UserID r = m_UserID m \<and> m_WorkspaceID r = m_WorkspaceID m"
  have "\<exists>r \<in> set (tbl s'). ?p r"
  proof (cases "\<exists>x \<in> set (tbl s). member_clash x m")
    case True
    then obtain x where "x \<in> set (tbl s)" "member_clash x m" by blast
    then have "?f x \<in> set (tbl s')" "?p (?f x)" using q(2) True by (auto simp: member_clash_def)
    then show ?thesis by blast
  qed (use q(2) in auto)
  then obtain r where r: "r \<in> set (tbl s')" "?p r" by blast
  have one: "filter ?p (tbl s') = [r]"
    by (rule uniq_filter_single [of member_clash, OF uq' _ r(1)]) (use r(2) in \<open>auto simp: member_clash_def\<close>)
  have role: "m_Role r = m_Role m" using r q(2) by (auto simp: member_clash_def split: if_splits)
  have "sql_step member_clash (SSelect ?p) (tbl s') = (Inr ([r], 1), tbl s')" using one by simp
  from pg_up.step_up [OF up this] obtain rows2 s'' where
    "Q (SSelect ?p) s' = (Inr (rows2, 1), s'')" "rows_ok (SSelect ?p) [r] rows2" .
  then have "member_GetByUserAndWorkspace Q (m_UserID m) (m_WorkspaceID m) s' = (Inr r, s'')"
    by (simp add: member_GetByUserAndWorkspace_def)
  then show ?thesis using ins uq' other r(2) role by blast
qed

definition ex_member :: WorkspaceMembership where
  "ex_member = \<lparr>m_UserID = ''u'', m_WorkspaceID = ''w'', m_Role = ''ADMIN'', m_InvitedBy = ''o'', m_JoinedAt = 0\<rparr>"

theorem member_upsert_get_witness:
  "\<exists>s' r s''. member_Upsert (pure_pg member_clash) ex_member [ex_member\<lparr>m_Role := ''VIEWER''\<rparr>] = (None, s')
     \<and> member_GetByUserAndWorkspace (pure_pg member_clash) ''u'' ''w'' s' = (Inr r, s'') \<and> m_Role r = ''ADMIN''"
  using member_upsert_get [of "pure_pg member_clash" "\<lambda>tb. tb" "[ex_member\<lparr>m_Role := ''VIEWER''\<rparr>]" ex_member,
      OF purepg.pg_up_axioms]
  by (auto simp: ex_member_def)

end
