(* ===== verification/Auth_Handler.thy ===== *)
theory Auth_Handler
  imports Refresh_Properties Otp Auth_Middleware User_Repo
begin

text \<open>
  The Connect handlers of the auth service, \<^verbatim>\<open>internal/auth/handler/rpc/auth_handler.go\<close>. The
  collaborators are interface values over a common world; a nil interface is \<open>None\<close>, and a method call
  on it is a panic. A request carries what it draws from its environment: the instant, the random
  bytes and the identifiers.
\<close>

section \<open>Collaborators\<close>

record 'w TokenStore =
  ts_Issue :: "gotime \<Rightarrow> bytes option \<Rightarrow> string \<Rightarrow> string \<Rightarrow> string \<Rightarrow> 'w \<Rightarrow> (aerr + string) \<times> 'w"
  ts_Verify :: "gotime \<Rightarrow> string \<Rightarrow> string \<Rightarrow> 'w \<Rightarrow> (aerr + string) \<times> 'w"
  ts_Rotate :: "gotime \<Rightarrow> bytes option \<Rightarrow> string \<Rightarrow> string \<Rightarrow> string \<Rightarrow> 'w \<Rightarrow> (aerr + (string \<times> string)) \<times> 'w"
  ts_Revoke :: "gotime \<Rightarrow> string \<Rightarrow> 'w \<Rightarrow> aerr option \<times> 'w"
  ts_RevokeAll :: "gotime \<Rightarrow> string \<Rightarrow> 'w \<Rightarrow> aerr option \<times> 'w"

record 'w OTPGenerator =
  og_Issue :: "gotime \<Rightarrow> string \<Rightarrow> OTPPurpose \<Rightarrow> 'w \<Rightarrow> (aerr + string) \<times> 'w"
  og_Verify :: "gotime \<Rightarrow> string \<Rightarrow> string \<Rightarrow> 'w \<Rightarrow> (aerr + string) \<times> 'w"

record GitHubRepository =
  gr_ID :: int
  gr_FullName :: string
  gr_HTMLURL :: string
  gr_DefaultBranch :: string
  gr_Private :: bool
  gr_CloneURL :: string

record 'w AuthHandler =
  h_otpGen :: "'w OTPGenerator option"
  h_IssueAccessToken :: "gotime \<Rightarrow> string \<Rightarrow> User \<Rightarrow> string \<Rightarrow> roles \<Rightarrow> aerr + string"
  h_tokenStore :: "'w TokenStore"
  h_userRepo :: "'w UserRepository"
  h_memberRepo :: "'w MembershipRepository option"
  h_sessionRepo :: "'w SessionRepository"
  h_ListUserRepos :: "string \<Rightarrow> 'w \<Rightarrow> (aerr + GitHubRepository list) \<times> 'w"
  h_mailer :: "'w Mailer option"
  h_sha256 :: "bytes \<Rightarrow> bytes"

record req_env =
  e_now :: gotime
  e_rnd :: "bytes option"
  e_uuid :: string
  e_jti :: string
  e_id1 :: bytes
  e_id2 :: bytes

section \<open>Responses\<close>

record UserInfo =
  ui_UserId :: string
  ui_Email :: string
  ui_Name :: string
  ui_AvatarUrl :: string
  ui_Provider :: string
  ui_EmailVerified :: bool
  ui_CreatedAt :: gotime
  ui_LastLoginAt :: "gotime option"

record AuthTokenResponse =
  ar_AccessToken :: string
  ar_RefreshToken :: string
  ar_AccessTokenExpiresIn :: int
  ar_RefreshTokenExpiresIn :: int
  ar_User :: UserInfo

record SessionInfo =
  si_SessionId :: string
  si_Fingerprint :: string
  si_CreatedAt :: gotime
  si_ExpiresAt :: gotime
  si_IsCurrent :: bool

definition userToProto :: "User \<Rightarrow> UserInfo" where
  "userToProto u = \<lparr>ui_UserId = u_ID u, ui_Email = u_Email u, ui_Name = u_Name u, ui_AvatarUrl = u_AvatarURL u,
     ui_Provider = u_Provider u, ui_EmailVerified = u_IsEmailVerified u, ui_CreatedAt = u_CreatedAt u,
     ui_LastLoginAt = u_LastLoginAt u\<rparr>"

section \<open>Helpers\<close>

definition svcError :: rpc_error where
  "svcError = ConnectErr CodeInternal ''authentication service error''"

definition mapDomainError :: "aerr \<Rightarrow> rpc_error" where
  "mapDomainError err =
     (if errors_Is err ErrUserNotFound then ConnectErr CodeNotFound ''user not found''
      else if errors_Is err ErrTokenExpired \<or> errors_Is err ErrTokenInvalid
      then ConnectErr CodeUnauthenticated ''invalid token''
      else if errors_Is err ErrSessionFingerprintMismatch \<or> errors_Is err ErrSessionNotFound
        \<or> errors_Is err ErrSessionExpired \<or> errors_Is err ErrSessionRevoked
      then ConnectErr CodeUnauthenticated ''session invalid''
      else if errors_Is err ErrOTPInvalid then ConnectErr CodeInvalidArgument ''invalid code''
      else if errors_Is err ErrOTPExpired then ConnectErr CodeDeadlineExceeded ''code expired''
      else if errors_Is err ErrOTPMaxAttemptsReached then ConnectErr CodeResourceExhausted ''max attempts reached''
      else if errors_Is err ErrOTPAlreadyUsed then ConnectErr CodeFailedPrecondition ''code already used''
      else if errors_Is err ErrOTPNotFound then ConnectErr CodeNotFound ''challenge not found''
      else if errors_Is err ErrInsufficientRole then ConnectErr CodePermissionDenied ''insufficient permissions''
      else svcError)"

definition rpc_extractIP :: "header \<Rightarrow> string" where
  "rpc_extractIP h =
     (if hdr_Get h ''X-Forwarded-For'' \<noteq> [] then hdr_Get h ''X-Forwarded-For''
      else if hdr_Get h ''X-Real-Ip'' \<noteq> [] then hdr_Get h ''X-Real-Ip''
      else ''unknown'')"

definition generateID :: "bytes \<Rightarrow> string" where
  "generateID b = hex_encode b"

text \<open>The loop that fills the role table: a later membership of the same workspace wins.\<close>

fun rolesOf :: "WorkspaceMembership list \<Rightarrow> roles \<Rightarrow> roles" where
  "rolesOf [] rs = rs"
| "rolesOf (m # ms) rs = rolesOf ms (rs(m_WorkspaceID m \<mapsto> m_Role m))"

definition buildRoles :: "'w AuthHandler \<Rightarrow> string \<Rightarrow> 'w \<Rightarrow> roles \<times> 'w" where
  "buildRoles h userID w =
     (case h_memberRepo h of
        None \<Rightarrow> (Map.empty, w)
      | Some mr \<Rightarrow>
          (case mr_GetUserWorkspaces mr userID w of
             (Inl _, w1) \<Rightarrow> (Map.empty, w1)
           | (Inr ms, w1) \<Rightarrow> (rolesOf ms Map.empty, w1)))"

definition tokenResponse :: "string \<Rightarrow> string \<Rightarrow> User \<Rightarrow> AuthTokenResponse" where
  "tokenResponse at rt user = \<lparr>ar_AccessToken = at, ar_RefreshToken = rt, ar_AccessTokenExpiresIn = 900,
     ar_RefreshTokenExpiresIn = 604800, ar_User = userToProto user\<rparr>"

definition issueTokenResponse ::
    "'w AuthHandler \<Rightarrow> req_env \<Rightarrow> header \<Rightarrow> User \<Rightarrow> 'w \<Rightarrow> (rpc_error + AuthTokenResponse) \<times> 'w" where
  "issueTokenResponse h env hdrs user w =
     (let ip0 = hdr_Get hdrs ''X-Forwarded-For'';
          ip = (if ip0 = [] then hdr_Get hdrs ''X-Real-Ip'' else ip0);
          fp = BuildFingerprint (h_sha256 h) (hdr_Get hdrs ''User-Agent'') ip;
          (rs, w1) = buildRoles h (u_ID user) w;
          sid = generateID (e_id2 env)
      in case ts_Issue (h_tokenStore h) (e_now env) (e_rnd env) sid (u_ID user) fp w1 of
           (Inl e, w2) \<Rightarrow> (Inl svcError, w2)
         | (Inr rt, w2) \<Rightarrow>
             (case h_IssueAccessToken h (e_now env) (e_jti env) user sid rs of
                Inl e \<Rightarrow> (Inl svcError, w2)
              | Inr at \<Rightarrow> (Inr (tokenResponse at rt user), w2)))"

section \<open>Handlers\<close>

definition RequestOTP ::
    "'w AuthHandler \<Rightarrow> req_env \<Rightarrow> string \<Rightarrow> 'w \<Rightarrow> (rpc_error + (string \<times> int)) \<times> 'w" where
  "RequestOTP h env email w =
     (case h_otpGen h of
        None \<Rightarrow> (Inl NilDereference, w)
      | Some og \<Rightarrow>
          (case og_Issue og (e_now env) email OTPPurposeLogin w of
             (Inl e, w1) \<Rightarrow> (Inl svcError, w1)
           | (Inr cid, w1) \<Rightarrow> (Inr (cid, 600), w1)))"

definition newEmailUser :: "bytes \<Rightarrow> string \<Rightarrow> User" where
  "newEmailUser idb email = \<lparr>u_ID = generateID idb, u_Email = email, u_Name = email, u_AvatarURL = [],
     u_Provider = ProviderEmail, u_ProviderID = email, u_GitHubLogin = [], u_GitHubTokenEnc = None,
     u_IsEmailVerified = True, u_IsActive = True, u_CreatedAt = zero_time, u_UpdatedAt = zero_time,
     u_LastLoginAt = None\<rparr>"

text \<open>The user of an address: found, or created when there is none.\<close>

definition findOrCreate ::
    "'w AuthHandler \<Rightarrow> req_env \<Rightarrow> string \<Rightarrow> 'w \<Rightarrow> (rpc_error + User) \<times> 'w" where
  "findOrCreate h env email w =
     (case ur_GetByEmail (h_userRepo h) email w of
        (Inr user, w1) \<Rightarrow> (Inr user, w1)
      | (Inl e, w1) \<Rightarrow>
          if errors_Is e ErrUserNotFound
          then (case ur_Create (h_userRepo h) (newEmailUser (e_id1 env) email) w1 of
                  (Some _, w2) \<Rightarrow> (Inl svcError, w2)
                | (None, w2) \<Rightarrow> (Inr (newEmailUser (e_id1 env) email), w2))
          else (Inl svcError, w1))"

definition VerifyOTP ::
    "'w AuthHandler \<Rightarrow> req_env \<Rightarrow> header \<Rightarrow> string \<Rightarrow> string \<Rightarrow> 'w \<Rightarrow> (rpc_error + AuthTokenResponse) \<times> 'w" where
  "VerifyOTP h env hdrs challengeId code w =
     (case h_otpGen h of
        None \<Rightarrow> (Inl NilDereference, w)
      | Some og \<Rightarrow>
          (case og_Verify og (e_now env) challengeId code w of
             (Inl e, w1) \<Rightarrow> (Inl (mapDomainError e), w1)
           | (Inr email, w1) \<Rightarrow>
               (case findOrCreate h env email w1 of
                  (Inl e, w2) \<Rightarrow> (Inl e, w2)
                | (Inr user, w2) \<Rightarrow>
                    let (_, w3) = ur_UpdateLastLogin (h_userRepo h) (e_now env) (u_ID user) w2
                    in issueTokenResponse h env hdrs user w3)))"

definition alertText :: string where
  "alertText = ''Suspicious login '' @ [CHR 0xE2, CHR 0x80, CHR 0x94] @ '' all sessions revoked''"

definition RefreshToken ::
    "'w AuthHandler \<Rightarrow> req_env \<Rightarrow> gctx \<Rightarrow> header \<Rightarrow> string \<Rightarrow> 'w \<Rightarrow> (rpc_error + AuthTokenResponse) \<times> 'w" where
  "RefreshToken h env ctx hdrs refreshToken w =
     (let ip = rpc_extractIP hdrs;
          fp = BuildFingerprint (h_sha256 h) (hdr_Get hdrs ''User-Agent'') ip
      in case ts_Rotate (h_tokenStore h) (e_now env) (e_rnd env) (e_uuid env) refreshToken fp w of
           (Inl e, w1) \<Rightarrow>
             let w2 = (case h_mailer h of
                         Some m \<Rightarrow> if errors_Is e ErrSessionFingerprintMismatch
                                  then snd (SendSecurityAlert m [] alertText w1) else w1
                       | None \<Rightarrow> w1)
             in (Inl (mapDomainError e), w2)
         | (Inr (newRT, newSID), w1) \<Rightarrow>
             (case rpc_ClaimsFromContext ctx of
                None \<Rightarrow> (Inl (ConnectErr CodeUnauthenticated ''session invalid''), w1)
              | Some claims \<Rightarrow>
                  (case ur_GetByID (h_userRepo h) (c_UserID claims) w1 of
                     (Inl e, w2) \<Rightarrow> (Inl svcError, w2)
                   | (Inr user, w2) \<Rightarrow>
                       let (rs, w3) = buildRoles h (u_ID user) w2 in
                       (case h_IssueAccessToken h (e_now env) (e_jti env) user newSID rs of
                          Inl e \<Rightarrow> (Inl svcError, w3)
                        | Inr at \<Rightarrow> (Inr (tokenResponse at newRT user), w3)))))"

definition Logout :: "'w AuthHandler \<Rightarrow> req_env \<Rightarrow> string \<Rightarrow> 'w \<Rightarrow> (rpc_error + bool) \<times> 'w" where
  "Logout h env refreshToken w =
     (let (_, w1) = ts_Revoke (h_tokenStore h) (e_now env) refreshToken w in (Inr True, w1))"

definition notAuthenticated :: rpc_error where
  "notAuthenticated = ConnectErr CodeUnauthenticated ''not authenticated''"

definition LogoutAll :: "'w AuthHandler \<Rightarrow> req_env \<Rightarrow> gctx \<Rightarrow> 'w \<Rightarrow> (rpc_error + bool) \<times> 'w" where
  "LogoutAll h env ctx w =
     (case rpc_ClaimsFromContext ctx of
        None \<Rightarrow> (Inl notAuthenticated, w)
      | Some claims \<Rightarrow>
          let (_, w1) = ts_RevokeAll (h_tokenStore h) (e_now env) (c_UserID claims) w in (Inr True, w1))"

definition GetMe ::
    "'w AuthHandler \<Rightarrow> gctx \<Rightarrow> 'w \<Rightarrow> (rpc_error + (UserInfo \<times> (string \<times> string) list)) \<times> 'w" where
  "GetMe h ctx w =
     (case rpc_ClaimsFromContext ctx of
        None \<Rightarrow> (Inl notAuthenticated, w)
      | Some claims \<Rightarrow>
          (case ur_GetByID (h_userRepo h) (c_UserID claims) w of
             (Inl e, w1) \<Rightarrow> (Inl (mapDomainError e), w1)
           | (Inr user, w1) \<Rightarrow>
               (case h_memberRepo h of
                  None \<Rightarrow> (Inl NilDereference, w1)
                | Some mr \<Rightarrow>
                    let (out, w2) = mr_GetUserWorkspaces mr (u_ID user) w1;
                        ms = (case out of Inl _ \<Rightarrow> [] | Inr ms \<Rightarrow> ms)
                    in (Inr (userToProto user, map (\<lambda>m. (m_WorkspaceID m, m_Role m)) ms), w2))))"

definition sessionInfo :: "string \<Rightarrow> Session \<Rightarrow> SessionInfo" where
  "sessionInfo current s = \<lparr>si_SessionId = s_ID s, si_Fingerprint = take 8 (s_Fingerprint s),
     si_CreatedAt = s_CreatedAt s, si_ExpiresAt = s_ExpiresAt s, si_IsCurrent = (s_ID s = current)\<rparr>"

definition ListSessions :: "'w AuthHandler \<Rightarrow> gctx \<Rightarrow> 'w \<Rightarrow> (rpc_error + SessionInfo list) \<times> 'w" where
  "ListSessions h ctx w =
     (case rpc_ClaimsFromContext ctx of
        None \<Rightarrow> (Inl notAuthenticated, w)
      | Some claims \<Rightarrow>
          (case sr_GetByUserID (h_sessionRepo h) (c_UserID claims) w of
             (Inl e, w1) \<Rightarrow> (Inl svcError, w1)
           | (Inr sessions, w1) \<Rightarrow>
               (Inr (map (sessionInfo (c_SessionID claims)) (filter (\<lambda>s. \<not> s_IsRevoked s) sessions)), w1)))"

definition ListUserRepos :: "'w AuthHandler \<Rightarrow> gctx \<Rightarrow> 'w \<Rightarrow> (rpc_error + GitHubRepository list) \<times> 'w" where
  "ListUserRepos h ctx w =
     (case rpc_ClaimsFromContext ctx of
        None \<Rightarrow> (Inl notAuthenticated, w)
      | Some claims \<Rightarrow>
          (case h_ListUserRepos h (c_UserID claims) w of
             (Inl e, w1) \<Rightarrow> (Inl (ConnectErr CodeInternal ''failed to list repositories''), w1)
           | (Inr repos, w1) \<Rightarrow> (Inr repos, w1)))"

definition RevokeRepoAccess :: "'w \<Rightarrow> (rpc_error + bool) \<times> 'w" where
  "RevokeRepoAccess w = (Inr True, w)"

section \<open>The token store and the one-time passwords as collaborators\<close>

text \<open>The Redis store seen through a part of the world.\<close>

definition NewRefreshTokenStore ::
    "('w \<Rightarrow> 's) \<Rightarrow> ('s \<Rightarrow> 'w \<Rightarrow> 'w) \<Rightarrow> 's redis \<Rightarrow> (bytes \<Rightarrow> bytes) \<Rightarrow> 'w TokenStore" where
  "NewRefreshTokenStore get put R sha = \<lparr>
     ts_Issue = (\<lambda>now rnd sid uid fp. lift_part get put (rt_Issue R sha rnd now sid uid fp)),
     ts_Verify = (\<lambda>now tok fp. lift_part get put (rt_Verify R sha now tok fp)),
     ts_Rotate = (\<lambda>now rnd uuid tok fp. lift_part get put (rt_Rotate R sha rnd uuid now tok fp)),
     ts_Revoke = (\<lambda>now tok. lift_part get put (rt_Revoke R sha now tok)),
     ts_RevokeAll = (\<lambda>now uid. lift_part get put (rt_RevokeAll R now uid))\<rparr>"

text \<open>\<^verbatim>\<open>Bootstrap\<close> in \<^verbatim>\<open>internal/auth/di/module.go\<close> gives the handler no one-time-password generator and no
  mailer.\<close>

definition bootstrapHandler ::
    "(gotime \<Rightarrow> string \<Rightarrow> User \<Rightarrow> string \<Rightarrow> roles \<Rightarrow> aerr + string) \<Rightarrow> 'w TokenStore \<Rightarrow> 'w UserRepository
      \<Rightarrow> 'w MembershipRepository \<Rightarrow> 'w SessionRepository
      \<Rightarrow> (string \<Rightarrow> 'w \<Rightarrow> (aerr + GitHubRepository list) \<times> 'w) \<Rightarrow> (bytes \<Rightarrow> bytes) \<Rightarrow> 'w AuthHandler" where
  "bootstrapHandler iss ts ur mr sr gh sha = \<lparr>h_otpGen = None, h_IssueAccessToken = iss, h_tokenStore = ts,
     h_userRepo = ur, h_memberRepo = Some mr, h_sessionRepo = sr, h_ListUserRepos = gh, h_mailer = None,
     h_sha256 = sha\<rparr>"

end
