(* ===== verification/OAuth_GitHub.thy ===== *)
theory OAuth_GitHub
  imports OAuth_State Encryption Auth_Handler
begin

text \<open>
  The GitHub login, \<^verbatim>\<open>internal/auth/adapter/oauth/github/provider.go\<close>. The package
  \<^verbatim>\<open>golang.org/x/oauth2\<close>, the HTTP client and SHA-256 are parameters. A response is its status, the text
  of its body and what a JSON decoder reads from that text. The addresses of the provider are well
  formed, so that \<^verbatim>\<open>http.NewRequest\<close> does not fail on them.
\<close>

section \<open>The libraries\<close>

record oauth2_Endpoint =
  ep_AuthURL :: string
  ep_TokenURL :: string

record oauth2_Config =
  cf_ClientID :: string
  cf_ClientSecret :: string
  cf_RedirectURL :: string
  cf_Endpoint :: oauth2_Endpoint
  cf_Scopes :: "string list"

record oauth2_Token =
  tk_AccessToken :: string
  tk_Extra :: "string \<Rightarrow> json option"

record 'w oauth_lib =
  ol_AuthCodeURL :: "oauth2_Config \<Rightarrow> string \<Rightarrow> (string \<times> string) list \<Rightarrow> string"
  ol_Exchange :: "oauth2_Config \<Rightarrow> string \<Rightarrow> (string \<times> string) list \<Rightarrow> 'w \<Rightarrow> (string + oauth2_Token) \<times> 'w"
  ol_GoogleEndpoint :: oauth2_Endpoint
  ol_sha256 :: "bytes \<Rightarrow> bytes"

record http_call =
  q_URL :: string
  q_Header :: "(string \<times> string) list"

record http_resp =
  rs_Status :: nat
  rs_Text :: string
  rs_Body :: payload

type_synonym 'w http_client = "http_call \<Rightarrow> 'w \<Rightarrow> (string + http_resp) \<times> 'w"

text \<open>What a login draws from its environment.\<close>

record oauth_env =
  oe_now :: gotime
  oe_fetched :: gotime
  oe_state :: "bytes option"
  oe_pkce :: "bytes option"
  oe_nonce :: random
  oe_uuid :: string
  oe_rt :: "bytes option"
  oe_jti :: string

record TokenEncryptor =
  te_Encrypt :: "random \<Rightarrow> bytes option \<Rightarrow> aerr + bytes"
  te_Decrypt :: "bytes option \<Rightarrow> aerr + bytes"

definition tokenEncryptor :: "gcm \<Rightarrow> bytes \<Rightarrow> TokenEncryptor" where
  "tokenEncryptor G key = \<lparr>te_Encrypt = tok_Encrypt G key, te_Decrypt = tok_Decrypt G key\<rparr>"

text \<open>A number for a field of type \<^verbatim>\<open>int64\<close>, and the body of a response read into a value.\<close>

fun dInt64 :: "int decoder" where
  "dInt64 (JNum n) acc = (if - (2 ^ 63) \<le> n \<and> n < 2 ^ 63 then Inr n else Inl UnmarshalTypeError)"
| "dInt64 JNull acc = Inr acc"
| "dInt64 _ acc = Inl UnmarshalTypeError"

fun decode_body :: "'a decoder \<Rightarrow> 'a \<Rightarrow> payload \<Rightarrow> json_err + 'a" where
  "decode_body d zero (Doc j) = d j zero"
| "decode_body d zero (NotJson b) = Inl SyntaxError"

section \<open>Data\<close>

definition gh_RequiredScopes :: "string list" where
  "gh_RequiredScopes = [''read:user'', ''user:email'', ''repo'', ''admin:repo_hook'', ''read:org'']"

record GitHubUser =
  gu_ID :: int
  gu_Login :: string
  gu_Name :: string
  gu_Email :: string
  gu_AvatarURL :: string

record GitHubEmail =
  ge_Email :: string
  ge_Primary :: bool
  ge_Verified :: bool

definition dGitHubUser :: "GitHubUser decoder" where
  "dGitHubUser = dStruct
     [fld ''id'' dInt64 gu_ID gu_ID_update, fld ''login'' dStr gu_Login gu_Login_update,
      fld ''name'' dStr gu_Name gu_Name_update, fld ''email'' dStr gu_Email gu_Email_update,
      fld ''avatar_url'' dStr gu_AvatarURL gu_AvatarURL_update]"

definition dGitHubEmail :: "GitHubEmail decoder" where
  "dGitHubEmail = dStruct
     [fld ''email'' dStr ge_Email ge_Email_update, fld ''primary'' dBool ge_Primary ge_Primary_update,
      fld ''verified'' dBool ge_Verified ge_Verified_update]"

definition dGitHubRepo :: "GitHubRepository decoder" where
  "dGitHubRepo = dStruct
     [fld ''id'' dInt64 gr_ID gr_ID_update, fld ''full_name'' dStr gr_FullName gr_FullName_update,
      fld ''html_url'' dStr gr_HTMLURL gr_HTMLURL_update,
      fld ''default_branch'' dStr gr_DefaultBranch gr_DefaultBranch_update,
      fld ''private'' dBool gr_Private gr_Private_update, fld ''clone_url'' dStr gr_CloneURL gr_CloneURL_update]"

definition zeroUser :: GitHubUser where
  "zeroUser = \<lparr>gu_ID = 0, gu_Login = [], gu_Name = [], gu_Email = [], gu_AvatarURL = []\<rparr>"

definition zeroEmail :: GitHubEmail where
  "zeroEmail = \<lparr>ge_Email = [], ge_Primary = False, ge_Verified = False\<rparr>"

definition zeroRepo :: GitHubRepository where
  "zeroRepo = \<lparr>gr_ID = 0, gr_FullName = [], gr_HTMLURL = [], gr_DefaultBranch = [], gr_Private = False, gr_CloneURL = []\<rparr>"

record 'w github_provider =
  gh_clientID :: string
  gh_clientSecret :: string
  gh_encryptor :: TokenEncryptor
  gh_stateStore :: "'w StateStore"
  gh_userRepo :: "'w UserRepository"
  gh_httpClient :: "'w http_client"
  gh_authURL :: string
  gh_tokenURL :: string
  gh_apiURL :: string

section \<open>Operations\<close>

definition gh_WithHTTPClient :: "'w http_client \<Rightarrow> 'w github_provider \<Rightarrow> 'w github_provider" where
  "gh_WithHTTPClient c p = p\<lparr>gh_httpClient := c\<rparr>"

definition gh_WithEndpoints :: "string \<Rightarrow> string \<Rightarrow> string \<Rightarrow> 'w github_provider \<Rightarrow> 'w github_provider" where
  "gh_WithEndpoints authURL tokenURL apiURL p = p\<lparr>gh_authURL := authURL, gh_tokenURL := tokenURL, gh_apiURL := apiURL\<rparr>"

text \<open>The options are applied in their order.\<close>

definition gh_New ::
    "string \<Rightarrow> string \<Rightarrow> TokenEncryptor \<Rightarrow> 'w StateStore \<Rightarrow> 'w UserRepository \<Rightarrow> 'w http_client
      \<Rightarrow> ('w github_provider \<Rightarrow> 'w github_provider) list \<Rightarrow> 'w github_provider" where
  "gh_New clientID clientSecret enc ss ur defaultClient opts =
     foldl (\<lambda>p opt. opt p)
       \<lparr>gh_clientID = clientID, gh_clientSecret = clientSecret, gh_encryptor = enc, gh_stateStore = ss,
        gh_userRepo = ur, gh_httpClient = defaultClient,
        gh_authURL = ''https://github.com/login/oauth/authorize'',
        gh_tokenURL = ''https://github.com/login/oauth/access_token'',
        gh_apiURL = ''https://api.github.com''\<rparr> opts"

definition gh_oauthConfig :: "'w github_provider \<Rightarrow> string \<Rightarrow> oauth2_Config" where
  "gh_oauthConfig p redirectURI =
     \<lparr>cf_ClientID = gh_clientID p, cf_ClientSecret = gh_clientSecret p, cf_RedirectURL = redirectURI,
      cf_Endpoint = \<lparr>ep_AuthURL = gh_authURL p, ep_TokenURL = gh_tokenURL p\<rparr>, cf_Scopes = gh_RequiredScopes\<rparr>"

definition pkceParams :: "string \<Rightarrow> (string \<times> string) list" where
  "pkceParams challenge = [(''code_challenge'', challenge), (''code_challenge_method'', ''S256'')]"

definition gh_AuthURL ::
    "'w oauth_lib \<Rightarrow> 'w github_provider \<Rightarrow> oauth_env \<Rightarrow> string \<Rightarrow> 'w \<Rightarrow> (aerr + string \<times> string) \<times> 'w" where
  "gh_AuthURL L p env redirectURI w =
     (case GeneratePKCE (ol_sha256 L) (oe_pkce env) of
        Inl e \<Rightarrow> (Inl (Wrapf ''github.AuthURL'' e), w)
      | Inr (verifier, challenge) \<Rightarrow>
          (case ss_Create (gh_stateStore p) (oe_now env) (oe_state env) verifier redirectURI w of
             (Inl e, w1) \<Rightarrow> (Inl (Wrapf ''github.AuthURL'' e), w1)
           | (Inr state, w1) \<Rightarrow>
               let cfg = gh_oauthConfig p redirectURI;
                   url = ol_AuthCodeURL L cfg state (pkceParams challenge)
               in (Inr (url, state), w1)))"

text \<open>An authorised request to the API.\<close>

definition apiCall :: "'w github_provider \<Rightarrow> string \<Rightarrow> string \<Rightarrow> http_call" where
  "apiCall p path accessToken =
     \<lparr>q_URL = gh_apiURL p @ path,
      q_Header = [(''Authorization'', ''Bearer '' @ accessToken), (''Accept'', ''application/vnd.github+json'')]\<rparr>"

definition fetchUser :: "'w github_provider \<Rightarrow> string \<Rightarrow> 'w \<Rightarrow> (aerr + GitHubUser) \<times> 'w" where
  "fetchUser p accessToken w =
     (case gh_httpClient p (apiCall p ''/user'' accessToken) w of
        (Inl e, w1) \<Rightarrow> (Inl (Wrapf ''github.fetchUser'' (Opaque e)), w1)
      | (Inr resp, w1) \<Rightarrow>
          if rs_Status resp \<noteq> 200
          then (Inl (Opaque (''github.fetchUser: status '' @ dec_nat (rs_Status resp) @ '': '' @ rs_Text resp)), w1)
          else case decode_body dGitHubUser zeroUser (rs_Body resp) of
                 Inl _ \<Rightarrow> (Inl (Wrapf ''github.fetchUser: decode'' (Opaque ''json'')), w1)
               | Inr u \<Rightarrow> (Inr u, w1))"

definition fetchPrimaryEmail :: "'w github_provider \<Rightarrow> string \<Rightarrow> 'w \<Rightarrow> (aerr + string) \<times> 'w" where
  "fetchPrimaryEmail p accessToken w =
     (case gh_httpClient p (apiCall p ''/user/emails'' accessToken) w of
        (Inl e, w1) \<Rightarrow> (Inl (Wrapf ''github.fetchPrimaryEmail'' (Opaque e)), w1)
      | (Inr resp, w1) \<Rightarrow>
          if rs_Status resp \<noteq> 200
          then (Inl (Opaque (''github.fetchPrimaryEmail: status '' @ dec_nat (rs_Status resp))), w1)
          else case decode_body (dSlice dGitHubEmail zeroEmail) [] (rs_Body resp) of
                 Inl _ \<Rightarrow> (Inl (Wrapf ''github.fetchPrimaryEmail: decode'' (Opaque ''json'')), w1)
               | Inr emails \<Rightarrow>
                   (case find (\<lambda>e. ge_Primary e \<and> ge_Verified e) emails of
                      Some e \<Rightarrow> (Inr (ge_Email e), w1)
                    | None \<Rightarrow> (Inl (Opaque ''github.fetchPrimaryEmail: no verified primary email''), w1)))"

text \<open>The account of a GitHub identity: the one that carries its id, or a new one.\<close>

definition gh_newUser :: "oauth_env \<Rightarrow> GitHubUser \<Rightarrow> string \<Rightarrow> bytes \<Rightarrow> User" where
  "gh_newUser env ghUser email encToken =
     \<lparr>u_ID = oe_uuid env, u_Email = email, u_Name = gu_Name ghUser, u_AvatarURL = gu_AvatarURL ghUser,
      u_Provider = ProviderGitHub, u_ProviderID = dec_int (gu_ID ghUser), u_GitHubLogin = gu_Login ghUser,
      u_GitHubTokenEnc = Some encToken, u_IsEmailVerified = True, u_IsActive = True, u_CreatedAt = oe_now env,
      u_UpdatedAt = oe_now env, u_LastLoginAt = Some (oe_now env)\<rparr>"

definition gh_account ::
    "'w github_provider \<Rightarrow> oauth_env \<Rightarrow> GitHubUser \<Rightarrow> string \<Rightarrow> bytes \<Rightarrow> 'w \<Rightarrow> (aerr + User) \<times> 'w" where
  "gh_account p env ghUser email encToken w =
     (case ur_GetByProviderID (gh_userRepo p) ProviderGitHub (dec_int (gu_ID ghUser)) w of
        (Inr existing, w1) \<Rightarrow>
          let (_, w2) = ur_UpdateGitHubToken (gh_userRepo p) (oe_now env) (u_ID existing) encToken w1;
              (_, w3) = ur_UpdateLastLogin (gh_userRepo p) (oe_now env) (u_ID existing) w2
          in (Inr (existing\<lparr>u_GitHubTokenEnc := Some encToken, u_LastLoginAt := Some (oe_now env)\<rparr>), w3)
      | (Inl _, w1) \<Rightarrow>
          (case ur_Create (gh_userRepo p) (gh_newUser env ghUser email encToken) w1 of
             (Some e, w2) \<Rightarrow> (Inl (Wrapf ''github.HandleCallback: create'' e), w2)
           | (None, w2) \<Rightarrow> (Inr (gh_newUser env ghUser email encToken), w2)))"

text \<open>The callback: once the access token is there, once the state is verified, and as a whole.\<close>

definition gh_identify ::
    "'w github_provider \<Rightarrow> oauth_env \<Rightarrow> string \<Rightarrow> 'w \<Rightarrow> (aerr + User) \<times> 'w" where
  "gh_identify p env accessToken w =
     (case fetchUser p accessToken w of
        (Inl e, w1) \<Rightarrow> (Inl e, w1)
      | (Inr ghUser, w1) \<Rightarrow>
          (case (if gu_Email ghUser = [] then fetchPrimaryEmail p accessToken w1 else (Inr (gu_Email ghUser), w1)) of
             (Inl e, w2) \<Rightarrow> (Inl e, w2)
           | (Inr email, w2) \<Rightarrow>
               (case te_Encrypt (gh_encryptor p) (oe_nonce env) (Some accessToken) of
                  Inl e \<Rightarrow> (Inl (Wrapf ''github.HandleCallback: encrypt'' e), w2)
                | Inr encToken \<Rightarrow> gh_account p env ghUser email encToken w2)))"

definition gh_exchange ::
    "'w oauth_lib \<Rightarrow> 'w github_provider \<Rightarrow> oauth_env \<Rightarrow> string \<Rightarrow> string \<Rightarrow> string \<Rightarrow> 'w \<Rightarrow> (aerr + User) \<times> 'w" where
  "gh_exchange L p env code redirectURI codeVerifier w =
     (case ol_Exchange L (gh_oauthConfig p redirectURI) code [(''code_verifier'', codeVerifier)] w of
        (Inl e, w1) \<Rightarrow> (Inl (Wrapf ''github.HandleCallback: exchange'' (Opaque e)), w1)
      | (Inr token, w1) \<Rightarrow> gh_identify p env (tk_AccessToken token) w1)"

definition gh_HandleCallback ::
    "'w oauth_lib \<Rightarrow> 'w github_provider \<Rightarrow> oauth_env \<Rightarrow> string \<Rightarrow> string \<Rightarrow> string \<Rightarrow> 'w \<Rightarrow> (aerr + User) \<times> 'w" where
  "gh_HandleCallback L p env code state redirectURI w =
     (case ss_Verify (gh_stateStore p) (oe_now env) state w of
        (Inl e, w1) \<Rightarrow> (Inl (Wrapf ''github.HandleCallback: CSRF invalid'' e), w1)
      | (Inr p', w1) \<Rightarrow> gh_exchange L p env code redirectURI (sp_CodeVerifier p') w1)"

text \<open>The repositories that a token gives access to, and those of a user.\<close>

definition gh_fetchRepos :: "'w github_provider \<Rightarrow> string \<Rightarrow> 'w \<Rightarrow> (aerr + GitHubRepository list) \<times> 'w" where
  "gh_fetchRepos p plain w =
     (case gh_httpClient p (apiCall p ''/user/repos?per_page=100&sort=updated'' plain) w of
        (Inl e, w1) \<Rightarrow> (Inl (Wrapf ''github.ListUserRepos'' (Opaque e)), w1)
      | (Inr resp, w1) \<Rightarrow>
          if rs_Status resp \<noteq> 200
          then (Inl (Opaque (''github.ListUserRepos: status '' @ dec_nat (rs_Status resp))), w1)
          else case decode_body (dSlice dGitHubRepo zeroRepo) [] (rs_Body resp) of
                 Inl _ \<Rightarrow> (Inl (Wrapf ''github.ListUserRepos: decode'' (Opaque ''json'')), w1)
               | Inr repos \<Rightarrow> (Inr repos, w1))"

definition gh_ListUserRepos :: "'w github_provider \<Rightarrow> string \<Rightarrow> 'w \<Rightarrow> (aerr + GitHubRepository list) \<times> 'w" where
  "gh_ListUserRepos p userID w =
     (case ur_GetByID (gh_userRepo p) userID w of
        (Inl e, w1) \<Rightarrow> (Inl (Wrapf ''github.ListUserRepos'' e), w1)
      | (Inr user, w1) \<Rightarrow>
          if u_GitHubTokenEnc user = None then (Inl (Opaque ''github.ListUserRepos: no GitHub token''), w1)
          else case te_Decrypt (gh_encryptor p) (u_GitHubTokenEnc user) of
                 Inl e \<Rightarrow> (Inl (Wrapf ''github.ListUserRepos: decrypt'' e), w1)
               | Inr plain \<Rightarrow> gh_fetchRepos p plain w1)"

section \<open>What the provider relies on\<close>

text \<open>An encryptor of tokens that decrypts what it encrypted, and AES-GCM as one.\<close>

locale token_encryptor =
  fixes E :: TokenEncryptor
  assumes decrypt_encrypt: "random_ok rnd \<Longrightarrow> te_Encrypt E rnd (Some p) = Inr d \<Longrightarrow> te_Decrypt E (Some d) = Inr p"

lemma gcm_token_encryptor:
  assumes "aead G" and "NewEncryptor key = Inr e"
  shows "token_encryptor (tokenEncryptor G e)"
proof (unfold_locales, goal_cases)
  case (1 rnd p d)
  then have "rnd gcm_NonceSize \<noteq> None" by (auto simp: tokenEncryptor_def tok_Encrypt_def split: option.splits)
  from token_encryptor_roundtrip [OF assms 1(1) this, of p] 1(2) show ?case by (auto simp: tokenEncryptor_def)
qed

lemma ex_key_ok: "NewEncryptor (replicate 32 (CHR ''a'')) = Inr (replicate 32 (CHR ''a''))"
  by (simp add: NewEncryptor_def aes_key_def)

interpretation gcmtok: token_encryptor "tokenEncryptor tag_gcm (replicate 32 (CHR ''a''))"
  by (rule gcm_token_encryptor [OF tagged.aead_axioms ex_key_ok])

text \<open>The row of an account holds an encrypted token and a GitHub id.\<close>

definition linked :: "string \<Rightarrow> bytes \<Rightarrow> string \<Rightarrow> User list \<Rightarrow> bool" where
  "linked i encToken providerID us \<longleftrightarrow> uniq user_clash us
     \<and> (\<exists>r \<in> set us. u_ID r = i \<and> u_IsActive r \<and> u_GitHubTokenEnc r = Some encToken
          \<and> u_Provider r = ProviderGitHub \<and> u_ProviderID r = providerID)"

text \<open>The provider over the user table of a database that answers; the state store, GitHub and the token
  endpoint do not write to that table.\<close>

locale github_accounts = pg_users Q tbl + token_encryptor "gh_encryptor p"
  for Q :: "(User, 'w) pgx" and tbl and L :: "'w oauth_lib" and p :: "'w github_provider" +
  assumes repo: "gh_userRepo p = pgUserRepo Q"
    and state_frame: "tbl (snd (ss_Verify (gh_stateStore p) t st w)) = tbl w"
    and exchange_frame: "tbl (snd (ol_Exchange L cfg code ps w)) = tbl w"
    and http_frame: "tbl (snd (gh_httpClient p c w)) = tbl w"
begin

lemma update_rows:
  assumes "uniq user_clash (tbl w)" and f: "\<And>x y. user_clash (f x) (f y) = user_clash x y"
    "\<And>x y. user_clash (f x) y = user_clash x y" "\<And>x y. user_clash x (f y) = user_clash x y"
  shows "\<exists>w'. pg_Exec Q ctx (SUpdate c f) w = (None, w') \<and> tbl w' = map (\<lambda>x. if c x then f x else x) (tbl w)
    \<and> uniq user_clash (tbl w')"
proof -
  have u: "uniq user_clash (map (\<lambda>x. if c x then f x else x) (tbl w))"
    using assms(1) by (subst uniq_map) (simp_all add: f)
  then have "sql_step user_clash (SUpdate c f) (tbl w) =
      (Inr ([], length (filter c (tbl w))), map (\<lambda>x. if c x then f x else x) (tbl w))" by simp
  from step_up [OF this] obtain rows w' where
    "Q (SUpdate c f) w = (Inr (rows, length (filter c (tbl w))), w')" "tbl w' = map (\<lambda>x. if c x then f x else x) (tbl w)" .
  then show ?thesis using u by (simp add: pg_Exec_def)
qed

lemma refresh_existing:
  assumes u: "uniq user_clash (tbl w)" and r: "r \<in> set (tbl w)" "u_IsActive r" "u_Provider r = ProviderGitHub"
    "u_ProviderID r = providerID"
    and w': "w' = snd (user_UpdateLastLogin Q now (u_ID r) (snd (user_UpdateGitHubToken Q now (u_ID r) encToken w)))"
  shows "linked (u_ID r) encToken providerID (tbl w')"
proof -
  obtain w1 where w1: "user_UpdateGitHubToken Q now (u_ID r) encToken w = (None, w1)"
    "tbl w1 = map (\<lambda>x. if u_ID x = u_ID r then x\<lparr>u_GitHubTokenEnc := Some encToken, u_UpdatedAt := now\<rparr> else x) (tbl w)"
    "uniq user_clash (tbl w1)"
    using update_rows [OF u, of "\<lambda>x. x\<lparr>u_GitHubTokenEnc := Some encToken, u_UpdatedAt := now\<rparr>"
        "''userRepo.UpdateGitHubToken''" "\<lambda>x. u_ID x = u_ID r"]
    by (auto simp: user_UpdateGitHubToken_def user_clash_def)
  obtain w2 where w2: "user_UpdateLastLogin Q now (u_ID r) w1 = (None, w2)"
    "tbl w2 = map (\<lambda>x. if u_ID x = u_ID r then x\<lparr>u_LastLoginAt := Some now, u_UpdatedAt := now\<rparr> else x) (tbl w1)"
    "uniq user_clash (tbl w2)"
    using update_rows [OF w1(3), of "\<lambda>x. x\<lparr>u_LastLoginAt := Some now, u_UpdatedAt := now\<rparr>"
        "''userRepo.UpdateLastLogin''" "\<lambda>x. u_ID x = u_ID r"]
    by (auto simp: user_UpdateLastLogin_def user_clash_def)
  let ?r = "r\<lparr>u_GitHubTokenEnc := Some encToken, u_UpdatedAt := now, u_LastLoginAt := Some now\<rparr>"
  have "r\<lparr>u_GitHubTokenEnc := Some encToken, u_UpdatedAt := now\<rparr> \<in> set (tbl w1)"
    unfolding w1(2) using r(1) by (force simp: image_iff)
  then have "?r \<in> set (tbl w2)" unfolding w2(2) by (force simp: image_iff)
  then show ?thesis using r w' w1(1) w2(1,3) by (auto simp: linked_def intro!: bexI [of _ ?r])
qed

lemma account_linked:
  assumes u: "uniq user_clash (tbl w)" and a: "gh_account p env g email encToken w = (Inr user, w')"
  shows "linked (u_ID user) encToken (dec_int (gu_ID g)) (tbl w') \<and> u_GitHubTokenEnc user = Some encToken"
proof -
  let ?c = "\<lambda>r. u_Provider r = ProviderGitHub \<and> u_ProviderID r = dec_int (gu_ID g) \<and> u_IsActive r"
  obtain out w1 where g: "user_GetByProviderID Q ProviderGitHub (dec_int (gu_ID g)) w = (out, w1)" by fastforce
  have t1: "tbl w1 = tbl w" "\<And>x. out = Inr x \<Longrightarrow> \<exists>r \<in> set (tbl w). ?c r \<and> x = scanned r"
    using scanUser_ok [of ?c w out w1] g by (auto simp: user_GetByProviderID_def)
  show ?thesis
  proof (cases out)
    case (Inl e)
    then have c: "user_Create Q (gh_newUser env g email encToken) w1 = (None, w')" "user = gh_newUser env g email encToken"
      using a g by (auto simp: gh_account_def repo pgUserRepo_def split: option.splits prod.splits)
    have "tbl w' = tbl w1 @ [user]" "\<forall>x \<in> set (tbl w1). \<not> user_clash x user"
      using create [of user w1 None w'] c by (auto simp: pgUserRepo_def)
    then show ?thesis using u t1(1) c(2) by (auto simp: linked_def uniq_append gh_newUser_def)
  next
    case (Inr x)
    then obtain r where r: "r \<in> set (tbl w)" "?c r" "x = scanned r" using t1(2) by blast
    have "w' = snd (user_UpdateLastLogin Q (oe_now env) (u_ID r) (snd (user_UpdateGitHubToken Q (oe_now env) (u_ID r) encToken w1)))"
      and x: "user = x\<lparr>u_GitHubTokenEnc := Some encToken, u_LastLoginAt := Some (oe_now env)\<rparr>"
      using a g Inr r(3) by (auto simp: gh_account_def repo pgUserRepo_def scanned_def split: prod.splits)
    from refresh_existing [OF _ _ _ _ _ this(1)] show ?thesis using u t1(1) r x by (simp add: scanned_def)
  qed
qed

lemma list_linked:
  assumes "linked i encToken pid (tbl w)" and "te_Decrypt (gh_encryptor p) (Some encToken) = Inr plain"
  shows "\<exists>w1. gh_ListUserRepos p i w = gh_fetchRepos p plain w1 \<and> tbl w1 = tbl w"
proof -
  obtain r where u: "uniq user_clash (tbl w)" and r: "r \<in> set (tbl w)" "u_ID r = i" "u_IsActive r"
      "u_GitHubTokenEnc r = Some encToken"
    using assms(1) by (auto simp: linked_def)
  let ?c = "\<lambda>r. u_ID r = i \<and> u_IsActive r"
  obtain x w1 where x: "scanUser Q ?c w = (Inr x, w1)" using scanUser_up(1) [of w ?c] r by blast
  from scanUser_ok [OF x] obtain q where q: "q \<in> set (tbl w)" "u_ID q = i" "u_IsActive q" "x = scanned q" "tbl w1 = tbl w" by blast
  have one: "filter ?c (tbl w) = [y]" if "y \<in> set (tbl w)" "?c y" for y
    by (rule uniq_filter_single [OF u, of ?c]) (use that in \<open>auto simp: user_clash_def\<close>)
  have "r = q" using one [of r] one [of q] r q by auto
  then have "u_GitHubTokenEnc x = Some encToken" using r(4) q(4) by (simp add: scanned_def)
  then show ?thesis using x q(5) assms(2)
    by (intro exI [of _ w1]) (simp add: gh_ListUserRepos_def repo pgUserRepo_def user_GetByID_def)
qed

lemma fetch_frame:
  "fetchUser p tok w = (o1, w1) \<Longrightarrow> tbl w1 = tbl w"
  "fetchPrimaryEmail p tok w = (o2, w2) \<Longrightarrow> tbl w2 = tbl w"
  using http_frame [of "apiCall p ''/user'' tok" w] http_frame [of "apiCall p ''/user/emails'' tok" w]
  by (auto simp: fetchUser_def fetchPrimaryEmail_def split: prod.splits sum.splits if_splits option.splits)

lemma identify_linked:
  assumes u: "uniq user_clash (tbl w)" and i: "gh_identify p env tok w = (Inr user, w')" and rnd: "random_ok (oe_nonce env)"
  obtains encToken pid where "linked (u_ID user) encToken pid (tbl w')" "u_GitHubTokenEnc user = Some encToken"
    "te_Decrypt (gh_encryptor p) (Some encToken) = Inr tok"
proof -
  obtain g w1 where f: "fetchUser p tok w = (Inr g, w1)"
    using i by (auto simp: gh_identify_def split: prod.splits sum.splits)
  obtain out w2 where m: "(if gu_Email g = [] then fetchPrimaryEmail p tok w1 else (Inr (gu_Email g), w1)) = (out, w2)"
    by fastforce
  have t: "tbl w2 = tbl w" using fetch_frame(1) [OF f] fetch_frame(2) [of tok w1 out w2] m by (auto split: if_splits)
  obtain email encToken where e: "te_Encrypt (gh_encryptor p) (oe_nonce env) (Some tok) = Inr encToken"
    and a: "gh_account p env g email encToken w2 = (Inr user, w')"
    using i f m by (auto simp: gh_identify_def split: sum.splits)
  have "uniq user_clash (tbl w2)" using u t by simp
  from account_linked [OF this a] decrypt_encrypt [OF rnd e] show thesis using that by blast
qed

lemma callback_linked:
  assumes u: "uniq user_clash (tbl w)" and rnd: "random_ok (oe_nonce env)"
    and h: "gh_HandleCallback L p env code state uri w = (Inr user, w')"
  obtains v w1 token w2 encToken pid where "ss_Verify (gh_stateStore p) (oe_now env) state w = (Inr v, w1)"
    "ol_Exchange L (gh_oauthConfig p uri) code [(''code_verifier'', sp_CodeVerifier v)] w1 = (Inr token, w2)"
    "linked (u_ID user) encToken pid (tbl w')" "u_GitHubTokenEnc user = Some encToken"
    "te_Decrypt (gh_encryptor p) (Some encToken) = Inr (tk_AccessToken token)"
proof -
  obtain v w1 where v: "ss_Verify (gh_stateStore p) (oe_now env) state w = (Inr v, w1)"
    using h by (auto simp: gh_HandleCallback_def gh_exchange_def split: prod.splits sum.splits)
  obtain token w2 where x: "ol_Exchange L (gh_oauthConfig p uri) code [(''code_verifier'', sp_CodeVerifier v)] w1 = (Inr token, w2)"
    using h v by (auto simp: gh_HandleCallback_def gh_exchange_def split: prod.splits sum.splits)
  have "tbl w2 = tbl w" using state_frame [of "oe_now env" state w]
      exchange_frame [of "gh_oauthConfig p uri" code "[(''code_verifier'', sp_CodeVerifier v)]" w1] v x by simp
  then have "uniq user_clash (tbl w2)" using u by simp
  moreover have "gh_identify p env (tk_AccessToken token) w2 = (Inr user, w')" using h v x by (simp add: gh_HandleCallback_def gh_exchange_def)
  ultimately show thesis using identify_linked [OF _ _ rnd] that [OF v x] by metis
qed

end

section \<open>A GitHub for concrete runs\<close>

text \<open>A world of a Redis keyspace and a user table. The token endpoint answers the code \<open>code\<close>, the API
  knows one user without a public address, with a verified one.\<close>

definition demo_lib :: "'w oauth_lib" where
  "demo_lib = \<lparr>ol_AuthCodeURL = (\<lambda>cfg st ps. ep_AuthURL (cf_Endpoint cfg) @ ''?state='' @ st),
     ol_Exchange = (\<lambda>cfg code ps w. (if code = ''code'' \<and> fst ` set ps = {''code_verifier''}
        then Inr \<lparr>tk_AccessToken = ''gho'', tk_Extra = (\<lambda>k. if k = ''id_token'' then Some (JStr ''idt.g'') else None)\<rparr>
        else Inl ''invalid_grant'', w)),
     ol_GoogleEndpoint = \<lparr>ep_AuthURL = ''https://accounts.google.com/o/oauth2/auth'', ep_TokenURL = ''https://oauth2.googleapis.com/token''\<rparr>,
     ol_sha256 = (\<lambda>x. replicate 32 (CHR ''h''))\<rparr>"

definition demo_http :: "'w http_client" where
  "demo_http c w =
     (if q_URL c = ''https://api.github.com/user''
      then Inr \<lparr>rs_Status = 200, rs_Text = [], rs_Body = Doc (JObj [(''id'', JNum 7), (''login'', JStr ''ada''), (''email'', JNull)])\<rparr>
      else if q_URL c = ''https://api.github.com/user/emails''
      then Inr \<lparr>rs_Status = 200, rs_Text = [], rs_Body = Doc (JArr [JObj [(''email'', JStr ''a@x''), (''primary'', JBool True),
             (''verified'', JBool True)]])\<rparr>
      else if q_URL c = ''https://www.googleapis.com/oauth2/v3/certs''
      then Inr \<lparr>rs_Status = 200, rs_Text = [], rs_Body = Doc (JObj [(''keys'', JArr [JObj [(''kty'', JStr ''RSA''), (''kid'', JStr ''g''),
             (''n'', JStr ''N''), (''e'', JStr ''E'')]])])\<rparr>
      else Inl ''no route to host'', w)"

definition demo_gh :: "(rstore \<times> User list) github_provider" where
  "demo_gh = gh_New ''id'' ''secret'' (tokenEncryptor tag_gcm (replicate 32 (CHR ''a'')))
     (NewStateStore fst (\<lambda>s w. (s, snd w)) pure_redis) (pgUserRepo (snd_pg (pure_pg user_clash))) demo_http []"

definition demo_env :: oauth_env where
  "demo_env = \<lparr>oe_now = 5, oe_fetched = 6, oe_state = Some ''abc'', oe_pkce = Some ''xyz'', oe_nonce = (\<lambda>n. Some (replicate n (CHR ''r''))),
     oe_uuid = ''u1'', oe_rt = Some ''key'', oe_jti = ''j''\<rparr>"

definition demo_store :: rstore where
  "demo_store = (\<lambda>_. None)(stateKey ''st'' \<mapsto> \<lparr>rv = RStr (Doc (JObj [(''code_verifier'', JStr ''v'')])), rexp = Some 1000\<rparr>)"

lemma demo_gh_fields [simp]:
  "gh_userRepo demo_gh = pgUserRepo (snd_pg (pure_pg user_clash))" "gh_httpClient demo_gh = demo_http"
  "gh_stateStore demo_gh = NewStateStore fst (\<lambda>s w. (s, snd w)) pure_redis"
  "gh_encryptor demo_gh = tokenEncryptor tag_gcm (replicate 32 (CHR ''a''))" "gh_apiURL demo_gh = ''https://api.github.com''"
  by (simp_all add: demo_gh_def gh_New_def)

interpretation demogh: github_accounts "snd_pg (pure_pg user_clash)" snd demo_lib demo_gh
proof (intro_locales, goal_cases)
  case 1
  show ?case by (rule pg_up.axioms(1) [OF pg_up_snd [OF purepg.pg_up_axioms]])
next
  case 2
  show ?case by (rule pg_up.axioms(2) [OF pg_up_snd [OF purepg.pg_up_axioms]])
next
  case 3
  then show ?case using gcmtok.token_encryptor_axioms by simp
next
  case 4
  then show ?case
    by unfold_locales (auto simp: NewStateStore_def lift_part_def demo_lib_def demo_http_def split: prod.splits)
qed

section \<open>Properties\<close>

text \<open>C35: After a GitHub login the access token that GitHub gave for the code is what the account keeps:
  it is stored encrypted, decrypts to that token, and listing the repositories of the user calls the
  API with it. This holds for a new account and for one that existed.\<close>

theorem github_token_roundtrip:
  assumes "github_accounts Q tbl L p" and "uniq user_clash (tbl w)" and "random_ok (oe_nonce env)"
    and "gh_HandleCallback L p env code state uri w = (Inr user, w')"
  shows "\<exists>v w1 token w2. ss_Verify (gh_stateStore p) (oe_now env) state w = (Inr v, w1)
    \<and> ol_Exchange L (gh_oauthConfig p uri) code [(''code_verifier'', sp_CodeVerifier v)] w1 = (Inr token, w2)
    \<and> te_Decrypt (gh_encryptor p) (u_GitHubTokenEnc user) = Inr (tk_AccessToken token)
    \<and> uniq user_clash (tbl w')
    \<and> (\<forall>x. tbl x = tbl w' \<longrightarrow> (\<exists>x1. gh_ListUserRepos p (u_ID user) x = gh_fetchRepos p (tk_AccessToken token) x1 \<and> tbl x1 = tbl x))"
proof -
  obtain v w1 token w2 encToken pid where c: "ss_Verify (gh_stateStore p) (oe_now env) state w = (Inr v, w1)"
    "ol_Exchange L (gh_oauthConfig p uri) code [(''code_verifier'', sp_CodeVerifier v)] w1 = (Inr token, w2)"
    "linked (u_ID user) encToken pid (tbl w')" "u_GitHubTokenEnc user = Some encToken"
    "te_Decrypt (gh_encryptor p) (Some encToken) = Inr (tk_AccessToken token)"
    using github_accounts.callback_linked [OF assms] .
  have "\<exists>x1. gh_ListUserRepos p (u_ID user) x = gh_fetchRepos p (tk_AccessToken token) x1 \<and> tbl x1 = tbl x"
    if "tbl x = tbl w'" for x
    using github_accounts.list_linked [OF assms(1), of "u_ID user" encToken pid x] c that by simp
  then show ?thesis using c by (auto simp: linked_def)
qed

lemma demo_callback:
  "fst (gh_HandleCallback demo_lib demo_gh demo_env ''code'' ''st'' ''uri'' (demo_store, [])) =
     Inr (gh_newUser demo_env \<lparr>gu_ID = 7, gu_Login = ''ada'', gu_Name = [], gu_Email = [], gu_AvatarURL = []\<rparr> ''a@x''
       (projr (tok_Encrypt tag_gcm (replicate 32 (CHR ''a'')) (oe_nonce demo_env) (Some ''gho''))))"
  by code_simp

theorem github_token_roundtrip_witness:
  "\<exists>user w'. gh_HandleCallback demo_lib demo_gh demo_env ''code'' ''st'' ''uri'' (demo_store, []) = (Inr user, w')
    \<and> te_Decrypt (gh_encryptor demo_gh) (u_GitHubTokenEnc user) = Inr ''gho''"
proof -
  obtain user w' where h: "gh_HandleCallback demo_lib demo_gh demo_env ''code'' ''st'' ''uri'' (demo_store, []) = (Inr user, w')"
    using demo_callback by (metis prod.collapse)
  have r: "random_ok (oe_nonce demo_env)" by (simp add: random_ok_def demo_env_def)
  have "uniq user_clash (snd (demo_store, []))" by simp
  from github_token_roundtrip [OF demogh.github_accounts_axioms this r h] obtain token and v :: StatePayload and w1 w2 :: "rstore \<times> User list" where
    "ol_Exchange demo_lib (gh_oauthConfig demo_gh ''uri'') ''code'' [(''code_verifier'', sp_CodeVerifier v)] w1 = (Inr token, w2)"
    "te_Decrypt (gh_encryptor demo_gh) (u_GitHubTokenEnc user) = Inr (tk_AccessToken token)" by blast
  then show ?thesis using h by (auto simp: demo_lib_def)
qed

end
