(* ===== verification/OAuth_Google.thy ===== *)
theory OAuth_Google
  imports OAuth_GitHub
begin

text \<open>
  The Google login, \<^verbatim>\<open>internal/auth/adapter/oauth/google/provider.go\<close>: the OpenID Connect callback,
  the validation of the id token, and the cache of Google's signing keys. The JWT library is a parameter:
  parsing with a key function, and the decoder of base64url segments. A key is what the code builds from
  a segment pair: a modulus, and an exponent in a machine integer of 64 bits.
\<close>

section \<open>Data and libraries\<close>

definition gg_RequiredScopes :: "string list" where
  "gg_RequiredScopes = [''openid'', ''profile'', ''email'']"

record GoogleIDTokenClaims =
  gc_Issuer :: string
  gc_Subject :: string
  gc_Audience :: "string list"
  gc_ExpiresAt :: "gotime option"
  gc_NotBefore :: "gotime option"
  gc_IssuedAt :: "gotime option"
  gc_ID :: string
  gc_Email :: string
  gc_EmailVerified :: bool
  gc_Name :: string
  gc_Picture :: string

record rsa_PublicKey =
  pk_N :: nat
  pk_E :: "64 word"

text \<open>The header of a token as the key function sees it: the method, and the value under \<^verbatim>\<open>kid\<close>.\<close>

record token_header =
  th_Alg :: string
  th_Kid :: "json option"

text \<open>\<^verbatim>\<open>ParseWithClaims\<close> gives the claims and the flag \<^verbatim>\<open>Valid\<close> of the token.\<close>

record id_lib =
  il_Parse :: "string list \<Rightarrow> (token_header \<Rightarrow> aerr + rsa_PublicKey) \<Rightarrow> gotime \<Rightarrow> string
                 \<Rightarrow> jwt_err + GoogleIDTokenClaims \<times> bool"
  il_DecodeSegment :: "string \<Rightarrow> bytes option"

record jwksKey =
  jk_Kty :: string
  jk_Kid :: string
  jk_N :: string
  jk_E :: string

definition zeroKey :: jwksKey where
  "zeroKey = \<lparr>jk_Kty = [], jk_Kid = [], jk_N = [], jk_E = []\<rparr>"

definition dJwksKey :: "jwksKey decoder" where
  "dJwksKey = dStruct [fld ''kty'' dStr jk_Kty jk_Kty_update, fld ''kid'' dStr jk_Kid jk_Kid_update,
     fld ''n'' dStr jk_N jk_N_update, fld ''e'' dStr jk_E jk_E_update]"

record jwksResponse =
  jr_Keys :: "jwksKey list"

definition dJwks :: "jwksResponse decoder" where
  "dJwks = dStruct [fld ''keys'' (dSlice dJwksKey zeroKey) jr_Keys jr_Keys_update]"

type_synonym keyset = "string \<Rightarrow> rsa_PublicKey option"

record jwksCache =
  jc_keys :: "keyset option"
  jc_fetchAt :: gotime
  jc_ttl :: duration
  jc_fetches :: int

definition emptyCache :: jwksCache where
  "emptyCache = \<lparr>jc_keys = None, jc_fetchAt = zero_time, jc_ttl = 0, jc_fetches = 0\<rparr>"

text \<open>The cache is a pointer: the provider reaches it in the world.\<close>

record 'w google_provider =
  gg_clientID :: string
  gg_clientSecret :: string
  gg_encryptor :: TokenEncryptor
  gg_stateStore :: "'w StateStore"
  gg_userRepo :: "'w UserRepository"
  gg_httpClient :: "'w http_client"
  gg_jwksURL :: string
  gg_cacheGet :: "'w \<Rightarrow> jwksCache"
  gg_cachePut :: "jwksCache \<Rightarrow> 'w \<Rightarrow> 'w"
  gg_useGoogleEndpoint :: bool
  gg_authURL :: string
  gg_tokenURL :: string

section \<open>Signing keys\<close>

text \<open>\<^verbatim>\<open>big.Int.SetBytes\<close>, and the loop that fills the exponent, with the wrap-around of \<^verbatim>\<open>int\<close>.\<close>

definition be_nat :: "bytes \<Rightarrow> nat" where
  "be_nat bs = foldl (\<lambda>n b. 256 * n + of_char b) 0 bs"

definition exponentOf :: "bytes \<Rightarrow> 64 word" where
  "exponentOf bs = foldl (\<lambda>e b. push_bit 8 e + word_of_nat (of_char b)) 0 bs"

definition parseRSAPublicKey :: "(string \<Rightarrow> bytes option) \<Rightarrow> string \<Rightarrow> string \<Rightarrow> rsa_PublicKey option" where
  "parseRSAPublicKey decodeSegment nB64 eB64 =
     (case decodeSegment nB64 of
        None \<Rightarrow> None
      | Some nBytes \<Rightarrow>
          (case decodeSegment eB64 of
             None \<Rightarrow> None
           | Some eBytes \<Rightarrow> Some \<lparr>pk_N = be_nat nBytes, pk_E = exponentOf eBytes\<rparr>))"

text \<open>The loop over the keys of the response: other kinds and keys that do not parse are skipped, a later
  key of the same id wins.\<close>

fun addKeys :: "(string \<Rightarrow> bytes option) \<Rightarrow> jwksKey list \<Rightarrow> keyset \<Rightarrow> keyset" where
  "addKeys decodeSegment [] keys = keys"
| "addKeys decodeSegment (k # ks) keys =
     (if jk_Kty k \<noteq> ''RSA'' then addKeys decodeSegment ks keys
      else case parseRSAPublicKey decodeSegment (jk_N k) (jk_E k) of
             None \<Rightarrow> addKeys decodeSegment ks keys
           | Some pub \<Rightarrow> addKeys decodeSegment ks (keys(jk_Kid k \<mapsto> pub)))"

text \<open>The check under the read lock, and the rest under the write lock: it checks again, and the instant
  at which it stores the keys is later than the one at which it looked.\<close>

definition getKeysRead :: "gotime \<Rightarrow> jwksCache \<Rightarrow> keyset option" where
  "getKeysRead t c =
     (case jc_keys c of Some ks \<Rightarrow> if t - jc_fetchAt c < jc_ttl c then Some ks else None | None \<Rightarrow> None)"

definition getKeysLocked ::
    "id_lib \<Rightarrow> 'w google_provider \<Rightarrow> gotime \<Rightarrow> gotime \<Rightarrow> 'w \<Rightarrow> (aerr + keyset) \<times> 'w" where
  "getKeysLocked IL p t t' w =
     (case getKeysRead t (gg_cacheGet p w) of
        Some ks \<Rightarrow> (Inr ks, w)
      | None \<Rightarrow>
          (case gg_httpClient p \<lparr>q_URL = gg_jwksURL p, q_Header = []\<rparr> w of
             (Inl e, w1) \<Rightarrow> (Inl (Opaque e), w1)
           | (Inr resp, w1) \<Rightarrow>
               (case decode_body dJwks \<lparr>jr_Keys = []\<rparr> (rs_Body resp) of
                  Inl _ \<Rightarrow> (Inl (Opaque ''json''), w1)
                | Inr jwks \<Rightarrow>
                    let keys = addKeys (il_DecodeSegment IL) (jr_Keys jwks) Map.empty;
                        c = gg_cacheGet p w1
                    in (Inr keys,
                        gg_cachePut p \<lparr>jc_keys = Some keys, jc_fetchAt = t',
                          jc_ttl = (if jc_ttl c = 0 then hours 1 else jc_ttl c), jc_fetches = jc_fetches c + 1\<rparr> w1))))"

definition getKeys ::
    "id_lib \<Rightarrow> 'w google_provider \<Rightarrow> gotime \<Rightarrow> gotime \<Rightarrow> gotime \<Rightarrow> 'w \<Rightarrow> (aerr + keyset) \<times> 'w" where
  "getKeys IL p t0 t1 t2 w =
     (case getKeysRead t0 (gg_cacheGet p w) of
        Some ks \<Rightarrow> (Inr ks, w)
      | None \<Rightarrow> getKeysLocked IL p t1 t2 w)"

definition FetchCount :: "jwksCache \<Rightarrow> int" where
  "FetchCount c = jc_fetches c"

section \<open>The id token\<close>

definition googleKey :: "keyset \<Rightarrow> token_header \<Rightarrow> aerr + rsa_PublicKey" where
  "googleKey keys t =
     (if th_Alg t \<notin> {''RS256'', ''RS384'', ''RS512''} then Inl (Opaque (''unexpected signing method: '' @ th_Alg t))
      else let kid = (case th_Kid t of Some (JStr s) \<Rightarrow> s | _ \<Rightarrow> []) in
           case keys kid of Some key \<Rightarrow> Inr key | None \<Rightarrow> Inl (Opaque (''unknown kid: '' @ kid)))"

definition jwtMsg :: "jwt_err \<Rightarrow> aerr" where
  "jwtMsg e = Opaque (case e of ErrJwtExpired \<Rightarrow> ''token is expired'' | ErrJwtOther m \<Rightarrow> m)"

definition validateIDToken ::
    "id_lib \<Rightarrow> 'w google_provider \<Rightarrow> oauth_env \<Rightarrow> string \<Rightarrow> 'w \<Rightarrow> (aerr + GoogleIDTokenClaims) \<times> 'w" where
  "validateIDToken IL p env rawToken w =
     (case getKeys IL p (oe_now env) (oe_now env) (oe_fetched env) w of
        (Inl e, w1) \<Rightarrow> (Inl (Wrapf ''validateIDToken: jwks'' e), w1)
      | (Inr keys, w1) \<Rightarrow>
          (case il_Parse IL [''RS256''] (googleKey keys) (oe_now env) rawToken of
             Inl e \<Rightarrow>
               (Inl (if e = ErrJwtExpired then Sentinel ErrTokenExpired else Wrapf ''validateIDToken'' (jwtMsg e)), w1)
           | Inr (claims, valid) \<Rightarrow>
               if \<not> valid then (Inl (Sentinel ErrTokenInvalid), w1)
               else if gc_Issuer claims \<noteq> ''accounts.google.com'' \<and> gc_Issuer claims \<noteq> ''https://accounts.google.com''
               then (Inl (Opaque (''validateIDToken: invalid issuer: '' @ gc_Issuer claims)), w1)
               else if \<not> list_ex (\<lambda>a. a = gg_clientID p) (gc_Audience claims)
               then (Inl (Opaque ''validateIDToken: invalid audience''), w1)
               else (Inr claims, w1)))"

section \<open>Login\<close>

definition gg_WithHTTPClient :: "'w http_client \<Rightarrow> 'w google_provider \<Rightarrow> 'w google_provider" where
  "gg_WithHTTPClient c p = p\<lparr>gg_httpClient := c\<rparr>"

definition gg_WithEndpoints :: "string \<Rightarrow> string \<Rightarrow> string \<Rightarrow> 'w google_provider \<Rightarrow> 'w google_provider" where
  "gg_WithEndpoints authURL tokenURL jwksURL p =
     p\<lparr>gg_authURL := authURL, gg_tokenURL := tokenURL, gg_jwksURL := jwksURL, gg_useGoogleEndpoint := False\<rparr>"

definition gg_New ::
    "string \<Rightarrow> string \<Rightarrow> TokenEncryptor \<Rightarrow> 'w StateStore \<Rightarrow> 'w UserRepository \<Rightarrow> 'w http_client
      \<Rightarrow> ('w \<Rightarrow> jwksCache) \<Rightarrow> (jwksCache \<Rightarrow> 'w \<Rightarrow> 'w) \<Rightarrow> ('w google_provider \<Rightarrow> 'w google_provider) list
      \<Rightarrow> 'w google_provider" where
  "gg_New clientID clientSecret enc ss ur defaultClient cacheGet cachePut opts =
     foldl (\<lambda>p opt. opt p)
       \<lparr>gg_clientID = clientID, gg_clientSecret = clientSecret, gg_encryptor = enc, gg_stateStore = ss,
        gg_userRepo = ur, gg_httpClient = defaultClient,
        gg_jwksURL = ''https://www.googleapis.com/oauth2/v3/certs'', gg_cacheGet = cacheGet, gg_cachePut = cachePut,
        gg_useGoogleEndpoint = True, gg_authURL = [], gg_tokenURL = []\<rparr> opts"

definition gg_oauthConfig :: "'w oauth_lib \<Rightarrow> 'w google_provider \<Rightarrow> string \<Rightarrow> oauth2_Config" where
  "gg_oauthConfig L p redirectURI =
     \<lparr>cf_ClientID = gg_clientID p, cf_ClientSecret = gg_clientSecret p, cf_RedirectURL = redirectURI,
      cf_Endpoint = (if gg_useGoogleEndpoint p then ol_GoogleEndpoint L
                     else \<lparr>ep_AuthURL = gg_authURL p, ep_TokenURL = gg_tokenURL p\<rparr>),
      cf_Scopes = gg_RequiredScopes\<rparr>"

definition gg_AuthURL ::
    "'w oauth_lib \<Rightarrow> 'w google_provider \<Rightarrow> oauth_env \<Rightarrow> string \<Rightarrow> 'w \<Rightarrow> (aerr + string \<times> string) \<times> 'w" where
  "gg_AuthURL L p env redirectURI w =
     (case GeneratePKCE (ol_sha256 L) (oe_pkce env) of
        Inl e \<Rightarrow> (Inl (Wrapf ''google.AuthURL'' e), w)
      | Inr (verifier, challenge) \<Rightarrow>
          (case ss_Create (gg_stateStore p) (oe_now env) (oe_state env) verifier redirectURI w of
             (Inl e, w1) \<Rightarrow> (Inl (Wrapf ''google.AuthURL'' e), w1)
           | (Inr state, w1) \<Rightarrow>
               let cfg = gg_oauthConfig L p redirectURI;
                   url = ol_AuthCodeURL L cfg state (pkceParams challenge)
               in (Inr (url, state), w1)))"

text \<open>The account of a Google identity: the one that carries its subject, else the one with its address,
  else a new one.\<close>

definition gg_newUser :: "oauth_env \<Rightarrow> GoogleIDTokenClaims \<Rightarrow> User" where
  "gg_newUser env claims =
     \<lparr>u_ID = oe_uuid env, u_Email = gc_Email claims, u_Name = gc_Name claims, u_AvatarURL = gc_Picture claims,
      u_Provider = ProviderGoogle, u_ProviderID = gc_Subject claims, u_GitHubLogin = [], u_GitHubTokenEnc = None,
      u_IsEmailVerified = True, u_IsActive = True, u_CreatedAt = oe_now env, u_UpdatedAt = oe_now env,
      u_LastLoginAt = Some (oe_now env)\<rparr>"

definition gg_account ::
    "'w google_provider \<Rightarrow> oauth_env \<Rightarrow> GoogleIDTokenClaims \<Rightarrow> 'w \<Rightarrow> (aerr + User) \<times> 'w" where
  "gg_account p env claims w =
     (case ur_GetByProviderID (gg_userRepo p) ProviderGoogle (gc_Subject claims) w of
        (Inr existing, w1) \<Rightarrow>
          let (_, w2) = ur_UpdateLastLogin (gg_userRepo p) (oe_now env) (u_ID existing) w1
          in (Inr (existing\<lparr>u_LastLoginAt := Some (oe_now env)\<rparr>), w2)
      | (Inl _, w1) \<Rightarrow>
          (case ur_GetByEmail (gg_userRepo p) (gc_Email claims) w1 of
             (Inr existing, w2) \<Rightarrow>
               let (_, w3) = ur_UpdateLastLogin (gg_userRepo p) (oe_now env) (u_ID existing) w2
               in (Inr (existing\<lparr>u_LastLoginAt := Some (oe_now env)\<rparr>), w3)
           | (Inl _, w2) \<Rightarrow>
               (case ur_Create (gg_userRepo p) (gg_newUser env claims) w2 of
                  (Some e, w3) \<Rightarrow> (Inl (Wrapf ''google.HandleCallback: create'' e), w3)
                | (None, w3) \<Rightarrow> (Inr (gg_newUser env claims), w3))))"

definition gg_exchange ::
    "id_lib \<Rightarrow> 'w oauth_lib \<Rightarrow> 'w google_provider \<Rightarrow> oauth_env \<Rightarrow> string \<Rightarrow> string \<Rightarrow> string \<Rightarrow> 'w
      \<Rightarrow> (aerr + User) \<times> 'w" where
  "gg_exchange IL L p env code redirectURI codeVerifier w =
     (case ol_Exchange L (gg_oauthConfig L p redirectURI) code [(''code_verifier'', codeVerifier)] w of
        (Inl e, w1) \<Rightarrow> (Inl (Wrapf ''google.HandleCallback: exchange'' (Opaque e)), w1)
      | (Inr token, w1) \<Rightarrow>
          let rawIDToken = (case tk_Extra token ''id_token'' of Some (JStr s) \<Rightarrow> s | _ \<Rightarrow> []) in
          if rawIDToken = [] then (Inl (Opaque ''google.HandleCallback: no id_token in response''), w1)
          else case validateIDToken IL p env rawIDToken w1 of
                 (Inl e, w2) \<Rightarrow> (Inl (Wrapf ''google.HandleCallback'' e), w2)
               | (Inr claims, w2) \<Rightarrow>
                   if \<not> gc_EmailVerified claims
                   then (Inl (Opaque ''google.HandleCallback: email not verified by Google''), w2)
                   else gg_account p env claims w2)"

definition gg_HandleCallback ::
    "id_lib \<Rightarrow> 'w oauth_lib \<Rightarrow> 'w google_provider \<Rightarrow> oauth_env \<Rightarrow> string \<Rightarrow> string \<Rightarrow> string \<Rightarrow> 'w
      \<Rightarrow> (aerr + User) \<times> 'w" where
  "gg_HandleCallback IL L p env code state redirectURI w =
     (case ss_Verify (gg_stateStore p) (oe_now env) state w of
        (Inl e, w1) \<Rightarrow> (Inl (Wrapf ''google.HandleCallback: CSRF invalid'' e), w1)
      | (Inr p', w1) \<Rightarrow> gg_exchange IL L p env code redirectURI (sp_CodeVerifier p') w1)"

section \<open>The exponent\<close>

lemma be_nat_snoc: "be_nat (bs @ [b]) = 256 * be_nat bs + of_char b"
  by (simp add: be_nat_def)

lemma be_nat_bound: "be_nat bs < 256 ^ length bs"
proof (induction bs rule: rev_induct)
  case (snoc b bs)
  have "256 * be_nat bs + of_char b < 256 * (be_nat bs + 1)" by simp
  also have "\<dots> \<le> 256 * 256 ^ length bs" using snoc by (intro mult_le_mono2) simp
  finally show ?case by (simp add: be_nat_snoc)
qed (simp add: be_nat_def)

lemma exponentOf_be_nat: "exponentOf bs = word_of_nat (be_nat bs)"
proof (induction bs rule: rev_induct)
  case (snoc b bs)
  then show ?case by (simp add: exponentOf_def be_nat_snoc push_bit_eq_mult)
qed (simp add: exponentOf_def be_nat_def)

text \<open>The key that is built from a pair of segments has the big-endian numbers of their bytes as
  modulus and exponent. The exponent wraps around at 64 bits; it is exact, and not negative, when its
  segment has at most seven bytes.\<close>

theorem google_key_exponent:
  assumes "parseRSAPublicKey decodeSegment n e = Some k"
  shows "\<exists>nb eb. decodeSegment n = Some nb \<and> decodeSegment e = Some eb \<and> pk_N k = be_nat nb
    \<and> unat (pk_E k) = be_nat eb mod 2 ^ 64 \<and> (length eb \<le> 7 \<longrightarrow> sint (pk_E k) = int (be_nat eb))"
proof -
  obtain nb eb where b: "decodeSegment n = Some nb" "decodeSegment e = Some eb" "k = \<lparr>pk_N = be_nat nb, pk_E = exponentOf eb\<rparr>"
    using assms by (auto simp: parseRSAPublicKey_def split: option.splits)
  have "sint (exponentOf eb) = int (be_nat eb)" if "length eb \<le> 7"
  proof -
    have "be_nat eb < 256 ^ 7" using be_nat_bound [of eb] that power_increasing [of "length eb" 7 "256::nat"] by simp
    then have "int (be_nat eb) < 2 ^ 63" by simp
    then show ?thesis
      by (simp add: exponentOf_be_nat signed_of_nat signed_take_bit_int_eq_self)
  qed
  then show ?thesis using b by (simp add: exponentOf_be_nat unat_of_nat)
qed

theorem google_key_exponent_witness:
  "\<exists>k. parseRSAPublicKey (\<lambda>s. Some s) ''N'' [CHR 0x01, CHR 0x00, CHR 0x01] = Some k \<and> sint (pk_E k) = 65537"
proof -
  let ?e = "[CHR 0x01, CHR 0x00, CHR 0x01]"
  have "be_nat ?e = 65537" by (simp add: be_nat_def)
  moreover obtain k where k: "parseRSAPublicKey (\<lambda>s. Some s) ''N'' ?e = Some k" by (simp add: parseRSAPublicKey_def)
  ultimately show ?thesis using google_key_exponent [OF k] by auto
qed

section \<open>The cache under concurrent requests\<close>

text \<open>A call of \<open>getKeys\<close> is one or two critical sections, so any interleaving of calls is a sequence of
  sections: a look under the read lock, which may give no keys, and the rest under the write lock.\<close>

datatype jwks_section = RLocked gotime | Locked gotime gotime

fun section_time :: "jwks_section \<Rightarrow> gotime" where
  "section_time (RLocked t) = t"
| "section_time (Locked t t') = t"

fun section_step ::
    "id_lib \<Rightarrow> 'w google_provider \<Rightarrow> jwks_section \<Rightarrow> 'w \<Rightarrow> (aerr + keyset) option \<times> 'w" where
  "section_step IL p (RLocked t) w = (map_option Inr (getKeysRead t (gg_cacheGet p w)), w)"
| "section_step IL p (Locked t t') w = (let (r, w') = getKeysLocked IL p t t' w in (Some r, w'))"

fun section_run ::
    "id_lib \<Rightarrow> 'w google_provider \<Rightarrow> jwks_section list \<Rightarrow> 'w \<Rightarrow> (aerr + keyset) option list \<times> 'w" where
  "section_run IL p [] w = ([], w)"
| "section_run IL p (x # xs) w =
     (let (r, w1) = section_step IL p x w; (rs, w2) = section_run IL p xs w1 in (r # rs, w2))"

text \<open>The cache is a part of the world that the HTTP client does not write.\<close>

locale key_cache =
  fixes p :: "'w google_provider"
  assumes cache_get: "gg_cacheGet p (gg_cachePut p c w) = c"
    and cache_frame: "gg_cacheGet p (snd (gg_httpClient p q w)) = gg_cacheGet p w"
begin

lemma section_fresh:
  "getKeysRead (section_time x) (gg_cacheGet p w) = Some ks \<Longrightarrow> section_step IL p x w = (Some (Inr ks), w)"
  by (cases x) (auto simp: getKeysLocked_def)

lemma sections_fresh:
  "\<forall>x \<in> set xs. getKeysRead (section_time x) (gg_cacheGet p w) = Some ks \<Longrightarrow>
     section_run IL p xs w = (replicate (length xs) (Some (Inr ks)), w)"
  by (induction xs) (simp_all add: section_fresh)

text \<open>What a fetch leaves in an empty cache.\<close>

lemma fetched:
  assumes "gg_cacheGet p w = emptyCache" and "getKeysLocked IL p t t' w = (Inr ks, w1)"
  shows "gg_cacheGet p w1 = \<lparr>jc_keys = Some ks, jc_fetchAt = t', jc_ttl = hours 1, jc_fetches = 1\<rparr>"
proof -
  obtain resp w0 where r: "gg_httpClient p \<lparr>q_URL = gg_jwksURL p, q_Header = []\<rparr> w = (Inr resp, w0)"
    using assms by (auto simp: getKeysLocked_def getKeysRead_def emptyCache_def split: prod.splits sum.splits)
  have "gg_cacheGet p w0 = emptyCache" using cache_frame [of "\<lparr>q_URL = gg_jwksURL p, q_Header = []\<rparr>" w] r assms(1) by simp
  then show ?thesis using assms r cache_get
    by (auto simp: getKeysLocked_def getKeysRead_def emptyCache_def Let_def split: sum.splits)
qed

lemma read_fetched:
  "gg_cacheGet p w1 = \<lparr>jc_keys = Some ks, jc_fetchAt = t', jc_ttl = hours 1, jc_fetches = n\<rparr> \<Longrightarrow> t < t' + hours 1 \<Longrightarrow>
     getKeysRead t (gg_cacheGet p w1) = Some ks"
  by (simp add: getKeysRead_def)

lemma getKeys_empty:
  "gg_cacheGet p w = emptyCache \<Longrightarrow> getKeys IL p t0 t1 t2 w = getKeysLocked IL p t1 t2 w"
  by (simp add: getKeys_def getKeysRead_def emptyCache_def)

end

section \<open>The contract of the JWT library\<close>

definition gclaims_ok :: "gotime \<Rightarrow> GoogleIDTokenClaims \<Rightarrow> bool" where
  "gclaims_ok now c = ((case gc_ExpiresAt c of None \<Rightarrow> True | Some x \<Rightarrow> now < x)
     \<and> (case gc_NotBefore c of None \<Rightarrow> True | Some x \<Rightarrow> x \<le> now))"

text \<open>\<open>header s\<close> is the header of a token text; \<open>carries m pk s\<close> are its claims when its signature by
  method \<open>m\<close> verifies under \<open>pk\<close>.\<close>

locale id_token_lib =
  fixes IL :: id_lib and header :: "string \<Rightarrow> token_header"
    and carries :: "string \<Rightarrow> rsa_PublicKey \<Rightarrow> string \<Rightarrow> GoogleIDTokenClaims option"
  assumes parse_sound: "il_Parse IL ms kf now s = Inr (c, v) \<Longrightarrow> v \<and> th_Alg (header s) \<in> set ms
      \<and> (\<exists>pk. kf (header s) = Inr pk \<and> carries (th_Alg (header s)) pk s = Some c) \<and> gclaims_ok now c"
    and parse_complete: "th_Alg (header s) \<in> set ms \<Longrightarrow> kf (header s) = Inr pk \<Longrightarrow>
      carries (th_Alg (header s)) pk s = Some c \<Longrightarrow> gclaims_ok now c \<Longrightarrow> il_Parse IL ms kf now s = Inr (c, True)"
begin

lemma no_keys: "\<exists>e. il_Parse IL [''RS256''] (googleKey Map.empty) now s = Inl e"
proof (cases "il_Parse IL [''RS256''] (googleKey Map.empty) now s")
  case (Inr cv)
  then obtain c v where "il_Parse IL [''RS256''] (googleKey Map.empty) now s = Inr (c, v)" by (cases cv) auto
  from parse_sound [OF this] show ?thesis by (auto simp: googleKey_def Let_def split: if_splits)
qed auto

lemma validate_sound:
  assumes "validateIDToken IL p env raw w = (Inr c, w')"
  shows "\<exists>keys kid k. getKeys IL p (oe_now env) (oe_now env) (oe_fetched env) w = (Inr keys, w')
    \<and> th_Alg (header raw) = ''RS256'' \<and> kid = (case th_Kid (header raw) of Some (JStr x) \<Rightarrow> x | _ \<Rightarrow> [])
    \<and> keys kid = Some k \<and> carries ''RS256'' k raw = Some c \<and> gclaims_ok (oe_now env) c
    \<and> gc_Issuer c \<in> {''accounts.google.com'', ''https://accounts.google.com''} \<and> gg_clientID p \<in> set (gc_Audience c)"
proof -
  obtain keys where k: "getKeys IL p (oe_now env) (oe_now env) (oe_fetched env) w = (Inr keys, w')"
    using assms by (auto simp: validateIDToken_def split: prod.splits sum.splits if_splits)
  obtain v where q: "il_Parse IL [''RS256''] (googleKey keys) (oe_now env) raw = Inr (c, v)"
    using assms k by (auto simp: validateIDToken_def split: prod.splits sum.splits if_splits)
  from parse_sound [OF q] obtain pk where h: "th_Alg (header raw) = ''RS256''" "googleKey keys (header raw) = Inr pk"
      "carries ''RS256'' pk raw = Some c" "gclaims_ok (oe_now env) c" by auto
  have "keys (case th_Kid (header raw) of Some (JStr x) \<Rightarrow> x | _ \<Rightarrow> []) = Some pk"
    using h(1,2) by (auto simp: googleKey_def Let_def split: option.splits)
  then show ?thesis using assms k q h
    by (auto simp: validateIDToken_def list_ex_iff split: if_splits)
qed

end

text \<open>A library that knows one set of claims: a token names its key.\<close>

definition demo_claims :: GoogleIDTokenClaims where
  "demo_claims = \<lparr>gc_Issuer = ''accounts.google.com'', gc_Subject = ''sub'', gc_Audience = [''id''], gc_ExpiresAt = Some 900,
     gc_NotBefore = None, gc_IssuedAt = None, gc_ID = [], gc_Email = ''a@x'', gc_EmailVerified = True, gc_Name = ''Ada'', gc_Picture = []\<rparr>"

definition demo_header :: "string \<Rightarrow> token_header" where
  "demo_header s = (if HasPrefix s ''idt.'' then \<lparr>th_Alg = ''RS256'', th_Kid = Some (JStr (drop 4 s))\<rparr>
     else \<lparr>th_Alg = ''none'', th_Kid = None\<rparr>)"

definition demo_carries :: "string \<Rightarrow> rsa_PublicKey \<Rightarrow> string \<Rightarrow> GoogleIDTokenClaims option" where
  "demo_carries m pk s = (if m = ''RS256'' \<and> pk = \<lparr>pk_N = 78, pk_E = 69\<rparr> then Some demo_claims else None)"

definition demo_parse ::
    "string list \<Rightarrow> (token_header \<Rightarrow> aerr + rsa_PublicKey) \<Rightarrow> gotime \<Rightarrow> string \<Rightarrow> jwt_err + GoogleIDTokenClaims \<times> bool" where
  "demo_parse ms kf now s =
     (if th_Alg (demo_header s) \<notin> set ms then Inl (ErrJwtOther ''method'')
      else case kf (demo_header s) of
             Inl e \<Rightarrow> Inl (ErrJwtOther ''unverifiable'')
           | Inr pk \<Rightarrow>
               (case demo_carries (th_Alg (demo_header s)) pk s of
                  None \<Rightarrow> Inl (ErrJwtOther ''signature'')
                | Some c \<Rightarrow> if gclaims_ok now c then Inr (c, True) else Inl ErrJwtExpired))"

definition demo_idlib :: id_lib where
  "demo_idlib = \<lparr>il_Parse = demo_parse, il_DecodeSegment = Some\<rparr>"

interpretation demoid: id_token_lib demo_idlib demo_header demo_carries
  by unfold_locales (auto simp: demo_idlib_def demo_parse_def split: if_splits sum.splits option.splits)

section \<open>Whom a login names\<close>

locale google_accounts = pg_users Q tbl + state_store "gg_stateStore p" pend + id_token_lib IL header carries
  for Q :: "(User, 'w) pgx" and tbl and p :: "'w google_provider" and pend and IL header carries +
  fixes L :: "'w oauth_lib"
  assumes repo: "gg_userRepo p = pgUserRepo Q"
    and state_frame: "tbl (snd (ss_Verify (gg_stateStore p) t st w)) = tbl w"
    and exchange_frame: "tbl (snd (ol_Exchange L cfg code ps w)) = tbl w"
    and http_frame: "tbl (snd (gg_httpClient p q w)) = tbl w"
    and cache_frame: "tbl (gg_cachePut p c w) = tbl w"
begin

lemma keys_frame: "getKeys IL p t0 t1 t2 w = (out, w') \<Longrightarrow> tbl w' = tbl w"
  using http_frame [of "\<lparr>q_URL = gg_jwksURL p, q_Header = []\<rparr>" w]
  by (auto simp: getKeys_def getKeysLocked_def Let_def cache_frame split: option.splits prod.splits sum.splits)

text \<open>The account of the claims is one that carries the subject, or the address, or it is new.\<close>

lemma account_owner:
  assumes "gg_account p env c w = (Inr user, w')"
  shows "(\<exists>r \<in> set (tbl w). u_IsActive r \<and> u_ID user = u_ID r
      \<and> (u_Provider r = ProviderGoogle \<and> u_ProviderID r = gc_Subject c \<or> email_match (gc_Email c) r))
    \<or> user = gg_newUser env c \<and> (\<forall>x \<in> set (tbl w). \<not> user_clash x user)"
proof -
  let ?c = "\<lambda>r. u_Provider r = ProviderGoogle \<and> u_ProviderID r = gc_Subject c \<and> u_IsActive r"
  obtain o1 w1 where g: "user_GetByProviderID Q ProviderGoogle (gc_Subject c) w = (o1, w1)" by fastforce
  have t1: "tbl w1 = tbl w" "\<And>x. o1 = Inr x \<Longrightarrow> \<exists>r \<in> set (tbl w). ?c r \<and> x = scanned r"
    using scanUser_ok [of ?c w o1 w1] g by (auto simp: user_GetByProviderID_def)
  obtain o2 w2 where m: "ur_GetByEmail (pgUserRepo Q) (gc_Email c) w1 = (o2, w2)" by fastforce
  have t2: "tbl w2 = tbl w" "\<And>x. o2 = Inr x \<Longrightarrow> \<exists>r \<in> set (tbl w). email_match (gc_Email c) r \<and> x = scanned r"
    using by_email [OF m] t1(1) by auto
  show ?thesis
  proof (cases o1)
    case (Inr x)
    then obtain r where "r \<in> set (tbl w)" "?c r" "x = scanned r" using t1(2) by blast
    then show ?thesis using assms g Inr
      by (auto simp: gg_account_def repo pgUserRepo_def scanned_def split: prod.splits)
  next
    case e1: (Inl e1)
    show ?thesis
    proof (cases o2)
      case (Inr x)
      then obtain r where "r \<in> set (tbl w)" "email_match (gc_Email c) r" "x = scanned r" using t2(2) by blast
      then show ?thesis using assms g m e1 Inr
        by (auto simp: gg_account_def repo pgUserRepo_def scanned_def email_match_def split: prod.splits)
    next
      case (Inl e2)
      then have "ur_Create (pgUserRepo Q) (gg_newUser env c) w2 = (None, w')" "user = gg_newUser env c"
        using assms g m e1 by (auto simp: gg_account_def repo pgUserRepo_def split: option.splits prod.splits)
      then show ?thesis using create [of "gg_newUser env c" w2 None w'] t2(1) by auto
    qed
  qed
qed

lemma callback_sound:
  assumes h: "gg_HandleCallback IL L p env code st uri w = (Inr user, w')"
  obtains v w1 token w2 raw c w3 where "pend (oe_now env) w st = Some v"
    "ol_Exchange L (gg_oauthConfig L p uri) code [(''code_verifier'', sp_CodeVerifier v)] w1 = (Inr token, w2)"
    "tk_Extra token ''id_token'' = Some (JStr raw)" "validateIDToken IL p env raw w2 = (Inr c, w3)"
    "gc_EmailVerified c" "gg_account p env c w3 = (Inr user, w')" "tbl w3 = tbl w"
proof -
  obtain v w1 where v: "ss_Verify (gg_stateStore p) (oe_now env) st w = (Inr v, w1)"
    using h by (auto simp: gg_HandleCallback_def gg_exchange_def split: prod.splits sum.splits)
  obtain token w2 where x: "ol_Exchange L (gg_oauthConfig L p uri) code [(''code_verifier'', sp_CodeVerifier v)] w1 = (Inr token, w2)"
    using h v by (auto simp: gg_HandleCallback_def gg_exchange_def split: prod.splits sum.splits)
  obtain raw where raw: "tk_Extra token ''id_token'' = Some (JStr raw)" "raw \<noteq> []"
    using h v x by (auto simp: gg_HandleCallback_def gg_exchange_def Let_def split: option.splits json.splits if_splits)
  obtain c w3 where c: "validateIDToken IL p env raw w2 = (Inr c, w3)" "gc_EmailVerified c" "gg_account p env c w3 = (Inr user, w')"
    using h v x raw by (auto simp: gg_HandleCallback_def gg_exchange_def Let_def split: prod.splits sum.splits if_splits)
  have "tbl w3 = tbl w2" using validate_sound [OF c(1)] keys_frame by blast
  also have "\<dots> = tbl w" using state_frame [of "oe_now env" st w]
      exchange_frame [of "gg_oauthConfig L p uri" code "[(''code_verifier'', sp_CodeVerifier v)]" w1] v x by simp
  finally show thesis using that verified [OF v] x raw(1) c by blast
qed

end

section \<open>A Google for concrete runs\<close>

type_synonym gworld = "rstore \<times> User list \<times> jwksCache"

definition demo_gg :: "gworld google_provider" where
  "demo_gg = gg_New ''id'' ''secret'' (tokenEncryptor tag_gcm (replicate 32 (CHR ''a'')))
     (NewStateStore fst (\<lambda>s w. (s, snd w)) pure_redis) (pgUserRepo (snd_pg (fst_pg (pure_pg user_clash)))) demo_http
     (\<lambda>w. snd (snd w)) (\<lambda>c w. (fst w, fst (snd w), c)) []"

lemma demo_gg_fields [simp]:
  "gg_userRepo demo_gg = pgUserRepo (snd_pg (fst_pg (pure_pg user_clash)))" "gg_httpClient demo_gg = demo_http"
  "gg_stateStore demo_gg = NewStateStore fst (\<lambda>s w. (s, snd w)) pure_redis"
  "gg_cacheGet demo_gg = (\<lambda>w. snd (snd w))" "gg_cachePut demo_gg = (\<lambda>c w. (fst w, fst (snd w), c))"
  by (simp_all add: demo_gg_def gg_New_def)

interpretation democache: key_cache demo_gg
  by unfold_locales (simp_all add: demo_http_def)

lemma demo_states: "state_store (NewStateStore fst (\<lambda>s w. (s, snd w)) pure_redis) (\<lambda>t w. state_pending t (fst w))"
  by (rule pure.state_store_ok) (simp add: Prelude.part_def)

interpretation demogg: google_accounts "snd_pg (fst_pg (pure_pg user_clash))" "\<lambda>w. fst (snd w)" demo_gg
    "\<lambda>t w. state_pending t (fst w)" demo_idlib demo_header demo_carries demo_lib
proof (intro_locales, goal_cases)
  case 1
  show ?case by (rule pg_up.axioms(1) [OF pg_up_snd [OF pg_up_fst [OF purepg.pg_up_axioms]]])
next
  case 2
  show ?case by (rule pg_up.axioms(2) [OF pg_up_snd [OF pg_up_fst [OF purepg.pg_up_axioms]]])
next
  case 3
  show ?case using demo_states by simp
next
  case 4
  show ?case
    by unfold_locales (auto simp: NewStateStore_def lift_part_def demo_lib_def demo_http_def split: prod.splits)
qed

section \<open>Properties of the login\<close>

text \<open>C7: A Google login succeeds only with a state token that was pending, a code that the token endpoint
  accepted together with the code verifier of that state, and an id token that is signed with RS256 by
  the key that Google's key set has under its key id, is not expired, was issued by Google for this
  client, and has a verified address. The account is the active one with the token's subject or with its
  address, or a new one for exactly this identity.\<close>

theorem google_login_sound:
  assumes "google_accounts Q tbl p pend IL header carries L"
    and "gg_HandleCallback IL L p env code state uri w = (Inr user, w')"
  shows "\<exists>v w1 w2 token raw keys w3 kid k c. pend (oe_now env) w state = Some v
    \<and> ol_Exchange L (gg_oauthConfig L p uri) code [(''code_verifier'', sp_CodeVerifier v)] w1 = (Inr token, w2)
    \<and> tk_Extra token ''id_token'' = Some (JStr raw)
    \<and> getKeys IL p (oe_now env) (oe_now env) (oe_fetched env) w2 = (Inr keys, w3)
    \<and> th_Alg (header raw) = ''RS256'' \<and> kid = (case th_Kid (header raw) of Some (JStr x) \<Rightarrow> x | _ \<Rightarrow> [])
    \<and> keys kid = Some k \<and> carries ''RS256'' k raw = Some c \<and> gclaims_ok (oe_now env) c
    \<and> gc_Issuer c \<in> {''accounts.google.com'', ''https://accounts.google.com''} \<and> gg_clientID p \<in> set (gc_Audience c)
    \<and> gc_EmailVerified c
    \<and> ((\<exists>r \<in> set (tbl w). u_IsActive r \<and> u_ID user = u_ID r
          \<and> (u_Provider r = ProviderGoogle \<and> u_ProviderID r = gc_Subject c \<or> email_match (gc_Email c) r))
        \<or> user = gg_newUser env c \<and> (\<forall>x \<in> set (tbl w). \<not> user_clash x user))"
proof -
  obtain v w1 token w2 raw c w3 where h: "pend (oe_now env) w state = Some v"
    "ol_Exchange L (gg_oauthConfig L p uri) code [(''code_verifier'', sp_CodeVerifier v)] w1 = (Inr token, w2)"
    "tk_Extra token ''id_token'' = Some (JStr raw)" "validateIDToken IL p env raw w2 = (Inr c, w3)"
    "gc_EmailVerified c" "gg_account p env c w3 = (Inr user, w')" "tbl w3 = tbl w"
    using google_accounts.callback_sound [OF assms] .
  have lib: "id_token_lib IL header carries" using assms(1) by (simp add: google_accounts_def)
  note owner = google_accounts.account_owner [OF assms(1) h(6), unfolded h(7)]
  from id_token_lib.validate_sound [OF lib h(4)] owner h(1-3,5) show ?thesis by blast
qed

text \<open>C37: However the calls for Google's keys interleave, the ones that come within an hour of a fetch find
  its keys and send no request: after one fetch into an empty cache every section of every call returns
  those keys and leaves the world as it is, and the fetch counter is one.\<close>

theorem jwks_single_fetch:
  assumes "key_cache p" and "gg_cacheGet p w = emptyCache" and "getKeysLocked IL p t t' w = (Inr ks, w1)"
    and "\<forall>x \<in> set xs. section_time x < t' + hours 1"
  shows "section_run IL p xs w1 = (replicate (length xs) (Some (Inr ks)), w1) \<and> FetchCount (gg_cacheGet p w1) = 1"
proof -
  note f = key_cache.fetched [OF assms(1-3)]
  have "\<forall>x \<in> set xs. getKeysRead (section_time x) (gg_cacheGet p w1) = Some ks"
    using key_cache.read_fetched [OF assms(1) f] assms(4) by blast
  then show ?thesis using key_cache.sections_fresh [OF assms(1)] f by (simp add: FetchCount_def)
qed

text \<open>The status of the response with Google's keys is not looked at: a JSON object without keys, such
  as the body of an error response, is cached as an empty key set. The login that fetched it and all that
  follow within an hour are refused, whatever their token, and no request for keys is sent.\<close>

theorem jwks_error_body_cached:
  assumes "key_cache p" and "id_token_lib IL header carries" and "gg_cacheGet p w = emptyCache"
    and "gg_httpClient p \<lparr>q_URL = gg_jwksURL p, q_Header = []\<rparr> w = (Inr resp, w0)"
    and "rs_Body resp = Doc (JObj kvs)" and "field_values ''keys'' kvs = []"
  shows "\<exists>e w1. validateIDToken IL p env raw w = (Inl e, w1)
    \<and> (\<forall>env' raw'. oe_now env' < oe_fetched env + hours 1 \<longrightarrow> (\<exists>e'. validateIDToken IL p env' raw' w1 = (Inl e', w1)))"
proof -
  have "decode_body dJwks \<lparr>jr_Keys = []\<rparr> (rs_Body resp) = Inr \<lparr>jr_Keys = []\<rparr>"
    using assms(5,6) by (simp add: dJwks_def fld_def)
  then obtain w1 where l: "getKeysLocked IL p (oe_now env) (oe_fetched env) w = (Inr Map.empty, w1)"
    using assms(3,4) by (simp add: getKeysLocked_def getKeysRead_def emptyCache_def Let_def)
  have refused: "\<exists>e. validateIDToken IL p env'' raw'' w'' = (Inl e, w1)"
    if "getKeys IL p (oe_now env'') (oe_now env'') (oe_fetched env'') w'' = (Inr Map.empty, w1)" for env'' raw'' w''
    using id_token_lib.no_keys [OF assms(2), of "oe_now env''" raw''] that by (auto simp: validateIDToken_def)
  have "getKeys IL p (oe_now env) (oe_now env) (oe_fetched env) w = (Inr Map.empty, w1)"
    using key_cache.getKeys_empty [OF assms(1,3)] l by simp
  moreover have "getKeys IL p (oe_now env') (oe_now env') (oe_fetched env') w1 = (Inr Map.empty, w1)"
    if "oe_now env' < oe_fetched env + hours 1" for env'
    using key_cache.read_fetched [OF assms(1) key_cache.fetched [OF assms(1,3) l] that] by (simp add: getKeys_def)
  ultimately show ?thesis using refused by metis
qed

lemma demo_google_callback:
  "fst (gg_HandleCallback demo_idlib demo_lib demo_gg demo_env ''code'' ''st'' ''uri'' (demo_store, [], emptyCache)) =
     Inr (gg_newUser demo_env demo_claims)"
  by code_simp

theorem google_login_sound_witness:
  "\<exists>w' v c. gg_HandleCallback demo_idlib demo_lib demo_gg demo_env ''code'' ''st'' ''uri'' (demo_store, [], emptyCache) =
       (Inr (gg_newUser demo_env demo_claims), w')
     \<and> state_pending (oe_now demo_env) demo_store ''st'' = Some v
     \<and> gc_EmailVerified c \<and> gg_clientID demo_gg \<in> set (gc_Audience c) \<and> gg_newUser demo_env demo_claims = gg_newUser demo_env c"
proof -
  obtain w' where h: "gg_HandleCallback demo_idlib demo_lib demo_gg demo_env ''code'' ''st'' ''uri'' (demo_store, [], emptyCache) =
      (Inr (gg_newUser demo_env demo_claims), w')"
    using demo_google_callback by (metis prod.collapse)
  show ?thesis using google_login_sound [OF demogg.google_accounts_axioms h] h by fastforce
qed

definition demo_keys :: keyset where
  "demo_keys = [''g'' \<mapsto> \<lparr>pk_N = 78, pk_E = 69\<rparr>]"

lemma demo_fetch:
  "getKeysLocked demo_idlib demo_gg 5 6 ((\<lambda>_. None), [], emptyCache) =
     (Inr demo_keys, (\<lambda>_. None), [], \<lparr>jc_keys = Some demo_keys, jc_fetchAt = 6, jc_ttl = hours 1, jc_fetches = 1\<rparr>)"
  by (simp add: getKeysLocked_def getKeysRead_def emptyCache_def demo_http_def demo_gg_def gg_New_def dJwks_def dJwksKey_def
      fld_def json_defs zeroKey_def parseRSAPublicKey_def demo_idlib_def be_nat_def exponentOf_def demo_keys_def)

theorem jwks_single_fetch_witness:
  "section_run demo_idlib demo_gg [RLocked 7, Locked 8 9]
      ((\<lambda>_. None), [], \<lparr>jc_keys = Some demo_keys, jc_fetchAt = 6, jc_ttl = hours 1, jc_fetches = 1\<rparr>) =
   ([Some (Inr demo_keys), Some (Inr demo_keys)],
      (\<lambda>_. None), [], \<lparr>jc_keys = Some demo_keys, jc_fetchAt = 6, jc_ttl = hours 1, jc_fetches = 1\<rparr>)"
  using jwks_single_fetch [OF democache.key_cache_axioms _ demo_fetch, of "[RLocked 7, Locked 8 9]"]
  by (simp add: numeral_2_eq_2)

definition down_gg :: "gworld google_provider" where
  "down_gg = demo_gg\<lparr>gg_httpClient := (\<lambda>q w. (Inr \<lparr>rs_Status = 500, rs_Text = [], rs_Body = Doc (JObj [(''error'', JStr ''backend'')])\<rparr>, w))\<rparr>"

interpretation downcache: key_cache down_gg
  by unfold_locales (simp_all add: down_gg_def)

theorem jwks_error_body_cached_witness:
  "\<exists>e w1. validateIDToken demo_idlib down_gg demo_env ''idt.g'' ((\<lambda>_. None), [], emptyCache) = (Inl e, w1)
    \<and> (\<exists>e'. validateIDToken demo_idlib down_gg (demo_env\<lparr>oe_now := minutes 59\<rparr>) ''idt.g'' w1 = (Inl e', w1))"
proof -
  have "field_values ''keys'' [(''error'', JStr ''backend'')] = []" by (simp add: json_defs)
  from jwks_error_body_cached [OF downcache.key_cache_axioms demoid.id_token_lib_axioms _ _ _ this,
      of "((\<lambda>_. None), [], emptyCache)" _ _ demo_env "''idt.g''"]
  have "\<exists>e w1. validateIDToken demo_idlib down_gg demo_env ''idt.g'' ((\<lambda>_. None), [], emptyCache) = (Inl e, w1)
      \<and> (\<forall>env' raw'. oe_now env' < oe_fetched demo_env + hours 1 \<longrightarrow> (\<exists>e'. validateIDToken demo_idlib down_gg env' raw' w1 = (Inl e', w1)))"
    by (simp add: down_gg_def)
  then show ?thesis by (force simp: demo_env_def)
qed

end
