(* ===== verification/Auth_Properties.thy ===== *)
theory Auth_Properties
  imports Auth_Handler
begin

text \<open>
  Properties of the auth service as a whole: its handlers over the Redis token store, the Postgres
  users and the access tokens.
\<close>

section \<open>The store behind the handlers\<close>

definition redis_handler ::
    "('w \<Rightarrow> 's) \<Rightarrow> ('s \<Rightarrow> 'w \<Rightarrow> 'w) \<Rightarrow> 's redis \<Rightarrow> (bytes \<Rightarrow> bytes) \<Rightarrow> 'w AuthHandler \<Rightarrow> bool" where
  "redis_handler get put R sha h \<longleftrightarrow> part get put \<and> h_tokenStore h = NewRefreshTokenStore get put R sha
     \<and> h_sha256 h = sha \<and> (h_mailer h = None \<or> h_mailer h = Some smtpMailer)
     \<and> (\<forall>mr u w. h_memberRepo h = Some mr \<longrightarrow> get (snd (mr_GetUserWorkspaces mr u w)) = get w)"

lemma redis_handler_rotate:
  "redis_handler get put R sha h \<Longrightarrow>
     ts_Rotate (h_tokenStore h) now rnd uuid tok fp = lift_part get put (rt_Rotate R sha rnd uuid now tok fp)"
  by (simp add: redis_handler_def NewRefreshTokenStore_def)

lemma redis_handler_issue:
  "redis_handler get put R sha h \<Longrightarrow>
     ts_Issue (h_tokenStore h) now rnd sid uid fp = lift_part get put (rt_Issue R sha rnd now sid uid fp)"
  by (simp add: redis_handler_def NewRefreshTokenStore_def)

lemma redis_handler_sha: "redis_handler get put R sha h \<Longrightarrow> h_sha256 h = sha"
  by (simp add: redis_handler_def)

lemma redis_handler_get: "redis_handler get put R sha h \<Longrightarrow> get (put s w) = s"
  by (simp add: redis_handler_def part_get)

abbreviation refresh_fp :: "(bytes \<Rightarrow> bytes) \<Rightarrow> header \<Rightarrow> string" where
  "refresh_fp sha hdrs \<equiv> BuildFingerprint sha (hdr_Get hdrs ''User-Agent'') (rpc_extractIP hdrs)"

section \<open>Errors\<close>

text \<open>The error a client sees depends on the sentinel at the bottom of the error alone, however it
  was wrapped on the way; an error that is not one of the domain's is reported as an internal error
  with a fixed text, so that no text of the infrastructure reaches a client.\<close>

theorem domain_errors_opaque:
  "mapDomainError err = (case unwrap_all err of
      Sentinel e \<Rightarrow> mapDomainError (Sentinel e)
    | _ \<Rightarrow> ConnectErr CodeInternal ''authentication service error'')"
  by (cases "unwrap_all err") (auto simp: mapDomainError_def svcError_def errors_Is_unwrap)

section \<open>Protected methods\<close>

text \<open>A method that needs an identity refuses a request that carries no token: the interceptor lets
  it through without claims, the handler answers "not authenticated", and the world is unchanged.\<close>

theorem protected_methods:
  assumes "rpc_tokenStr req = []"
  shows "rpc_NewAuthInterceptor validate (\<lambda>ctx req. LogoutAll h env ctx) background req w = (Inl notAuthenticated, w)
    \<and> rpc_NewAuthInterceptor validate (\<lambda>ctx req. GetMe h ctx) background req w = (Inl notAuthenticated, w)
    \<and> rpc_NewAuthInterceptor validate (\<lambda>ctx req. ListSessions h ctx) background req w = (Inl notAuthenticated, w)
    \<and> rpc_NewAuthInterceptor validate (\<lambda>ctx req. ListUserRepos h ctx) background req w = (Inl notAuthenticated, w)"
  using assms
  by (simp add: rpc_NewAuthInterceptor_def LogoutAll_def GetMe_def ListSessions_def ListUserRepos_def
      rpc_ClaimsFromContext_def background_def)

section \<open>Refreshing\<close>

text \<open>The refresh endpoint needs a live access token. Without claims in the context the handler
  rotates the refresh token first and only then finds out that it does not know the user: the
  client's refresh token is dead, the new one is live in the store, and the client gets neither.\<close>

theorem refresh_without_claims_loses_session:
  assumes up: "redis_up R absr" and h: "redis_handler get put R sha h"
    and wf: "rt_wf (e_now env) (absr (get w))"
    and d: "session (e_now env) (absr (get w)) (hashToken sha tok) = Some d" "rt_Fingerprint d = refresh_fp sha hdrs"
    and raw: "e_rnd env = Some raw" "hashToken sha (hex_encode raw) \<noteq> hashToken sha tok"
    and ctx: "rpc_claims ctx = None"
  shows "\<exists>w'. RefreshToken h env ctx hdrs tok w = (Inl (ConnectErr CodeUnauthenticated ''session invalid''), w')
    \<and> session (e_now env) (absr (get w')) (hashToken sha tok) = None
    \<and> session (e_now env) (absr (get w')) (hashToken sha (hex_encode raw)) \<noteq> None"
proof -
  have api: "redis_api R absr" using up by (simp add: redis_up_def)
  obtain s' where rot: "rt_Rotate R sha (Some raw) (e_uuid env) (e_now env) tok (rt_Fingerprint d) (get w)
      = (Inr (hex_encode raw, e_uuid env), s')"
    using redis_up.Rotate_up [OF up d(1) wf] by metis
  have st: "session (e_now env) (absr s') (hashToken sha tok) = None
      \<and> session (e_now env) (absr s') (hashToken sha (hex_encode raw)) \<noteq> None"
    using redis_api.Rotate_outcome [OF api rot wf] raw(2) by auto
  have "RefreshToken h env ctx hdrs tok w = (Inl (ConnectErr CodeUnauthenticated ''session invalid''), put s' w)"
    using rot ctx d(2) raw(1)
    by (simp add: RefreshToken_def redis_handler_rotate [OF h] redis_handler_sha [OF h] lift_part_def
        rpc_ClaimsFromContext_def)
  then show ?thesis using st redis_handler_get [OF h] by auto
qed

text \<open>Through the interceptor no refresh succeeds unless the request also carries an access token
  that still validates: with an expired access token the request does not reach the handler, with
  none it fails as above. A client can therefore refresh only before its access token expires.\<close>

theorem refresh_needs_access_token:
  assumes "Procedure req = ''/auth.v1.AuthService/RefreshToken''"
    and "rpc_NewAuthInterceptor validate (\<lambda>ctx req. RefreshToken h env ctx (Header req) tok) background req w = (Inr resp, w')"
  shows "\<exists>claims. validate (rpc_tokenStr req) = Inr claims \<and> rpc_tokenStr req \<noteq> []
    \<and> RefreshToken h env (background\<lparr>rpc_claims := Some claims\<rparr>) (Header req) tok w = (Inr resp, w')"
proof (cases "rpc_tokenStr req = []")
  case True
  then have "RefreshToken h env background (Header req) tok w = (Inr resp, w')"
    using assms by (simp add: rpc_NewAuthInterceptor_def)
  then show ?thesis
    by (auto simp: RefreshToken_def rpc_ClaimsFromContext_def background_def Let_def split: sum.splits prod.splits)
next
  case False
  then show ?thesis using assms by (auto simp: rpc_NewAuthInterceptor_def split: sum.splits)
qed

text \<open>What a login leaves in the store: the session of the returned refresh token, bound to the
  fingerprint that the login computes.\<close>

abbreviation login_fp :: "(bytes \<Rightarrow> bytes) \<Rightarrow> header \<Rightarrow> string" where
  "login_fp sha hdrs \<equiv> BuildFingerprint sha (hdr_Get hdrs ''User-Agent'')
     (if hdr_Get hdrs ''X-Forwarded-For'' = [] then hdr_Get hdrs ''X-Real-Ip'' else hdr_Get hdrs ''X-Forwarded-For'')"

lemma login_session:
  assumes up: "redis_up R absr" and h: "redis_handler get put R sha h"
    and wf: "rt_wf (e_now env) (absr (get w))" and old: "older (e_now env) (u_ID user) (absr (get w))"
    and raw: "e_rnd env = Some raw" and at: "\<And>rs. \<exists>at. h_IssueAccessToken h (e_now env) (e_jti env) user (generateID (e_id2 env)) rs = Inr at"
  shows "\<exists>at w1. issueTokenResponse h env hdrs user w = (Inr (tokenResponse at (hex_encode raw) user), w1)
    \<and> rt_wf (e_now env) (absr (get w1))
    \<and> absr (get w1) (tokenKey (hashToken sha (hex_encode raw))) =
        Some \<lparr>rv = RStr (rtd_marshal \<lparr>rt_SessionID = generateID (e_id2 env), rt_UserID = u_ID user,
          rt_Fingerprint = login_fp sha hdrs, rt_CreatedAt = e_now env\<rparr>), rexp = Some (e_now env + RefreshTokenTTL)\<rparr>
    \<and> hashToken sha (hex_encode raw) \<in> index (e_now env) (absr (get w1)) (u_ID user)"
proof -
  obtain rs w0 where b: "buildRoles h (u_ID user) w = (rs, w0)" by fastforce
  have g: "get w0 = get w"
  proof (cases "h_memberRepo h")
    case None
    then show ?thesis using b by (simp add: buildRoles_def)
  next
    case (Some mr)
    obtain r w' where mr: "mr_GetUserWorkspaces mr (u_ID user) w = (r, w')" by fastforce
    have "get w' = get w" using h Some mr unfolding redis_handler_def by (metis snd_conv)
    then show ?thesis using b Some mr by (auto simp: buildRoles_def split: sum.splits)
  qed
  obtain s' where iss: "rt_Issue R sha (Some raw) (e_now env) (generateID (e_id2 env)) (u_ID user) (login_fp sha hdrs) (get w)
      = (Inr (hex_encode raw), s')" and st: "rt_wf (e_now env) (absr s')"
    "hashToken sha (hex_encode raw) \<in> index (e_now env) (absr s') (u_ID user)"
    "absr s' (tokenKey (hashToken sha (hex_encode raw))) =
        Some \<lparr>rv = RStr (rtd_marshal \<lparr>rt_SessionID = generateID (e_id2 env), rt_UserID = u_ID user,
          rt_Fingerprint = login_fp sha hdrs, rt_CreatedAt = e_now env\<rparr>), rexp = Some (e_now env + RefreshTokenTTL)\<rparr>"
    using redis_up.Issue_up [OF up wf old, of sha raw "generateID (e_id2 env)" "login_fp sha hdrs"] by blast
  obtain at where at': "h_IssueAccessToken h (e_now env) (e_jti env) user (generateID (e_id2 env)) rs = Inr at"
    using at by blast
  have "issueTokenResponse h env hdrs user w = (Inr (tokenResponse at (hex_encode raw) user), put s' w0)"
    using b raw at' iss g
    by (simp add: issueTokenResponse_def redis_handler_issue [OF h] redis_handler_sha [OF h] lift_part_def Let_def)
  then show ?thesis using st redis_handler_get [OF h] by auto
qed

lemma RefreshToken_up:
  assumes up: "redis_up R absr" and h: "redis_handler get put R sha h" and wf: "rt_wf (e_now env) (absr (get w))"
    and d: "session (e_now env) (absr (get w)) (hashToken sha tok) = Some d" "rt_Fingerprint d = refresh_fp sha hdrs"
    and at: "\<And>now jti u sid rs. \<exists>at. h_IssueAccessToken h now jti u sid rs = Inr at"
    and ur: "\<And>i w. \<exists>u w'. ur_GetByID (h_userRepo h) i w = (Inr u, w')"
    and r: "e_rnd env = Some raw" and c: "rpc_claims ctx = Some c"
  shows "\<exists>resp w2. RefreshToken h env ctx hdrs tok w = (Inr resp, w2) \<and> ar_RefreshToken resp = hex_encode raw"
proof -
  obtain s' where "rt_Rotate R sha (Some raw) (e_uuid env) (e_now env) tok (rt_Fingerprint d) (get w)
      = (Inr (hex_encode raw, e_uuid env), s')"
    using redis_up.Rotate_up [OF up d(1) wf] by metis
  then have rot: "ts_Rotate (h_tokenStore h) (e_now env) (e_rnd env) (e_uuid env) tok (refresh_fp sha hdrs) w
      = (Inr (hex_encode raw, e_uuid env), put s' w)"
    using redis_handler_rotate [OF h] r d(2) by (simp add: lift_part_def)
  obtain u w2 where u: "ur_GetByID (h_userRepo h) (c_UserID c) (put s' w) = (Inr u, w2)" using ur by blast
  obtain rs w3 where b: "buildRoles h (u_ID u) w2 = (rs, w3)" by fastforce
  obtain a' where "h_IssueAccessToken h (e_now env) (e_jti env) u (e_uuid env) rs = Inr a'" using at by blast
  then show ?thesis using rot u b c redis_handler_sha [OF h]
    by (simp add: RefreshToken_def rpc_ClaimsFromContext_def Let_def tokenResponse_def)
qed


text \<open>When no header gives the client's address, login and refresh use different stand-ins for it
  (the empty string and "unknown"): the first refresh after such a login is taken for theft, the
  client is refused, and all sessions of the user are revoked.\<close>

theorem refresh_without_address_revokes_all:
  assumes up: "redis_up R absr" and h: "redis_handler get put R sha h"
    and wf: "rt_wf (e_now env) (absr (get w))" and old: "older (e_now env) (u_ID user) (absr (get w))"
    and raw: "e_rnd env = Some raw"
    and at: "\<And>now jti u sid rs. \<exists>at. h_IssueAccessToken h now jti u sid rs = Inr at"
    and ip: "hdr_Get hdrs ''X-Forwarded-For'' = []" "hdr_Get hdrs ''X-Real-Ip'' = []"
    and sha: "sha (hdr_Get hdrs ''User-Agent'' @ '':'') \<noteq> sha (hdr_Get hdrs ''User-Agent'' @ '':unknown'')"
    and t: "e_now env \<le> e_now env'" "e_now env' < e_now env + RefreshTokenTTL"
  shows "\<exists>resp w1. issueTokenResponse h env hdrs user w = (Inr resp, w1)
    \<and> (\<exists>w2. RefreshToken h env' ctx hdrs (ar_RefreshToken resp) w1 =
          (Inl (ConnectErr CodeUnauthenticated ''session invalid''), w2)
        \<and> index (e_now env') (absr (get w2)) (u_ID user) = {}
        \<and> (\<forall>g \<in> index (e_now env') (absr (get w1)) (u_ID user). session (e_now env') (absr (get w2)) g = None))"
proof -
  let ?d = "\<lparr>rt_SessionID = generateID (e_id2 env), rt_UserID = u_ID user,
          rt_Fingerprint = login_fp sha hdrs, rt_CreatedAt = e_now env\<rparr>"
  have api: "redis_api R absr" using up by (simp add: redis_up_def)
  obtain a w1 where iss: "issueTokenResponse h env hdrs user w = (Inr (tokenResponse a (hex_encode raw) user), w1)"
    and wf1: "rt_wf (e_now env) (absr (get w1))"
    and key: "absr (get w1) (tokenKey (hashToken sha (hex_encode raw))) =
        Some \<lparr>rv = RStr (rtd_marshal ?d), rexp = Some (e_now env + RefreshTokenTTL)\<rparr>"
    using login_session [OF up h wf old raw at, of hdrs] by blast
  have wft: "rt_wf (e_now env') (absr (get w1))" using rt_wf_later [OF wf1 t(1)] .
  have d: "session (e_now env') (absr (get w1)) (hashToken sha (hex_encode raw)) = Some ?d"
    using session_at [of "absr (get w1)" "hashToken sha (hex_encode raw)" ?d, OF key] t(2) by simp
  have fp: "rt_Fingerprint ?d \<noteq> refresh_fp sha hdrs"
    using ip sha by (simp add: BuildFingerprint_def rpc_extractIP_def)
  obtain s' where rot: "rotateRead R sha (e_now env') (hex_encode raw) (refresh_fp sha hdrs) (get w1) =
      (Inl (Sentinel ErrSessionFingerprintMismatch), s')"
    and st: "index (e_now env') (absr s') (rt_UserID ?d) = {}"
      "\<And>g. is_hash g \<Longrightarrow> session (e_now env') (absr s') g =
        (if g \<in> index (e_now env') (absr (get w1)) (rt_UserID ?d) then None else session (e_now env') (absr (get w1)) g)"
    using redis_up.rotateRead_mismatch [OF up d fp wft] by metis
  have rot': "ts_Rotate (h_tokenStore h) (e_now env') (e_rnd env') (e_uuid env') (hex_encode raw) (refresh_fp sha hdrs) w1
      = (Inl (Sentinel ErrSessionFingerprintMismatch), put s' w1)"
    using redis_handler_rotate [OF h] rot by (simp add: lift_part_def rt_Rotate_def)
  have "RefreshToken h env' ctx hdrs (hex_encode raw) w1 = (Inl (ConnectErr CodeUnauthenticated ''session invalid''), put s' w1)"
    using rot' redis_handler_sha [OF h] h
    by (auto simp: RefreshToken_def Let_def redis_handler_def mapDomainError_def smtpMailer_def)
  moreover have "\<forall>g \<in> index (e_now env') (absr (get w1)) (u_ID user). session (e_now env') (absr s') g = None"
    using st(2) index_hash [OF wft] by simp
  ultimately show ?thesis using iss st(1) redis_handler_get [OF h]
    by (intro exI [of _ "tokenResponse a (hex_encode raw) user"] exI [of _ w1]) (simp add: tokenResponse_def)
qed

section \<open>Who a login belongs to\<close>

context user_repository_up
begin

lemma findOrCreate_found:
  assumes "h_userRepo h = UR" and "r \<in> set (users w)" and "email_match email r"
  shows "\<exists>q w'. findOrCreate h env email w = (Inr (scanned q), w') \<and> q \<in> set (users w) \<and> email_match email q
    \<and> users w' = users w"
proof -
  obtain u w' where g: "ur_GetByEmail UR email w = (Inr u, w')" using by_email_up assms by blast
  from by_email [OF g] obtain q where "q \<in> set (users w)" "email_match email q" "u = scanned q" "users w' = users w" by auto
  then show ?thesis using g assms(1) by (auto simp: findOrCreate_def)
qed

lemma findOrCreate_absent:
  assumes "h_userRepo h = UR" and "\<forall>r \<in> set (users w). \<not> email_match email r"
  shows "\<exists>w'. findOrCreate h env email w =
      (if \<exists>x \<in> set (users w). user_clash x (newEmailUser (e_id1 env) email) then Inl svcError
       else Inr (newEmailUser (e_id1 env) email), w')
    \<and> users w' = (if \<exists>x \<in> set (users w). user_clash x (newEmailUser (e_id1 env) email) then users w
       else users w @ [newEmailUser (e_id1 env) email])"
proof -
  let ?n = "newEmailUser (e_id1 env) email"
  obtain w1 where g: "ur_GetByEmail UR email w = (Inl (Sentinel ErrUserNotFound), w1)" using by_email_none assms by blast
  have us: "users w1 = users w" using by_email [OF g] by simp
  show ?thesis
  proof (cases "\<exists>x \<in> set (users w). user_clash x ?n")
    case True
    then obtain w2 where c: "ur_Create UR ?n w1 = (Some (Sentinel ErrUserAlreadyExists), w2)"
      using create_dup [of w1 ?n] us by auto
    then show ?thesis using g True assms(1) us create [OF c] by (auto simp: findOrCreate_def)
  next
    case False
    then obtain w2 where c: "ur_Create UR ?n w1 = (None, w2)" using create_up [of w1 ?n] us by auto
    then show ?thesis using g False assms(1) us create [OF c] by (auto simp: findOrCreate_def)
  qed
qed

end

text \<open>A login with a verified address is a login of an active user with that address, up to letter
  case; when there is none, a new user with a verified address is stored and used, unless that would
  violate a unique constraint, in which case the login fails and the users stay as they are.\<close>

theorem login_user_resolution:
  assumes up: "user_repository_up UR users" and h: "h_userRepo h = UR"
  shows "if \<exists>r \<in> set (users w). email_match email r
    then \<exists>q w'. findOrCreate h env email w = (Inr (scanned q), w') \<and> q \<in> set (users w) \<and> email_match email q
           \<and> users w' = users w
    else if \<exists>x \<in> set (users w). user_clash x (newEmailUser (e_id1 env) email)
    then \<exists>w'. findOrCreate h env email w = (Inl svcError, w') \<and> users w' = users w
    else \<exists>w'. findOrCreate h env email w = (Inr (newEmailUser (e_id1 env) email), w')
           \<and> users w' = users w @ [newEmailUser (e_id1 env) email]"
  using user_repository_up.findOrCreate_found [OF up h] user_repository_up.findOrCreate_absent [OF up h, of w email env]
  by (auto split: if_splits)

text \<open>A deactivated user cannot come back: after SoftDelete (and no other active user with the
  address) a login with the verified address fails as an internal error, because the deactivated row
  still owns the address, and the users stay as they are.\<close>

theorem deactivated_user_locked_out:
  assumes up: "pg_users Q tbl" and h: "h_userRepo h = pgUserRepo Q"
    and u: "uniq user_clash (tbl s)" "r \<in> set (tbl s)" "u_Email r = email"
    and only: "\<forall>x \<in> set (tbl s). email_match email x \<longrightarrow> x = r"
  shows "\<exists>s1 s2. user_SoftDelete Q now (u_ID r) s = (None, s1)
    \<and> findOrCreate h env email s1 = (Inl svcError, s2) \<and> tbl s2 = tbl s1"
proof -
  let ?f = "\<lambda>x. if u_ID x = u_ID r then x\<lparr>u_IsActive := False, u_UpdatedAt := now\<rparr> else x"
  have pg: "pg_up Q tbl user_clash" using up by (simp add: pg_users_def)
  have ur: "user_repository_up (pgUserRepo Q) tbl" by (rule pg_users.axioms_repo [OF up])
  have "uniq user_clash (map ?f (tbl s))" using u(1) by (subst uniq_map) (auto simp: user_clash_def)
  then have "sql_step user_clash (SUpdate (\<lambda>x. u_ID x = u_ID r) (\<lambda>x. x\<lparr>u_IsActive := False, u_UpdatedAt := now\<rparr>)) (tbl s)
      = (Inr ([], length (filter (\<lambda>x. u_ID x = u_ID r) (tbl s))), map ?f (tbl s))" by (simp add: Let_def)
  from pg_up.step_up [OF pg this] obtain rows s1 where
    "Q (SUpdate (\<lambda>x. u_ID x = u_ID r) (\<lambda>x. x\<lparr>u_IsActive := False, u_UpdatedAt := now\<rparr>)) s =
       (Inr (rows, length (filter (\<lambda>x. u_ID x = u_ID r) (tbl s))), s1)" and t1: "tbl s1 = map ?f (tbl s)" .
  then have sd: "user_SoftDelete Q now (u_ID r) s = (None, s1)" by (simp add: user_SoftDelete_def pg_Exec_def)
  have none: "\<not> (\<exists>x \<in> set (tbl s1). email_match email x)"
    using only t1 by (auto simp: email_match_def)
  have "?f r \<in> set (tbl s1)" using imageI [OF u(2), of ?f] unfolding t1 set_map .
  moreover have "user_clash (?f r) (newEmailUser (e_id1 env) email)" using u(3) by (simp add: user_clash_def newEmailUser_def)
  ultimately have "\<exists>x \<in> set (tbl s1). user_clash x (newEmailUser (e_id1 env) email)" by blast
  then show ?thesis
    using sd user_repository_up.findOrCreate_absent [OF ur h, of s1 email env] none by auto
qed

section \<open>Concrete runs\<close>

text \<open>A world that is the Redis keyspace, and a handler over it whose user lookups always find the
  same user.\<close>

definition ex_handler :: "rstore AuthHandler" where
  "ex_handler = bootstrapHandler (\<lambda>now jti u sid rs. Inr (''at.'' @ sid))
     (NewRefreshTokenStore (\<lambda>w. w) (\<lambda>s w. s) pure_redis (\<lambda>b. b))
     \<lparr>ur_Create = (\<lambda>u w. (None, w)), ur_GetByID = (\<lambda>i w. (Inr ex_user, w)), ur_GetByEmail = (\<lambda>e w. (Inr ex_user, w)),
      ur_GetByProviderID = (\<lambda>p i w. (Inr ex_user, w)), ur_UpdateGitHubToken = (\<lambda>t i b w. (None, w)),
      ur_UpdateLastLogin = (\<lambda>t i w. (None, w)), ur_UpdateEmailVerified = (\<lambda>t i w. (None, w)),
      ur_SoftDelete = (\<lambda>t i w. (None, w))\<rparr>
     \<lparr>mr_Upsert = (\<lambda>m w. (None, w)), mr_GetByUserAndWorkspace = (\<lambda>u i w. (Inr ex_member, w)),
      mr_GetUserWorkspaces = (\<lambda>u w. (Inr [ex_member], w)), mr_RemoveMember = (\<lambda>u i w. (None, w))\<rparr>
     (pgSessionRepo (\<lambda>st w. (Inl (PgErr ''down''), w))) (\<lambda>u w. (Inr [], w)) (\<lambda>b. b)"

lemma ex_handler_redis: "redis_handler (\<lambda>w. w) (\<lambda>s w. s) pure_redis (\<lambda>b. b) ex_handler"
  by (simp add: redis_handler_def part_def ex_handler_def bootstrapHandler_def)

definition ex_env :: req_env where
  "ex_env = \<lparr>e_now = 5, e_rnd = Some ''key'', e_uuid = ''s2'', e_jti = ''j'', e_id1 = ''i'', e_id2 = ''k''\<rparr>"

definition ex_hdrs :: header where
  "ex_hdrs k = (if k = ''User-Agent'' then [''ua''] else if k = ''X-Forwarded-For'' then [''10.0.0.1''] else [])"

definition ex_bound_data :: refreshTokenData where
  "ex_bound_data = ex_data\<lparr>rt_Fingerprint := refresh_fp (\<lambda>b. b) ex_hdrs\<rparr>"

definition ex_bound_store :: rstore where
  "ex_bound_store = ex_store(tokenKey ex_hash \<mapsto> \<lparr>rv = RStr (rtd_marshal ex_bound_data), rexp = Some 1000\<rparr>)"

lemma ex_bound_wf: "rt_wf t ex_bound_store"
  unfolding ex_bound_store_def by (intro rt_wf_upd_tok ex_wf) simp

lemma ex_bound_session: "t < 1000 \<Longrightarrow> session t ex_bound_store (hashToken (\<lambda>b. b) ''6b'') = Some ex_bound_data"
  by (simp add: ex_bound_store_def session_def ex_hash_def)

lemma ex_key_fresh: "hashToken (\<lambda>b. b) (hex_encode ''key'') \<noteq> hashToken (\<lambda>b. b) ''6b''"
  by code_simp

theorem refresh_without_claims_loses_session_witness:
  "\<exists>w'. RefreshToken ex_handler ex_env background ex_hdrs ''6b'' ex_bound_store =
       (Inl (ConnectErr CodeUnauthenticated ''session invalid''), w')
     \<and> session 5 w' (hashToken (\<lambda>b. b) ''6b'') = None"
proof -
  have "rt_Fingerprint ex_bound_data = refresh_fp (\<lambda>b. b) ex_hdrs" by (simp add: ex_bound_data_def)
  then show ?thesis
    using refresh_without_claims_loses_session [of pure_redis "\<lambda>st. st" "\<lambda>w. w" "\<lambda>s w. s" "\<lambda>b. b" ex_handler ex_env
        ex_bound_store "''6b''" ex_bound_data ex_hdrs "''key''" background,
        OF pure.redis_up_axioms ex_handler_redis ex_bound_wf]
      ex_bound_session [of 5] ex_key_fresh by (fastforce simp: ex_env_def background_def)
qed

definition ex_refresh_req :: AnyRequest where
  "ex_refresh_req = \<lparr>Procedure = ''/auth.v1.AuthService/RefreshToken'',
     Header = (\<lambda>k. if k = ''Authorization'' then [''Bearer tok.k''] else ex_hdrs k)\<rparr>"

lemma ex_refresh_token: "rpc_tokenStr ex_refresh_req = ''tok.k''"
  by code_simp

theorem protected_methods_witness:
  "rpc_NewAuthInterceptor (\<lambda>s. Inl (Sentinel ErrTokenInvalid)) (\<lambda>ctx req. GetMe ex_handler ctx) background
     \<lparr>Procedure = ''/auth.v1.AuthService/GetMe'', Header = ex_hdrs\<rparr> ex_store = (Inl notAuthenticated, ex_store)"
proof -
  have "rpc_tokenStr \<lparr>Procedure = ''/auth.v1.AuthService/GetMe'', Header = ex_hdrs\<rparr> = []" by code_simp
  from protected_methods [OF this, of "\<lambda>s. Inl (Sentinel ErrTokenInvalid)" ex_handler ex_env ex_store]
  show ?thesis by (elim conjE)
qed

lemma ex_handler_total:
  "\<exists>at. h_IssueAccessToken ex_handler now jti u sid rs = Inr at"
  "\<exists>u w'. ur_GetByID (h_userRepo ex_handler) i w = (Inr u, w')"
  by (simp_all add: ex_handler_def bootstrapHandler_def)

lemma ex_refresh_run:
  "\<exists>resp w'. rpc_NewAuthInterceptor (\<lambda>s. if s = ''tok.k'' then Inr ex_claims else Inl (Sentinel ErrTokenInvalid))
     (\<lambda>ctx req. RefreshToken ex_handler ex_env ctx (Header req) ''6b'') background ex_refresh_req ex_bound_store = (Inr resp, w')"
proof -
  have "rt_Fingerprint ex_bound_data = refresh_fp (\<lambda>b. b) (Header ex_refresh_req)"
    by (simp add: ex_bound_data_def ex_refresh_req_def hdr_Get_def rpc_extractIP_def)
  then have "\<exists>resp w2. RefreshToken ex_handler ex_env (background\<lparr>rpc_claims := Some ex_claims\<rparr>) (Header ex_refresh_req) ''6b'' ex_bound_store
      = (Inr resp, w2) \<and> ar_RefreshToken resp = hex_encode ''key''"
    using RefreshToken_up [of pure_redis "\<lambda>st. st" "\<lambda>w. w" "\<lambda>s w. s" "\<lambda>b. b" ex_handler ex_env ex_bound_store "''6b''" ex_bound_data
        "Header ex_refresh_req" "''key''" "background\<lparr>rpc_claims := Some ex_claims\<rparr>" ex_claims,
        OF pure.redis_up_axioms ex_handler_redis ex_bound_wf _ _ ex_handler_total] ex_bound_session [of 5]
    by (simp add: ex_env_def)
  moreover have "Procedure ex_refresh_req = ''/auth.v1.AuthService/RefreshToken''" by (simp add: ex_refresh_req_def)
  ultimately show ?thesis by (auto simp: rpc_NewAuthInterceptor_def ex_refresh_token)
qed

theorem refresh_needs_access_token_witness:
  "\<exists>claims. (if rpc_tokenStr ex_refresh_req = ''tok.k'' then Inr ex_claims else Inl (Sentinel ErrTokenInvalid) :: aerr + Claims) = Inr claims"
proof -
  obtain resp w' where run: "rpc_NewAuthInterceptor (\<lambda>s. if s = ''tok.k'' then Inr ex_claims else Inl (Sentinel ErrTokenInvalid))
     (\<lambda>ctx req. RefreshToken ex_handler ex_env ctx (Header req) ''6b'') background ex_refresh_req ex_bound_store = (Inr resp, w')"
    using ex_refresh_run by blast
  have "Procedure ex_refresh_req = ''/auth.v1.AuthService/RefreshToken''" by (simp add: ex_refresh_req_def)
  from refresh_needs_access_token [OF this run] show ?thesis by blast
qed


theorem refresh_without_address_revokes_all_witness:
  "\<exists>resp w1 w2. issueTokenResponse ex_handler ex_env (\<lambda>_. []) ex_user (\<lambda>_. None) = (Inr resp, w1)
    \<and> RefreshToken ex_handler (ex_env\<lparr>e_now := 9\<rparr>) background (\<lambda>_. []) (ar_RefreshToken resp) w1 =
        (Inl (ConnectErr CodeUnauthenticated ''session invalid''), w2)
    \<and> index 9 w2 ''u'' = {}"
proof -
  have g: "hdr_Get (\<lambda>_. []) k = []" for k by (simp add: hdr_Get_def)
  show ?thesis
    using refresh_without_address_revokes_all [of pure_redis "\<lambda>st. st" "\<lambda>w. w" "\<lambda>s w. s" "\<lambda>b. b" ex_handler ex_env "\<lambda>_. None"
        ex_user "''key''" "\<lambda>_. []" "ex_env\<lparr>e_now := 9\<rparr>" background,
        OF pure.redis_up_axioms ex_handler_redis rt_wf_empty _ _ ex_handler_total(1)]
    by (auto simp: older_def ex_env_def RefreshTokenTTL_def g ex_user_def)
qed

definition ex_pg_handler :: "User list AuthHandler" where
  "ex_pg_handler = \<lparr>h_otpGen = None, h_IssueAccessToken = (\<lambda>now jti u sid rs. Inr ''at''),
     h_tokenStore = \<lparr>ts_Issue = (\<lambda>t r s u f w. (Inr ''rt'', w)), ts_Verify = (\<lambda>t k f w. (Inr ''s'', w)),
       ts_Rotate = (\<lambda>t r i k f w. (Inr (''rt'', i), w)), ts_Revoke = (\<lambda>t k w. (None, w)), ts_RevokeAll = (\<lambda>t u w. (None, w))\<rparr>,
     h_userRepo = pgUserRepo (pure_pg user_clash), h_memberRepo = None,
     h_sessionRepo = pgSessionRepo (\<lambda>st w. (Inl (PgErr ''down''), w)), h_ListUserRepos = (\<lambda>u w. (Inr [], w)),
     h_mailer = None, h_sha256 = (\<lambda>b. b)\<rparr>"

theorem login_user_resolution_witness:
  "\<exists>q w'. findOrCreate ex_pg_handler ex_env ''A@B'' [ex_user] = (Inr (scanned q), w') \<and> q = ex_user"
proof -
  have m: "email_match ''A@B'' ex_user" by code_simp
  have h: "h_userRepo ex_pg_handler = pgUserRepo (pure_pg user_clash)" by (simp add: ex_pg_handler_def)
  show ?thesis
    using login_user_resolution [of "pgUserRepo (pure_pg user_clash)" "\<lambda>tb. tb" ex_pg_handler "[ex_user]" "''A@B''" ex_env,
        OF pureusers.axioms_repo h] m by auto
qed

theorem deactivated_user_locked_out_witness:
  "\<exists>s1 s2. user_SoftDelete (pure_pg user_clash) 7 ''u'' [ex_user] = (None, s1)
    \<and> findOrCreate ex_pg_handler ex_env ''a@b'' s1 = (Inl svcError, s2)"
  using deactivated_user_locked_out [of "pure_pg user_clash" "\<lambda>tb. tb" ex_pg_handler "[ex_user]" ex_user "''a@b''" 7 ex_env,
      OF pureusers.pg_users_axioms]
  by (auto simp: ex_pg_handler_def ex_user_def)

end
