(* ===== verification/OAuth_Handler.thy ===== *)
theory OAuth_Handler
  imports OAuth_Google Auth_Properties
begin

text \<open>
  The browser side of the OAuth logins, \<^verbatim>\<open>internal/auth/handler/http/oauth_handler.go\<close>: the redirects to
  the providers, their callbacks, the session cookies and the logout, and how the requests reach them.
  The deadline of the GitHub callback is one of the reasons for which a call may fail.
\<close>

section \<open>The handler\<close>

record 'w OAuthProvider =
  op_AuthURL :: "oauth_env \<Rightarrow> string \<Rightarrow> 'w \<Rightarrow> (aerr + string \<times> string) \<times> 'w"
  op_HandleCallback :: "oauth_env \<Rightarrow> string \<Rightarrow> string \<Rightarrow> string \<Rightarrow> 'w \<Rightarrow> (aerr + User) \<times> 'w"

record 'w OAuthHandler =
  oh_github :: "'w OAuthProvider"
  oh_google :: "'w OAuthProvider"
  oh_IssueAccessToken :: "gotime \<Rightarrow> string \<Rightarrow> User \<Rightarrow> string \<Rightarrow> roles \<Rightarrow> aerr + string"
  oh_tokenStore :: "'w TokenStore"
  oh_userRepo :: "'w UserRepository"
  oh_memberRepo :: "'w MembershipRepository option"
  oh_cookieDomain :: string
  oh_dashboardURL :: string
  oh_sha256 :: "bytes \<Rightarrow> bytes"

definition NewOAuthHandler ::
    "'w OAuthProvider \<Rightarrow> 'w OAuthProvider \<Rightarrow> (gotime \<Rightarrow> string \<Rightarrow> User \<Rightarrow> string \<Rightarrow> roles \<Rightarrow> aerr + string)
      \<Rightarrow> 'w TokenStore \<Rightarrow> 'w UserRepository \<Rightarrow> 'w MembershipRepository option \<Rightarrow> string \<Rightarrow> string \<Rightarrow> (bytes \<Rightarrow> bytes)
      \<Rightarrow> 'w OAuthHandler" where
  "NewOAuthHandler gh gg jwt ts ur mr cookieDomain dashboardURL sha =
     \<lparr>oh_github = gh, oh_google = gg, oh_IssueAccessToken = jwt, oh_tokenStore = ts, oh_userRepo = ur,
      oh_memberRepo = mr, oh_cookieDomain = cookieDomain, oh_dashboardURL = dashboardURL, oh_sha256 = sha\<rparr>"

definition githubProvider :: "'w oauth_lib \<Rightarrow> 'w github_provider \<Rightarrow> 'w OAuthProvider" where
  "githubProvider L p = \<lparr>op_AuthURL = gh_AuthURL L p, op_HandleCallback = gh_HandleCallback L p\<rparr>"

definition googleProvider :: "id_lib \<Rightarrow> 'w oauth_lib \<Rightarrow> 'w google_provider \<Rightarrow> 'w OAuthProvider" where
  "googleProvider IL L p = \<lparr>op_AuthURL = gg_AuthURL L p, op_HandleCallback = gg_HandleCallback IL L p\<rparr>"

section \<open>Helpers\<close>

definition isLocalHost :: "string \<Rightarrow> bool" where
  "isLocalHost host = (HasPrefix host ''localhost'' \<or> HasPrefix host ''127.0.0.1'')"

definition getRedirectURI :: "http_request \<Rightarrow> string \<Rightarrow> string" where
  "getRedirectURI r provider =
     (let scheme = (if isLocalHost (hr_Host r) then ''http://'' else ''https://'')
      in scheme @ hr_Host r @ ''/auth/'' @ provider @ ''/callback'')"

definition extractClientIP :: "http_request \<Rightarrow> string" where
  "extractClientIP r =
     (if hdr_Get (hr_Header r) ''X-Forwarded-For'' \<noteq> [] then hdr_Get (hr_Header r) ''X-Forwarded-For''
      else if hdr_Get (hr_Header r) ''X-Real-Ip'' \<noteq> [] then hdr_Get (hr_Header r) ''X-Real-Ip''
      else hr_RemoteAddr r)"

definition http_mapDomainError :: "aerr \<Rightarrow> nat" where
  "http_mapDomainError err =
     (if errors_Is err ErrUserNotFound then 404
      else if errors_Is err ErrTokenExpired \<or> errors_Is err ErrTokenInvalid \<or> errors_Is err ErrSessionFingerprintMismatch
      then 401
      else if errors_Is err ErrInsufficientRole then 403
      else 500)"

definition accessCookie :: "'w OAuthHandler \<Rightarrow> http_request \<Rightarrow> string \<Rightarrow> int \<Rightarrow> http_Cookie" where
  "accessCookie h r v maxAge =
     \<lparr>ck_Name = ''raftweave_at'', ck_Value = v, ck_Path = ''/'', ck_Domain = oh_cookieDomain h, ck_MaxAge = maxAge,
      ck_Secure = (\<not> isLocalHost (hr_Host r)), ck_HttpOnly = True, ck_SameSite = ''Lax''\<rparr>"

definition refreshCookie :: "'w OAuthHandler \<Rightarrow> http_request \<Rightarrow> string \<Rightarrow> int \<Rightarrow> http_Cookie" where
  "refreshCookie h r v maxAge =
     \<lparr>ck_Name = ''raftweave_rt'', ck_Value = v, ck_Path = ''/auth/token'', ck_Domain = oh_cookieDomain h, ck_MaxAge = maxAge,
      ck_Secure = (\<not> isLocalHost (hr_Host r)), ck_HttpOnly = True, ck_SameSite = ''Lax''\<rparr>"

abbreviation temporaryRedirect :: "http_request \<Rightarrow> string \<Rightarrow> ResponseWriter \<Rightarrow> ResponseWriter" where
  "temporaryRedirect r url \<equiv> http_Redirect r url 307 ''Temporary Redirect''"

section \<open>Endpoints\<close>

definition providerLogin ::
    "'w OAuthProvider \<Rightarrow> string \<Rightarrow> string \<Rightarrow> oauth_env \<Rightarrow> 'w http_handler" where
  "providerLogin prov name failText env rw r w =
     (case op_AuthURL prov env (getRedirectURI r name) w of
        (Inl _, w1) \<Rightarrow> (http_Error failText 500 rw, w1)
      | (Inr (url, _), w1) \<Rightarrow> (temporaryRedirect r url rw, w1))"

definition GitHubLogin :: "'w OAuthHandler \<Rightarrow> oauth_env \<Rightarrow> 'w http_handler" where
  "GitHubLogin h = providerLogin (oh_github h) ''github'' ''Failed to initiate GitHub login''"

definition GoogleLogin :: "'w OAuthHandler \<Rightarrow> oauth_env \<Rightarrow> 'w http_handler" where
  "GoogleLogin h = providerLogin (oh_google h) ''google'' ''Failed to initiate Google login''"

definition userRoles :: "'w OAuthHandler \<Rightarrow> string \<Rightarrow> 'w \<Rightarrow> roles \<times> 'w" where
  "userRoles h userID w =
     (case oh_memberRepo h of
        None \<Rightarrow> (Map.empty, w)
      | Some mr \<Rightarrow>
          (case mr_GetUserWorkspaces mr userID w of
             (Inl _, w1) \<Rightarrow> (Map.empty, w1)
           | (Inr ms, w1) \<Rightarrow> (rolesOf ms Map.empty, w1)))"

definition issueTokensAndRedirect :: "'w OAuthHandler \<Rightarrow> oauth_env \<Rightarrow> User \<Rightarrow> 'w http_handler" where
  "issueTokensAndRedirect h env user rw r w =
     (let (rs, w1) = userRoles h (u_ID user) w;
          fingerprint = BuildFingerprint (oh_sha256 h) (hdr_Get (hr_Header r) ''User-Agent'') (extractClientIP r);
          sessionID = u_ID user @ ''-session''
      in case ts_Issue (oh_tokenStore h) (oe_now env) (oe_rt env) sessionID (u_ID user) fingerprint w1 of
           (Inl _, w2) \<Rightarrow> (http_Error ''Failed to create session'' 500 rw, w2)
         | (Inr refreshToken, w2) \<Rightarrow>
             (case oh_IssueAccessToken h (oe_now env) (oe_jti env) user sessionID rs of
                Inl _ \<Rightarrow> (http_Error ''Failed to create session'' 500 rw, w2)
              | Inr accessToken \<Rightarrow>
                  let rw1 = http_SetCookie (accessCookie h r accessToken 900) rw;
                      rw2 = http_SetCookie (refreshCookie h r refreshToken 604800) rw1
                  in (temporaryRedirect r (oh_dashboardURL h @ ''?login=success'') rw2, w2)))"

definition providerCallback :: "'w OAuthHandler \<Rightarrow> 'w OAuthProvider \<Rightarrow> string \<Rightarrow> oauth_env \<Rightarrow> 'w http_handler" where
  "providerCallback h prov name env rw r w =
     (let code = hr_Query r ''code''; state = hr_Query r ''state'' in
      if code = [] \<or> state = [] then (http_Error ''Missing code or state'' 400 rw, w)
      else case op_HandleCallback prov env code state (getRedirectURI r name) w of
             (Inl _, w1) \<Rightarrow> (http_Error ''Authentication failed'' 401 rw, w1)
           | (Inr user, w1) \<Rightarrow> issueTokensAndRedirect h env user rw r w1)"

definition GitHubCallback :: "'w OAuthHandler \<Rightarrow> oauth_env \<Rightarrow> 'w http_handler" where
  "GitHubCallback h = providerCallback h (oh_github h) ''github''"

definition GoogleCallback :: "'w OAuthHandler \<Rightarrow> oauth_env \<Rightarrow> 'w http_handler" where
  "GoogleCallback h = providerCallback h (oh_google h) ''google''"

definition http_Logout :: "'w OAuthHandler \<Rightarrow> oauth_env \<Rightarrow> 'w http_handler" where
  "http_Logout h env rw r w =
     (let w1 = (case Cookie (hr_Header r) ''raftweave_rt'' of
                  None \<Rightarrow> w
                | Some v \<Rightarrow> if v = [] then w else snd (ts_Revoke (oh_tokenStore h) (oe_now env) v w));
          rw1 = http_SetCookie (accessCookie h r [] (- 1)) rw;
          rw2 = http_SetCookie (refreshCookie h r [] (- 1)) rw1
      in (temporaryRedirect r (oh_dashboardURL h) rw2, w1))"

text \<open>The routes, all of them for GET (and so for HEAD); the multiplexer answers the rest itself.\<close>

definition oauthRoute :: "'w OAuthHandler \<Rightarrow> string \<Rightarrow> (oauth_env \<Rightarrow> 'w http_handler) option" where
  "oauthRoute h path =
     (if path = ''/auth/github/login'' then Some (GitHubLogin h)
      else if path = ''/auth/github/callback'' then Some (GitHubCallback h)
      else if path = ''/auth/google/login'' then Some (GoogleLogin h)
      else if path = ''/auth/google/callback'' then Some (GoogleCallback h)
      else if path = ''/auth/logout'' then Some (http_Logout h)
      else None)"

definition oauthServe :: "'w OAuthHandler \<Rightarrow> oauth_env \<Rightarrow> 'w http_handler" where
  "oauthServe h env rw r w =
     (case oauthRoute h (hr_Path r) of
        None \<Rightarrow> (http_Error ''404 page not found'' 404 rw, w)
      | Some f \<Rightarrow>
          if hr_Method r \<in> {''GET'', ''HEAD''} then f env rw r w
          else (http_Error ''Method Not Allowed'' 405 (rw_Set ''Allow'' ''GET, HEAD'' rw), w))"

section \<open>Wiring\<close>

text \<open>\<^verbatim>\<open>Bootstrap\<close> in \<^verbatim>\<open>internal/auth/di/module.go\<close>: the configuration, the services it names as parts of a world,
  and the two handlers it builds on the same stores. The interceptor of the procedures and the routes of
  the OAuth endpoints are applied to them.\<close>

record auth_Config =
  ac_JWTPrivateKeyPEM :: bytes
  ac_EncryptionKey :: bytes
  ac_GitHubClientID :: string
  ac_GitHubClientSecret :: string
  ac_GoogleClientID :: string
  ac_GoogleClientSecret :: string
  ac_CookieDomain :: string
  ac_DashboardURL :: string

record ('w, 's) auth_services =
  as_redisGet :: "'w \<Rightarrow> 's"
  as_redisPut :: "'s \<Rightarrow> 'w \<Rightarrow> 'w"
  as_redis :: "'s redis"
  as_users :: "(User, 'w) pgx"
  as_members :: "(WorkspaceMembership, 'w) pgx"
  as_sessions :: "(Session, 'w) pgx"
  as_http :: "'w http_client"
  as_cacheGet :: "'w \<Rightarrow> jwksCache"
  as_cachePut :: "jwksCache \<Rightarrow> 'w \<Rightarrow> 'w"

definition auth_Bootstrap ::
    "('priv, 'pub) jwtlib \<Rightarrow> gcm \<Rightarrow> id_lib \<Rightarrow> 'w oauth_lib \<Rightarrow> ('w, 's) auth_services \<Rightarrow> auth_Config
      \<Rightarrow> aerr + 'w AuthHandler \<times> 'w OAuthHandler" where
  "auth_Bootstrap J G IL L S cfg =
     (case jwt_New J (ac_JWTPrivateKeyPEM cfg) ''raftweave-auth'' [''raftweave-dashboard''] of
        Inl e \<Rightarrow> Inl (Wrapf ''auth.di'' e)
      | Inr issuer \<Rightarrow>
          let tokenStore = NewRefreshTokenStore (as_redisGet S) (as_redisPut S) (as_redis S) (ol_sha256 L);
              userRepo = pgUserRepo (as_users S);
              memberRepo = pgMembershipRepo (as_members S);
              sessionRepo = pgSessionRepo (as_sessions S)
          in case NewEncryptor (ac_EncryptionKey cfg) of
               Inl e \<Rightarrow> Inl (Wrapf ''auth.di'' e)
             | Inr key \<Rightarrow>
                 let encryptor = tokenEncryptor G key;
                     stateStore = NewStateStore (as_redisGet S) (as_redisPut S) (as_redis S);
                     ghProv = gh_New (ac_GitHubClientID cfg) (ac_GitHubClientSecret cfg) encryptor stateStore userRepo
                                (as_http S) [];
                     ggProv = gg_New (ac_GoogleClientID cfg) (ac_GoogleClientSecret cfg) encryptor stateStore userRepo
                                (as_http S) (as_cacheGet S) (as_cachePut S) [];
                     issue = IssueAccessToken J issuer
                 in Inr (bootstrapHandler issue tokenStore userRepo memberRepo sessionRepo (gh_ListUserRepos ghProv) (ol_sha256 L),
                         NewOAuthHandler (githubProvider L ghProv) (googleProvider IL L ggProv) issue tokenStore userRepo
                           (Some memberRepo) (ac_CookieDomain cfg) (ac_DashboardURL cfg) (ol_sha256 L)))"

end
