(* ===== verification/OAuth_Properties.thy ===== *)
theory OAuth_Properties
  imports OAuth_Handler
begin

text \<open>
  Properties of the OAuth endpoints as a whole: what a session cookie presupposes, what a login leaves in
  the token store, and what a browser that keeps the cookies of a login sends to the logout.
\<close>

section \<open>Responses\<close>

lemma rw_Cookies_simps [simp]:
  "rw_Cookies (rw_Set k v rw) = rw_Cookies rw" "rw_Cookies (rw_WriteHeader n rw) = rw_Cookies rw"
  "rw_Cookies (rw_Write s rw) = rw_Cookies rw" "rw_Cookies (http_Error m n rw) = rw_Cookies rw"
  "rw_Cookies (http_Redirect r u n s rw) = rw_Cookies rw" "rw_Cookies (http_SetCookie c rw) = rw_Cookies rw @ [c]"
  by (simp_all add: rw_defs http_Redirect_def http_SetCookie_def Let_def)

lemma rw_Status_simps [simp]:
  "rw_Status (rw_Set k v rw) = rw_Status rw" "rw_Status (http_SetCookie c rw) = rw_Status rw"
  "rw_Status rw = None \<Longrightarrow> rw_Status (http_Redirect r u n s rw) = Some n"
  by (simp_all add: rw_defs http_Redirect_def http_SetCookie_def Let_def)

lemma cookie_fields [simp]:
  "ck_Name (accessCookie h r v n) = ''raftweave_at''" "ck_Name (refreshCookie h r v n) = ''raftweave_rt''"
  "ck_Value (accessCookie h r v n) = v" "ck_Value (refreshCookie h r v n) = v"
  "ck_Path (accessCookie h r v n) = ''/''" "ck_Path (refreshCookie h r v n) = ''/auth/token''"
  by (simp_all add: accessCookie_def refreshCookie_def)

text \<open>A login sets the two cookies or none.\<close>

lemma issue_cookies:
  assumes "issueTokensAndRedirect h env user rw r w = (rw', w')"
  shows "rw_Cookies rw' = rw_Cookies rw
    \<or> (\<exists>at rt. rw_Cookies rw' = rw_Cookies rw @ [accessCookie h r at 900, refreshCookie h r rt 604800])"
  using assms by (auto simp: issueTokensAndRedirect_def Let_def split: prod.splits sum.splits)

section \<open>Where sessions come from\<close>

lemma callback_session:
  assumes "providerCallback h prov name env rw r w = (rw', w')" and "rw_Cookies rw' \<noteq> rw_Cookies rw"
  shows "\<exists>user w1. hr_Query r ''code'' \<noteq> [] \<and> hr_Query r ''state'' \<noteq> []
    \<and> op_HandleCallback prov env (hr_Query r ''code'') (hr_Query r ''state'') (getRedirectURI r name) w = (Inr user, w1)
    \<and> issueTokensAndRedirect h env user rw r w1 = (rw', w')"
  using assms by (auto simp: providerCallback_def Let_def split: if_splits prod.splits sum.splits)

lemma callback_state:
  assumes "state_store SS pend"
  shows "gh_stateStore p = SS \<Longrightarrow> gh_HandleCallback L p env code st uri w = (Inr user, w1) \<Longrightarrow> \<exists>v. pend (oe_now env) w st = Some v"
    and "gg_stateStore g = SS \<Longrightarrow> gg_HandleCallback IL L g env code st uri w = (Inr user, w1) \<Longrightarrow> \<exists>v. pend (oe_now env) w st = Some v"
  using state_store.verified [OF assms]
  by (fastforce simp: gh_HandleCallback_def gg_HandleCallback_def split: prod.splits sum.splits)+

text \<open>A login sets no cookie, a logout only empty ones.\<close>

lemma login_cookies: "rw_Cookies (fst (providerLogin prov name m env rw r w)) = rw_Cookies rw"
  by (auto simp: providerLogin_def split: prod.splits sum.splits)

lemma logout_cookies: "c \<in> set (rw_Cookies (fst (http_Logout h env rw r w))) \<Longrightarrow> c \<in> set (rw_Cookies rw) \<or> ck_Value c = []"
  by (auto simp: http_Logout_def Let_def)

lemma serve_callback:
  assumes "oauthServe h env rw r w = (rw', w')" and "rw_Cookies rw = []" and "c \<in> set (rw_Cookies rw')" and "ck_Value c \<noteq> []"
  shows "\<exists>prov name. (prov, name) \<in> {(oh_github h, ''github''), (oh_google h, ''google'')}
    \<and> hr_Path r = ''/auth/'' @ name @ ''/callback'' \<and> providerCallback h prov name env rw r w = (rw', w')"
proof -
  obtain f where f: "oauthRoute h (hr_Path r) = Some f" "f env rw r w = (rw', w')"
    using assms(1-3) by (auto simp: oauthServe_def split: option.splits if_splits)
  have "f \<noteq> GitHubLogin h" "f \<noteq> GoogleLogin h"
    using f(2) assms(2,3) login_cookies [where rw = rw and r = r and w = w] by (auto simp: GitHubLogin_def GoogleLogin_def) (metis empty_iff fst_conv list.set(1))+
  moreover have "f \<noteq> http_Logout h" using f(2) assms(2-4) logout_cookies [of c h env rw r w] by auto
  ultimately show ?thesis using f
    by (fastforce simp: oauthRoute_def GitHubCallback_def GoogleCallback_def split: if_splits)
qed

text \<open>No request makes the OAuth endpoints set a cookie with a value unless it is a callback with a code
  and with a state token that was pending in the store, and the provider confirmed the login: then the
  cookies are those of the user that the provider named.\<close>

lemma oauth_session_needs_state:
  assumes "state_store SS pend" and "oh_github h = githubProvider L p" and "gh_stateStore p = SS"
    and "oh_google h = googleProvider IL L g" and "gg_stateStore g = SS"
    and "oauthServe h env rw r w = (rw', w')" and "rw_Cookies rw = []"
    and "c \<in> set (rw_Cookies rw')" and "ck_Value c \<noteq> []"
  shows "\<exists>v prov name user w1. pend (oe_now env) w (hr_Query r ''state'') = Some v \<and> hr_Query r ''code'' \<noteq> []
    \<and> (prov, name) \<in> {(oh_github h, ''github''), (oh_google h, ''google'')} \<and> hr_Path r = ''/auth/'' @ name @ ''/callback''
    \<and> op_HandleCallback prov env (hr_Query r ''code'') (hr_Query r ''state'') (getRedirectURI r name) w = (Inr user, w1)
    \<and> issueTokensAndRedirect h env user rw r w1 = (rw', w')"
proof -
  obtain prov name where p: "(prov, name) \<in> {(oh_github h, ''github''), (oh_google h, ''google'')}"
    "hr_Path r = ''/auth/'' @ name @ ''/callback''" "providerCallback h prov name env rw r w = (rw', w')"
    using serve_callback [OF assms(6-9)] by blast
  have "rw_Cookies rw' \<noteq> rw_Cookies rw" using assms(7,8) by auto
  from callback_session [OF p(3) this] obtain user w1 where c: "hr_Query r ''code'' \<noteq> []"
    "op_HandleCallback prov env (hr_Query r ''code'') (hr_Query r ''state'') (getRedirectURI r name) w = (Inr user, w1)"
    "issueTokensAndRedirect h env user rw r w1 = (rw', w')" by blast
  have "\<exists>v. pend (oe_now env) w (hr_Query r ''state'') = Some v"
    using callback_state(1) [OF assms(1,3)] callback_state(2) [OF assms(1,5)] c(2) p(1) assms(2,4)
    by (auto simp: githubProvider_def googleProvider_def)
  then show ?thesis using p(1,2) c by blast
qed

section \<open>From the redirect to the callback\<close>


section \<open>What a login leaves in the store\<close>

text \<open>The handler over the Redis token store; reading memberships does not touch it.\<close>

definition oauth_redis ::
    "('w \<Rightarrow> 's) \<Rightarrow> ('s \<Rightarrow> 'w \<Rightarrow> 'w) \<Rightarrow> 's redis \<Rightarrow> (bytes \<Rightarrow> bytes) \<Rightarrow> 'w OAuthHandler \<Rightarrow> bool" where
  "oauth_redis get put R sha h \<longleftrightarrow> part get put \<and> oh_tokenStore h = NewRefreshTokenStore get put R sha \<and> oh_sha256 h = sha
     \<and> (\<forall>mr u w. oh_memberRepo h = Some mr \<longrightarrow> get (snd (mr_GetUserWorkspaces mr u w)) = get w)"

lemma userRoles_frame: "oauth_redis get put R sha h \<Longrightarrow> userRoles h u w = (rs, w1) \<Longrightarrow> get w1 = get w"
  unfolding oauth_redis_def userRoles_def by (auto split: option.splits prod.splits sum.splits) (metis snd_conv)+

abbreviation oauth_fp :: "(bytes \<Rightarrow> bytes) \<Rightarrow> http_request \<Rightarrow> string" where
  "oauth_fp sha r \<equiv> BuildFingerprint sha (hdr_Get (hr_Header r) ''User-Agent'') (extractClientIP r)"

text \<open>C36: A confirmed OAuth login ends in a redirect to the dashboard with two cookies, the access token for
  fifteen minutes and the refresh token for seven days; and for those seven days the refresh token
  verifies for the browser's User-Agent and address, as the session of that user.\<close>

theorem oauth_login_session:
  assumes "redis_up R absr" and "oauth_redis get put R sha h" and "rt_wf (oe_now env) (absr (get w))"
    and "older (oe_now env) (u_ID user) (absr (get w))" and "oe_rt env = Some raw"
    and "\<And>rs. \<exists>at. oh_IssueAccessToken h (oe_now env) (oe_jti env) user (u_ID user @ ''-session'') rs = Inr at"
  shows "\<exists>at rw' w'. issueTokensAndRedirect h env user rw r w = (rw', w')
    \<and> rw_Cookies rw' = rw_Cookies rw @ [accessCookie h r at 900, refreshCookie h r (hex_encode raw) 604800]
    \<and> (rw_Status rw = None \<longrightarrow> rw_Status rw' = Some 307)
    \<and> (\<forall>t. oe_now env \<le> t \<longrightarrow> t < oe_now env + RefreshTokenTTL \<longrightarrow>
        (\<exists>s'. rt_Verify R sha t (hex_encode raw) (oauth_fp sha r) (get w') = (Inr (u_ID user @ ''-session''), s')))"
proof -
  let ?h = "hashToken sha (hex_encode raw)"
  let ?d = "\<lparr>rt_SessionID = u_ID user @ ''-session'', rt_UserID = u_ID user, rt_Fingerprint = oauth_fp sha r, rt_CreatedAt = oe_now env\<rparr>"
  obtain rs w1 where b: "userRoles h (u_ID user) w = (rs, w1)" by fastforce
  have g: "get w1 = get w" using userRoles_frame [OF assms(2) b] .
  obtain s' where i: "rt_Issue R sha (Some raw) (oe_now env) (u_ID user @ ''-session'') (u_ID user) (oauth_fp sha r) (get w)
      = (Inr (hex_encode raw), s')" "absr s' (tokenKey ?h) = Some \<lparr>rv = RStr (rtd_marshal ?d), rexp = Some (oe_now env + RefreshTokenTTL)\<rparr>"
    using redis_up.Issue_up [OF assms(1,3,4), of sha raw "u_ID user @ ''-session''" "oauth_fp sha r"] by blast
  obtain at where at: "oh_IssueAccessToken h (oe_now env) (oe_jti env) user (u_ID user @ ''-session'') rs = Inr at"
    using assms(6) by blast
  have "ts_Issue (oh_tokenStore h) (oe_now env) (oe_rt env) (u_ID user @ ''-session'') (u_ID user) (oauth_fp sha r) w1
      = (Inr (hex_encode raw), put s' w1)"
    using assms(2,5) g i(1) by (simp add: oauth_redis_def NewRefreshTokenStore_def lift_part_def)
  then have "issueTokensAndRedirect h env user rw r w = (temporaryRedirect r (oh_dashboardURL h @ ''?login=success'')
      (http_SetCookie (refreshCookie h r (hex_encode raw) 604800) (http_SetCookie (accessCookie h r at 900) rw)), put s' w1)"
    using b at assms(2) by (simp add: issueTokensAndRedirect_def Let_def oauth_redis_def)
  moreover have "get (put s' w1) = s'" using assms(2) by (simp add: oauth_redis_def part_get)
  moreover have "\<exists>s2. rt_Verify R sha t (hex_encode raw) (oauth_fp sha r) s' = (Inr (u_ID user @ ''-session''), s2)"
    if "t < oe_now env + RefreshTokenTTL" for t
  proof -
    have "session t (absr s') ?h = Some ?d" using session_at [of "absr s'" ?h ?d, OF i(2)] that by simp
    from redis_up.Verify_up_match [OF assms(1) this] show ?thesis by auto
  qed
  ultimately show ?thesis by (intro exI [of _ at]) simp
qed

section \<open>The wired service\<close>

text \<open>Both handlers of a service that started work on one token store: what is proved of the procedures
  over the Redis store and of the OAuth endpoints holds of them, provided that the database calls leave
  Redis alone.\<close>

lemma bootstrap_wired:
  assumes "auth_Bootstrap J G IL L S cfg = Inr (ah, oh)" and "part (as_redisGet S) (as_redisPut S)"
    and "\<And>st w. as_redisGet S (snd (as_members S st w)) = as_redisGet S w"
  shows "redis_handler (as_redisGet S) (as_redisPut S) (as_redis S) (ol_sha256 L) ah"
    and "oauth_redis (as_redisGet S) (as_redisPut S) (as_redis S) (ol_sha256 L) oh"
proof -
  have m: "as_redisGet S (snd (member_GetUserWorkspaces (as_members S) u w)) = as_redisGet S w" for u w
    using assms(3) [of "SSelect (\<lambda>r. m_UserID r = u)" w]
    by (auto simp: member_GetUserWorkspaces_def split: prod.splits sum.splits)
  show "redis_handler (as_redisGet S) (as_redisPut S) (as_redis S) (ol_sha256 L) ah"
    using assms(1,2) m
    by (auto simp: auth_Bootstrap_def Let_def redis_handler_def bootstrapHandler_def pgMembershipRepo_def split: sum.splits)
  show "oauth_redis (as_redisGet S) (as_redisPut S) (as_redis S) (ol_sha256 L) oh"
    using assms(1,2) m
    by (auto simp: auth_Bootstrap_def Let_def oauth_redis_def NewOAuthHandler_def pgMembershipRepo_def split: sum.splits)
qed

section \<open>Browsers\<close>

text \<open>The path match of RFC 6265 (section 5.1.4), and the cookies of a login that a browser sends with a
  request for a path.\<close>

definition path_match :: "string \<Rightarrow> string \<Rightarrow> bool" where
  "path_match req ck = (req = ck \<or> (HasPrefix req ck \<and> ck \<noteq> [] \<and> (last ck = CHR ''/'' \<or> req ! length ck = CHR ''/'')))"

definition browserCookies :: "http_Cookie list \<Rightarrow> string \<Rightarrow> (string \<times> string) list" where
  "browserCookies cs path = map (\<lambda>c. (ck_Name c, ck_Value c)) (filter (\<lambda>c. path_match path (ck_Path c)) cs)"

lemma refresh_cookie_path: "oauthRoute h path = Some f \<Longrightarrow> \<not> path_match path ''/auth/token''"
  by (auto simp: oauthRoute_def path_match_def split: if_splits)

text \<open>The refresh cookie of a login is bound to a path under which the OAuth endpoints have no route, so
  a browser sends it to none of them. In particular the logout never sees it: it redirects, and every
  session, the one of this browser included, stays as it is.\<close>

theorem oauth_logout_keeps_session:
  assumes "issueTokensAndRedirect h env user rw r w = (rw', w')" and "rw_Cookies rw = []"
    and "oauthRoute h (hr_Path r2) = Some f"
    and "readCookies (hr_Header r2 ''Cookie'') = browserCookies (rw_Cookies rw') (hr_Path r2)"
  shows "Cookie (hr_Header r2) ''raftweave_rt'' = None \<and> snd (http_Logout h env2 rw2 r2 w2) = w2"
proof -
  have "\<forall>c \<in> set (rw_Cookies rw'). ck_Name c = ''raftweave_rt'' \<longrightarrow> ck_Path c = ''/auth/token''"
    using issue_cookies [OF assms(1)] assms(2) by auto
  then have "''raftweave_rt'' \<notin> fst ` set (browserCookies (rw_Cookies rw') (hr_Path r2))"
    using refresh_cookie_path [OF assms(3)] by (auto simp: browserCookies_def)
  then have "Cookie (hr_Header r2) ''raftweave_rt'' = None" by (simp add: Cookie_def assms(4) map_of_eq_None_iff)
  then show ?thesis by (simp add: http_Logout_def Let_def)
qed

section \<open>Concrete runs\<close>

definition demo_gh3 :: "gworld github_provider" where
  "demo_gh3 = gh_New ''id'' ''secret'' (tokenEncryptor tag_gcm (replicate 32 (CHR ''a'')))
     (NewStateStore fst (\<lambda>s w. (s, snd w)) pure_redis) (pgUserRepo (snd_pg (fst_pg (pure_pg user_clash)))) demo_http []"

definition demo_oh :: "gworld OAuthHandler" where
  "demo_oh = NewOAuthHandler (githubProvider demo_lib demo_gh3) (googleProvider demo_idlib demo_lib demo_gg)
     (\<lambda>now jti u sid rs. Inr ''at'') (NewRefreshTokenStore fst (\<lambda>s w. (s, snd w)) pure_redis (\<lambda>b. b))
     (pgUserRepo (snd_pg (fst_pg (pure_pg user_clash)))) None ''example.org'' ''https://dash.example.org'' (\<lambda>b. b)"

definition demo_req :: "string \<Rightarrow> string list \<Rightarrow> http_request" where
  "demo_req path cookies = \<lparr>hr_Method = ''GET'', hr_Path = path, hr_Header = (\<lambda>k. if k = ''Cookie'' then cookies else []),
     hr_Query = (\<lambda>k. if k = ''code'' then ''code'' else if k = ''state'' then ''st'' else []), hr_Form = (\<lambda>_. []),
     hr_RemoteAddr = ''10.0.0.1:80'', hr_Body = None, hr_Host = ''example.org'', hr_RawQuery = []\<rparr>"

definition demo_w0 :: gworld where
  "demo_w0 = ((\<lambda>_. None), [], emptyCache)"

definition demo_rw :: ResponseWriter where
  "demo_rw = \<lparr>rw_Header = (\<lambda>_. []), rw_Status = None, rw_Body = [], rw_Cookies = []\<rparr>"

lemma demo_oh_fields [simp]:
  "oh_github demo_oh = githubProvider demo_lib demo_gh3" "oh_google demo_oh = googleProvider demo_idlib demo_lib demo_gg"
  "gh_stateStore demo_gh3 = NewStateStore fst (\<lambda>s w. (s, snd w)) pure_redis"
  by (simp_all add: demo_oh_def NewOAuthHandler_def demo_gh3_def gh_New_def)

lemma demo_oh_redis: "oauth_redis fst (\<lambda>s w. (s, snd w)) pure_redis (\<lambda>b. b) demo_oh"
  by (simp add: oauth_redis_def Prelude.part_def demo_oh_def NewOAuthHandler_def)


theorem oauth_login_session_witness:
  "\<exists>at rw' w' s'. issueTokensAndRedirect demo_oh demo_env ex_user demo_rw (demo_req ''/auth/google/callback'' []) demo_w0
      = (rw', w') \<and> rw_Status rw' = Some 307
    \<and> map ck_Value (rw_Cookies rw') = [at, ''6b6579'']
    \<and> rt_Verify pure_redis (\<lambda>b. b) (minutes 60) ''6b6579'' (hex_encode '':10.0.0.1:80'') (fst w') = (Inr ''u-session'', s')"
proof -
  let ?r = "demo_req ''/auth/google/callback'' []"
  have at: "\<exists>at. oh_IssueAccessToken demo_oh (oe_now demo_env) (oe_jti demo_env) ex_user (u_ID ex_user @ ''-session'') rs = Inr at" for rs
    by (simp add: demo_oh_def NewOAuthHandler_def)
  have fp: "oauth_fp (\<lambda>b. b) ?r = hex_encode '':10.0.0.1:80''"
    by (simp add: BuildFingerprint_def demo_req_def hdr_Get_def extractClientIP_def)
  have "rt_wf (oe_now demo_env) (fst demo_w0)"
    "older (oe_now demo_env) (u_ID ex_user) (fst demo_w0)" "oe_rt demo_env = Some ''key''"
    by (simp_all add: older_def demo_env_def demo_w0_def)
  from oauth_login_session [of pure_redis "\<lambda>st. st" fst "\<lambda>s w. (s, snd w)" "\<lambda>b. b" demo_oh demo_env demo_w0 ex_user "''key''" demo_rw ?r,
      OF pure.redis_up_axioms demo_oh_redis this at] obtain at rw' w' where
    i: "issueTokensAndRedirect demo_oh demo_env ex_user demo_rw ?r demo_w0 = (rw', w')"
      "rw_Cookies rw' = rw_Cookies demo_rw @ [accessCookie demo_oh ?r at 900, refreshCookie demo_oh ?r (hex_encode ''key'') 604800]"
      "rw_Status rw' = Some 307"
    and v: "\<forall>t \<ge> oe_now demo_env. t < oe_now demo_env + RefreshTokenTTL \<longrightarrow>
        (\<exists>s'. rt_Verify pure_redis (\<lambda>b. b) t (hex_encode ''key'') (oauth_fp (\<lambda>b. b) ?r) (fst w') = (Inr (u_ID ex_user @ ''-session''), s'))"
    by (auto simp: demo_rw_def)
  have "\<exists>s'. rt_Verify pure_redis (\<lambda>b. b) (minutes 60) (hex_encode ''key'') (oauth_fp (\<lambda>b. b) ?r) (fst w') = (Inr (u_ID ex_user @ ''-session''), s')"
    by (rule v [rule_format]) (simp_all add: demo_env_def RefreshTokenTTL_def)
  then show ?thesis using i by (auto simp: fp ex_hex demo_rw_def ex_user_def)
qed

lemma demo_browser:
  "readCookies (hr_Header (demo_req ''/auth/logout'' [''raftweave_at=at'']) ''Cookie'') =
     browserCookies (rw_Cookies (fst (issueTokensAndRedirect demo_oh demo_env ex_user demo_rw (demo_req ''/auth/google/callback'' [])
       demo_w0))) (hr_Path (demo_req ''/auth/logout'' [''raftweave_at=at'']))"
  by code_simp

theorem oauth_logout_keeps_session_witness:
  "Cookie (hr_Header (demo_req ''/auth/logout'' [''raftweave_at=at''])) ''raftweave_rt'' = None
   \<and> snd (http_Logout demo_oh demo_env demo_rw (demo_req ''/auth/logout'' [''raftweave_at=at''])
       (demo_store, [], emptyCache)) = (demo_store, [], emptyCache)"
proof -
  let ?r2 = "demo_req ''/auth/logout'' [''raftweave_at=at'']"
  obtain rw' w' where i: "issueTokensAndRedirect demo_oh demo_env ex_user demo_rw (demo_req ''/auth/google/callback'' [])
      demo_w0 = (rw', w')" by (rule prod.exhaust)
  have b: "readCookies (hr_Header ?r2 ''Cookie'') = browserCookies (rw_Cookies rw') (hr_Path ?r2)" using demo_browser i by simp
  have "oauthRoute demo_oh (hr_Path ?r2) = Some (http_Logout demo_oh)" by (simp add: oauthRoute_def demo_req_def)
  from oauth_logout_keeps_session [OF i _ this b] show ?thesis by (simp add: demo_rw_def)
qed

end
