(* ===== verification/Ingestion_Repo.thy ===== *)
theory Ingestion_Repo
  imports Json Postgres Encryption
begin

text \<open>
  The repositories of \<^verbatim>\<open>internal/ingestion/adapter/postgres\<close> and the interfaces of
  \<^verbatim>\<open>internal/ingestion/domain/repository.go\<close>. A workload is stored as a row of columns and a JSON
  descriptor of the whole struct; reading scans the columns and then decodes the descriptor over them.
  Keys of an object carry the Go field names, as the structs have no tags. The columns keep times and
  text as they are given.
\<close>

section \<open>Interfaces\<close>

record 'w WorkloadRepository =
  wr_Save :: "Workload \<Rightarrow> 'w \<Rightarrow> ierr option \<times> 'w"
  wr_FindByID :: "WorkloadID \<Rightarrow> 'w \<Rightarrow> (ierr + Workload) \<times> 'w"
  wr_FindByName :: "string \<Rightarrow> 'w \<Rightarrow> (ierr + Workload) \<times> 'w"
  wr_FindAll :: "int \<Rightarrow> int \<Rightarrow> 'w \<Rightarrow> (ierr + Workload list) \<times> 'w"
  wr_UpdateStatus :: "WorkloadID \<Rightarrow> WorkloadStatus \<Rightarrow> 'w \<Rightarrow> ierr option \<times> 'w"
  wr_Delete :: "WorkloadID \<Rightarrow> 'w \<Rightarrow> ierr option \<times> 'w"

record 'w CredentialRepository =
  cr_Save :: "CloudCredential \<Rightarrow> 'w \<Rightarrow> ierr option \<times> 'w"
  cr_FindByWorkloadAndProvider :: "WorkloadID \<Rightarrow> CloudProvider \<Rightarrow> 'w \<Rightarrow> (ierr + CloudCredential) \<times> 'w"
  cr_FindAllByWorkload :: "WorkloadID \<Rightarrow> 'w \<Rightarrow> (ierr + CloudCredential list) \<times> 'w"
  cr_Delete :: "string \<Rightarrow> 'w \<Rightarrow> ierr option \<times> 'w"

record 'w JobEnqueuer =
  je_EnqueueBuildJob :: "WorkloadID \<Rightarrow> WebhookEvent \<Rightarrow> 'w \<Rightarrow> ierr option \<times> 'w"
  je_EnqueueProvisionJob :: "gotime \<Rightarrow> WorkloadID \<Rightarrow> 'w \<Rightarrow> ierr option \<times> 'w"

section \<open>The descriptor\<close>

definition jSlice :: "('a \<Rightarrow> json) \<Rightarrow> 'a list \<Rightarrow> json" where
  "jSlice enc xs = (if xs = [] then JNull else JArr (map enc xs))"

definition jMap :: "(string \<times> string) list \<Rightarrow> json" where
  "jMap m = (if m = [] then JNull else JObj (map (\<lambda>(k, s). (k, JStr s)) m))"

definition jRegion :: "Region \<Rightarrow> json" where
  "jRegion r = JObj [(''Provider'', JStr (r_Provider r)), (''Name'', JStr (r_Name r))]"

definition jSource :: "SourceConfig \<Rightarrow> json" where
  "jSource s = JObj [(''Type'', JStr (src_Type s)), (''RepoURL'', JStr (src_RepoURL s)), (''Branch'', JStr (src_Branch s)),
     (''Dockerfile'', JStr (src_Dockerfile s)), (''ImageRef'', JStr (src_ImageRef s))]"

definition jCompute :: "ResourceSpec \<Rightarrow> json" where
  "jCompute c = JObj [(''CPU'', JStr (cs_CPU c)), (''Memory'', JStr (cs_Memory c)), (''Replicas'', JNum (sint (cs_Replicas c))),
     (''Port'', JNum (sint (cs_Port c))), (''HealthCheckPath'', JStr (cs_HealthCheckPath c)), (''Env'', jMap (cs_Env c))]"

definition jDatabase :: "DatabaseSpec \<Rightarrow> json" where
  "jDatabase d = JObj [(''Engine'', JStr (db_Engine d)), (''Version'', JStr (db_Version d)),
     (''StorageGB'', JNum (sint (db_StorageGB d))), (''Tier'', JStr (db_Tier d))]"

definition jFailover :: "FailoverConfig \<Rightarrow> json" where
  "jFailover f = JObj [(''RTOSeconds'', JNum (sint (f_RTOSeconds f))), (''RPOSeconds'', JNum (sint (f_RPOSeconds f))),
     (''AutoFailover'', JBool (f_AutoFailover f)), (''MinHealthyNodes'', JNum (sint (f_MinHealthyNodes f))),
     (''FencingEnabled'', JBool (f_FencingEnabled f))]"

definition jRule :: "DataResidencyRule \<Rightarrow> json" where
  "jRule r = JObj [(''Country'', JStr (dr_Country r)), (''Regions'', jSlice jRegion (dr_Regions r))]"

definition wl_marshal :: "Workload \<Rightarrow> json option" where
  "wl_marshal w =
     (if json_time_ok (wl_CreatedAt w) \<and> json_time_ok (wl_UpdatedAt w)
      then Some (JObj [(''ID'', JStr (wl_ID w)), (''Name'', JStr (wl_Name w)), (''Status'', JStr (wl_Status w)),
        (''Source'', jSource (wl_Source w)), (''PrimaryRegion'', jRegion (wl_PrimaryRegion w)),
        (''StandbyRegions'', jSlice jRegion (wl_StandbyRegions w)), (''Compute'', jCompute (wl_Compute w)),
        (''Database'', jDatabase (wl_Database w)), (''Failover'', jFailover (wl_Failover w)),
        (''Compliance'', JObj [(''DataResidency'', jSlice jRule (wl_DataResidency w))]),
        (''CreatedAt'', JTime (wl_CreatedAt w)), (''UpdatedAt'', JTime (wl_UpdatedAt w))])
      else None)"

definition zero_Region :: Region where "zero_Region = \<lparr>r_Provider = [], r_Name = []\<rparr>"

definition zero_Rule :: DataResidencyRule where "zero_Rule = \<lparr>dr_Country = [], dr_Regions = []\<rparr>"

definition zero_Workload :: Workload where
  "zero_Workload = \<lparr>wl_ID = [], wl_Name = [], wl_Status = [],
     wl_Source = \<lparr>src_Type = [], src_RepoURL = [], src_Branch = [], src_Dockerfile = [], src_ImageRef = []\<rparr>,
     wl_PrimaryRegion = zero_Region, wl_StandbyRegions = [],
     wl_Compute = \<lparr>cs_CPU = [], cs_Memory = [], cs_Replicas = 0, cs_Port = 0, cs_HealthCheckPath = [], cs_Env = []\<rparr>,
     wl_Database = \<lparr>db_Engine = [], db_Version = [], db_StorageGB = 0, db_Tier = []\<rparr>,
     wl_Failover = \<lparr>f_RTOSeconds = 0, f_RPOSeconds = 0, f_AutoFailover = False, f_MinHealthyNodes = 0, f_FencingEnabled = False\<rparr>,
     wl_DataResidency = [], wl_CreatedAt = zero_time, wl_UpdatedAt = zero_time\<rparr>"

definition dRegion :: "Region decoder" where
  "dRegion = dStruct [fld ''Provider'' dStr r_Provider r_Provider_update, fld ''Name'' dStr r_Name r_Name_update]"

definition dSource :: "SourceConfig decoder" where
  "dSource = dStruct [fld ''Type'' dStr src_Type src_Type_update, fld ''RepoURL'' dStr src_RepoURL src_RepoURL_update,
     fld ''Branch'' dStr src_Branch src_Branch_update, fld ''Dockerfile'' dStr src_Dockerfile src_Dockerfile_update,
     fld ''ImageRef'' dStr src_ImageRef src_ImageRef_update]"

definition dCompute :: "ResourceSpec decoder" where
  "dCompute = dStruct [fld ''CPU'' dStr cs_CPU cs_CPU_update, fld ''Memory'' dStr cs_Memory cs_Memory_update,
     fld ''Replicas'' dInt32 cs_Replicas cs_Replicas_update, fld ''Port'' dInt32 cs_Port cs_Port_update,
     fld ''HealthCheckPath'' dStr cs_HealthCheckPath cs_HealthCheckPath_update, fld ''Env'' dMap cs_Env cs_Env_update]"

definition dDatabase :: "DatabaseSpec decoder" where
  "dDatabase = dStruct [fld ''Engine'' dStr db_Engine db_Engine_update, fld ''Version'' dStr db_Version db_Version_update,
     fld ''StorageGB'' dInt32 db_StorageGB db_StorageGB_update, fld ''Tier'' dStr db_Tier db_Tier_update]"

definition dFailover :: "FailoverConfig decoder" where
  "dFailover = dStruct [fld ''RTOSeconds'' dInt32 f_RTOSeconds f_RTOSeconds_update,
     fld ''RPOSeconds'' dInt32 f_RPOSeconds f_RPOSeconds_update, fld ''AutoFailover'' dBool f_AutoFailover f_AutoFailover_update,
     fld ''MinHealthyNodes'' dInt32 f_MinHealthyNodes f_MinHealthyNodes_update,
     fld ''FencingEnabled'' dBool f_FencingEnabled f_FencingEnabled_update]"

definition dRule :: "DataResidencyRule decoder" where
  "dRule = dStruct [fld ''Country'' dStr dr_Country dr_Country_update,
     fld ''Regions'' (dSlice dRegion zero_Region) dr_Regions dr_Regions_update]"

definition dCompliance :: "DataResidencyRule list decoder" where
  "dCompliance = dStruct [fld ''DataResidency'' (dSlice dRule zero_Rule) (\<lambda>x. x) (\<lambda>f x. f x)]"

definition dWorkload :: "Workload decoder" where
  "dWorkload = dStruct [fld ''ID'' dStr wl_ID wl_ID_update, fld ''Name'' dStr wl_Name wl_Name_update,
     fld ''Status'' dStr wl_Status wl_Status_update, fld ''Source'' dSource wl_Source wl_Source_update,
     fld ''PrimaryRegion'' dRegion wl_PrimaryRegion wl_PrimaryRegion_update,
     fld ''StandbyRegions'' (dSlice dRegion zero_Region) wl_StandbyRegions wl_StandbyRegions_update,
     fld ''Compute'' dCompute wl_Compute wl_Compute_update, fld ''Database'' dDatabase wl_Database wl_Database_update,
     fld ''Failover'' dFailover wl_Failover wl_Failover_update,
     fld ''Compliance'' dCompliance wl_DataResidency wl_DataResidency_update,
     fld ''CreatedAt'' dTime wl_CreatedAt wl_CreatedAt_update, fld ''UpdatedAt'' dTime wl_UpdatedAt wl_UpdatedAt_update]"

definition wl_unmarshal :: "payload \<Rightarrow> Workload \<Rightarrow> json_err + Workload" where
  "wl_unmarshal p w = (case p of NotJson _ \<Rightarrow> Inl SyntaxError | Doc d \<Rightarrow> dWorkload d w)"

subsection \<open>Round trip\<close>

lemma sint_range: "- (2 ^ 31) \<le> sint (x :: 32 word) \<and> sint x < 2 ^ 31"
  using sint_greater_eq [of x] sint_less [of x] by simp

lemma dInt32_sint [simp]: "dInt32 (JNum (sint x)) acc = Inr x"
  using sint_range [of x] by simp

lemma dSlice_jSlice: "(\<And>x. x \<in> set xs \<Longrightarrow> d (enc x) zero = Inr x) \<Longrightarrow> dSlice d zero (jSlice enc xs) acc = Inr xs"
  by (auto simp: jSlice_def dElems_map)

lemma dMap_jMap: "distinct (map fst m) \<Longrightarrow> dMap (jMap m) [] = Inr m"
  using dEntries_map [of "[]" m] by (auto simp: jMap_def)

text \<open>The keys of each object differ even without letter case.\<close>

lemmas keys_simps = keys_distinct_def ToLower_def lower_char_def Let_def

lemma dRegion_jRegion [simp]: "dRegion (jRegion r) z = Inr r"
proof -
  have "keys_distinct [(''Provider'', JStr (r_Provider r)), (''Name'', JStr (r_Name r))]" by (simp add: keys_simps)
  then show ?thesis by (simp add: dRegion_def jRegion_def fld_one)
qed

lemma dSource_jSource [simp]: "dSource (jSource x) z = Inr x"
proof -
  have "keys_distinct [(''Type'', JStr (src_Type x)), (''RepoURL'', JStr (src_RepoURL x)), (''Branch'', JStr (src_Branch x)),
     (''Dockerfile'', JStr (src_Dockerfile x)), (''ImageRef'', JStr (src_ImageRef x))]" by (simp add: keys_simps)
  then show ?thesis by (simp add: dSource_def jSource_def fld_one)
qed

lemma dCompute_jCompute: "distinct (map fst (cs_Env x)) \<Longrightarrow> cs_Env z = [] \<Longrightarrow> dCompute (jCompute x) z = Inr x"
proof -
  assume env: "distinct (map fst (cs_Env x))" "cs_Env z = []"
  have "keys_distinct [(''CPU'', JStr (cs_CPU x)), (''Memory'', JStr (cs_Memory x)), (''Replicas'', JNum (sint (cs_Replicas x))),
     (''Port'', JNum (sint (cs_Port x))), (''HealthCheckPath'', JStr (cs_HealthCheckPath x)), (''Env'', jMap (cs_Env x))]"
    by (simp add: keys_simps)
  then show ?thesis using env
    by (simp add: dCompute_def jCompute_def fld_one dMap_jMap del: dMap.simps dInt32.simps)
qed

lemma dDatabase_jDatabase [simp]: "dDatabase (jDatabase x) z = Inr x"
proof -
  have "keys_distinct [(''Engine'', JStr (db_Engine x)), (''Version'', JStr (db_Version x)),
     (''StorageGB'', JNum (sint (db_StorageGB x))), (''Tier'', JStr (db_Tier x))]" by (simp add: keys_simps)
  then show ?thesis by (simp add: dDatabase_def jDatabase_def fld_one del: dInt32.simps)
qed

lemma dFailover_jFailover [simp]: "dFailover (jFailover x) z = Inr x"
proof -
  have "keys_distinct [(''RTOSeconds'', JNum (sint (f_RTOSeconds x))), (''RPOSeconds'', JNum (sint (f_RPOSeconds x))),
     (''AutoFailover'', JBool (f_AutoFailover x)), (''MinHealthyNodes'', JNum (sint (f_MinHealthyNodes x))),
     (''FencingEnabled'', JBool (f_FencingEnabled x))]" by (simp add: keys_simps)
  then show ?thesis by (simp add: dFailover_def jFailover_def fld_one del: dInt32.simps)
qed

lemma dRule_jRule [simp]: "dRule (jRule x) z = Inr x"
proof -
  have "keys_distinct [(''Country'', JStr (dr_Country x)), (''Regions'', jSlice jRegion (dr_Regions x))]"
    by (simp add: keys_simps)
  then show ?thesis by (simp add: dRule_def jRule_def fld_one dSlice_jSlice del: dSlice.simps)
qed

lemma dCompliance_j [simp]: "dCompliance (JObj [(''DataResidency'', jSlice jRule x)]) z = Inr x"
proof -
  have "keys_distinct [(''DataResidency'', jSlice jRule x)]" by (simp add: keys_simps)
  then show ?thesis by (simp add: dCompliance_def fld_one dSlice_jSlice del: dSlice.simps)
qed

text \<open>Decoding the descriptor of a workload gives back that workload whatever the columns were.\<close>

lemma wl_unmarshal_marshal:
  assumes "wl_marshal w = Some d" and "distinct (map fst (cs_Env (wl_Compute w)))" and "cs_Env (wl_Compute z) = []"
  shows "wl_unmarshal (Doc d) z = Inr w"
proof -
  let ?kvs = "[(''ID'', JStr (wl_ID w)), (''Name'', JStr (wl_Name w)), (''Status'', JStr (wl_Status w)),
        (''Source'', jSource (wl_Source w)), (''PrimaryRegion'', jRegion (wl_PrimaryRegion w)),
        (''StandbyRegions'', jSlice jRegion (wl_StandbyRegions w)), (''Compute'', jCompute (wl_Compute w)),
        (''Database'', jDatabase (wl_Database w)), (''Failover'', jFailover (wl_Failover w)),
        (''Compliance'', JObj [(''DataResidency'', jSlice jRule (wl_DataResidency w))]),
        (''CreatedAt'', JTime (wl_CreatedAt w)), (''UpdatedAt'', JTime (wl_UpdatedAt w))]"
  have d: "d = JObj ?kvs" using assms(1) by (simp add: wl_marshal_def split: if_splits)
  have kd: "keys_distinct ?kvs" by (simp add: keys_simps)
  show ?thesis
    unfolding wl_unmarshal_def d dWorkload_def payload.case dStruct.simps
    by (simp add: fld_one [OF kd] dSlice_jSlice dCompute_jCompute [OF assms(2)] assms(3)
        del: dSlice.simps)
qed

section \<open>Workloads\<close>

record wl_row =
  row_id :: string
  row_name :: string
  row_descriptor :: payload
  row_status :: string
  row_region :: string
  row_provider :: string
  row_created :: gotime
  row_updated :: gotime

text \<open>The primary key and the unique name of the migration.\<close>

definition wl_clash :: "wl_row \<Rightarrow> wl_row \<Rightarrow> bool" where
  "wl_clash a b = (row_id a = row_id b \<or> row_name a = row_name b)"

definition wl_row_of :: "Workload \<Rightarrow> json \<Rightarrow> wl_row" where
  "wl_row_of w d = \<lparr>row_id = wl_ID w, row_name = wl_Name w, row_descriptor = Doc d, row_status = wl_Status w,
     row_region = r_Name (wl_PrimaryRegion w), row_provider = r_Provider (wl_PrimaryRegion w),
     row_created = wl_CreatedAt w, row_updated = wl_UpdatedAt w\<rparr>"

definition wl_Save :: "(wl_row, 's) pgx \<Rightarrow> Workload \<Rightarrow> 's \<Rightarrow> ierr option \<times> 's" where
  "wl_Save Q w s =
     (case wl_marshal w of
        None \<Rightarrow> (Some (Wrapf ''postgres.WorkloadRepository.Save: marshal'' (Opaque ''Time.MarshalJSON: year outside of range [0,9999]'')), s)
      | Some descriptorJSON \<Rightarrow> pg_Exec Q ''postgres.WorkloadRepository.Save'' (SInsert (wl_row_of w descriptorJSON)) s)"

text \<open>The columns go into a fresh struct, the region and the provider into variables of their own.\<close>

definition wl_scan :: "wl_row \<Rightarrow> Workload" where
  "wl_scan r = zero_Workload\<lparr>wl_ID := row_id r, wl_Name := row_name r, wl_Status := row_status r,
     wl_CreatedAt := row_created r, wl_UpdatedAt := row_updated r\<rparr>"

definition jsonMsg :: "json_err \<Rightarrow> 'e goerr" where
  "jsonMsg e = Opaque (case e of SyntaxError \<Rightarrow> ''json: syntax error'' | UnmarshalTypeError \<Rightarrow> ''json: cannot unmarshal'')"

definition wl_find :: "(wl_row, 's) pgx \<Rightarrow> string \<Rightarrow> (wl_row \<Rightarrow> bool) \<Rightarrow> 's \<Rightarrow> (ierr + Workload) \<times> 's" where
  "wl_find Q ctx cond s =
     (case Q (SSelect cond) s of
        (Inl e, s') \<Rightarrow> (Inl (Wrapf ctx (pgMsg e)), s')
      | (Inr ([], _), s') \<Rightarrow> (Inl (Sentinel ErrWorkloadNotFound), s')
      | (Inr (row # _, _), s') \<Rightarrow>
          (case wl_unmarshal (row_descriptor row) (wl_scan row) of
             Inl e \<Rightarrow> (Inl (Wrapf (ctx @ '': unmarshal'') (jsonMsg e)), s')
           | Inr w \<Rightarrow> (Inr w, s')))"

definition wl_FindByID :: "(wl_row, 's) pgx \<Rightarrow> WorkloadID \<Rightarrow> 's \<Rightarrow> (ierr + Workload) \<times> 's" where
  "wl_FindByID Q i = wl_find Q ''postgres.WorkloadRepository.FindByID'' (\<lambda>r. row_id r = i)"

definition wl_FindByName :: "(wl_row, 's) pgx \<Rightarrow> string \<Rightarrow> 's \<Rightarrow> (ierr + Workload) \<times> 's" where
  "wl_FindByName Q n = wl_find Q ''postgres.WorkloadRepository.FindByName'' (\<lambda>r. row_name r = n)"

text \<open>
  \<^verbatim>\<open>UPDATE workloads SET status = $1, updated_at = $2 WHERE id = $3\<close> with its arguments in order. pgx refuses
  a call whose arguments are not as many as the placeholders.
\<close>

datatype pgarg = PgText string | PgTime gotime

fun queryUpdateWorkloadStatus :: "pgarg list \<Rightarrow> wl_row sql option" where
  "queryUpdateWorkloadStatus [PgText status, PgTime updated, PgText i] =
     Some (SUpdate (\<lambda>r. row_id r = i) (\<lambda>r. r\<lparr>row_status := status, row_updated := updated\<rparr>))"
| "queryUpdateWorkloadStatus args = None"

definition wl_UpdateStatus :: "(wl_row, 's) pgx \<Rightarrow> WorkloadID \<Rightarrow> WorkloadStatus \<Rightarrow> 's \<Rightarrow> ierr option \<times> 's" where
  "wl_UpdateStatus Q i status s =
     (case queryUpdateWorkloadStatus [PgText status, PgText i] of
        None \<Rightarrow> (Some (Wrapf ''postgres.WorkloadRepository.UpdateStatus'' (Opaque ''expected 3 arguments, got 2'')), s)
      | Some st \<Rightarrow>
          (case Q st s of
             (Inl e, s') \<Rightarrow> (Some (Wrapf ''postgres.WorkloadRepository.UpdateStatus'' (pgMsg e)), s')
           | (Inr (_, n), s') \<Rightarrow> (if n = 0 then Some (Sentinel ErrWorkloadNotFound) else None, s')))"

definition wl_FindAll :: "int \<Rightarrow> int \<Rightarrow> 's \<Rightarrow> (ierr + Workload list) \<times> 's" where
  "wl_FindAll limit offset s = (Inl (Opaque ''not implemented''), s)"

definition wl_Delete :: "(wl_row, 's) pgx \<Rightarrow> WorkloadID \<Rightarrow> 's \<Rightarrow> ierr option \<times> 's" where
  "wl_Delete Q i = pg_Exec Q ''postgres.WorkloadRepository.Delete'' (SDelete (\<lambda>r. row_id r = i))"

definition pgWorkloadRepo :: "(wl_row, 's) pgx \<Rightarrow> 's WorkloadRepository" where
  "pgWorkloadRepo Q = \<lparr>wr_Save = wl_Save Q, wr_FindByID = wl_FindByID Q, wr_FindByName = wl_FindByName Q,
     wr_FindAll = wl_FindAll, wr_UpdateStatus = wl_UpdateStatus Q, wr_Delete = wl_Delete Q\<rparr>"

section \<open>Credentials\<close>

definition cred_clash :: "CloudCredential \<Rightarrow> CloudCredential \<Rightarrow> bool" where
  "cred_clash a b = (cr_ID a = cr_ID b)"

text \<open>The insert leaves \<open>rotated_at\<close> to its default, which is NULL.\<close>

definition cred_Save :: "(CloudCredential, 's) pgx \<Rightarrow> CloudCredential \<Rightarrow> 's \<Rightarrow> ierr option \<times> 's" where
  "cred_Save Q c = pg_Exec Q ''postgres.CredentialRepository.Save'' (SInsert (c\<lparr>cr_RotatedAt := None\<rparr>))"

definition cred_FindByWorkloadAndProvider ::
    "(CloudCredential, 's) pgx \<Rightarrow> WorkloadID \<Rightarrow> CloudProvider \<Rightarrow> 's \<Rightarrow> (ierr + CloudCredential) \<times> 's" where
  "cred_FindByWorkloadAndProvider Q workloadID provider s =
     (case Q (SSelect (\<lambda>r. cr_WorkloadID r = workloadID \<and> cr_Provider r = provider)) s of
        (Inl e, s') \<Rightarrow> (Inl (Wrapf ''postgres.CredentialRepository.FindByWorkloadAndProvider'' (pgMsg e)), s')
      | (Inr ([], _), s') \<Rightarrow> (Inl (Sentinel ErrCredentialNotFound), s')
      | (Inr (row # _, _), s') \<Rightarrow> (Inr row, s'))"

definition cred_FindAllByWorkload :: "WorkloadID \<Rightarrow> 's \<Rightarrow> (ierr + CloudCredential list) \<times> 's" where
  "cred_FindAllByWorkload workloadID s = (Inl (Opaque ''not implemented''), s)"

definition cred_Delete :: "(CloudCredential, 's) pgx \<Rightarrow> string \<Rightarrow> 's \<Rightarrow> ierr option \<times> 's" where
  "cred_Delete Q i = pg_Exec Q ''postgres.CredentialRepository.Delete'' (SDelete (\<lambda>r. cr_ID r = i))"

definition pgCredentialRepo :: "(CloudCredential, 's) pgx \<Rightarrow> 's CredentialRepository" where
  "pgCredentialRepo Q = \<lparr>cr_Save = cred_Save Q, cr_FindByWorkloadAndProvider = cred_FindByWorkloadAndProvider Q,
     cr_FindAllByWorkload = cred_FindAllByWorkload, cr_Delete = cred_Delete Q\<rparr>"

section \<open>The contract of a workload repository\<close>

definition wl_storable :: "Workload \<Rightarrow> bool" where
  "wl_storable w = (json_time_ok (wl_CreatedAt w) \<and> json_time_ok (wl_UpdatedAt w)
     \<and> distinct (map fst (cs_Env (wl_Compute w))))"

text \<open>
  A client sees a list of workloads of which no two share an id or a name. When calls may fail, a failed
  write may or may not have happened.
\<close>

locale workload_repository =
  fixes WR :: "'w WorkloadRepository" and wls :: "'w \<Rightarrow> Workload list" and inv :: "'w \<Rightarrow> bool"
  assumes save: "inv w \<Longrightarrow> wl_storable x \<Longrightarrow> wr_Save WR x w = (res, w') \<Longrightarrow>
      inv w' \<and> (wls w' = wls w @ [x] \<and> (\<forall>y \<in> set (wls w). wl_ID y \<noteq> wl_ID x \<and> wl_Name y \<noteq> wl_Name x)
                \<or> res \<noteq> None \<and> wls w' = wls w)"
    and by_name: "inv w \<Longrightarrow> wr_FindByName WR n w = (out, w') \<Longrightarrow>
      inv w' \<and> wls w' = wls w \<and> (\<forall>x. out = Inr x \<longrightarrow> x \<in> set (wls w) \<and> wl_Name x = n)
        \<and> (out = Inl (Sentinel ErrWorkloadNotFound) \<longrightarrow> (\<forall>x \<in> set (wls w). wl_Name x \<noteq> n))"
    and by_id: "inv w \<Longrightarrow> wr_FindByID WR i w = (out, w') \<Longrightarrow>
      inv w' \<and> wls w' = wls w \<and> (\<forall>x. out = Inr x \<longrightarrow> x \<in> set (wls w) \<and> wl_ID x = i)"
    and delete: "inv w \<Longrightarrow> wr_Delete WR i w = (res, w') \<Longrightarrow>
      inv w' \<and> (wls w' = filter (\<lambda>x. wl_ID x \<noteq> i) (wls w) \<or> res \<noteq> None \<and> wls w' = wls w)"
    and unique: "inv w \<Longrightarrow> distinct (map wl_ID (wls w)) \<and> distinct (map wl_Name (wls w)) \<and> (\<forall>x \<in> set (wls w). wl_storable x)"

text \<open>When no call fails.\<close>

locale workload_repository_up = workload_repository +
  assumes save_up: "inv w \<Longrightarrow> wl_storable x \<Longrightarrow> (\<forall>y \<in> set (wls w). wl_ID y \<noteq> wl_ID x \<and> wl_Name y \<noteq> wl_Name x) \<Longrightarrow>
      \<exists>w'. wr_Save WR x w = (None, w') \<and> wls w' = wls w @ [x]"
    and by_name_up: "inv w \<Longrightarrow> \<exists>w'. wr_FindByName WR n w =
      (case find (\<lambda>x. wl_Name x = n) (wls w) of Some x \<Rightarrow> Inr x | None \<Rightarrow> Inl (Sentinel ErrWorkloadNotFound), w')"
    and by_id_up: "inv w \<Longrightarrow> \<exists>w'. wr_FindByID WR i w =
      (case find (\<lambda>x. wl_ID x = i) (wls w) of Some x \<Rightarrow> Inr x | None \<Rightarrow> Inl (Sentinel ErrWorkloadNotFound), w')"
    and delete_up: "inv w \<Longrightarrow> \<exists>w'. wr_Delete WR i w = (None, w')"

section \<open>The tables keep the contract\<close>

text \<open>The workload a row stands for, and the rows the repository writes.\<close>

definition row_workload :: "wl_row \<Rightarrow> Workload" where
  "row_workload r = (case wl_unmarshal (row_descriptor r) (wl_scan r) of Inr w \<Rightarrow> w | Inl _ \<Rightarrow> zero_Workload)"

definition wl_row_wf :: "wl_row \<Rightarrow> bool" where
  "wl_row_wf r = (let w = row_workload r in wl_storable w
     \<and> (case wl_marshal w of None \<Rightarrow> False | Some d \<Rightarrow> r = wl_row_of w d))"

definition wl_inv :: "wl_row list \<Rightarrow> bool" where
  "wl_inv rows = (uniq wl_clash rows \<and> list_all wl_row_wf rows)"

definition wl_view :: "wl_row list \<Rightarrow> Workload list" where
  "wl_view rows = map row_workload rows"

lemma storable_marshal: "wl_storable w \<Longrightarrow> \<exists>d. wl_marshal w = Some d"
  by (auto simp: wl_storable_def wl_marshal_def)

lemma unmarshal_row:
  assumes "wl_storable w" and "wl_marshal w = Some d"
  shows "wl_unmarshal (row_descriptor (wl_row_of w d)) (wl_scan (wl_row_of w d)) = Inr w"
  using wl_unmarshal_marshal [OF assms(2)] assms(1)
  by (simp add: wl_row_of_def wl_storable_def wl_scan_def zero_Workload_def)

lemma row_of_wf:
  assumes "wl_storable w" and "wl_marshal w = Some d"
  shows "row_workload (wl_row_of w d) = w \<and> wl_row_wf (wl_row_of w d)"
  using unmarshal_row [OF assms] assms by (simp add: wl_row_wf_def row_workload_def)

lemma wf_row:
  assumes "wl_row_wf r"
  shows "row_id r = wl_ID (row_workload r) \<and> row_name r = wl_Name (row_workload r) \<and> wl_storable (row_workload r)
    \<and> wl_unmarshal (row_descriptor r) (wl_scan r) = Inr (row_workload r)"
proof -
  obtain d where d: "wl_storable (row_workload r)" "wl_marshal (row_workload r) = Some d" "r = wl_row_of (row_workload r) d"
    using assms by (auto simp: wl_row_wf_def Let_def split: option.splits)
  have "row_id r = wl_ID (row_workload r)" "row_name r = wl_Name (row_workload r)"
    using d(3) by (simp_all add: wl_row_of_def, (metis wl_row.select_convs)+)
  then show ?thesis using unmarshal_row [OF d(1,2)] d by simp
qed

lemma inv_row: "wl_inv rows \<Longrightarrow> r \<in> set rows \<Longrightarrow> wl_row_wf r"
  by (auto simp: wl_inv_def list_all_iff)

lemma wl_inv_filter: "wl_inv rows \<Longrightarrow> wl_inv (filter p rows)"
  by (auto simp: wl_inv_def uniq_filter list_all_iff)

lemma wl_inv_snoc:
  assumes "wl_inv rows" and "wl_storable w" and "wl_marshal w = Some d" and "\<forall>x \<in> set rows. \<not> wl_clash x (wl_row_of w d)"
  shows "wl_inv (rows @ [wl_row_of w d]) \<and> wl_view (rows @ [wl_row_of w d]) = wl_view rows @ [w]"
  using assms row_of_wf [OF assms(2,3)] by (auto simp: wl_inv_def wl_view_def uniq_append)

lemma clash_view:
  assumes "wl_inv rows" and "wl_marshal w = Some d"
  shows "(\<forall>x \<in> set rows. \<not> wl_clash x (wl_row_of w d))
    \<longleftrightarrow> (\<forall>y \<in> set (wl_view rows). wl_ID y \<noteq> wl_ID w \<and> wl_Name y \<noteq> wl_Name w)"
  using wf_row [OF inv_row [OF assms(1)]] by (auto simp: wl_view_def wl_clash_def wl_row_of_def)

lemma view_delete:
  assumes "wl_inv rows"
  shows "wl_view (filter (\<lambda>r. \<not> row_id r = i) rows) = filter (\<lambda>x. wl_ID x \<noteq> i) (wl_view rows)"
proof -
  have "filter (\<lambda>r. \<not> row_id r = i) rows = filter ((\<lambda>x. wl_ID x \<noteq> i) \<circ> row_workload) rows"
    using wf_row [OF inv_row [OF assms]] by (intro filter_cong) auto
  then show ?thesis by (simp add: wl_view_def filter_map)
qed

lemma view_unique:
  assumes "wl_inv rows"
  shows "distinct (map wl_ID (wl_view rows)) \<and> distinct (map wl_Name (wl_view rows))
    \<and> (\<forall>x \<in> set (wl_view rows). wl_storable x)"
proof -
  have ids: "map wl_ID (wl_view rows) = map row_id rows" "map wl_Name (wl_view rows) = map row_name rows"
    using wf_row [OF inv_row [OF assms]] by (simp_all add: wl_view_def)
  have "uniq wl_clash xs \<Longrightarrow> distinct (map row_id xs) \<and> distinct (map row_name xs)" for xs
    by (induction xs) (auto simp: wl_clash_def)
  then have "distinct (map row_id rows) \<and> distinct (map row_name rows)" using assms by (simp add: wl_inv_def)
  then show ?thesis unfolding ids using wf_row [OF inv_row [OF assms]] by (auto simp: wl_view_def)
qed

text \<open>A lookup by a key that no two rows share.\<close>

lemma find_view:
  assumes inv: "wl_inv rows" and key: "\<And>r. r \<in> set rows \<Longrightarrow> P r = R (row_workload r)"
    and one: "\<And>x y. P x \<Longrightarrow> P y \<Longrightarrow> wl_clash x y" and found: "mset found = mset (filter P rows)"
  shows "(case found of [] \<Rightarrow> find R (wl_view rows) = None
    | r # _ \<Rightarrow> r \<in> set rows \<and> P r \<and> find R (wl_view rows) = Some (row_workload r))"
proof (cases found)
  case Nil
  then have "\<forall>r \<in> set rows. \<not> P r" using found by (auto simp: filter_empty_conv)
  then show ?thesis using Nil key by (auto simp: find_None_iff wl_view_def)
next
  case (Cons r rs)
  then have r: "r \<in> set rows" "P r" using mset_eq_setD [OF found] by auto
  have rows: "filter P rows = [r]" using uniq_filter_single [of wl_clash rows P r] inv one r by (auto simp: wl_inv_def)
  have "find R (wl_view xs) = (case filter P xs of [] \<Rightarrow> None | y # _ \<Rightarrow> Some (row_workload y))"
    if "set xs \<subseteq> set rows" for xs
    using that key by (induction xs) (auto simp: wl_view_def)
  then show ?thesis using rows r Cons by simp
qed

context pg_api
begin

lemma exec_any: "pg_Exec Q ctx st s = (res, s') \<Longrightarrow>
    tbl s' = snd (sql_step clash st (tbl s)) \<and> fst (sql_step clash st (tbl s)) \<noteq> Inl UniqueViolation
    \<or> res \<noteq> None \<and> tbl s' = tbl s \<or> res \<noteq> None \<and> tbl s' = snd (sql_step clash st (tbl s))"
proof -
  assume x: "pg_Exec Q ctx st s = (res, s')"
  obtain out s1 where q: "Q st s = (out, s1)" by fastforce
  show ?thesis
  proof (cases out)
    case (Inl e)
    then show ?thesis using x any_step [OF q] by (auto simp: pg_Exec_def q)
  next
    case (Inr rn)
    obtain rows n where "rn = (rows, n)" by fastforce
    then show ?thesis using x pg_ok [of st s rows n s1] q Inr by (auto simp: pg_Exec_def)
  qed
qed

end

text \<open>The repository on a server whose calls may fail, and on one whose calls do not.\<close>

locale pg_workloads = pg_api Q tbl wl_clash for Q :: "(wl_row, 's) pgx" and tbl :: "'s \<Rightarrow> wl_row list"
begin

lemma find_faulty:
  assumes inv: "wl_inv (tbl s)" and key: "\<And>r. r \<in> set (tbl s) \<Longrightarrow> P r = R (row_workload r)"
    and one: "\<And>x y. P x \<Longrightarrow> P y \<Longrightarrow> wl_clash x y" and f: "wl_find Q ctx P s = (out, s')"
  shows "tbl s' = tbl s \<and> (\<forall>x. out = Inr x \<longrightarrow> x \<in> set (wl_view (tbl s)) \<and> R x)
    \<and> (out = Inl (Sentinel ErrWorkloadNotFound) \<longrightarrow> (\<forall>x \<in> set (wl_view (tbl s)). \<not> R x))"
proof -
  obtain o1 s1 where q: "Q (SSelect P) s = (o1, s1)" by fastforce
  show ?thesis
  proof (cases o1)
    case (Inl e)
    then show ?thesis using f q select_frame [OF q] by (auto simp: wl_find_def)
  next
    case (Inr rn)
    obtain rows n where rn: "rn = (rows, n)" by fastforce
    have m: "mset rows = mset (filter P (tbl s))" "tbl s1 = tbl s" using select_ok [of P s rows n s1] q Inr rn by auto
    have v: "case rows of [] \<Rightarrow> find R (wl_view (tbl s)) = None
        | r # _ \<Rightarrow> r \<in> set (tbl s) \<and> P r \<and> find R (wl_view (tbl s)) = Some (row_workload r)"
      by (rule find_view [OF inv key one m(1)])
    show ?thesis
    proof (cases rows)
      case Nil
      then show ?thesis using f q Inr rn v m by (auto simp: wl_find_def find_None_iff)
    next
      case (Cons r rs)
      then show ?thesis using f q Inr rn v m wf_row [OF inv_row [OF inv, of r]] find_SomeD [of R "wl_view (tbl s)"]
        by (auto simp: wl_find_def)
    qed
  qed
qed

end

sublocale pg_workloads \<subseteq> workload_repository "pgWorkloadRepo Q" "\<lambda>s. wl_view (tbl s)" "\<lambda>s. wl_inv (tbl s)"
proof (standard, goal_cases)
  case (1 s x res s')
  obtain d where d: "wl_marshal x = Some d" using storable_marshal [OF 1(2)] by blast
  have ex: "pg_Exec Q ''postgres.WorkloadRepository.Save'' (SInsert (wl_row_of x d)) s = (res, s')"
    using 1(3) by (simp add: pgWorkloadRepo_def wl_Save_def d)
  show ?case
    using exec_any [OF ex] 1(1) wl_inv_snoc [OF 1(1,2) d] clash_view [OF 1(1) d] by (auto split: if_splits)
next
  case (2 s n out s')
  then show ?case
    using find_faulty [of s "\<lambda>r. row_name r = n" "\<lambda>x. wl_Name x = n" _ out s'] wf_row [OF inv_row [OF 2(1)]]
    by (auto simp: pgWorkloadRepo_def wl_FindByName_def wl_clash_def)
next
  case (3 s i out s')
  then show ?case
    using find_faulty [of s "\<lambda>r. row_id r = i" "\<lambda>x. wl_ID x = i" _ out s'] wf_row [OF inv_row [OF 3(1)]]
    by (auto simp: pgWorkloadRepo_def wl_FindByID_def wl_clash_def)
next
  case (4 s i res s')
  then have ex: "pg_Exec Q ''postgres.WorkloadRepository.Delete'' (SDelete (\<lambda>r. row_id r = i)) s = (res, s')"
    by (simp add: pgWorkloadRepo_def wl_Delete_def)
  show ?case using exec_any [OF ex] 4(1) view_delete [OF 4(1), of i] wl_inv_filter [OF 4(1)] by auto
next
  case (5 s)
  then show ?case by (rule view_unique)
qed

locale pg_workloads_up = pg_up Q tbl wl_clash for Q :: "(wl_row, 's) pgx" and tbl :: "'s \<Rightarrow> wl_row list"
begin

lemma find_up:
  assumes inv: "wl_inv (tbl s)" and key: "\<And>r. r \<in> set (tbl s) \<Longrightarrow> P r = R (row_workload r)"
    and one: "\<And>x y. P x \<Longrightarrow> P y \<Longrightarrow> wl_clash x y"
  shows "\<exists>s'. wl_find Q ctx P s =
    (case find R (wl_view (tbl s)) of Some x \<Rightarrow> Inr x | None \<Rightarrow> Inl (Sentinel ErrWorkloadNotFound), s')"
proof -
  obtain rows s' where q: "Q (SSelect P) s = (Inr (rows, length (filter P (tbl s))), s')"
    using pg_total [of "SSelect P" s] by fastforce
  have m: "mset rows = mset (filter P (tbl s))" using select_ok [OF q] by simp
  show ?thesis
    using find_view [OF inv key one m] q wf_row [OF inv_row [OF inv]]
    by (cases rows) (auto simp: wl_find_def)
qed

lemma exec_up:
  assumes "sql_step wl_clash st (tbl s) = (Inr (spec, n), tb')"
  shows "\<exists>s'. pg_Exec Q ctx st s = (None, s') \<and> tbl s' = tb'"
proof -
  obtain rows s' where "Q st s = (Inr (rows, n), s')" "tbl s' = tb'" using step_up [OF assms] by metis
  then show ?thesis by (simp add: pg_Exec_def)
qed

end

sublocale pg_workloads_up \<subseteq> pg_workloads ..

sublocale pg_workloads_up \<subseteq> workload_repository_up "pgWorkloadRepo Q" "\<lambda>s. wl_view (tbl s)" "\<lambda>s. wl_inv (tbl s)"
proof (standard, goal_cases)
  case (1 s x)
  obtain d where d: "wl_marshal x = Some d" using storable_marshal [OF 1(2)] by blast
  have free: "\<forall>y \<in> set (tbl s). \<not> wl_clash y (wl_row_of x d)" using clash_view [OF 1(1) d] 1(3) by simp
  then have "sql_step wl_clash (SInsert (wl_row_of x d)) (tbl s) = (Inr ([], 1), tbl s @ [wl_row_of x d])" by simp
  from exec_up [OF this, of "''postgres.WorkloadRepository.Save''"] show ?case using wl_inv_snoc [OF 1(1,2) d free]
    by (auto simp: pgWorkloadRepo_def wl_Save_def d)
next
  case (2 s n)
  then show ?case
    using find_up [of s "\<lambda>r. row_name r = n" "\<lambda>x. wl_Name x = n"] wf_row [OF inv_row [OF 2]]
    by (auto simp: pgWorkloadRepo_def wl_FindByName_def wl_clash_def)
next
  case (3 s i)
  then show ?case
    using find_up [of s "\<lambda>r. row_id r = i" "\<lambda>x. wl_ID x = i"] wf_row [OF inv_row [OF 3]]
    by (auto simp: pgWorkloadRepo_def wl_FindByID_def wl_clash_def)
next
  case (4 s i)
  then show ?case
    using exec_up [of "SDelete (\<lambda>r. row_id r = i)" s] by (fastforce simp: pgWorkloadRepo_def wl_Delete_def)
qed

interpretation pure_wl: pg_workloads_up "pure_pg wl_clash" "\<lambda>tb. tb" ..

section \<open>Properties\<close>

text \<open>The abstract repository: a list of workloads without two of the same id or name.\<close>

definition spec_Save :: "Workload \<Rightarrow> Workload list \<Rightarrow> bool \<times> Workload list" where
  "spec_Save x ws = (if \<exists>y \<in> set ws. wl_ID y = wl_ID x \<or> wl_Name y = wl_Name x then (False, ws) else (True, ws @ [x]))"

definition spec_Find :: "(Workload \<Rightarrow> bool) \<Rightarrow> Workload list \<Rightarrow> ierr + Workload" where
  "spec_Find p ws = (case find p ws of Some x \<Rightarrow> Inr x | None \<Rightarrow> Inl (Sentinel ErrWorkloadNotFound))"

definition spec_Delete :: "WorkloadID \<Rightarrow> Workload list \<Rightarrow> Workload list" where
  "spec_Delete i ws = filter (\<lambda>x. wl_ID x \<noteq> i) ws"

context workload_repository_up
begin

lemma save_refines:
  assumes "inv s" and "wl_storable x" and "wr_Save WR x s = (res, s')"
  shows "(res = None, wls s') = spec_Save x (wls s) \<and> inv s'"
proof (cases "\<exists>y \<in> set (wls s). wl_ID y = wl_ID x \<or> wl_Name y = wl_Name x")
  case True
  then show ?thesis using save [OF assms] by (auto simp: spec_Save_def)
next
  case False
  then obtain s1 where "wr_Save WR x s = (None, s1)" "wls s1 = wls s @ [x]" using save_up [OF assms(1,2)] by blast
  then show ?thesis using assms save [OF assms] False by (auto simp: spec_Save_def)
qed

lemma name_refines:
  "inv s \<Longrightarrow> \<exists>s'. wr_FindByName WR n s = (spec_Find (\<lambda>x. wl_Name x = n) (wls s), s') \<and> wls s' = wls s \<and> inv s'"
  using by_name_up [of s n] by_name [of s n] by (auto simp: spec_Find_def)

lemma id_refines:
  "inv s \<Longrightarrow> \<exists>s'. wr_FindByID WR i s = (spec_Find (\<lambda>x. wl_ID x = i) (wls s), s') \<and> wls s' = wls s \<and> inv s'"
  using by_id_up [of s i] by_id [of s i] by (auto simp: spec_Find_def)

lemma delete_refines: "inv s \<Longrightarrow> \<exists>s'. wr_Delete WR i s = (None, s') \<and> wls s' = spec_Delete i (wls s) \<and> inv s'"
  using delete_up [of s i] delete [of s i] by (auto simp: spec_Delete_def)

end

context pg_workloads
begin

lemmas found_by_id = by_id

end

context pg_workloads_up
begin

lemmas refines = save_refines name_refines id_refines delete_refines

end

text \<open>C14: On a reliable server the tables implement the abstract repository: saving adds the workload or is refused
  because of its id or name, lookups find what the list holds with every field as it was saved, deleting removes,
  and every operation keeps the rows well formed.\<close>

theorem workload_repo_refines:
  assumes "pg_workloads_up Q tbl" and "wl_inv (tbl s)" and "wl_storable x"
  shows "(let (res, s') = wl_Save Q x s in (res = None, wl_view (tbl s')) = spec_Save x (wl_view (tbl s)) \<and> wl_inv (tbl s'))
    \<and> (\<exists>s'. wl_FindByName Q n s = (spec_Find (\<lambda>w. wl_Name w = n) (wl_view (tbl s)), s') \<and> wl_view (tbl s') = wl_view (tbl s))
    \<and> (\<exists>s'. wl_FindByID Q i s = (spec_Find (\<lambda>w. wl_ID w = i) (wl_view (tbl s)), s') \<and> wl_view (tbl s') = wl_view (tbl s))
    \<and> (\<exists>s'. wl_Delete Q i s = (None, s') \<and> wl_view (tbl s') = spec_Delete i (wl_view (tbl s)) \<and> wl_inv (tbl s'))"
  using pg_workloads_up.refines(1) [OF assms(1-3)] pg_workloads_up.refines(2) [OF assms(1,2), of n]
    pg_workloads_up.refines(3) [OF assms(1,2), of i] pg_workloads_up.refines(4) [OF assms(1,2), of i]
  by (auto simp: pgWorkloadRepo_def split: prod.splits)

definition ex_workload :: Workload where
  "ex_workload = \<lparr>wl_ID = ''w-1'', wl_Name = ''test-workload'', wl_Status = ''PENDING'', wl_Source = ex_source,
     wl_PrimaryRegion = ex_region, wl_StandbyRegions = [ex_region], wl_Compute = ex_compute, wl_Database = ex_db,
     wl_Failover = ex_failover, wl_DataResidency = [], wl_CreatedAt = 0, wl_UpdatedAt = 0\<rparr>"

lemma ex_workload_storable: "wl_storable ex_workload"
  by (simp add: wl_storable_def ex_workload_def json_time_ok_def ex_compute_def)

theorem workload_repo_refines_witness:
  "\<exists>tb. wl_Save (pure_pg wl_clash) ex_workload [] = (None, tb) \<and> wl_view tb = [ex_workload]"
  using workload_repo_refines [OF pure_wl.pg_workloads_up_axioms, of "[]" ex_workload "[]" "[]"] ex_workload_storable
  by (auto simp: wl_inv_def wl_view_def spec_Save_def split: prod.splits)

text \<open>The status of a stored workload cannot change. \<^verbatim>\<open>UpdateStatus\<close> passes two arguments for three placeholders:
  it fails on every input and leaves the table as it is. And when the status and time columns are overwritten by
  other means, a lookup still returns the workload as it was saved, because the descriptor is decoded over the
  columns.\<close>

theorem workload_status_frozen:
  assumes "pg_workloads_up Q tbl" and "wl_inv rows" and "tbl s = map (\<lambda>r. r\<lparr>row_status := st r, row_updated := up r\<rparr>) rows"
  shows "(\<exists>e. wl_UpdateStatus Q i status s = (Some e, s) \<and> \<not> errors_Is e ErrWorkloadNotFound)
    \<and> fst (wl_FindByName Q n s) = spec_Find (\<lambda>w. wl_Name w = n) (wl_view rows)"
proof -
  let ?f = "\<lambda>r. r\<lparr>row_status := st r, row_updated := up r\<rparr>"
  obtain found s' where q: "Q (SSelect (\<lambda>r. row_name r = n)) s = (Inr (found, length (filter (\<lambda>r. row_name r = n) (tbl s))), s')"
    using pg_up.pg_total [OF pg_workloads_up.axioms [OF assms(1)], of "SSelect (\<lambda>r. row_name r = n)" s] by fastforce
  have m: "mset found = mset (filter (\<lambda>r. row_name r = n) (map ?f rows))"
    using pg_api.select_ok [OF pg_up.axioms(1) [OF pg_workloads_up.axioms [OF assms(1)]] q] assms(3) by simp
  have one: "mset (filter (\<lambda>r. row_name r = n) rows) = mset (filter (\<lambda>r. row_name r = n) rows)" ..
  have v: "case filter (\<lambda>r. row_name r = n) rows of [] \<Rightarrow> find (\<lambda>w. wl_Name w = n) (wl_view rows) = None
      | r # _ \<Rightarrow> r \<in> set rows \<and> row_name r = n \<and> find (\<lambda>w. wl_Name w = n) (wl_view rows) = Some (row_workload r)"
    using wf_row [OF inv_row [OF assms(2)]] by (intro find_view [OF assms(2) _ _ one]) (auto simp: wl_clash_def)
  have "fst (wl_FindByName Q n s) = spec_Find (\<lambda>w. wl_Name w = n) (wl_view rows)"
  proof (cases "filter (\<lambda>r. row_name r = n) rows")
    case Nil
    then show ?thesis using q m v by (simp add: wl_FindByName_def wl_find_def spec_Find_def filter_map comp_def)
  next
    case (Cons r rs)
    have r: "r \<in> set rows" "row_name r = n" using v Cons by auto
    have "filter (\<lambda>r. row_name r = n) rows = [r]"
      using uniq_filter_single [of wl_clash rows "\<lambda>r. row_name r = n" r] assms(2) r by (auto simp: wl_inv_def wl_clash_def)
    then have "found = [?f r]" using m by (simp add: filter_map comp_def)
    moreover have "wl_unmarshal (row_descriptor (?f r)) (wl_scan (?f r)) = Inr (row_workload r)"
    proof -
      obtain d where d: "wl_storable (row_workload r)" "wl_marshal (row_workload r) = Some d" "r = wl_row_of (row_workload r) d"
        using inv_row [OF assms(2) r(1)] by (auto simp: wl_row_wf_def Let_def split: option.splits)
      have "row_descriptor (?f r) = Doc d" using arg_cong [OF d(3), of row_descriptor] by (simp add: wl_row_of_def)
      then show ?thesis
        using wl_unmarshal_marshal [OF d(2), of "wl_scan (?f r)"] d(1)
        by (simp add: wl_storable_def wl_scan_def zero_Workload_def)
    qed
    ultimately show ?thesis using q v Cons by (simp add: wl_FindByName_def wl_find_def spec_Find_def)
  qed
  then show ?thesis by (simp add: wl_UpdateStatus_def)
qed

definition ex_row :: wl_row where
  "ex_row = wl_row_of ex_workload (the (wl_marshal ex_workload))"

lemma ex_row_ok: "wl_inv [ex_row] \<and> wl_view [ex_row] = [ex_workload]"
  using storable_marshal [OF ex_workload_storable] row_of_wf [OF ex_workload_storable]
  by (auto simp: ex_row_def wl_inv_def wl_view_def)

theorem workload_status_frozen_witness:
  "fst (wl_UpdateStatus (pure_pg wl_clash) ''w-1'' ''RUNNING'' [ex_row]) \<noteq> None
   \<and> fst (wl_FindByName (pure_pg wl_clash) ''test-workload'' [ex_row\<lparr>row_status := ''RUNNING'', row_updated := 5\<rparr>]) = Inr ex_workload"
  using workload_status_frozen [OF pure_wl.pg_workloads_up_axioms, of "[ex_row]"
      "[ex_row\<lparr>row_status := ''RUNNING'', row_updated := 5\<rparr>]" "\<lambda>r. 5" "\<lambda>r. ''RUNNING''" "''w-1''" "''RUNNING''" "''test-workload''"]
    ex_row_ok
  by (auto simp: spec_Find_def ex_workload_def wl_UpdateStatus_def)

end
