(* ===== verification/Ingestion_Usecases.thy ===== *)
theory Ingestion_Usecases
  imports Ingestion_Repo
begin

text \<open>
  The job queue of \<^verbatim>\<open>internal/ingestion/adapter/queue\<close> and the use cases of
  \<^verbatim>\<open>internal/ingestion/usecase\<close>. The asynq client is a parameter: a function that puts a task into Redis or
  fails. Tracing, metrics and logging are left out.
\<close>

section \<open>Tasks\<close>

definition TaskTypeBuild :: string where "TaskTypeBuild = ''build:image''"
definition TaskTypeProvision :: string where "TaskTypeProvision = ''provisioner:deploy''"

definition QueueCritical :: string where "QueueCritical = ''critical''"
definition QueueDefault :: string where "QueueDefault = ''default''"
definition QueueLow :: string where "QueueLow = ''low''"

record task_options =
  o_MaxRetry :: nat
  o_Timeout :: duration
  o_Queue :: string
  o_Retention :: duration

record Task =
  t_Type :: string
  t_Payload :: json
  t_Options :: task_options

definition BuildJobOptions :: task_options where
  "BuildJobOptions = \<lparr>o_MaxRetry = 3, o_Timeout = minutes 30, o_Queue = QueueDefault, o_Retention = hours 24\<rparr>"

definition ProvisionJobOptions :: task_options where
  "ProvisionJobOptions = \<lparr>o_MaxRetry = 5, o_Timeout = minutes 10, o_Queue = QueueLow, o_Retention = hours 48\<rparr>"

record BuildJobPayload =
  bp_WorkloadID :: string
  bp_WorkloadName :: string
  bp_RepoURL :: string
  bp_Branch :: string
  bp_CommitSHA :: string
  bp_CommitMsg :: string
  bp_TriggeredAt :: string

record ProvisionJobPayload =
  pp_WorkloadID :: string
  pp_WorkloadName :: string
  pp_Action :: string
  pp_TriggeredAt :: string

definition bp_marshal :: "BuildJobPayload \<Rightarrow> json" where
  "bp_marshal p = JObj [(''workload_id'', JStr (bp_WorkloadID p)), (''workload_name'', JStr (bp_WorkloadName p)),
     (''repo_url'', JStr (bp_RepoURL p)), (''branch'', JStr (bp_Branch p)), (''commit_sha'', JStr (bp_CommitSHA p)),
     (''commit_msg'', JStr (bp_CommitMsg p)), (''triggered_at'', JStr (bp_TriggeredAt p))]"

definition pp_marshal :: "ProvisionJobPayload \<Rightarrow> json" where
  "pp_marshal p = JObj [(''workload_id'', JStr (pp_WorkloadID p)), (''workload_name'', JStr (pp_WorkloadName p)),
     (''action'', JStr (pp_Action p)), (''triggered_at'', JStr (pp_TriggeredAt p))]"

section \<open>The enqueuer\<close>

text \<open>\<^verbatim>\<open>Client.EnqueueContext\<close>: the text of its error, if any. \<open>str\<close> is \<^verbatim>\<open>time.Time.String\<close>. Marshalling structs of strings
  does not fail.\<close>

type_synonym 'q asynq = "Task \<Rightarrow> 'q \<Rightarrow> string option \<times> 'q"

definition buildTask :: "(gotime \<Rightarrow> string) \<Rightarrow> WorkloadID \<Rightarrow> WebhookEvent \<Rightarrow> Task" where
  "buildTask str workloadID event = \<lparr>t_Type = TaskTypeBuild,
     t_Payload = bp_marshal \<lparr>bp_WorkloadID = workloadID, bp_WorkloadName = we_WorkloadName event, bp_RepoURL = we_RepoURL event,
       bp_Branch = we_Branch event, bp_CommitSHA = we_CommitSHA event, bp_CommitMsg = we_CommitMsg event,
       bp_TriggeredAt = str (we_TriggeredAt event)\<rparr>,
     t_Options = BuildJobOptions\<rparr>"

definition provisionTask :: "(gotime \<Rightarrow> string) \<Rightarrow> gotime \<Rightarrow> WorkloadID \<Rightarrow> Task" where
  "provisionTask str now workloadID = \<lparr>t_Type = TaskTypeProvision,
     t_Payload = pp_marshal \<lparr>pp_WorkloadID = workloadID, pp_WorkloadName = [], pp_Action = ''PROVISION'', pp_TriggeredAt = str now\<rparr>,
     t_Options = ProvisionJobOptions\<rparr>"

definition EnqueueBuildJob ::
    "'q asynq \<Rightarrow> (gotime \<Rightarrow> string) \<Rightarrow> WorkloadID \<Rightarrow> WebhookEvent \<Rightarrow> 'q \<Rightarrow> ierr option \<times> 'q" where
  "EnqueueBuildJob client str workloadID event q =
     (case client (buildTask str workloadID event) q of
        (Some e, q') \<Rightarrow> (Some (Wrapf ''queue.EnqueueBuildJob failed'' (Opaque e)), q')
      | (None, q') \<Rightarrow> (None, q'))"

definition EnqueueProvisionJob :: "'q asynq \<Rightarrow> (gotime \<Rightarrow> string) \<Rightarrow> gotime \<Rightarrow> WorkloadID \<Rightarrow> 'q \<Rightarrow> ierr option \<times> 'q" where
  "EnqueueProvisionJob client str now workloadID q =
     (case client (provisionTask str now workloadID) q of
        (Some e, q') \<Rightarrow> (Some (Wrapf ''queue.EnqueueProvisionJob failed'' (Opaque e)), q')
      | (None, q') \<Rightarrow> (None, q'))"

definition NewAsynqJobEnqueuer :: "('w \<Rightarrow> 'q) \<Rightarrow> ('q \<Rightarrow> 'w \<Rightarrow> 'w) \<Rightarrow> 'q asynq \<Rightarrow> (gotime \<Rightarrow> string) \<Rightarrow> 'w JobEnqueuer" where
  "NewAsynqJobEnqueuer get put client str = \<lparr>
     je_EnqueueBuildJob = (\<lambda>i ev. lift_part get put (EnqueueBuildJob client str i ev)),
     je_EnqueueProvisionJob = (\<lambda>now i. lift_part get put (EnqueueProvisionJob client str now i))\<rparr>"

section \<open>Use cases\<close>

record 'w Dependencies =
  d_WorkloadRepo :: "'w WorkloadRepository"
  d_CredentialRepo :: "'w CredentialRepository"
  d_JobEnqueuer :: "'w JobEnqueuer"
  d_Encryptor :: Encryptor

record SubmitWorkloadInput =
  si_Name :: string
  si_Source :: SourceConfig
  si_PrimaryRegion :: Region
  si_StandbyRegions :: "Region list"
  si_Compute :: ResourceSpec
  si_Database :: DatabaseSpec
  si_Failover :: FailoverConfig
  si_DataResidency :: "DataResidencyRule list"

record SubmitWorkloadOutput =
  so_WorkloadID :: WorkloadID
  so_Status :: WorkloadStatus

text \<open>The values a call takes from outside: a fresh uuid, the two instants read for the new workload, the
  instant read for the job, and random bytes.\<close>

record uc_env =
  ue_uuid :: string
  ue_created :: gotime
  ue_updated :: gotime
  ue_now :: gotime
  ue_rnd :: random

definition submit_Execute ::
    "'w Dependencies \<Rightarrow> uc_env \<Rightarrow> SubmitWorkloadInput \<Rightarrow> 'w \<Rightarrow> (ierr + SubmitWorkloadOutput) \<times> 'w" where
  "submit_Execute deps env inp s =
     (case NewWorkload (ue_uuid env) (ue_created env) (ue_updated env) (si_Name inp) (si_Source inp) (si_PrimaryRegion inp)
             (si_StandbyRegions inp) (si_Compute inp) (si_Database inp) (si_Failover inp) of
        Inl err \<Rightarrow> (Inl err, s)
      | Inr w \<Rightarrow>
          (case wr_FindByName (d_WorkloadRepo deps) (si_Name inp) s of
             (Inr _, s1) \<Rightarrow> (Inl (Sentinel ErrWorkloadAlreadyExists), s1)
           | (Inl err, s1) \<Rightarrow>
               if err \<noteq> Sentinel ErrWorkloadNotFound
               then (Inl (Wrapf ''usecase.SubmitWorkload: FindByName'' err), s1)
               else case wr_Save (d_WorkloadRepo deps) w s1 of
                      (Some err, s2) \<Rightarrow> (Inl (Wrapf ''usecase.SubmitWorkload: Save'' err), s2)
                    | (None, s2) \<Rightarrow>
                        (case je_EnqueueProvisionJob (d_JobEnqueuer deps) (ue_now env) (wl_ID w) s2 of
                           (Some err, s3) \<Rightarrow>
                             let (_, s4) = wr_Delete (d_WorkloadRepo deps) (wl_ID w) s3
                             in (Inl (Wrapf ''usecase.SubmitWorkload: Enqueue'' err), s4)
                         | (None, s3) \<Rightarrow> (Inr \<lparr>so_WorkloadID = wl_ID w, so_Status = wl_Status w\<rparr>, s3))))"

record AddCredentialInput =
  ai_WorkloadID :: WorkloadID
  ai_Provider :: CloudProvider
  ai_CredType :: CredentialType
  ai_RawPayload :: bytes

definition addCredential_Execute ::
    "'w Dependencies \<Rightarrow> uc_env \<Rightarrow> AddCredentialInput \<Rightarrow> 'w \<Rightarrow> (ierr + string) \<times> 'w" where
  "addCredential_Execute deps env inp s =
     (case wr_FindByID (d_WorkloadRepo deps) (ai_WorkloadID inp) s of
        (Inl err, s1) \<Rightarrow> (Inl (Wrapf ''usecase.AddCredential: FindByID'' err), s1)
      | (Inr w, s1) \<Rightarrow>
          (case NewCloudCredential (ue_rnd env) (ue_uuid env) (ue_now env) (wl_ID w) (ai_Provider inp) (ai_CredType inp)
                  (ai_RawPayload inp) (d_Encryptor deps) of
             Inl err \<Rightarrow> (Inl (Wrapf ''usecase.AddCredential: domain.NewCloudCredential'' err), s1)
           | Inr c \<Rightarrow>
               (case cr_Save (d_CredentialRepo deps) c s1 of
                  (Some err, s2) \<Rightarrow> (Inl (Wrapf ''usecase.AddCredential: Save'' err), s2)
                | (None, s2) \<Rightarrow> (Inr (cr_ID c), s2))))"

text \<open>The headers of a webhook, which no code reads, are left out of its input.\<close>

record ProcessWebhookInput =
  pi_Provider :: WebhookProvider
  pi_RawPayload :: bytes
  pi_Signature :: string

record ProcessWebhookOutput =
  po_JobID :: string
  po_WorkloadName :: string
  po_CommitSHA :: string

type_synonym 'w WebhookSecretStore = "string \<Rightarrow> 'w \<Rightarrow> (ierr + string) \<times> 'w"

definition webhookEvent :: "ProcessWebhookInput \<Rightarrow> WebhookEvent" where
  "webhookEvent inp = \<lparr>we_ID = [], we_Provider = pi_Provider inp, we_WorkloadName = ''test-workload'',
     we_RepoURL = ''https://github.com/test'', we_Branch = ''main'', we_CommitSHA = ''abcdef'', we_CommitMsg = [], we_PushedBy = [],
     we_TriggeredAt = zero_time, we_Signature = pi_Signature inp, we_RawPayload = pi_RawPayload inp\<rparr>"

definition webhook_Execute ::
    "'w Dependencies \<Rightarrow> 'w WebhookSecretStore \<Rightarrow> hmac \<Rightarrow> ProcessWebhookInput \<Rightarrow> 'w \<Rightarrow> (ierr + ProcessWebhookOutput) \<times> 'w" where
  "webhook_Execute deps GetSecret hmac inp s =
     (let event = webhookEvent inp in
      case GetSecret (we_WorkloadName event) s of
        (Inl err, s1) \<Rightarrow> (Inl (Wrapf ''usecase.ProcessWebhook: GetSecret'' err), s1)
      | (Inr secret, s1) \<Rightarrow>
          (case VerifySignature hmac event secret of
             Some _ \<Rightarrow> (Inl (Sentinel ErrInvalidSignature), s1)
           | None \<Rightarrow>
               (case wr_FindByName (d_WorkloadRepo deps) (we_WorkloadName event) s1 of
                  (Inl err, s2) \<Rightarrow> (Inl (Wrapf ''usecase.ProcessWebhook'' err), s2)
                | (Inr w, s2) \<Rightarrow>
                    if wl_Status w \<noteq> WorkloadStatusRunning \<and> wl_Status w \<noteq> WorkloadStatusPending
                    then (Inl (Opaque ''usecase.ProcessWebhook: workload not in buildable state''), s2)
                    else case je_EnqueueBuildJob (d_JobEnqueuer deps) (wl_ID w) event s2 of
                           (Some err, s3) \<Rightarrow> (Inl (Wrapf ''usecase.ProcessWebhook: EnqueueBuildJob'' err), s3)
                         | (None, s3) \<Rightarrow> (Inr \<lparr>po_JobID = ''fake-job-id'', po_WorkloadName = wl_Name w,
                                             po_CommitSHA = we_CommitSHA event\<rparr>, s3))))"

section \<open>The contract of the queue\<close>

text \<open>A task that was accepted is pending; one that was refused may be.\<close>

locale job_enqueuer =
  fixes JE :: "'w JobEnqueuer" and jobs :: "'w \<Rightarrow> Task list" and str :: "gotime \<Rightarrow> string"
  assumes provision: "je_EnqueueProvisionJob JE now i w = (res, w') \<Longrightarrow>
      jobs w' = jobs w @ [provisionTask str now i] \<or> res \<noteq> None \<and> jobs w' = jobs w"
    and build: "je_EnqueueBuildJob JE i ev w = (res, w') \<Longrightarrow>
      jobs w' = jobs w @ [buildTask str i ev] \<or> res \<noteq> None \<and> jobs w' = jobs w"

text \<open>The two stores of the service do not disturb each other.\<close>

locale ingestion = workload_repository WR wls inv + job_enqueuer JE jobs str
  for WR :: "'w WorkloadRepository" and wls inv and JE :: "'w JobEnqueuer" and jobs str +
  assumes save_jobs: "wr_Save WR x w = (res, w') \<Longrightarrow> jobs w' = jobs w"
    and name_jobs: "wr_FindByName WR n w = (out, w') \<Longrightarrow> jobs w' = jobs w"
    and delete_jobs: "wr_Delete WR i w = (res, w') \<Longrightarrow> jobs w' = jobs w"
    and provision_wls: "je_EnqueueProvisionJob JE now i w = (res, w') \<Longrightarrow> wls w' = wls w \<and> inv w' = inv w"
    and build_wls: "je_EnqueueBuildJob JE i ev w = (res, w') \<Longrightarrow> wls w' = wls w \<and> inv w' = inv w"

section \<open>Submission\<close>

abbreviation submitted :: "uc_env \<Rightarrow> SubmitWorkloadInput \<Rightarrow> ierr + Workload" where
  "submitted env inp \<equiv> NewWorkload (ue_uuid env) (ue_created env) (ue_updated env) (si_Name inp) (si_Source inp)
     (si_PrimaryRegion inp) (si_StandbyRegions inp) (si_Compute inp) (si_Database inp) (si_Failover inp)"

definition input_ok :: "uc_env \<Rightarrow> SubmitWorkloadInput \<Rightarrow> bool" where
  "input_ok env inp = (json_time_ok (ue_created env) \<and> json_time_ok (ue_updated env) \<and> distinct (map fst (cs_Env (si_Compute inp))))"

lemma submitted_storable:
  "input_ok env inp \<Longrightarrow> submitted env inp = Inr w \<Longrightarrow> wl_storable w \<and> wl_ID w = ue_uuid env \<and> wl_Name w = si_Name inp
     \<and> wl_Status w = WorkloadStatusPending"
  by (auto simp: NewWorkload_def wl_storable_def input_ok_def Let_def split: option.splits)

context ingestion
begin

lemma submit_faulty:
  assumes inv: "inv s" and ok: "input_ok env inp" and deps: "d_WorkloadRepo deps = WR" "d_JobEnqueuer deps = JE"
    and run: "submit_Execute deps env inp s = (out, s')"
  shows "inv s' \<and> (case out of
      Inr so \<Rightarrow> \<exists>w. submitted env inp = Inr w \<and> so = \<lparr>so_WorkloadID = wl_ID w, so_Status = wl_Status w\<rparr>
        \<and> wls s' = wls s @ [w] \<and> jobs s' = jobs s @ [provisionTask str (ue_now env) (ue_uuid env)]
    | Inl e \<Rightarrow> (wls s' = wls s \<or> (\<exists>w. submitted env inp = Inr w \<and> wls s' = wls s @ [w]))
        \<and> (jobs s' = jobs s \<or> jobs s' = jobs s @ [provisionTask str (ue_now env) (ue_uuid env)]))"
proof (cases "submitted env inp")
  case (Inl e)
  then show ?thesis using run inv by (auto simp: submit_Execute_def)
next
  case (Inr w)
  note w = submitted_storable [OF ok Inr]
  obtain f s1 where f: "wr_FindByName WR (si_Name inp) s = (f, s1)" by fastforce
  have s1: "inv s1" "wls s1 = wls s" "jobs s1 = jobs s" using by_name [OF inv f] name_jobs [OF f] by auto
  show ?thesis
  proof (cases "f = Inl (Sentinel ErrWorkloadNotFound)")
    case False
    then show ?thesis using run deps Inr f s1 by (auto simp: submit_Execute_def split: sum.splits)
  next
    case True
    obtain r s2 where sv: "wr_Save WR w s1 = (r, s2)" by fastforce
    note s2 = save [OF s1(1) conjunct1 [OF w] sv] save_jobs [OF sv]
    show ?thesis
    proof (cases r)
      case (Some e)
      then show ?thesis using run deps Inr f True sv s1 s2 by (auto simp: submit_Execute_def)
    next
      case None
      obtain j s3 where j: "je_EnqueueProvisionJob JE (ue_now env) (wl_ID w) s2 = (j, s3)" by fastforce
      note s3 = provision [OF j] provision_wls [OF j]
      show ?thesis
      proof (cases j)
        case None
        then show ?thesis using run deps Inr f True sv \<open>r = None\<close> j s1 s2 s3 w by (auto simp: submit_Execute_def)
      next
        case (Some e)
        obtain dl s4 where d: "wr_Delete WR (wl_ID w) s3 = (dl, s4)" by fastforce
        have "inv s3" using s2 s3 by simp
        note s4 = delete [OF this d] delete_jobs [OF d]
        have restored: "filter (\<lambda>x. wl_ID x \<noteq> wl_ID w) (wls s @ [w]) = wls s"
          if "\<forall>y \<in> set (wls s). wl_ID y \<noteq> wl_ID w" using that by simp
        show ?thesis
          using run deps Inr f True sv \<open>r = None\<close> j Some d s1 s2 s3 s4 w restored
          by (auto simp: submit_Execute_def)
      qed
    qed
  qed
qed

end

text \<open>With a reliable repository the queue may still fail: then the workload is removed again.\<close>

locale ingestion_up = ingestion WR wls inv JE jobs str + workload_repository_up WR wls inv
  for WR :: "'w WorkloadRepository" and wls inv and JE :: "'w JobEnqueuer" and jobs str
begin

lemma submit_rollback:
  assumes inv: "inv s" and ok: "input_ok env inp" and deps: "d_WorkloadRepo deps = WR" "d_JobEnqueuer deps = JE"
    and run: "submit_Execute deps env inp s = (Inl e, s')"
  shows "wls s' = wls s"
proof (cases "submitted env inp")
  case (Inl e)
  then show ?thesis using run by (auto simp: submit_Execute_def)
next
  case (Inr w)
  note w = submitted_storable [OF ok Inr]
  obtain f s1 where f: "wr_FindByName WR (si_Name inp) s = (f, s1)" by fastforce
  have s1: "inv s1" "wls s1 = wls s" using by_name [OF inv f] by auto
  show ?thesis
  proof (cases "f = Inl (Sentinel ErrWorkloadNotFound)")
    case False
    then show ?thesis using run deps Inr f s1 by (auto simp: submit_Execute_def split: sum.splits)
  next
    case True
    obtain r s2 where sv: "wr_Save WR w s1 = (r, s2)" by fastforce
    note s2 = save_refines [OF s1(1) conjunct1 [OF w] sv]
    show ?thesis
    proof (cases r)
      case (Some x)
      then show ?thesis using run deps Inr f True sv s1 s2 by (auto simp: submit_Execute_def spec_Save_def split: if_splits)
    next
      case None
      obtain j s3 where j: "je_EnqueueProvisionJob JE (ue_now env) (wl_ID w) s2 = (j, s3)" by fastforce
      have "inv s3" using s2 provision_wls [OF j] by simp
      then obtain s4 where d: "wr_Delete WR (wl_ID w) s3 = (None, s4)" "wls s4 = spec_Delete (wl_ID w) (wls s3)"
        using delete_refines by blast
      then show ?thesis
        using run deps Inr f True sv None j s1 s2 provision_wls [OF j]
        by (auto simp: submit_Execute_def spec_Save_def spec_Delete_def split: if_splits option.splits)
    qed
  qed
qed

end

end
