(* ===== verification/Ingestion_Handler.thy ===== *)
theory Ingestion_Handler
  imports Ingestion_Usecases Http
begin

text \<open>
  The presentation layer of the ingestion service: \<^verbatim>\<open>internal/ingestion/handler\<close> and its wiring in
  \<^verbatim>\<open>internal/ingestion/di/module.go\<close>. Protobuf enums are open, so they are integers; a message field that may be
  absent is an option, and the generated getters return the zero value for an absent message.
\<close>

section \<open>Messages\<close>

record v1_RegionTarget =
  tg_Provider :: int
  tg_Region :: int

record v1_SourceSpec =
  sp_Type :: string
  sp_RepoUrl :: string
  sp_Branch :: string
  sp_Dockerfile :: string
  sp_ImageRef :: string

record v1_ResourceSpec =
  rs_Cpu :: string
  rs_Memory :: string
  rs_Replicas :: int32

record v1_DatabaseSpec =
  ds_Engine :: string
  ds_Version :: string
  ds_StorageGb :: int32

record v1_RegionConfig =
  rg_Primary :: "v1_RegionTarget option"
  rg_Standbys :: "v1_RegionTarget list"

record v1_WorkloadDescriptor =
  wd_Name :: string
  wd_Source :: "v1_SourceSpec option"
  wd_Regions :: "v1_RegionConfig option"
  wd_Compute :: "v1_ResourceSpec option"
  wd_Database :: "v1_DatabaseSpec option"
  wd_Failover :: "FailoverConfig option"

record v1_CloudCredentials =
  cc_Id :: string
  cc_Provider :: int
  cc_CredentialType :: string
  cc_EncryptedPayload :: bytes

record SubmitWorkloadResponse =
  sw_WorkloadId :: string
  sw_Status :: int
  sw_Message :: string

record AddCloudCredentialsResponse =
  ac_CredentialId :: string
  ac_Success :: bool
  ac_Message :: string

record GetWorkloadStatusResponse =
  gw_WorkloadName :: string
  gw_Status :: int
  gw_PrimaryRegion :: v1_RegionTarget
  gw_StandbyRegions :: "v1_RegionTarget list"
  gw_LastUpdated :: gotime

text \<open>A getter on an absent message.\<close>

definition get :: "('m \<Rightarrow> 'a) \<Rightarrow> 'a \<Rightarrow> 'm option \<Rightarrow> 'a" where
  "get f zero m = (case m of None \<Rightarrow> zero | Some x \<Rightarrow> f x)"

section \<open>Mappings\<close>

definition mapCloudProvider :: "int \<Rightarrow> string" where
  "mapCloudProvider p =
     (if p = 1 then CloudProviderAWS else if p = 2 then CloudProviderAzure else if p = 3 then CloudProviderGCP else [])"

definition reverseCloudProvider :: "CloudProvider \<Rightarrow> int" where
  "reverseCloudProvider p =
     (if p = CloudProviderAWS then 1 else if p = CloudProviderAzure then 2 else if p = CloudProviderGCP then 3 else 0)"

definition mapDomainStatus :: "WorkloadStatus \<Rightarrow> int" where
  "mapDomainStatus s =
     (if s = WorkloadStatusPending then 1
      else if s = WorkloadStatusBuilding then 2
      else if s = WorkloadStatusDeploying then 3
      else if s = WorkloadStatusRunning then 4
      else if s = WorkloadStatusFailing then 5
      else if s = WorkloadStatusFailed then 6
      else if s = WorkloadStatusFailover then 7
      else 0)"

definition mapRegion :: "int \<Rightarrow> string" where
  "mapRegion r = (if r = 1 then ''ap-south-1'' else if r = 2 then ''us-east-1'' else ''unknown-region'')"

definition reverseRegion :: "string \<Rightarrow> int" where
  "reverseRegion n = (if n = ''ap-south-1'' then 1 else if n = ''us-east-1'' then 2 else 0)"

definition is_validation :: "ierr \<Rightarrow> bool" where
  "is_validation err = (case unwrap_all err of Sentinel (ValidationErrors _) \<Rightarrow> True | _ \<Rightarrow> False)"

definition ing_mapDomainError :: "ierr \<Rightarrow> rpc_error" where
  "ing_mapDomainError err =
     (if is_validation err then ConnectErr CodeInvalidArgument (err_Error err)
      else if errors_Is err ErrInvalidWorkloadName \<or> errors_Is err ErrInvalidSource \<or> errors_Is err ErrInvalidRTO
        \<or> errors_Is err ErrInvalidRPO then ConnectErr CodeInvalidArgument (err_Error err)
      else if errors_Is err ErrWorkloadNotFound then ConnectErr CodeNotFound (err_Error err)
      else if errors_Is err ErrWorkloadAlreadyExists then ConnectErr CodeAlreadyExists (err_Error err)
      else ConnectErr CodeInternal (err_Error err))"

section \<open>Remote procedures\<close>

record 'w IngestionHandler =
  ih_deps :: "'w Dependencies"
  ih_workloadRepo :: "'w WorkloadRepository"

definition toRegion :: "v1_RegionTarget \<Rightarrow> Region" where
  "toRegion t = \<lparr>r_Provider = mapCloudProvider (tg_Provider t), r_Name = mapRegion (tg_Region t)\<rparr>"

definition toInput :: "v1_WorkloadDescriptor \<Rightarrow> v1_RegionTarget \<Rightarrow> SubmitWorkloadInput" where
  "toInput d primary = \<lparr>
     si_Name = wd_Name d,
     si_Source = \<lparr>src_Type = get sp_Type [] (wd_Source d), src_RepoURL = get sp_RepoUrl [] (wd_Source d),
       src_Branch = get sp_Branch [] (wd_Source d), src_Dockerfile = get sp_Dockerfile [] (wd_Source d),
       src_ImageRef = get sp_ImageRef [] (wd_Source d)\<rparr>,
     si_PrimaryRegion = toRegion primary,
     si_StandbyRegions = map toRegion (get rg_Standbys [] (wd_Regions d)),
     si_Compute = \<lparr>cs_CPU = get rs_Cpu [] (wd_Compute d), cs_Memory = get rs_Memory [] (wd_Compute d),
       cs_Replicas = get rs_Replicas 0 (wd_Compute d), cs_Port = 0, cs_HealthCheckPath = [], cs_Env = []\<rparr>,
     si_Database = \<lparr>db_Engine = get ds_Engine [] (wd_Database d), db_Version = get ds_Version [] (wd_Database d),
       db_StorageGB = get ds_StorageGb 0 (wd_Database d), db_Tier = []\<rparr>,
     si_Failover = \<lparr>f_RTOSeconds = get f_RTOSeconds 0 (wd_Failover d), f_RPOSeconds = get f_RPOSeconds 0 (wd_Failover d),
       f_AutoFailover = get f_AutoFailover False (wd_Failover d), f_MinHealthyNodes = get f_MinHealthyNodes 0 (wd_Failover d),
       f_FencingEnabled = get f_FencingEnabled False (wd_Failover d)\<rparr>,
     si_DataResidency = []\<rparr>"

abbreviation badArgument :: rpc_error where
  "badArgument \<equiv> ConnectErr CodeInvalidArgument (ie_Error ErrInvalidWorkloadName)"

definition SubmitWorkload ::
    "'w IngestionHandler \<Rightarrow> uc_env \<Rightarrow> v1_WorkloadDescriptor option \<Rightarrow> 'w \<Rightarrow> (rpc_error + SubmitWorkloadResponse) \<times> 'w" where
  "SubmitWorkload h env workload s =
     (case workload of
        None \<Rightarrow> (Inl badArgument, s)
      | Some d \<Rightarrow>
          (case get rg_Primary None (wd_Regions d) of
             None \<Rightarrow> (Inl badArgument, s)
           | Some primary \<Rightarrow>
               (case submit_Execute (ih_deps h) env (toInput d primary) s of
                  (Inl err, s') \<Rightarrow> (Inl (ing_mapDomainError err), s')
                | (Inr out, s') \<Rightarrow> (Inr \<lparr>sw_WorkloadId = so_WorkloadID out, sw_Status = mapDomainStatus (so_Status out),
                                      sw_Message = ''Workload submitted successfully''\<rparr>, s'))))"

definition AddCloudCredentials ::
    "'w IngestionHandler \<Rightarrow> uc_env \<Rightarrow> v1_CloudCredentials option \<Rightarrow> 'w \<Rightarrow> (rpc_error + AddCloudCredentialsResponse) \<times> 'w" where
  "AddCloudCredentials h env credentials s =
     (case credentials of
        None \<Rightarrow> (Inl badArgument, s)
      | Some c \<Rightarrow>
          (case addCredential_Execute (ih_deps h) env \<lparr>ai_WorkloadID = cc_Id c, ai_Provider = mapCloudProvider (cc_Provider c),
                  ai_CredType = cc_CredentialType c, ai_RawPayload = cc_EncryptedPayload c\<rparr> s of
             (Inl err, s') \<Rightarrow> (Inl (ing_mapDomainError err), s')
           | (Inr i, s') \<Rightarrow> (Inr \<lparr>ac_CredentialId = i, ac_Success = True, ac_Message = ''Credentials added successfully''\<rparr>, s')))"

text \<open>Each standby is reported with the provider of the primary region.\<close>

definition GetWorkloadStatus ::
    "'w IngestionHandler \<Rightarrow> string \<Rightarrow> 'w \<Rightarrow> (rpc_error + GetWorkloadStatusResponse) \<times> 'w" where
  "GetWorkloadStatus h name s =
     (case wr_FindByName (ih_workloadRepo h) name s of
        (Inl err, s') \<Rightarrow> (Inl (ing_mapDomainError err), s')
      | (Inr w, s') \<Rightarrow>
          let standbys = map (\<lambda>sb. \<lparr>tg_Provider = reverseCloudProvider (r_Provider (wl_PrimaryRegion w)),
                                  tg_Region = reverseRegion (r_Name sb)\<rparr>) (wl_StandbyRegions w)
          in (Inr \<lparr>gw_WorkloadName = wl_Name w, gw_Status = mapDomainStatus (wl_Status w),
                gw_PrimaryRegion = \<lparr>tg_Provider = reverseCloudProvider (r_Provider (wl_PrimaryRegion w)),
                                  tg_Region = reverseRegion (r_Name (wl_PrimaryRegion w))\<rparr>,
                gw_StandbyRegions = standbys, gw_LastUpdated = wl_UpdatedAt w\<rparr>, s'))"

definition ListWorkloads :: "'w \<Rightarrow> (rpc_error + unit) \<times> 'w" where
  "ListWorkloads s = (Inl (ConnectErr CodeUnimplemented ''list workloads not implemented''), s)"

section \<open>Webhooks\<close>

definition webhookInput :: "http_request \<Rightarrow> bytes \<Rightarrow> ProcessWebhookInput option" where
  "webhookInput r body =
     (if hdr_Get (hr_Header r) ''X-Hub-Signature-256'' \<noteq> []
      then Some \<lparr>pi_Provider = ''github'', pi_RawPayload = body, pi_Signature = hdr_Get (hr_Header r) ''X-Hub-Signature-256''\<rparr>
      else if hdr_Get (hr_Header r) ''X-Gitlab-Token'' \<noteq> []
      then Some \<lparr>pi_Provider = ''gitlab'', pi_RawPayload = body, pi_Signature = hdr_Get (hr_Header r) ''X-Gitlab-Token''\<rparr>
      else None)"

definition webhook_ServeHTTP :: "'w Dependencies \<Rightarrow> 'w WebhookSecretStore \<Rightarrow> hmac \<Rightarrow> 'w http_handler" where
  "webhook_ServeHTTP deps secrets hmac rw r s =
     (if hr_Method r \<noteq> ''POST'' then (http_Error ''Method Not Allowed'' 405 rw, s)
      else case hr_Body r of
             None \<Rightarrow> (http_Error ''Bad Request'' 400 rw, s)
           | Some payload \<Rightarrow>
               (case webhookInput r payload of
                  None \<Rightarrow> (http_Error ''Missing Signature'' 401 rw, s)
                | Some inp \<Rightarrow>
                    (case webhook_Execute deps secrets hmac inp s of
                       (Inl err, s') \<Rightarrow>
                         (if err = Sentinel ErrInvalidSignature then http_Error ''Invalid signature'' 401 rw
                          else if err = Sentinel ErrWorkloadNotFound then http_Error ''Workload not found'' 404 rw
                          else http_Error ''Internal Server Error'' 500 rw, s')
                     | (Inr out, s') \<Rightarrow> (rw_Write ''Webhook accepted'' (rw_WriteHeader 202 rw), s'))))"

section \<open>Wiring\<close>

text \<open>The repositories use one part of the world, the database, and the enqueuer the other, the queue.\<close>

definition on_db :: "('p \<Rightarrow> 'a \<times> 'p) \<Rightarrow> 'p \<times> 'q \<Rightarrow> 'a \<times> ('p \<times> 'q)" where
  "on_db = lift_part fst (\<lambda>p w. (p, snd w))"

definition wiredWorkloadRepo :: "(wl_row, 'p) pgx \<Rightarrow> ('p \<times> 'q) WorkloadRepository" where
  "wiredWorkloadRepo Q = \<lparr>wr_Save = (\<lambda>x. on_db (wl_Save Q x)), wr_FindByID = (\<lambda>i. on_db (wl_FindByID Q i)),
     wr_FindByName = (\<lambda>n. on_db (wl_FindByName Q n)), wr_FindAll = (\<lambda>l n. on_db (wl_FindAll l n)),
     wr_UpdateStatus = (\<lambda>i st. on_db (wl_UpdateStatus Q i st)), wr_Delete = (\<lambda>i. on_db (wl_Delete Q i))\<rparr>"

definition wiredCredentialRepo :: "(CloudCredential, 'p) pgx \<Rightarrow> ('p \<times> 'q) CredentialRepository" where
  "wiredCredentialRepo Q = \<lparr>cr_Save = (\<lambda>c. on_db (cred_Save Q c)),
     cr_FindByWorkloadAndProvider = (\<lambda>i p. on_db (cred_FindByWorkloadAndProvider Q i p)),
     cr_FindAllByWorkload = (\<lambda>i. on_db (cred_FindAllByWorkload i)), cr_Delete = (\<lambda>i. on_db (cred_Delete Q i))\<rparr>"

definition wiredEnqueuer :: "'q asynq \<Rightarrow> (gotime \<Rightarrow> string) \<Rightarrow> ('p \<times> 'q) JobEnqueuer" where
  "wiredEnqueuer client str = NewAsynqJobEnqueuer snd (\<lambda>q w. (fst w, q)) client str"

record ('p, 'q) Module =
  mod_RPCHandler :: "('p \<times> 'q) IngestionHandler"
  mod_WebhookHandler :: "('p \<times> 'q) http_handler"

definition ing_Bootstrap ::
    "(wl_row, 'p) pgx \<Rightarrow> (CloudCredential, 'p) pgx \<Rightarrow> 'q asynq \<Rightarrow> (gotime \<Rightarrow> string) \<Rightarrow> gcm \<Rightarrow> hmac
      \<Rightarrow> ('p \<times> 'q) WebhookSecretStore \<Rightarrow> (string \<times> bytes) list \<Rightarrow> string \<Rightarrow> ierr + ('p, 'q) Module" where
  "ing_Bootstrap Qw Qc client str G hmac secrets cryptoKeys activeVersion =
     (case NewAESEncryptor cryptoKeys activeVersion of
        Inl err \<Rightarrow> Inl err
      | Inr encryptor \<Rightarrow>
          let deps = \<lparr>d_WorkloadRepo = wiredWorkloadRepo Qw, d_CredentialRepo = wiredCredentialRepo Qc,
                      d_JobEnqueuer = wiredEnqueuer client str, d_Encryptor = aesEncryptor G encryptor\<rparr>
          in Inr \<lparr>mod_RPCHandler = \<lparr>ih_deps = deps, ih_workloadRepo = wiredWorkloadRepo Qw\<rparr>,
                mod_WebhookHandler = webhook_ServeHTTP deps secrets hmac\<rparr>)"

end
