(* ===== verification/Ingestion_Properties.thy ===== *)
theory Ingestion_Properties
  imports Ingestion_Handler
begin

text \<open>
  What holds of the ingestion service as it is wired: the repositories on PostgreSQL and the enqueuer on asynq
  meet the contracts the use cases rely on, and the properties of the remote procedures and of the webhook
  follow from the use cases.
\<close>

section \<open>The wired service\<close>

locale asynq_client =
  fixes EQ :: "'q asynq" and pend :: "'q \<Rightarrow> Task list"
  assumes enqueue: "EQ t q = (res, q') \<Longrightarrow> pend q' = pend q @ [t] \<or> res \<noteq> None \<and> pend q' = pend q"

locale asynq_client_up = asynq_client +
  assumes enqueue_up: "\<exists>q'. EQ t q = (None, q')"

lemma on_db_eq: "on_db f w = (r, w') \<longleftrightarrow> (\<exists>p. f (fst w) = (r, p) \<and> w' = (p, snd w))"
  by (auto simp: on_db_def lift_part_def split: prod.splits)

lemma lift_queue_eq: "lift_part snd (\<lambda>q w. (fst w, q)) f w = (r, w') \<longleftrightarrow> (\<exists>q. f (snd w) = (r, q) \<and> w' = (fst w, q))"
  by (auto simp: lift_part_def split: prod.splits)

lemmas wired_simps = wiredWorkloadRepo_def wiredCredentialRepo_def wiredEnqueuer_def NewAsynqJobEnqueuer_def on_db_eq lift_queue_eq

locale ingestion_setup = pg_workloads Q tbl + asynq_client EQ pend
  for Q :: "(wl_row, 'p) pgx" and tbl and EQ :: "'q asynq" and pend +
  fixes str :: "gotime \<Rightarrow> string"

sublocale ingestion_setup \<subseteq> wired: ingestion "wiredWorkloadRepo Q" "\<lambda>w. wl_view (tbl (fst w))" "\<lambda>w. wl_inv (tbl (fst w))"
    "wiredEnqueuer EQ str" "\<lambda>w. pend (snd w)" str
proof (standard, goal_cases)
  case (1 w x res w')
  then show ?case using save [of "fst w" x res "fst w'"] by (auto simp: wired_simps pgWorkloadRepo_def)
next
  case (2 w n out w')
  then show ?case using by_name [of "fst w" n out "fst w'"] by (auto simp: wired_simps pgWorkloadRepo_def)
next
  case (3 w i out w')
  then show ?case using by_id [of "fst w" i out "fst w'"] by (auto simp: wired_simps pgWorkloadRepo_def)
next
  case (4 w i res w')
  then show ?case using delete [of "fst w" i res "fst w'"] by (auto simp: wired_simps pgWorkloadRepo_def)
next
  case (5 w)
  then show ?case by (rule unique)
next
  case (6 now i w res w')
  then show ?case using enqueue [of "provisionTask str now i" "snd w"]
    by (fastforce simp: wired_simps EnqueueProvisionJob_def split: prod.splits option.splits)
next
  case (7 i ev w res w')
  then show ?case using enqueue [of "buildTask str i ev" "snd w"]
    by (fastforce simp: wired_simps EnqueueBuildJob_def split: prod.splits option.splits)
qed (auto simp: wired_simps)

locale ingestion_setup_up = pg_workloads_up Q tbl + asynq_client EQ pend
  for Q :: "(wl_row, 'p) pgx" and tbl and EQ :: "'q asynq" and pend +
  fixes str :: "gotime \<Rightarrow> string"

sublocale ingestion_setup_up \<subseteq> ingestion_setup ..

sublocale ingestion_setup_up \<subseteq> wired: ingestion_up "wiredWorkloadRepo Q" "\<lambda>w. wl_view (tbl (fst w))"
    "\<lambda>w. wl_inv (tbl (fst w))" "wiredEnqueuer EQ str" "\<lambda>w. pend (snd w)" str
proof (standard, goal_cases)
  case (1 w x)
  then show ?case using save_up [of "fst w" x] by (auto simp: wired_simps pgWorkloadRepo_def)
next
  case (2 w n)
  then show ?case using by_name_up [of "fst w" n] by (auto simp: wired_simps pgWorkloadRepo_def)
next
  case (3 w i)
  then show ?case using by_id_up [of "fst w" i] by (auto simp: wired_simps pgWorkloadRepo_def)
next
  case (4 w i)
  then show ?case using delete_up [of "fst w" i] by (auto simp: wired_simps pgWorkloadRepo_def)
qed

text \<open>A queue that accepts, and one that refuses, every task.\<close>

definition list_asynq :: "(Task list) asynq" where "list_asynq t q = (None, q @ [t])"

definition dead_asynq :: "(Task list) asynq" where "dead_asynq t q = (Some ''connection refused'', q)"

interpretation good_queue: ingestion_setup_up "pure_pg wl_clash" "\<lambda>tb. tb" list_asynq "\<lambda>q. q" "\<lambda>t. dec_int t"
  by standard (auto simp: list_asynq_def)

interpretation list_queue: asynq_client_up list_asynq "\<lambda>q. q"
  by standard (auto simp: list_asynq_def)

interpretation dead_queue: ingestion_setup_up "pure_pg wl_clash" "\<lambda>tb. tb" dead_asynq "\<lambda>q. q" "\<lambda>t. dec_int t"
  by standard (auto simp: dead_asynq_def)

section \<open>Webhooks through the use case\<close>

definition secrets_ok :: "('w \<Rightarrow> Workload list) \<Rightarrow> ('w \<Rightarrow> bool) \<Rightarrow> ('w \<Rightarrow> Task list) \<Rightarrow> 'w WebhookSecretStore \<Rightarrow> bool" where
  "secrets_ok wls ok jobs GetSecret =
     (\<forall>n s out s'. GetSecret n s = (out, s') \<longrightarrow> wls s' = wls s \<and> ok s' = ok s \<and> jobs s' = jobs s)"

context ingestion
begin

lemma webhook_faulty:
  assumes inv: "inv s" and deps: "d_WorkloadRepo deps = WR" "d_JobEnqueuer deps = JE" and sec: "secrets_ok wls inv jobs GetSecret"
    and run: "webhook_Execute deps GetSecret hmac inp s = (out, s')"
  shows "inv s' \<and> wls s' = wls s
    \<and> (jobs s' = jobs s \<and> (\<exists>e. out = Inl e)
       \<or> (\<exists>secret w. fst (GetSecret ''test-workload'' s) = Inr secret \<and> VerifySignature hmac (webhookEvent inp) secret = None
            \<and> w \<in> set (wls s) \<and> wl_Name w = ''test-workload'' \<and> wl_Status w \<in> {WorkloadStatusRunning, WorkloadStatusPending}
            \<and> jobs s' = jobs s @ [buildTask str (wl_ID w) (webhookEvent inp)]))"
proof -
  have nm: "we_WorkloadName (webhookEvent inp) = ''test-workload''" by (simp add: webhookEvent_def)
  obtain g s1 where g: "GetSecret ''test-workload'' s = (g, s1)" by fastforce
  have s1: "inv s1" "wls s1 = wls s" "jobs s1 = jobs s" using sec inv g by (auto simp: secrets_ok_def)
  obtain f s2 where f: "wr_FindByName WR ''test-workload'' s1 = (f, s2)" by fastforce
  note s2 = by_name [OF s1(1) f] name_jobs [OF f]
  show ?thesis
  proof (cases "\<exists>secret w. g = Inr secret \<and> VerifySignature hmac (webhookEvent inp) secret = None \<and> f = Inr w
      \<and> wl_Status w \<in> {WorkloadStatusRunning, WorkloadStatusPending}")
    case False
    then show ?thesis
      using run g f s1 s2 deps by (auto simp: webhook_Execute_def nm Let_def split: sum.splits option.splits if_splits)
  next
    case True
    then obtain secret w where t: "g = Inr secret" "VerifySignature hmac (webhookEvent inp) secret = None" "f = Inr w"
        "wl_Status w \<in> {WorkloadStatusRunning, WorkloadStatusPending}" by blast
    obtain j s3 where j: "je_EnqueueBuildJob JE (wl_ID w) (webhookEvent inp) s2 = (j, s3)" by fastforce
    have st: "s' = s3" "j \<noteq> None \<Longrightarrow> \<exists>e. out = Inl e"
      using run g f t deps j by (auto simp: webhook_Execute_def nm Let_def split: option.splits)
    have w: "w \<in> set (wls s)" "wl_Name w = ''test-workload''" using s2 t s1 by auto
    show ?thesis using build [OF j] build_wls [OF j] s1 s2 st g t w by auto
  qed
qed

end

context ingestion_up
begin

lemma submit_up:
  assumes inv: "inv s" and ok: "input_ok env inp" and deps: "d_WorkloadRepo deps = WR" "d_JobEnqueuer deps = JE"
    and w: "submitted env inp = Inr w" and free: "\<forall>y \<in> set (wls s). wl_ID y \<noteq> ue_uuid env \<and> wl_Name y \<noteq> si_Name inp"
    and queue: "\<And>now i x. \<exists>x'. je_EnqueueProvisionJob JE now i x = (None, x')"
  shows "\<exists>s'. submit_Execute deps env inp s = (Inr \<lparr>so_WorkloadID = wl_ID w, so_Status = wl_Status w\<rparr>, s')
    \<and> inv s' \<and> wls s' = wls s @ [w]"
proof -
  note st = submitted_storable [OF ok w]
  have "find (\<lambda>x. wl_Name x = si_Name inp) (wls s) = None" using free by (auto simp: find_None_iff)
  then obtain s1 where f: "wr_FindByName WR (si_Name inp) s = (Inl (Sentinel ErrWorkloadNotFound), s1)"
      "wls s1 = wls s" "inv s1"
    using name_refines [OF inv, of "si_Name inp"] by (auto simp: spec_Find_def)
  obtain s2 where sv: "wr_Save WR w s1 = (None, s2)" "wls s2 = wls s @ [w]"
    using save_up [OF f(3), of w] st free f(2) by auto
  have i2: "inv s2" using save_refines [OF f(3) _ sv(1)] st by simp
  obtain s3 where j: "je_EnqueueProvisionJob JE (ue_now env) (wl_ID w) s2 = (None, s3)" using queue by blast
  show ?thesis using w f sv j i2 provision_wls [OF j] deps by (auto simp: submit_Execute_def)
qed

end

section \<open>Properties\<close>

lemma bootstrap_parts:
  assumes "ing_Bootstrap Qw Qc client str G hmac secrets keys v = Inr m"
  shows "ih_workloadRepo (mod_RPCHandler m) = wiredWorkloadRepo Qw"
    "d_WorkloadRepo (ih_deps (mod_RPCHandler m)) = wiredWorkloadRepo Qw"
    "d_CredentialRepo (ih_deps (mod_RPCHandler m)) = wiredCredentialRepo Qc"
    "d_JobEnqueuer (ih_deps (mod_RPCHandler m)) = wiredEnqueuer client str"
    "\<exists>e. NewAESEncryptor keys v = Inr e \<and> d_Encryptor (ih_deps (mod_RPCHandler m)) = aesEncryptor G e"
    "mod_WebhookHandler m = webhook_ServeHTTP (ih_deps (mod_RPCHandler m)) secrets hmac"
  using assms by (auto simp: ing_Bootstrap_def Let_def split: sum.splits)

context ingestion_setup
begin

lemmas submit_any = wired.submit_faulty
lemmas webhook_any = wired.webhook_faulty

end

context ingestion_setup_up
begin

lemmas submit_undone = wired.submit_rollback
lemmas submit_works = wired.submit_up
lemmas status_works = wired.name_refines

end

lemma toInput_ok: "json_time_ok (ue_created env) \<Longrightarrow> json_time_ok (ue_updated env) \<Longrightarrow> input_ok env (toInput d t)"
  by (simp add: input_ok_def toInput_def)

text \<open>C4: Whatever database and queue do, a submission that is reported as successful has stored exactly one
  pending workload under the fresh id and the requested name and has queued exactly one provisioning task for it;
  one that is reported as failed has added at most that workload and at most that task. The stored rows stay well
  formed.\<close>

theorem submit_workload_outcome:
  assumes "ingestion_setup Q tbl EQ pend" and "ing_Bootstrap Q Qc EQ str G hmac secrets keys v = Inr m"
    and "wl_inv (tbl p)" and "json_time_ok (ue_created env)" and "json_time_ok (ue_updated env)"
    and "SubmitWorkload (mod_RPCHandler m) env (Some d) (p, q) = (out, (p', q'))"
  shows "wl_inv (tbl p') \<and> (case out of
      Inr resp \<Rightarrow> \<exists>w. wl_view (tbl p') = wl_view (tbl p) @ [w] \<and> wl_ID w = ue_uuid env \<and> wl_Name w = wd_Name d
        \<and> wl_Status w = WorkloadStatusPending \<and> pend q' = pend q @ [provisionTask str (ue_now env) (ue_uuid env)]
        \<and> sw_WorkloadId resp = ue_uuid env \<and> sw_Status resp = 1
    | Inl e \<Rightarrow> (wl_view (tbl p') = wl_view (tbl p) \<or> (\<exists>w. wl_view (tbl p') = wl_view (tbl p) @ [w] \<and> wl_ID w = ue_uuid env))
        \<and> (pend q' = pend q \<or> pend q' = pend q @ [provisionTask str (ue_now env) (ue_uuid env)]))"
proof (cases "get rg_Primary None (wd_Regions d)")
  case None
  then show ?thesis using assms(3,6) by (auto simp: SubmitWorkload_def)
next
  case (Some t)
  let ?deps = "ih_deps (mod_RPCHandler m)"
  obtain uo w1 where run: "submit_Execute ?deps env (toInput d t) (p, q) = (uo, w1)" by (metis surj_pair)
  note b = bootstrap_parts [OF assms(2)]
  have f: "wl_inv (tbl (fst w1)) \<and> (case uo of
      Inr so \<Rightarrow> \<exists>w. submitted env (toInput d t) = Inr w \<and> so = \<lparr>so_WorkloadID = wl_ID w, so_Status = wl_Status w\<rparr>
        \<and> wl_view (tbl (fst w1)) = wl_view (tbl p) @ [w] \<and> pend (snd w1) = pend q @ [provisionTask str (ue_now env) (ue_uuid env)]
    | Inl e \<Rightarrow> (wl_view (tbl (fst w1)) = wl_view (tbl p)
          \<or> (\<exists>w. submitted env (toInput d t) = Inr w \<and> wl_view (tbl (fst w1)) = wl_view (tbl p) @ [w]))
        \<and> (pend (snd w1) = pend q \<or> pend (snd w1) = pend q @ [provisionTask str (ue_now env) (ue_uuid env)]))"
    using ingestion_setup.submit_any [OF assms(1), where s = "(p, q)", OF _ toInput_ok [OF assms(4,5)] b(2) b(4) run] assms(3)
    by (simp split: sum.splits)
  have nm: "si_Name (toInput d t) = wd_Name d" by (simp add: toInput_def)
  show ?thesis
    using f assms(6) run Some submitted_storable [OF toInput_ok [OF assms(4,5)], of d t] nm
    by (auto simp: SubmitWorkload_def mapDomainStatus_def split: sum.splits)
qed

text \<open>The service of the examples: the executable database and a given queue, one key, a constant secret.\<close>

definition ex_secrets :: "'w WebhookSecretStore" where "ex_secrets n w = (Inr ''secret'', w)"

definition ex_boot :: "(Task list) asynq \<Rightarrow> ierr + (wl_row list, Task list) Module" where
  "ex_boot EQ = ing_Bootstrap (pure_pg wl_clash) (\<lambda>st s. (Inl (PgErr ''no credentials''), s)) EQ dec_int tag_gcm ex_hmac ex_secrets
     [(''v1'', ex_k1)] ''v1''"

lemma ex_boot_ok: "\<exists>m. ex_boot EQ = Inr m"
  by (simp add: ex_boot_def ing_Bootstrap_def NewAESEncryptor_def ex_k1_def Let_def)

definition ex_env :: uc_env where
  "ex_env = \<lparr>ue_uuid = ''w-1'', ue_created = 0, ue_updated = 0, ue_now = 0, ue_rnd = (\<lambda>n. Some (replicate n (CHR ''r'')))\<rparr>"

definition ex_descriptor :: v1_WorkloadDescriptor where
  "ex_descriptor = \<lparr>wd_Name = ''test-workload'',
     wd_Source = Some \<lparr>sp_Type = ''git'', sp_RepoUrl = ''https://github.com/test'', sp_Branch = ''main'', sp_Dockerfile = [], sp_ImageRef = []\<rparr>,
     wd_Regions = Some \<lparr>rg_Primary = Some \<lparr>tg_Provider = 1, tg_Region = 2\<rparr>, rg_Standbys = [\<lparr>tg_Provider = 2, tg_Region = 11\<rparr>]\<rparr>,
     wd_Compute = None, wd_Database = None, wd_Failover = Some ex_failover\<rparr>"

lemma ex_env_times: "json_time_ok (ue_created ex_env)" "json_time_ok (ue_updated ex_env)"
  by (simp_all add: ex_env_def json_time_ok_def)

theorem submit_workload_outcome_witness:
  "\<exists>m out p' q'. ex_boot list_asynq = Inr m \<and> SubmitWorkload (mod_RPCHandler m) ex_env (Some ex_descriptor) ([], []) = (out, (p', q'))
     \<and> wl_inv p'"
proof -
  obtain m where m: "ex_boot list_asynq = Inr m" using ex_boot_ok by blast
  obtain out p' q' where r: "SubmitWorkload (mod_RPCHandler m) ex_env (Some ex_descriptor) ([], []) = (out, (p', q'))"
    by (metis surj_pair)
  have "wl_inv []" by (simp add: wl_inv_def)
  from submit_workload_outcome [OF good_queue.ingestion_setup_axioms m [unfolded ex_boot_def] this ex_env_times r] m r
  show ?thesis by blast
qed

text \<open>C22: With a reliable database a failed submission leaves no workload behind, whatever the queue does: when the
  provisioning task is refused the workload is deleted again.\<close>

theorem submit_workload_rollback:
  assumes "ingestion_setup_up Q tbl EQ pend" and "ing_Bootstrap Q Qc EQ str G hmac secrets keys v = Inr m"
    and "wl_inv (tbl p)" and "json_time_ok (ue_created env)" and "json_time_ok (ue_updated env)"
    and "SubmitWorkload (mod_RPCHandler m) env (Some d) (p, q) = (Inl e, (p', q'))"
  shows "wl_view (tbl p') = wl_view (tbl p)"
proof (cases "get rg_Primary None (wd_Regions d)")
  case None
  then show ?thesis using assms(6) by (auto simp: SubmitWorkload_def)
next
  case (Some t)
  note b = bootstrap_parts [OF assms(2)]
  obtain x where run: "submit_Execute (ih_deps (mod_RPCHandler m)) env (toInput d t) (p, q) = (Inl x, (p', q'))"
    using assms(6) Some by (auto simp: SubmitWorkload_def split: prod.splits sum.splits)
  show ?thesis
    using ingestion_setup_up.submit_undone [OF assms(1), where s = "(p, q)", OF _ toInput_ok [OF assms(4,5)] b(2) b(4) run]
      assms(3) by simp
qed

theorem submit_workload_rollback_witness:
  "\<exists>m e p' q'. ex_boot dead_asynq = Inr m \<and> SubmitWorkload (mod_RPCHandler m) ex_env (Some ex_descriptor) ([], []) = (Inl e, (p', q'))
     \<and> wl_view p' = []"
proof -
  obtain m where m: "ex_boot dead_asynq = Inr m" using ex_boot_ok by blast
  obtain out p' q' where r: "SubmitWorkload (mod_RPCHandler m) ex_env (Some ex_descriptor) ([], []) = (out, (p', q'))"
    by (metis surj_pair)
  have inv: "wl_inv []" by (simp add: wl_inv_def)
  have refused: "je_EnqueueProvisionJob (wiredEnqueuer dead_asynq dec_int) now i w \<noteq> (None, w')"
      for now i and w w' :: "wl_row list \<times> Task list"
    by (auto simp: wired_simps EnqueueProvisionJob_def dead_asynq_def)
  have "out \<noteq> Inr x" for x
    using r bootstrap_parts [OF m [unfolded ex_boot_def]] refused
    by (auto simp: SubmitWorkload_def submit_Execute_def split: option.splits sum.splits prod.splits if_splits)
  then obtain e where "out = Inl e" by (cases out) auto
  then show ?thesis
    using submit_workload_rollback [OF dead_queue.ingestion_setup_up_axioms m [unfolded ex_boot_def] inv ex_env_times, of _ _ e p' q'] m r
    by (auto simp: wl_view_def)
qed

text \<open>C23: With reliable database and queue, a descriptor that passes validation under a new name is accepted, and
  its status can be read back: pending, with the submitted update time. Of the regions only ap-south-1 and us-east-1
  survive the mapping, all others come back as unspecified, and every standby is reported with the provider of
  the primary region, not with its own.\<close>

theorem submit_then_status:
  fixes p :: 'p and q :: 'q
  assumes "ingestion_setup_up Q tbl EQ pend" and "asynq_client_up EQ pend"
    and "ing_Bootstrap Q Qc EQ str G hmac secrets keys v = Inr m"
    and "wl_inv (tbl p)" and "json_time_ok (ue_created env)" and "json_time_ok (ue_updated env)"
    and "get rg_Primary None (wd_Regions d) = Some t" and "submitted env (toInput d t) = Inr w"
    and "\<forall>y \<in> set (wl_view (tbl p)). wl_ID y \<noteq> ue_uuid env \<and> wl_Name y \<noteq> wd_Name d"
  shows "\<exists>s'. SubmitWorkload (mod_RPCHandler m) env (Some d) (p, q)
        = (Inr \<lparr>sw_WorkloadId = ue_uuid env, sw_Status = 1, sw_Message = ''Workload submitted successfully''\<rparr>, s')
      \<and> fst (GetWorkloadStatus (mod_RPCHandler m) (wd_Name d) s') = Inr
        (let prov = (if tg_Provider t \<in> {1, 2, 3} then tg_Provider t else 0); reg = (\<lambda>x. if x \<in> {1, 2} then x else 0)
         in \<lparr>gw_WorkloadName = wd_Name d, gw_Status = 1, gw_PrimaryRegion = \<lparr>tg_Provider = prov, tg_Region = reg (tg_Region t)\<rparr>,
              gw_StandbyRegions = map (\<lambda>sb. \<lparr>tg_Provider = prov, tg_Region = reg (tg_Region sb)\<rparr>) (get rg_Standbys [] (wd_Regions d)),
              gw_LastUpdated = ue_updated env\<rparr>)"
proof -
  note b = bootstrap_parts [OF assms(3)]
  have nm: "si_Name (toInput d t) = wd_Name d" by (simp add: toInput_def)
  have queue: "\<exists>x'. je_EnqueueProvisionJob (wiredEnqueuer EQ str) now i x = (None, x')" for now i and x :: "'p \<times> 'q"
  proof -
    obtain q' where "EQ (provisionTask str now i) (snd x) = (None, q')" using asynq_client_up.enqueue_up [OF assms(2)] by blast
    then show ?thesis by (auto simp: wired_simps EnqueueProvisionJob_def)
  qed
  obtain s' where sub: "submit_Execute (ih_deps (mod_RPCHandler m)) env (toInput d t) (p, q)
        = (Inr \<lparr>so_WorkloadID = wl_ID w, so_Status = wl_Status w\<rparr>, s')"
      and s': "wl_inv (tbl (fst s'))" "wl_view (tbl (fst s')) = wl_view (tbl p) @ [w]"
    using ingestion_setup_up.submit_works [OF assms(1), where s = "(p, q)", OF _ toInput_ok [OF assms(5,6)] b(2) b(4) assms(8) _ queue]
      assms(4,9) nm by auto
  note w = submitted_storable [OF toInput_ok [OF assms(5,6)] assms(8)]
  have "find (\<lambda>x. wl_Name x = wd_Name d) (wl_view (tbl p) @ [w]) = Some w"
    using assms(9) w nm by (intro find_snoc) auto
  then have get: "fst (wr_FindByName (wiredWorkloadRepo Q) (wd_Name d) s') = Inr w"
    using ingestion_setup_up.status_works [OF assms(1), where s = s' and n = "wd_Name d"] s' by (auto simp: spec_Find_def)
  have flds: "wl_PrimaryRegion w = toRegion t" "wl_StandbyRegions w = map toRegion (get rg_Standbys [] (wd_Regions d))"
      "wl_UpdatedAt w = ue_updated env"
    using assms(8) by (auto simp: NewWorkload_def toInput_def Let_def split: option.splits)
  have maps: "reverseCloudProvider (mapCloudProvider x) = (if x \<in> {1, 2, 3} then x else 0)"
      "reverseRegion (mapRegion x) = (if x \<in> {1, 2} then x else 0)" for x
    by (auto simp: reverseCloudProvider_def mapCloudProvider_def CloudProvider_defs reverseRegion_def mapRegion_def)
  show ?thesis
    using sub get w flds nm assms(7) b(1)
    by (auto simp: SubmitWorkload_def GetWorkloadStatus_def mapDomainStatus_def toRegion_def maps Let_def split: prod.splits)
qed

lemma ex_submitted: "\<exists>w. submitted ex_env (toInput ex_descriptor \<lparr>tg_Provider = 1, tg_Region = 2\<rparr>) = Inr w"
proof -
  have "nameRegex ''test-workload''" by code_simp
  then show ?thesis
    by (simp add: NewWorkload_def wl_Validate_def violations_def toInput_def ex_env_def ex_descriptor_def get_def ex_failover_def Let_def)
qed

theorem submit_then_status_witness:
  "\<exists>m s' r. ex_boot list_asynq = Inr m \<and> fst (SubmitWorkload (mod_RPCHandler m) ex_env (Some ex_descriptor) ([], [])) = Inr r
     \<and> snd (SubmitWorkload (mod_RPCHandler m) ex_env (Some ex_descriptor) ([], [])) = s'
     \<and> map_sum id gw_StandbyRegions (fst (GetWorkloadStatus (mod_RPCHandler m) ''test-workload'' s')) = Inr [\<lparr>tg_Provider = 1, tg_Region = 0\<rparr>]"
proof -
  obtain m where m: "ex_boot list_asynq = Inr m" using ex_boot_ok by blast
  obtain w where w: "submitted ex_env (toInput ex_descriptor \<lparr>tg_Provider = 1, tg_Region = 2\<rparr>) = Inr w"
    using ex_submitted by blast
  have inv: "wl_inv []" by (simp add: wl_inv_def)
  have prim: "get rg_Primary None (wd_Regions ex_descriptor) = Some \<lparr>tg_Provider = 1, tg_Region = 2\<rparr>"
    by (simp add: get_def ex_descriptor_def)
  from submit_then_status [OF good_queue.ingestion_setup_up_axioms list_queue.asynq_client_up_axioms
      m [unfolded ex_boot_def] inv ex_env_times prim w, of "[]"]
  obtain s' where s': "SubmitWorkload (mod_RPCHandler m) ex_env (Some ex_descriptor) ([], [])
        = (Inr \<lparr>sw_WorkloadId = ue_uuid ex_env, sw_Status = 1, sw_Message = ''Workload submitted successfully''\<rparr>, s')"
      "map_sum id gw_StandbyRegions (fst (GetWorkloadStatus (mod_RPCHandler m) ''test-workload'' s')) = Inr [\<lparr>tg_Provider = 1, tg_Region = 0\<rparr>]"
    by (auto simp: wl_view_def ex_descriptor_def get_def Let_def)
  then show ?thesis using m by simp
qed

text \<open>C11: A webhook starts a build only for the right caller and workload. Under any faults of database and queue the
  stored workloads stay as they are, and a task is queued only when the request is a POST whose signature header
  verifies against the secret of the workload and the workload is stored as running or pending; it is then the one
  build task of that workload. The answer 202 is given only when it was queued.\<close>

theorem webhook_builds_only_signed:
  assumes "ingestion_setup Q tbl EQ pend" and "ing_Bootstrap Q Qc EQ str G hmac secrets keys v = Inr m" and "wl_inv (tbl p)"
    and "secrets_ok (\<lambda>w. wl_view (tbl (fst w))) (\<lambda>w. wl_inv (tbl (fst w))) (\<lambda>w. pend (snd w)) secrets"
    and "rw_Status rw = None" and "mod_WebhookHandler m rw r (p, q) = (rw', (p', q'))"
  shows "wl_inv (tbl p') \<and> wl_view (tbl p') = wl_view (tbl p)
    \<and> (pend q' = pend q \<and> rw_Status rw' \<noteq> Some 202
       \<or> (\<exists>body inp secret w. hr_Method r = ''POST'' \<and> hr_Body r = Some body \<and> webhookInput r body = Some inp
            \<and> fst (secrets ''test-workload'' (p, q)) = Inr secret \<and> VerifySignature hmac (webhookEvent inp) secret = None
            \<and> w \<in> set (wl_view (tbl p)) \<and> wl_Name w = ''test-workload''
            \<and> wl_Status w \<in> {WorkloadStatusRunning, WorkloadStatusPending}
            \<and> pend q' = pend q @ [buildTask str (wl_ID w) (webhookEvent inp)]))"
proof (cases "hr_Method r = ''POST'' \<and> (\<exists>body inp. hr_Body r = Some body \<and> webhookInput r body = Some inp)")
  case False
  then show ?thesis
    using assms(3,5,6) bootstrap_parts(6) [OF assms(2)]
    by (auto simp: webhook_ServeHTTP_def rw_defs Let_def split: if_splits option.splits)
next
  case True
  then obtain body inp where t: "hr_Method r = ''POST''" "hr_Body r = Some body" "webhookInput r body = Some inp" by blast
  note b = bootstrap_parts [OF assms(2)]
  obtain uo w1 where run: "webhook_Execute (ih_deps (mod_RPCHandler m)) secrets hmac inp (p, q) = (uo, w1)" by (metis surj_pair)
  have w1: "w1 = (p', q')" and st: "\<And>e. uo = Inl e \<Longrightarrow> rw_Status rw' \<noteq> Some 202"
    using assms(5,6) b(6) t run by (auto simp: webhook_ServeHTTP_def rw_defs Let_def split: if_splits sum.splits)
  show ?thesis
    using ingestion_setup.webhook_any [OF assms(1), where s = "(p, q)", OF _ b(2) b(4) assms(4) run] assms(3) w1 st t
    by auto
qed

definition ex_rw :: ResponseWriter where "ex_rw = \<lparr>rw_Header = (\<lambda>k. []), rw_Status = None, rw_Body = [], rw_Cookies = []\<rparr>"

definition ex_request :: http_request where
  "ex_request = \<lparr>hr_Method = ''POST'', hr_Path = ''/v1/webhooks/ingest'',
     hr_Header = (\<lambda>k. if k = ''X-Hub-Signature-256'' then [''sha256='' @ hex_encode (ex_hmac ''secret'' ''{}'')] else []),
     hr_Query = (\<lambda>k. []), hr_Form = (\<lambda>k. []), hr_RemoteAddr = [], hr_Body = Some ''{}'', hr_Host = [], hr_RawQuery = []\<rparr>"

lemma ex_secrets_ok: "secrets_ok wls ok jobs ex_secrets"
  by (auto simp: secrets_ok_def ex_secrets_def)

theorem webhook_builds_only_signed_witness:
  "\<exists>m rw' p' q'. ex_boot list_asynq = Inr m \<and> mod_WebhookHandler m ex_rw ex_request ([ex_row], []) = (rw', (p', q'))
     \<and> wl_view p' = [ex_workload] \<and> (q' = [] \<or> (\<exists>i inp. q' = [buildTask dec_int i (webhookEvent inp)]))"
proof -
  obtain m where m: "ex_boot list_asynq = Inr m" using ex_boot_ok by blast
  obtain rw' p' q' where r: "mod_WebhookHandler m ex_rw ex_request ([ex_row], []) = (rw', (p', q'))" by (metis surj_pair)
  have "rw_Status ex_rw = None" by (simp add: ex_rw_def)
  from webhook_builds_only_signed [OF good_queue.ingestion_setup_axioms m [unfolded ex_boot_def]
      conjunct1 [OF ex_row_ok] ex_secrets_ok this r] ex_row_ok
  have "wl_view p' = [ex_workload] \<and> (q' = [] \<or> (\<exists>i inp. q' = [buildTask dec_int i (webhookEvent inp)]))" by auto
  then show ?thesis using m r by blast
qed

text \<open>The webhook handler never answers 404, although it has a branch for it: the use case wraps the error of a
  missing workload and the handler compares with \<^verbatim>\<open>==\<close>. A correctly signed webhook for a missing workload is answered
  with 500.\<close>

theorem webhook_never_not_found:
  assumes "rw_Status rw = None"
  shows "rw_Status (fst (webhook_ServeHTTP deps secrets hmac rw r s)) \<noteq> Some 404
    \<and> (hr_Method r = ''POST'' \<and> hr_Body r = Some body \<and> webhookInput r body = Some inp \<and> secrets ''test-workload'' s = (Inr secret, s1)
        \<and> VerifySignature hmac (webhookEvent inp) secret = None
        \<and> wr_FindByName (d_WorkloadRepo deps) ''test-workload'' s1 = (Inl (Sentinel ErrWorkloadNotFound), s2)
       \<longrightarrow> rw_Status (fst (webhook_ServeHTTP deps secrets hmac rw r s)) = Some 500)"
proof -
  have bare: "webhook_Execute deps secrets hmac i s \<noteq> (Inl (Sentinel ErrWorkloadNotFound), s')" for i s'
    by (auto simp: webhook_Execute_def Let_def split: prod.splits sum.splits option.splits if_splits)
  have "rw_Status (fst (webhook_ServeHTTP deps secrets hmac rw r s)) \<noteq> Some 404"
    using assms bare by (auto simp: webhook_ServeHTTP_def rw_defs Let_def split: option.splits prod.splits sum.splits)
  moreover have "rw_Status (fst (webhook_ServeHTTP deps secrets hmac rw r s)) = Some 500"
    if "hr_Method r = ''POST''" "hr_Body r = Some body" "webhookInput r body = Some inp" "secrets ''test-workload'' s = (Inr secret, s1)"
      "VerifySignature hmac (webhookEvent inp) secret = None"
      "wr_FindByName (d_WorkloadRepo deps) ''test-workload'' s1 = (Inl (Sentinel ErrWorkloadNotFound), s2)"
    using that assms
    by (simp add: webhook_ServeHTTP_def webhook_Execute_def rw_defs Let_def webhookEvent_def)
  ultimately show ?thesis by blast
qed

theorem webhook_never_not_found_witness:
  "\<exists>m. ex_boot list_asynq = Inr m \<and> rw_Status (fst (mod_WebhookHandler m ex_rw ex_request ([], []))) = Some 500"
proof -
  obtain m where m: "ex_boot list_asynq = Inr m" using ex_boot_ok by blast
  note b = bootstrap_parts [OF m [unfolded ex_boot_def]]
  define i where "i = \<lparr>pi_Provider = ''github'', pi_RawPayload = ''{}'', pi_Signature = ''sha256='' @ hex_encode (ex_hmac ''secret'' ''{}'')\<rparr>"
  have inp: "webhookInput ex_request ''{}'' = Some i"
    by (simp add: webhookInput_def ex_request_def hdr_Get_def i_def)
  have sig: "VerifySignature ex_hmac (webhookEvent i) ''secret'' = None"
    by (simp add: VerifySignature_def providedMAC_def webhookEvent_def i_def WebhookProviderGitHub_def ex_hmac_def)
  have find: "wr_FindByName (d_WorkloadRepo (ih_deps (mod_RPCHandler m))) ''test-workload'' ([], []) = (Inl (Sentinel ErrWorkloadNotFound), ([], []))"
    using b(2) by (simp add: wired_simps wl_FindByName_def wl_find_def pure_pg_def)
  have rw: "rw_Status ex_rw = None" by (simp add: ex_rw_def)
  have "rw_Status (fst (webhook_ServeHTTP (ih_deps (mod_RPCHandler m)) ex_secrets ex_hmac ex_rw ex_request ([], []))) = Some 500"
    using webhook_never_not_found [OF rw, of "ih_deps (mod_RPCHandler m)" ex_secrets ex_hmac ex_request "([], [])" "''{}''" i "''secret''"
        "([], [])" "([], [])"] inp sig find
    by (simp add: ex_secrets_def ex_request_def)
  then show ?thesis using m b(6) by simp
qed

text \<open>C26: A credential that was accepted can be used. When \<^verbatim>\<open>AddCloudCredentials\<close> succeeds under any faults, the named
  workload is stored, exactly one credential row was added and nothing was queued; its payload is what the
  encryptor made of the submitted bytes, and when the workload had no credential for that provider before, a
  lookup that succeeds returns that row and decrypting it gives the submitted bytes.\<close>

theorem add_credential_roundtrip:
  assumes "pg_workloads Qw tblw" and "pg_api Qc tblc cred_clash" and "\<And>P x o1 x'. Qw (SSelect P) x = (o1, x') \<Longrightarrow> tblc x' = tblc x"
    and "aead G" and "random_ok (ue_rnd env)" and "ing_Bootstrap Qw Qc EQ str G hmac secrets keys v = Inr m" and "wl_inv (tblw p)"
    and "AddCloudCredentials (mod_RPCHandler m) env (Some c) (p, q) = (Inr resp, (p', q'))"
  shows "q' = q \<and> (\<exists>w \<in> set (wl_view (tblw p)). wl_ID w = cc_Id c)
    \<and> (\<exists>cred. tblc p' = tblc p @ [cred] \<and> cr_WorkloadID cred = cc_Id c \<and> cr_ID cred = ac_CredentialId resp
        \<and> cred_Decrypt (d_Encryptor (ih_deps (mod_RPCHandler m))) cred = Inr (cc_EncryptedPayload c)
        \<and> (\<forall>x p''. (\<forall>y \<in> set (tblc p). \<not> (cr_WorkloadID y = cc_Id c \<and> cr_Provider y = mapCloudProvider (cc_Provider c)))
            \<and> cred_FindByWorkloadAndProvider Qc (cc_Id c) (mapCloudProvider (cc_Provider c)) p' = (Inr x, p'') \<longrightarrow> x = cred))"
proof -
  note b = bootstrap_parts [OF assms(6)]
  let ?E = "d_Encryptor (ih_deps (mod_RPCHandler m))"
  obtain e where e: "NewAESEncryptor keys v = Inr e" "?E = aesEncryptor G e" using b(5) by blast
  have E: "credential_encryptor ?E" using NewAESEncryptor_setup [OF assms(4) e(1)] e(2) by simp
  obtain w p1 c0 where run: "wl_FindByID Qw (cc_Id c) p = (Inr w, p1)"
      "NewCloudCredential (ue_rnd env) (ue_uuid env) (ue_now env) (wl_ID w) (mapCloudProvider (cc_Provider c)) (cc_CredentialType c)
         (cc_EncryptedPayload c) ?E = Inr c0" "cred_Save Qc c0 p1 = (None, p')" "q' = q" "ac_CredentialId resp = cr_ID c0"
    using assms(8) b(2,3)
    by (auto simp: AddCloudCredentials_def addCredential_Execute_def wired_simps split: prod.splits sum.splits option.splits)
  have w: "w \<in> set (wl_view (tblw p))" "wl_ID w = cc_Id c"
    using pg_workloads.found_by_id [OF assms(1,7), of "cc_Id c" "Inr w" p1] run(1) by (auto simp: pgWorkloadRepo_def)
  have c1: "tblc p1 = tblc p"
    using run(1) assms(3) by (fastforce simp: wl_FindByID_def wl_find_def split: prod.splits sum.splits list.splits)
  have c0: "c0\<lparr>cr_RotatedAt := None\<rparr> = c0"
    using run(2) by (auto simp: NewCloudCredential_def split: if_splits sum.splits)
  then obtain rows n where ins: "Qc (SInsert c0) p1 = (Inr (rows, n), p')"
    using run(3) by (auto simp: cred_Save_def pg_Exec_def split: prod.splits sum.splits)
  have tb: "tblc p' = tblc p @ [c0]" using pg_api.pg_ok [OF assms(2) ins] c1 by (auto split: if_splits)
  note d = credential_encryptor.new_credential [OF E assms(5) run(2)]
  have "x = c0" if none: "\<forall>y \<in> set (tblc p). \<not> (cr_WorkloadID y = cc_Id c \<and> cr_Provider y = mapCloudProvider (cc_Provider c))"
      and f: "cred_FindByWorkloadAndProvider Qc (cc_Id c) (mapCloudProvider (cc_Provider c)) p' = (Inr x, p'')" for x p''
  proof -
    obtain rs k where "Qc (SSelect (\<lambda>r. cr_WorkloadID r = cc_Id c \<and> cr_Provider r = mapCloudProvider (cc_Provider c))) p' = (Inr (x # rs, k), p'')"
      using f by (auto simp: cred_FindByWorkloadAndProvider_def split: prod.splits sum.splits list.splits)
    from pg_api.select_ok [OF assms(2) this] show ?thesis using tb none by auto
  qed
  then show ?thesis using w run(4,5) tb d by auto
qed

definition two_pg :: "(wl_row, wl_row list \<times> CloudCredential list) pgx" where "two_pg = fst_pg (pure_pg wl_clash)"

definition two_pg_cred :: "(CloudCredential, wl_row list \<times> CloudCredential list) pgx" where
  "two_pg_cred = snd_pg (pure_pg cred_clash)"

interpretation two_wl: pg_workloads_up two_pg fst
  unfolding two_pg_def pg_workloads_up_def by (rule pg_up_fst [OF purepg.pg_up_axioms])

interpretation two_cred: pg_up two_pg_cred snd cred_clash
  unfolding two_pg_cred_def by (rule pg_up_snd [OF purepg.pg_up_axioms])

theorem add_credential_roundtrip_witness:
  "\<exists>m cred resp q'. ing_Bootstrap two_pg two_pg_cred list_asynq dec_int tag_gcm ex_hmac ex_secrets [(''v1'', ex_k1)] ''v1'' = Inr m
     \<and> AddCloudCredentials (mod_RPCHandler m) ex_env
         (Some \<lparr>cc_Id = ''w-1'', cc_Provider = 1, cc_CredentialType = ''aws_iam'', cc_EncryptedPayload = ''key''\<rparr>) (([ex_row], []), [])
       = (Inr resp, (([ex_row], [cred]), q'))
     \<and> cred_Decrypt (d_Encryptor (ih_deps (mod_RPCHandler m))) cred = Inr ''key''"
proof -
  obtain m where m: "ing_Bootstrap two_pg two_pg_cred list_asynq dec_int tag_gcm ex_hmac ex_secrets [(''v1'', ex_k1)] ''v1'' = Inr m"
    by (simp add: ing_Bootstrap_def NewAESEncryptor_def ex_k1_def Let_def)
  let ?c = "\<lparr>cc_Id = ''w-1'', cc_Provider = 1, cc_CredentialType = ''aws_iam'', cc_EncryptedPayload = ''key''\<rparr>"
  note b = bootstrap_parts [OF m]
  have frame: "two_pg (SSelect P) x = (o1, x') \<Longrightarrow> snd x' = snd x" for P x o1 x' by (auto simp: two_pg_def fst_pg_eq)
  have rnd: "random_ok (ue_rnd ex_env)" by (simp add: random_ok_def ex_env_def)
  have inv: "wl_inv (fst ([ex_row], []))" using ex_row_ok by simp
  obtain resp cred where run: "AddCloudCredentials (mod_RPCHandler m) ex_env (Some ?c) (([ex_row], []), []) = (Inr resp, (([ex_row], [cred]), []))"
  proof -
    have "row_id ex_row = ''w-1''" by (simp add: ex_row_def wl_row_of_def ex_workload_def)
    moreover have "wl_unmarshal (row_descriptor ex_row) (wl_scan ex_row) = Inr ex_workload"
      using wf_row [of ex_row] inv_row [OF conjunct1 [OF ex_row_ok]] ex_row_ok by (auto simp: wl_view_def)
    ultimately have f: "wl_FindByID two_pg ''w-1'' ([ex_row], []) = (Inr ex_workload, ([ex_row], []))"
      by (simp add: wl_FindByID_def wl_find_def two_pg_def fst_pg_def pure_pg_def)
    obtain e where e: "NewAESEncryptor [(''v1'', ex_k1)] ''v1'' = Inr e" "d_Encryptor (ih_deps (mod_RPCHandler m)) = aesEncryptor tag_gcm e"
      using b(5) by blast
    then obtain ct v where "aes_Encrypt tag_gcm e (ue_rnd ex_env) ''key'' = Inr (ct, v)"
      using tagged.aes_Encrypt_up [of e "ue_rnd ex_env" _ "''key''"] by (auto simp: NewAESEncryptor_iff ex_env_def)
    then obtain c0 where c0: "NewCloudCredential (ue_rnd ex_env) (ue_uuid ex_env) (ue_now ex_env) (wl_ID ex_workload) (mapCloudProvider 1)
        ''aws_iam'' ''key'' (d_Encryptor (ih_deps (mod_RPCHandler m))) = Inr c0"
      using e by (simp add: NewCloudCredential_def aesEncryptor_def)
    have "cred_Save two_pg_cred c0 ([ex_row], []) = (None, ([ex_row], [c0\<lparr>cr_RotatedAt := None\<rparr>]))"
      by (simp add: cred_Save_def pg_Exec_def two_pg_cred_def snd_pg_def pure_pg_def)
    then show thesis
      using that f c0 b(2,3) by (simp add: AddCloudCredentials_def addCredential_Execute_def wiredWorkloadRepo_def
          wiredCredentialRepo_def on_db_def lift_part_def)
  qed
  from add_credential_roundtrip [OF two_wl.pg_workloads_axioms two_cred.pg_api_axioms frame tagged.aead_axioms rnd m inv run]
  show ?thesis using m run by auto
qed

end
