(* ===== verification/Server.thy ===== *)
theory Server
  imports Serve_Mux OAuth_Properties Ingestion_Properties
begin

text \<open>
  The entry point of the server, \<^verbatim>\<open>cmd/raftweave-server/main.go\<close>: connections from environment variables,
  the choice of a service by its mode, the routes of each service, and the CORS wrapper. It composes the
  wiring of the auth and of the ingestion service with the multiplexer. The connections, the packages
  and the generated Connect code are parameters; waiting for signals and the graceful shutdown are left
  out.
\<close>

section \<open>What the process runs on\<close>

record redis_Options =
  ro_Addr :: string
  ro_Password :: string
  ro_DB :: int

text \<open>The environment and what a parsed database configuration and the options of the Redis client give
  access to. The database is one part of the world, Redis and the queue the other.\<close>

record ('c, 'p, 'q, 's) platform =
  pf_Getenv :: "string \<Rightarrow> string"
  pf_ParseConfig :: "string \<Rightarrow> 'c option"
  pf_NewWithConfig :: "'c \<Rightarrow> 'p \<times> 'q \<Rightarrow> bool \<times> ('p \<times> 'q)"
  pf_Ping :: "redis_Options \<Rightarrow> 'p \<times> 'q \<Rightarrow> bool \<times> ('p \<times> 'q)"
  pf_auth :: "'c \<Rightarrow> redis_Options \<Rightarrow> ('p \<times> 'q, 's) auth_services"
  pf_workloads :: "'c \<Rightarrow> (wl_row, 'p) pgx"
  pf_credentials :: "'c \<Rightarrow> (CloudCredential, 'p) pgx"
  pf_asynq :: "redis_Options \<Rightarrow> 'q asynq"

record ('priv, 'pub, 'w) packages =
  pk_jwt :: "('priv, 'pub) jwtlib"
  pk_gcm :: gcm
  pk_id :: id_lib
  pk_oauth :: "'w oauth_lib"
  pk_hmac :: hmac
  pk_timeString :: "gotime \<Rightarrow> string"
  pk_authRPC :: "auth_Config \<Rightarrow> 'w AuthHandler \<Rightarrow> (oauth_env, 'w) web_handler"
  pk_ingestionRPC :: "'w IngestionHandler \<Rightarrow> string \<times> (oauth_env, 'w) web_handler"

record 'w http_Server =
  srv_Addr :: string
  srv_Handler :: "(oauth_env, 'w) web_handler"

section \<open>Connections\<close>

definition postgresDSN :: "(string \<Rightarrow> string) \<Rightarrow> string" where
  "postgresDSN env =
     (let port = (if env ''POSTGRES_PORT'' = [] then ''5432'' else env ''POSTGRES_PORT'')
      in ''postgres://'' @ env ''POSTGRES_USER'' @ '':'' @ env ''POSTGRES_PASSWORD'' @ ''@'' @ env ''POSTGRES_HOST'' @ '':''
         @ port @ ''/'' @ env ''POSTGRES_DB'' @ ''?sslmode=disable'')"

text \<open>\<^verbatim>\<open>logger.Fatal\<close> ends the process: its message is the error value.\<close>

definition initDB :: "('c, 'p, 'q, 's) platform \<Rightarrow> 'p \<times> 'q \<Rightarrow> (string + 'c) \<times> ('p \<times> 'q)" where
  "initDB P w =
     (case pf_ParseConfig P (postgresDSN (pf_Getenv P)) of
        None \<Rightarrow> (Inl ''failed to parse postgres dsn'', w)
      | Some config \<Rightarrow>
          (case pf_NewWithConfig P config w of
             (False, w1) \<Rightarrow> (Inl ''failed to connect to postgres'', w1)
           | (True, w1) \<Rightarrow> (Inr config, w1)))"

definition redisOptions :: "(string \<Rightarrow> string) \<Rightarrow> redis_Options" where
  "redisOptions env =
     (let port = (if env ''REDIS_PORT'' = [] then ''6379'' else env ''REDIS_PORT'')
      in \<lparr>ro_Addr = env ''REDIS_HOST'' @ '':'' @ port, ro_Password = env ''REDIS_PASSWORD'', ro_DB = 0\<rparr>)"

definition initRedis :: "('c, 'p, 'q, 's) platform \<Rightarrow> 'p \<times> 'q \<Rightarrow> (string + redis_Options) \<times> ('p \<times> 'q)" where
  "initRedis P w =
     (let opts = redisOptions (pf_Getenv P) in
      case pf_Ping P opts w of
        (False, w1) \<Rightarrow> (Inl ''failed to connect to redis'', w1)
      | (True, w1) \<Rightarrow> (Inr opts, w1))"

section \<open>CORS\<close>

definition corsHeaders :: "ResponseWriter \<Rightarrow> ResponseWriter" where
  "corsHeaders rw =
     rw_Set ''Access-Control-Max-Age'' ''3600''
      (rw_Set ''Access-Control-Allow-Headers''
         ''Accept, Content-Type, Content-Length, Accept-Encoding, X-CSRF-Token, Authorization, Connect-Protocol-Version, Connect-Timeout-Ms''
       (rw_Set ''Access-Control-Allow-Methods'' ''GET, POST, PUT, DELETE, OPTIONS, PATCH''
        (rw_Set ''Access-Control-Allow-Credentials'' ''true''
         (rw_Set ''Access-Control-Allow-Origin'' ''http://localhost:4200'' rw))))"

definition corsMiddleware :: "('e, 'w) web_handler \<Rightarrow> ('e, 'w) web_handler" where
  "corsMiddleware next_h e rw r w =
     (let rw1 = corsHeaders rw in
      if hr_Method r = ''OPTIONS'' then (Replied (rw_WriteHeader 204 rw1), w)
      else next_h e rw1 r w)"

section \<open>Services\<close>

definition healthOK :: "('e, 'w) web_handler" where
  "healthOK e rw r w = (Replied (rw_WriteHeader 200 rw), w)"

text \<open>The configuration of the ingestion service names neither a tracer nor a store of webhook secrets. The
  first statement of every use case calls the tracer, a nil interface, and panics; the secrets are not
  reached.\<close>

definition webhook_nilTracer :: "'w http_handler \<Rightarrow> ('e, 'w) web_handler" where
  "webhook_nilTracer h e rw r w =
     (if hr_Method r = ''POST'' \<and> (case hr_Body r of None \<Rightarrow> False | Some payload \<Rightarrow> webhookInput r payload \<noteq> None)
      then (Aborted, w)
      else plain (\<lambda>_. h) e rw r w)"

definition nilSecretStore :: "'w WebhookSecretStore" where
  "nilSecretStore name w = (Inl (Opaque ''invalid memory address or nil pointer dereference''), w)"

definition ingestionRoutes ::
    "string \<times> ('e, 'w) web_handler \<Rightarrow> 'w http_handler \<Rightarrow> ('e, 'w) mux" where
  "ingestionRoutes rpc webhook =
     [(''/api'' @ fst rpc, StripPrefix ''/api'' (snd rpc)), (fst rpc, snd rpc),
      (''/v1/webhooks/ingest'', webhook_nilTracer webhook), (''/healthz'', healthOK)]"

definition startIngestion ::
    "('c, 'p, 'q, 's) platform \<Rightarrow> ('priv, 'pub, 'p \<times> 'q) packages \<Rightarrow> 'c \<Rightarrow> redis_Options
      \<Rightarrow> string + (oauth_env, 'p \<times> 'q) web_handler \<times> string" where
  "startIngestion P K db rdb =
     (case ing_Bootstrap (pf_workloads P db) (pf_credentials P db) (pf_asynq P rdb) (pk_timeString K) (pk_gcm K) (pk_hmac K)
             nilSecretStore [(''v1'', pf_Getenv P ''ENCRYPTION_KEY_V1'')] ''v1'' of
        Inl err \<Rightarrow> Inl ''failed to bootstrap ingestion''
      | Inr md \<Rightarrow>
          Inr (mux_serve (ingestionRoutes (pk_ingestionRPC K (mod_RPCHandler md)) (mod_WebhookHandler md)), ''8080''))"

definition authConfig :: "(string \<Rightarrow> string) \<Rightarrow> auth_Config" where
  "authConfig env =
     \<lparr>ac_JWTPrivateKeyPEM = filter (\<lambda>c. c \<noteq> CHR 0x0D) (env ''JWT_PRIVATE_KEY_PEM''),
      ac_EncryptionKey = env ''ENCRYPTION_KEY'', ac_GitHubClientID = env ''GITHUB_CLIENT_ID'',
      ac_GitHubClientSecret = env ''GITHUB_CLIENT_SECRET'', ac_GoogleClientID = env ''GOOGLE_CLIENT_ID'',
      ac_GoogleClientSecret = env ''GOOGLE_CLIENT_SECRET'', ac_CookieDomain = env ''COOKIE_DOMAIN'',
      ac_DashboardURL = env ''DASHBOARD_URL''\<rparr>"

definition authRoutes ::
    "(oauth_env, 'w) web_handler \<Rightarrow> 'w OAuthHandler \<Rightarrow> (oauth_env, 'w) mux" where
  "authRoutes rpc oh =
     [(''/api/auth.v1.AuthService/'', StripPrefix ''/api'' rpc), (''/auth.v1.AuthService/'', rpc),
      (''/api/auth/'', StripPrefix ''/api'' (plain (oauthServe oh))), (''/auth/'', plain (oauthServe oh)),
      (''/healthz'', healthOK), (''/readyz'', healthOK)]"

definition startAuth ::
    "('c, 'p, 'q, 's) platform \<Rightarrow> ('priv, 'pub, 'p \<times> 'q) packages \<Rightarrow> 'c \<Rightarrow> redis_Options
      \<Rightarrow> string + (oauth_env, 'p \<times> 'q) web_handler \<times> string" where
  "startAuth P K db rdb =
     (let cfg = authConfig (pf_Getenv P) in
      case auth_Bootstrap (pk_jwt K) (pk_gcm K) (pk_id K) (pk_oauth K) (pf_auth P db rdb) cfg of
        Inl err \<Rightarrow> Inl ''failed to bootstrap auth''
      | Inr (ah, oh) \<Rightarrow> Inr (corsMiddleware (mux_serve (authRoutes (pk_authRPC K cfg ah) oh)), ''8080''))"

definition notImplemented :: "string \<Rightarrow> ('e, 'w) web_handler" where
  "notImplemented mode e rw r w =
     (Replied (rw_Write (''Service '' @ mode @ '' is not yet fully implemented in this version.'') (rw_WriteHeader 501 rw)), w)"

definition startStub :: "string \<Rightarrow> ('e, 'w) web_handler \<times> string" where
  "startStub mode =
     (mux_serve [(''/healthz'', healthOK), (''/readyz'', healthOK), (''/'', notImplemented mode)], ''8080'')"

section \<open>The process\<close>

definition startMode ::
    "('c, 'p, 'q, 's) platform \<Rightarrow> ('priv, 'pub, 'p \<times> 'q) packages \<Rightarrow> string \<Rightarrow> 'c \<Rightarrow> redis_Options
      \<Rightarrow> string + (oauth_env, 'p \<times> 'q) web_handler \<times> string" where
  "startMode P K mode db rdb =
     (if mode = ''ingestion'' then startIngestion P K db rdb
      else if mode = ''auth'' then startAuth P K db rdb
      else if mode \<in> {''build'', ''consensus'', ''replication'', ''provisioner''} then Inr (startStub mode)
      else Inl ''unsupported mode'')"

text \<open>Until the process listens or has ended; without the flag the mode is ingestion.\<close>

definition server_main ::
    "('c, 'p, 'q, 's) platform \<Rightarrow> ('priv, 'pub, 'p \<times> 'q) packages \<Rightarrow> string option \<Rightarrow> 'p \<times> 'q
      \<Rightarrow> (string + ('p \<times> 'q) http_Server) \<times> ('p \<times> 'q)" where
  "server_main P K modeFlag w =
     (let mode = (case modeFlag of None \<Rightarrow> ''ingestion'' | Some m \<Rightarrow> m) in
      case initDB P w of
        (Inl msg, w1) \<Rightarrow> (Inl msg, w1)
      | (Inr db, w1) \<Rightarrow>
          (case initRedis P w1 of
             (Inl msg, w2) \<Rightarrow> (Inl msg, w2)
           | (Inr rdb, w2) \<Rightarrow>
               (case startMode P K mode db rdb of
                  Inl msg \<Rightarrow> (Inl msg, w2)
                | Inr (handler, port) \<Rightarrow>
                    (Inr \<lparr>srv_Addr = ''0.0.0.0:'' @ port, srv_Handler = corsMiddleware handler\<rparr>, w2))))"

section \<open>Starting\<close>

text \<open>The database accepts the configuration and Redis answers.\<close>

definition connects :: "('c, 'p, 'q, 's) platform \<Rightarrow> 'p \<times> 'q \<Rightarrow> bool" where
  "connects P w =
     (case pf_ParseConfig P (postgresDSN (pf_Getenv P)) of
        None \<Rightarrow> False
      | Some db \<Rightarrow> (let (ok, w1) = pf_NewWithConfig P db w in ok \<and> fst (pf_Ping P (redisOptions (pf_Getenv P)) w1)))"

text \<open>The parts of the environment that decide whether a mode can start.\<close>

definition modeReady :: "('priv, 'pub, 'w) packages \<Rightarrow> (string \<Rightarrow> string) \<Rightarrow> string \<Rightarrow> bool" where
  "modeReady K env mode \<longleftrightarrow>
     mode = ''ingestion'' \<and> length (env ''ENCRYPTION_KEY_V1'') = 32
     \<or> mode = ''auth'' \<and> ParseRSAPrivateKeyFromPEM (pk_jwt K) (filter (\<lambda>c. c \<noteq> CHR 0x0D) (env ''JWT_PRIVATE_KEY_PEM'')) \<noteq> None
         \<and> length (env ''ENCRYPTION_KEY'') = 32
     \<or> mode \<in> {''build'', ''consensus'', ''replication'', ''provisioner''}"

lemma ing_Bootstrap_starts:
  "(\<exists>m. ing_Bootstrap Qw Qc cl str G hm sec [(''v1'', key)] ''v1'' = Inr m) \<longleftrightarrow> length key = 32"
  by (simp add: ing_Bootstrap_def NewAESEncryptor_def Let_def)

lemma auth_Bootstrap_starts:
  "(\<exists>m. auth_Bootstrap J G IL L S cfg = Inr m) \<longleftrightarrow>
     ParseRSAPrivateKeyFromPEM J (ac_JWTPrivateKeyPEM cfg) \<noteq> None \<and> length (ac_EncryptionKey cfg) = 32"
  by (auto simp: auth_Bootstrap_def jwt_New_def NewEncryptor_def aes_key_def Let_def split: option.splits)

lemma startMode_starts:
  "case startMode P K mode db rdb of
     Inl msg \<Rightarrow> \<not> modeReady K (pf_Getenv P) mode
       \<and> msg \<in> {''failed to bootstrap ingestion'', ''failed to bootstrap auth'', ''unsupported mode''}
   | Inr (h, port) \<Rightarrow> modeReady K (pf_Getenv P) mode \<and> port = ''8080''"
proof -
  let ?env = "pf_Getenv P"
  consider "mode = ''ingestion''" | "mode = ''auth''" | "mode \<noteq> ''ingestion''" "mode \<noteq> ''auth''" by blast
  then show ?thesis
  proof cases
    case 1
    show ?thesis
      using ing_Bootstrap_starts [of "pf_workloads P db" "pf_credentials P db" "pf_asynq P rdb" "pk_timeString K" "pk_gcm K"
          "pk_hmac K" nilSecretStore "?env ''ENCRYPTION_KEY_V1''"] 1
      by (auto simp: startMode_def startIngestion_def modeReady_def Let_def split: sum.split prod.split)
  next
    case 2
    show ?thesis
      using auth_Bootstrap_starts [of "pk_jwt K" "pk_gcm K" "pk_id K" "pk_oauth K" "pf_auth P db rdb" "authConfig ?env"] 2
      by (auto simp: startMode_def startAuth_def authConfig_def modeReady_def Let_def split: sum.split)
  next
    case 3
    then show ?thesis by (simp add: startMode_def modeReady_def startStub_def)
  qed
qed

lemma connects_init:
  assumes "connects P w"
  obtains db w1 w2 where "pf_ParseConfig P (postgresDSN (pf_Getenv P)) = Some db" and "initDB P w = (Inr db, w1)"
    and "initRedis P w1 = (Inr (redisOptions (pf_Getenv P)), w2)"
proof -
  let ?o = "redisOptions (pf_Getenv P)"
  obtain db w1 where d: "pf_ParseConfig P (postgresDSN (pf_Getenv P)) = Some db" "pf_NewWithConfig P db w = (True, w1)"
    "fst (pf_Ping P ?o w1)" using assms by (auto simp: connects_def split: option.splits prod.splits)
  obtain w2 where "pf_Ping P ?o w1 = (True, w2)" using d(3) by (cases "pf_Ping P ?o w1") simp
  then show ?thesis using that [of db w1 w2] d by (simp add: initDB_def initRedis_def)
qed

lemma not_connects: "\<not> connects P w \<Longrightarrow> \<exists>msg w'. msg \<noteq> [] \<and> server_main P K m w = (Inl msg, w')"
  by (auto simp: connects_def server_main_def initDB_def initRedis_def Let_def split: option.splits prod.splits bool.splits)

lemma server_main_started:
  assumes "fst (server_main P K modeFlag w) = Inr srv"
  shows "connects P w \<and> (\<exists>db h port. pf_ParseConfig P (postgresDSN (pf_Getenv P)) = Some db
    \<and> startMode P K (case modeFlag of None \<Rightarrow> ''ingestion'' | Some m \<Rightarrow> m) db (redisOptions (pf_Getenv P)) = Inr (h, port)
    \<and> srv = \<lparr>srv_Addr = ''0.0.0.0:'' @ port, srv_Handler = corsMiddleware h\<rparr>)"
proof -
  have c: "connects P w"
  proof (rule ccontr)
    assume "\<not> connects P w"
    from not_connects [OF this, of K modeFlag] show False using assms by auto
  qed
  then obtain db w1 w2 where i: "pf_ParseConfig P (postgresDSN (pf_Getenv P)) = Some db" "initDB P w = (Inr db, w1)"
    "initRedis P w1 = (Inr (redisOptions (pf_Getenv P)), w2)" by (rule connects_init)
  then show ?thesis using assms c by (auto simp: server_main_def Let_def split: sum.splits prod.splits)
qed


end
