(* ===== verification/OAuth_Replay.thy ===== *)
theory OAuth_Replay
  imports OAuth_Properties
begin

text \<open>
  What a login does to the other state tokens and to its own: the refresh-token store writes keys of its
  own, the database and the providers do not touch Redis, so a state token that a callback has consumed
  stays consumed until the login is over.
\<close>

section \<open>The refresh-token store leaves state tokens alone\<close>

lemma stateKey_rt: "stateKey x \<noteq> tokenKey h" "stateKey x \<noteq> userKey u"
  by (simp_all add: stateKey_def StatePrefix_def tokenKey_def refreshTokenPrefix_def userKey_def userIndexPrefix_def)

lemma state_pending_key: "st (stateKey x) = st' (stateKey x) \<Longrightarrow> state_pending t st x = state_pending t st' x"
  by (simp add: state_pending_def live_def entry_def)

context redis_api
begin

lemma Exec_frame: "rdb_Exec R t cs s = (out, s') \<Longrightarrow> k \<notin> cmd_key ` set cs \<Longrightarrow> absr s' k = absr s k"
  using Exec_any [of t cs s out s'] run_cmds_frame [of k cs t "absr s"] by auto

lemma collectTokens_frame:
  "collectTokens R t (userKey u) hs s = (ts, s') \<Longrightarrow> absr s' (stateKey x) = absr s (stateKey x)"
proof (induction hs arbitrary: s ts)
  case (Cons h hs)
  obtain o1 s1 where get: "rdb_Get R t (tokenKey h) s = (o1, s1)" by fastforce
  obtain o2 s2 where rem: "rdb_Exec R t [CSRem (userKey u) h] s1 = (o2, s2)" by fastforce
  have "absr s2 (stateKey x) = absr s (stateKey x)" "absr s1 = absr s"
    using Exec_frame [OF rem, of "stateKey x"] Get_frame [OF get] by (simp_all add: stateKey_rt)
  then show ?case using Cons.IH [of s2] Cons.IH [of s1] Cons.prems get rem by (fastforce split: sum.splits prod.splits)
qed simp

lemma evictOldest_frame: "absr (evictOldest R t (userKey u) n i ts s) (stateKey x) = absr s (stateKey x)"
proof (induction n arbitrary: i ts s)
  case (Suc n)
  let ?ts = "swap ts i (oldestFrom ts i (Suc i))"
  obtain out s' where ex: "rdb_Exec R t [CDel (tokenKey (ta_hash (?ts ! i))), CSRem (userKey u) (ta_hash (?ts ! i))] s = (out, s')"
    by fastforce
  have "absr s' (stateKey x) = absr s (stateKey x)" using Exec_frame [OF ex, of "stateKey x"] by (simp add: stateKey_rt)
  then show ?case using Suc.IH [of "Suc i" ?ts s'] ex by (simp add: Let_def)
qed simp

lemma enforce_frame:
  assumes "enforceMaxSessions R t u s = (r, s')"
  shows "absr s' (stateKey x) = absr s (stateKey x)"
proof -
  obtain o1 s1 where c: "rdb_SCard R t (userKey u) s = (o1, s1)" by fastforce
  obtain o2 s2 where m: "rdb_SMembers R t (userKey u) s1 = (o2, s2)" by fastforce
  have e: "absr s1 = absr s" "absr s2 = absr s" using SCard_frame [OF c] SMembers_frame [OF m] by simp_all
  have "absr s3 (stateKey x) = absr s (stateKey x)" if "collectTokens R t (userKey u) hs s2 = (ts, s3)" for hs ts s3
    using collectTokens_frame [OF that] e by simp
  then show ?thesis using assms c m e evictOldest_frame
    by (auto simp: enforceMaxSessions_def Let_def split: sum.splits if_splits prod.splits)
qed

lemma Issue_frame:
  assumes "rt_Issue R sha rnd t sid u fp s = (r, s')"
  shows "absr s' (stateKey x) = absr s (stateKey x)"
proof (cases "generateOpaqueToken sha rnd")
  case (Inr ph)
  obtain p h where ph: "ph = (p, h)" by fastforce
  let ?d = "\<lparr>rt_SessionID = sid, rt_UserID = u, rt_Fingerprint = fp, rt_CreatedAt = t\<rparr>"
  obtain o1 s1 where ex: "rdb_Exec R t (issueCmds u h (rtd_marshal ?d)) s = (o1, s1)" by fastforce
  have "absr s1 (stateKey x) = absr s (stateKey x)"
    using Exec_frame [OF ex, of "stateKey x"] by (simp add: issueCmds_def stateKey_rt)
  moreover obtain r2 s2 where en: "enforceMaxSessions R t u s1 = (r2, s2)" by fastforce
  ultimately show ?thesis using assms Inr ph ex enforce_frame [OF en]
    by (auto simp: rt_Issue_def Let_def split: sum.splits)
qed (use assms in \<open>auto simp: rt_Issue_def\<close>)

end

section \<open>The rest of a login leaves Redis alone\<close>

text \<open>The contract of the services: the tables, the providers, the HTTP client and the key cache are other
  parts of the world than Redis.\<close>

locale redis_apart =
  fixes S :: "('w, 's) auth_services" and L :: "'w oauth_lib"
  assumes users: "as_users S st w = (r, w') \<Longrightarrow> as_redisGet S w' = as_redisGet S w"
    and members: "as_members S mst w = (mr, w') \<Longrightarrow> as_redisGet S w' = as_redisGet S w"
    and exchange: "ol_Exchange L cfg code ps w = (tok, w') \<Longrightarrow> as_redisGet S w' = as_redisGet S w"
    and http: "as_http S q w = (resp, w') \<Longrightarrow> as_redisGet S w' = as_redisGet S w"
    and cache: "as_redisGet S (as_cachePut S c w) = as_redisGet S w"
begin

lemma user_repo:
  "ur_GetByProviderID (pgUserRepo (as_users S)) pv pid w = (o1, w') \<Longrightarrow> as_redisGet S w' = as_redisGet S w"
  "ur_GetByEmail (pgUserRepo (as_users S)) em w = (o1, w') \<Longrightarrow> as_redisGet S w' = as_redisGet S w"
  "ur_Create (pgUserRepo (as_users S)) us w = (o2, w') \<Longrightarrow> as_redisGet S w' = as_redisGet S w"
  "ur_UpdateLastLogin (pgUserRepo (as_users S)) t i w = (o2, w') \<Longrightarrow> as_redisGet S w' = as_redisGet S w"
  "ur_UpdateGitHubToken (pgUserRepo (as_users S)) t i tok w = (o2, w') \<Longrightarrow> as_redisGet S w' = as_redisGet S w"
  by (auto simp: pgUserRepo_def user_GetByProviderID_def user_GetByEmail_def scanUser_def user_Create_def
      user_UpdateLastLogin_def user_UpdateGitHubToken_def pg_Exec_def dest: users
      split: prod.splits sum.splits list.splits pgerr.splits)

lemma github_calls:
  assumes "gh_userRepo p = pgUserRepo (as_users S)" and "gh_httpClient p = as_http S"
  shows "fetchUser p tok w = (o1, w') \<Longrightarrow> as_redisGet S w' = as_redisGet S w"
    and "fetchPrimaryEmail p tok w = (o2, w') \<Longrightarrow> as_redisGet S w' = as_redisGet S w"
    and "gh_account p env gu em enc w = (o3, w') \<Longrightarrow> as_redisGet S w' = as_redisGet S w"
  using assms
  by (auto simp: fetchUser_def fetchPrimaryEmail_def gh_account_def Let_def dest!: http user_repo
      split: prod.splits sum.splits if_splits option.splits)

lemma github_exchange:
  assumes "gh_userRepo p = pgUserRepo (as_users S)" and "gh_httpClient p = as_http S"
    and "gh_exchange L p env code uri v w = (o1, w')"
  shows "as_redisGet S w' = as_redisGet S w"
  using assms(3)
  by (auto simp: gh_exchange_def gh_identify_def dest!: exchange github_calls [OF assms(1,2)]
      split: prod.splits sum.splits if_splits)

lemma google_calls:
  assumes "gg_userRepo p = pgUserRepo (as_users S)" and "gg_httpClient p = as_http S" and "gg_cachePut p = as_cachePut S"
  shows "getKeys IL p t0 t1 t2 w = (o1, w') \<Longrightarrow> as_redisGet S w' = as_redisGet S w"
    and "gg_account p env c w = (o2, w') \<Longrightarrow> as_redisGet S w' = as_redisGet S w"
  using assms
  by (auto simp: getKeys_def getKeysLocked_def gg_account_def Let_def cache dest!: http user_repo
      split: prod.splits sum.splits option.splits)

lemma google_exchange:
  assumes "gg_userRepo p = pgUserRepo (as_users S)" and "gg_httpClient p = as_http S" and "gg_cachePut p = as_cachePut S"
    and "gg_exchange IL L p env code uri v w = (o1, w')"
  shows "as_redisGet S w' = as_redisGet S w"
  using assms(4)
  by (auto simp: gg_exchange_def validateIDToken_def Let_def dest!: exchange google_calls [OF assms(1-3)]
      split: prod.splits sum.splits if_splits)

end

section \<open>A login consumes its state token\<close>

lemma provider_fields:
  "gh_stateStore (gh_New i s enc ss ur hc []) = ss" "gh_userRepo (gh_New i s enc ss ur hc []) = ur"
  "gh_httpClient (gh_New i s enc ss ur hc []) = hc"
  "gg_stateStore (gg_New i s enc ss ur hc cg cp []) = ss" "gg_userRepo (gg_New i s enc ss ur hc cg cp []) = ur"
  "gg_httpClient (gg_New i s enc ss ur hc cg cp []) = hc" "gg_cachePut (gg_New i s enc ss ur hc cg cp []) = cp"
  by (simp_all add: gh_New_def gg_New_def)

lemma bootstrap_oauth:
  assumes "auth_Bootstrap J G IL L S cfg = Inr (ah, oh)"
  obtains p g where "oh_github oh = githubProvider L p" and "gh_stateStore p = NewStateStore (as_redisGet S) (as_redisPut S) (as_redis S)"
    and "gh_userRepo p = pgUserRepo (as_users S)" and "gh_httpClient p = as_http S"
    and "oh_google oh = googleProvider IL L g" and "gg_stateStore g = NewStateStore (as_redisGet S) (as_redisPut S) (as_redis S)"
    and "gg_userRepo g = pgUserRepo (as_users S)" and "gg_httpClient g = as_http S" and "gg_cachePut g = as_cachePut S"
    and "oh_cookieDomain oh = ac_CookieDomain cfg"
    and "oh_tokenStore oh = NewRefreshTokenStore (as_redisGet S) (as_redisPut S) (as_redis S) (ol_sha256 L)"
    and "oh_memberRepo oh = Some (pgMembershipRepo (as_members S))"
proof -
  let ?ss = "NewStateStore (as_redisGet S) (as_redisPut S) (as_redis S)"
  obtain gi gs ge hi hs he where b:
    "oh_github oh = githubProvider L (gh_New gi gs ge ?ss (pgUserRepo (as_users S)) (as_http S) [])"
    "oh_google oh = googleProvider IL L (gg_New hi hs he ?ss (pgUserRepo (as_users S)) (as_http S) (as_cacheGet S) (as_cachePut S) [])"
    "oh_cookieDomain oh = ac_CookieDomain cfg" "oh_memberRepo oh = Some (pgMembershipRepo (as_members S))"
    "oh_tokenStore oh = NewRefreshTokenStore (as_redisGet S) (as_redisPut S) (as_redis S) (ol_sha256 L)"
    using assms by (auto simp: auth_Bootstrap_def Let_def NewOAuthHandler_def split: sum.splits)
  show thesis by (rule that [OF b(1) provider_fields(1-3) b(2) provider_fields(4-7) b(3,5,4)])
qed

text \<open>From the callback on the state is not pending at any instant.\<close>

lemma callback_consumes:
  assumes "redis_apart S L" and "redis_api (as_redis S) absr" and "part (as_redisGet S) (as_redisPut S)"
    and "auth_Bootstrap J G IL L S cfg = Inr (ah, oh)" and "prov \<in> {oh_github oh, oh_google oh}"
    and "op_HandleCallback prov env code st uri w = (Inr user, w1)"
  shows "state_pending t (absr (as_redisGet S w1)) st = None"
proof -
  let ?get = "as_redisGet S"
  let ?ss = "NewStateStore ?get (as_redisPut S) (as_redis S)"
  obtain p g where o: "oh_github oh = githubProvider L p" "gh_stateStore p = ?ss" "gh_userRepo p = pgUserRepo (as_users S)"
      "gh_httpClient p = as_http S" "oh_google oh = googleProvider IL L g" "gg_stateStore g = ?ss"
      "gg_userRepo g = pgUserRepo (as_users S)" "gg_httpClient g = as_http S" "gg_cachePut g = as_cachePut S"
    by (rule bootstrap_oauth [OF assms(4)])
  have gh: "\<exists>v w0. ss_Verify ?ss (oe_now env) st w = (Inr v, w0) \<and> ?get w1 = ?get w0"
    if "gh_HandleCallback L p env code st uri w = (Inr user, w1)"
    using that o(2) redis_apart.github_exchange [OF assms(1) o(3,4)]
    by (auto simp: gh_HandleCallback_def split: prod.splits sum.splits)
  have gg: "\<exists>v w0. ss_Verify ?ss (oe_now env) st w = (Inr v, w0) \<and> ?get w1 = ?get w0"
    if "gg_HandleCallback IL L g env code st uri w = (Inr user, w1)"
    using that o(6) redis_apart.google_exchange [OF assms(1) o(7-9)]
    by (auto simp: gg_HandleCallback_def split: prod.splits sum.splits)
  obtain v w0 where v: "ss_Verify ?ss (oe_now env) st w = (Inr v, w0)" "?get w1 = ?get w0"
    using assms(5,6) gh gg by (auto simp: o(1,5) githubProvider_def googleProvider_def)
  show ?thesis using state_store.verified [OF redis_api.state_store_ok [OF assms(2,3)] v(1), of t st] v(2) by simp
qed

lemma issue_keeps_states:
  assumes "redis_apart S L" and "redis_api (as_redis S) absr" and "part (as_redisGet S) (as_redisPut S)"
    and "auth_Bootstrap J G IL L S cfg = Inr (ah, oh)"
    and "issueTokensAndRedirect oh env user rw r w = (rw', w')"
  shows "state_pending t (absr (as_redisGet S w')) st = state_pending t (absr (as_redisGet S w)) st"
proof -
  let ?get = "as_redisGet S" and ?put = "as_redisPut S" and ?R = "as_redis S" and ?sha = "ol_sha256 L"
  obtain m: "oh_tokenStore oh = NewRefreshTokenStore ?get ?put ?R ?sha" "oh_memberRepo oh = Some (pgMembershipRepo (as_members S))"
    by (rule bootstrap_oauth [OF assms(4)])
  obtain rs w1 where u: "userRoles oh (u_ID user) w = (rs, w1)" by fastforce
  have g: "?get w1 = ?get w" using u m(2)
    by (auto simp: userRoles_def pgMembershipRepo_def member_GetUserWorkspaces_def
        dest!: redis_apart.members [OF assms(1)] split: prod.splits sum.splits)
  obtain fp out s where i: "rt_Issue ?R ?sha (oe_rt env) (oe_now env) (u_ID user @ ''-session'') (u_ID user) fp (?get w1) = (out, s)"
    and w': "w' = ?put s w1"
    using assms(5) u m(1)
    by (auto simp: issueTokensAndRedirect_def NewRefreshTokenStore_def lift_part_def Let_def split: prod.splits sum.splits)
  have "absr (?get w') (stateKey st) = absr (?get w) (stateKey st)"
    using redis_api.Issue_frame [OF assms(2) i] w' g part_get [OF assms(3)] by simp
  then show ?thesis by (rule state_pending_key)
qed

end
