(* ===== verification/Server_Properties.thy ===== *)
theory Server_Properties
  imports Server OAuth_Replay
begin

text \<open>
  Properties of the running server: the headers of its responses, the two prefixes of the auth service,
  which requests obtain a session cookie from it and that they obtain it once, and what it does with
  webhooks. They compose the whole auth service, from the environment of the process to the Redis keys.
\<close>

section \<open>Every response carries the CORS headers\<close>

definition corsPolicy :: "(string \<times> string) list" where
  "corsPolicy =
     [(''Access-Control-Allow-Origin'', ''http://localhost:4200''), (''Access-Control-Allow-Credentials'', ''true''),
      (''Access-Control-Allow-Methods'', ''GET, POST, PUT, DELETE, OPTIONS, PATCH''),
      (''Access-Control-Allow-Headers'',
       ''Accept, Content-Type, Content-Length, Accept-Encoding, X-CSRF-Token, Authorization, Connect-Protocol-Version, Connect-Timeout-Ms''),
      (''Access-Control-Max-Age'', ''3600'')]"

definition cors_key :: "string \<Rightarrow> bool" where
  "cors_key k = HasPrefix k ''Access-Control-''"

lemma corsHeaders_policy: "(k, v) \<in> set corsPolicy \<Longrightarrow> rw_Header (corsHeaders rw) k = [v] \<and> cors_key k"
  by (auto simp: corsPolicy_def corsHeaders_def rw_Set_def cors_key_def)

lemma corsHeaders_fields [simp]:
  "rw_Cookies (corsHeaders rw) = rw_Cookies rw" "rw_Status (corsHeaders rw) = rw_Status rw" "rw_Body (corsHeaders rw) = rw_Body rw"
  by (simp_all add: corsHeaders_def rw_Set_def)

text \<open>The auth service is wrapped twice; the second wrapper changes nothing.\<close>

lemma corsHeaders_idem: "corsHeaders (corsHeaders rw) = corsHeaders rw"
  by (rule ResponseWriter.equality) (auto simp: corsHeaders_def rw_Set_def fun_eq_iff)

lemma corsMiddleware_idem: "corsMiddleware (corsMiddleware h) = corsMiddleware h"
  by (simp add: corsMiddleware_def fun_eq_iff corsHeaders_idem Let_def)

text \<open>Writing a status, a body, an error, a redirect or a cookie keeps them.\<close>

lemma cors_key_neq: "cors_key k \<Longrightarrow> k \<notin> {''Content-Type'', ''Content-Length'', ''X-Content-Type-Options'', ''Location'', ''Allow''}"
  by (auto simp: cors_key_def)

lemma rw_Header_cors [simp]:
  "cors_key k \<Longrightarrow> rw_Header (http_Error m n rw) k = rw_Header rw k"
  "cors_key k \<Longrightarrow> rw_Header (http_Redirect r u n s rw) k = rw_Header rw k"
  "rw_Header (rw_WriteHeader n rw) k = rw_Header rw k" "rw_Header (rw_Write b rw) k = rw_Header rw k"
  "rw_Header (http_SetCookie c rw) k = rw_Header rw k"
  using cors_key_neq [of k] by (simp_all add: rw_defs http_Redirect_def http_SetCookie_def Let_def)

text \<open>The contract of the handlers behind the wrapper: they leave its headers alone.\<close>

locale cors_neutral =
  fixes h :: "('e, 'w) web_handler"
  assumes neutral: "h e rw r w = (Replied rw', w') \<Longrightarrow> cors_key k \<Longrightarrow> rw_Header rw' k = rw_Header rw k"
begin

lemma policy_kept: "corsMiddleware h e rw r w = (Replied rw', w') \<Longrightarrow> (k, v) \<in> set corsPolicy \<Longrightarrow> rw_Header rw' k = [v]"
  using neutral [of e "corsHeaders rw" r w rw' w' k] corsHeaders_policy [of k v rw]
  by (auto simp: corsMiddleware_def Let_def rw_WriteHeader_def split: if_splits)

lemma strip: "cors_neutral (StripPrefix p h)"
proof unfold_locales
  fix e rw r w rw' w' k
  assume "StripPrefix p h e rw r w = (Replied rw', w')" and k: "cors_key k"
  then consider "h e rw (r\<lparr>hr_Path := TrimPrefix (hr_Path r) p\<rparr>) w = (Replied rw', w')" | "http_NotFound e rw r w = (Replied rw', w')"
    by (auto simp: StripPrefix_def Let_def split: if_splits)
  then show "rw_Header rw' k = rw_Header rw k" using neutral k by cases (auto simp: http_NotFound_def)
qed

end

interpretation health: cors_neutral healthOK
  by unfold_locales (auto simp: healthOK_def)

interpretation notfound: cors_neutral http_NotFound
  by unfold_locales (auto simp: http_NotFound_def)

interpretation fallback: cors_neutral "notImplemented mode" for mode
  by unfold_locales (auto simp: notImplemented_def)

interpretation moved: cors_neutral "movedPermanently path" for path
  by unfold_locales (auto simp: movedPermanently_def)

lemma mux_neutral:
  assumes "\<And>pat h. (pat, h) \<in> set m \<Longrightarrow> cors_neutral h"
  shows "cors_neutral (mux_serve m)"
proof unfold_locales
  fix e rw r w rw' w' k
  assume "mux_serve m e rw r w = (Replied rw', w')" and k: "cors_key k"
  then show "rw_Header rw' k = rw_Header rw k"
    by (cases rule: mux_serve_cases)
      (use k in \<open>auto dest: moved.neutral notfound.neutral cors_neutral.neutral [OF assms]\<close>)
qed

lemma login_neutral:
  "providerLogin prov n m env rw r w = (rw', w') \<Longrightarrow> cors_key k \<Longrightarrow> rw_Header rw' k = rw_Header rw k"
  by (auto simp: providerLogin_def split: prod.splits sum.splits)

lemma issue_neutral:
  "issueTokensAndRedirect h env u rw r w = (rw', w') \<Longrightarrow> cors_key k \<Longrightarrow> rw_Header rw' k = rw_Header rw k"
  by (auto simp: issueTokensAndRedirect_def Let_def split: prod.splits sum.splits)

lemma callback_neutral:
  "providerCallback h prov n env rw r w = (rw', w') \<Longrightarrow> cors_key k \<Longrightarrow> rw_Header rw' k = rw_Header rw k"
  by (auto simp: providerCallback_def Let_def dest: issue_neutral split: if_splits prod.splits sum.splits)

lemma route_neutral:
  assumes "oauthRoute h path = Some f" and "f env rw r w = (rw', w')" and "cors_key k"
  shows "rw_Header rw' k = rw_Header rw k"
  using assms
  by (auto simp: oauthRoute_def GitHubLogin_def GoogleLogin_def GitHubCallback_def GoogleCallback_def http_Logout_def Let_def
      dest: login_neutral callback_neutral split: if_splits)

interpretation oauth: cors_neutral "plain (oauthServe h)" for h
proof unfold_locales
  fix e rw r w rw' w' k
  assume s: "plain (oauthServe h) e rw r w = (Replied rw', w')" and k: "cors_key k"
  then have s: "oauthServe h e rw r w = (rw', w')" by (simp add: plain_def split: prod.splits)
  show "rw_Header rw' k = rw_Header rw k"
    using s k cors_key_neq [OF k]
    by (auto simp: oauthServe_def rw_Set_def dest: route_neutral split: option.splits if_splits)
qed

lemma webhook_neutral:
  "webhook_ServeHTTP deps sec hm rw r w = (rw', w') \<Longrightarrow> cors_key k \<Longrightarrow> rw_Header rw' k = rw_Header rw k"
  by (auto simp: webhook_ServeHTTP_def split: if_splits option.splits prod.splits sum.splits)

interpretation webhook: cors_neutral "webhook_nilTracer (webhook_ServeHTTP deps sec hm)" for deps sec hm
  by unfold_locales (auto simp: webhook_nilTracer_def plain_def dest: webhook_neutral split: if_splits prod.splits)

text \<open>Behind its wrappers a service that started leaves the headers alone, if the generated code does.\<close>

lemma started_neutral:
  assumes "startMode P K mode db rdb = Inr (h, port)"
    and "\<And>cfg ah. cors_neutral (pk_authRPC K cfg ah)" and "\<And>ih. cors_neutral (snd (pk_ingestionRPC K ih))"
  shows "\<exists>h'. cors_neutral h' \<and> corsMiddleware h = corsMiddleware h'"
proof -
  consider "mode = ''ingestion''" "startIngestion P K db rdb = Inr (h, port)" | "mode = ''auth''" "startAuth P K db rdb = Inr (h, port)"
    | "startStub mode = (h, port)"
    using assms(1) by (auto simp: startMode_def split: if_splits)
  then show ?thesis
  proof cases
    case 1
    then obtain ih deps where h: "h = mux_serve (ingestionRoutes (pk_ingestionRPC K ih) (webhook_ServeHTTP deps nilSecretStore (pk_hmac K)))"
      by (auto simp: startIngestion_def ing_Bootstrap_def Let_def split: sum.splits)
    have n: "cors_neutral g" if "(p, g) = pk_ingestionRPC K ih" for p g using assms(3) [of ih] that by (metis snd_conv)
    have "cors_neutral (mux_serve (ingestionRoutes (pk_ingestionRPC K ih) (webhook_ServeHTTP deps nilSecretStore (pk_hmac K))))"
      by (rule mux_neutral)
        (auto simp: ingestionRoutes_def intro: n assms(3) cors_neutral.strip webhook.cors_neutral_axioms health.cors_neutral_axioms)
    then show ?thesis using h by blast
  next
    case 2
    then obtain cfg ah oh where h: "h = corsMiddleware (mux_serve (authRoutes (pk_authRPC K cfg ah) oh))"
      by (auto simp: startAuth_def Let_def split: sum.splits prod.splits)
    have "cors_neutral (mux_serve (authRoutes (pk_authRPC K cfg ah) oh))"
      by (rule mux_neutral) (auto simp: authRoutes_def intro: assms(2) cors_neutral.strip oauth.cors_neutral_axioms oauth.strip health.cors_neutral_axioms)
    then show ?thesis using h corsMiddleware_idem by blast
  next
    case 3
    have "cors_neutral (mux_serve [(''/healthz'', healthOK), (''/readyz'', healthOK), (''/'', notImplemented mode)])"
      by (rule mux_neutral) (auto intro: health.cors_neutral_axioms fallback.cors_neutral_axioms)
    then have "cors_neutral h" using 3 by (auto simp: startStub_def)
    then show ?thesis by blast
  qed
qed

text \<open>C40: In every mode, every response of a server that started carries the CORS policy of the program, once,
  whichever handler made it, provided that the generated code leaves those headers alone. A preflight
  request is answered with 204 and reaches no handler: nothing changes.\<close>

theorem server_cors:
  assumes "fst (server_main P K modeFlag w0) = Inr srv"
    and "\<And>cfg ah. cors_neutral (pk_authRPC K cfg ah)" and "\<And>ih. cors_neutral (snd (pk_ingestionRPC K ih))"
    and "srv_Handler srv env rw r w = (Replied rw', w')" and "(k, v) \<in> set corsPolicy"
  shows "rw_Header rw' k = [v]
    \<and> (hr_Method r = ''OPTIONS'' \<longrightarrow> w' = w \<and> rw' = rw_WriteHeader 204 (corsHeaders rw))"
proof -
  obtain mode db rdb h port where s: "startMode P K mode db rdb = Inr (h, port)" "srv_Handler srv = corsMiddleware h"
    using server_main_started [OF assms(1)] by auto
  from started_neutral [OF s(1) assms(2,3)] obtain h' where "cors_neutral h'" "srv_Handler srv = corsMiddleware h'"
    using s(2) by auto
  then have "rw_Header rw' k = [v]" using cors_neutral.policy_kept [of h' env rw r w rw' w' k v] assms(4,5) by simp
  then show ?thesis using assms(4) s(2) by (auto simp: corsMiddleware_def Let_def)
qed

section \<open>The two prefixes of the auth service\<close>

lemma auth_started:
  assumes "fst (server_main P K (Some ''auth'') w0) = Inr srv"
  shows "\<exists>db ah oh. pf_ParseConfig P (postgresDSN (pf_Getenv P)) = Some db
    \<and> auth_Bootstrap (pk_jwt K) (pk_gcm K) (pk_id K) (pk_oauth K) (pf_auth P db (redisOptions (pf_Getenv P))) (authConfig (pf_Getenv P))
        = Inr (ah, oh)
    \<and> srv_Handler srv = corsMiddleware (mux_serve (authRoutes (pk_authRPC K (authConfig (pf_Getenv P)) ah) oh))"
proof -
  let ?env = "pf_Getenv P"
  obtain db h port where d: "pf_ParseConfig P (postgresDSN ?env) = Some db"
    "startAuth P K db (redisOptions ?env) = Inr (h, port)" "srv_Handler srv = corsMiddleware h"
    using server_main_started [OF assms] by (auto simp: startMode_def)
  then obtain ah oh where "auth_Bootstrap (pk_jwt K) (pk_gcm K) (pk_id K) (pk_oauth K) (pf_auth P db (redisOptions ?env)) (authConfig ?env)
        = Inr (ah, oh)" "h = corsMiddleware (mux_serve (authRoutes (pk_authRPC K (authConfig ?env) ah) oh))"
    by (auto simp: startAuth_def Let_def split: sum.splits prod.splits)
  then show ?thesis using d(1,3) corsMiddleware_idem by metis
qed

lemma auth_match:
  "mux_match (authRoutes rpc oh) (''/auth/'' @ x) = Some (''/auth/'', plain (oauthServe oh))"
  "mux_match (authRoutes rpc oh) (''/api/auth/'' @ x) = Some (''/api/auth/'', StripPrefix ''/api'' (plain (oauthServe oh)))"
  "mux_match (authRoutes rpc oh) (''/auth.v1.AuthService/'' @ x) = Some (''/auth.v1.AuthService/'', rpc)"
  "mux_match (authRoutes rpc oh) (''/api/auth.v1.AuthService/'' @ x) = Some (''/api/auth.v1.AuthService/'', StripPrefix ''/api'' rpc)"
  by (simp_all add: authRoutes_def go_simps)

lemma auth_prefixed:
  assumes "cleanPath (hr_Path r) = hr_Path r" and "hr_Path r = p @ x" and "p \<in> {''/auth/'', ''/auth.v1.AuthService/''}"
  shows "mux_serve (authRoutes rpc oh) e rw (r\<lparr>hr_Path := ''/api'' @ hr_Path r\<rparr>) w = mux_serve (authRoutes rpc oh) e rw r w"
proof -
  let ?r = "r\<lparr>hr_Path := ''/api'' @ hr_Path r\<rparr>" and ?m = "authRoutes rpc oh"
  let ?h = "if p = ''/auth/'' then plain (oauthServe oh) else rpc"
  have c: "cleanPath (hr_Path ?r) = hr_Path ?r" using cleanPath_under [OF assms(1), of "''api''"] by (simp add: proper_seg_def)
  have m: "mux_match ?m (hr_Path r) = Some (p, ?h)" "mux_match ?m (hr_Path ?r) = Some (''/api'' @ p, StripPrefix ''/api'' ?h)"
    using assms(2,3) auth_match [where x = x and rpc = rpc and oh = oh] by auto
  have n: "hr_Path r @ [slash] \<notin> fst ` set ?m" "hr_Path ?r @ [slash] \<notin> fst ` set ?m"
    using assms(2,3) by (auto simp: authRoutes_def)
  show ?thesis
    unfolding mux_serve_route [OF assms(1) m(1) n(1)] mux_serve_route [OF c m(2) n(2)]
    using StripPrefix_strip [where prefix = "''/api''" and h = ?h and r = r and p = "hr_Path r"] by simp
qed


section \<open>Where sessions come from\<close>

lemma serve_method:
  "oauthServe h env rw r w = (rw', w') \<Longrightarrow> rw_Cookies rw' \<noteq> rw_Cookies rw \<Longrightarrow> hr_Method r \<in> {''GET'', ''HEAD''}"
  by (auto simp: oauthServe_def split: option.splits if_splits)

text \<open>A cookie that is not set by the procedures is set by the OAuth endpoints, under one of their two
  prefixes.\<close>

lemma auth_cookie_route:
  assumes "mux_serve (authRoutes rpc oh) env rw r w = (Replied rw', w')" and "rw_Cookies rw' \<noteq> rw_Cookies rw"
    and "\<not> HasPrefix (hr_Path r) ''/auth.v1.AuthService/''" and "\<not> HasPrefix (hr_Path r) ''/api/auth.v1.AuthService/''"
  shows "oauthServe oh env rw (r\<lparr>hr_Path := TrimPrefix (hr_Path r) ''/api''\<rparr>) w = (rw', w')"
  using assms(1)
proof (cases rule: mux_serve_cases)
  case (moved p)
  then show ?thesis using assms(2) by (auto simp: movedPermanently_def)
next
  case missing
  then show ?thesis using assms(2) by (auto simp: http_NotFound_def)
next
  case (handled pat h)
  let ?oa = "plain (oauthServe oh)"
  have health: "h \<noteq> healthOK" using handled(3) assms(2) by (auto simp: healthOK_def)
  consider "pat = ''/api/auth/''" "h = StripPrefix ''/api'' ?oa" | "pat = ''/auth/''" "h = ?oa"
    using handled(1,2) assms(3,4) health by (auto simp: authRoutes_def go_simps)
  then show ?thesis
  proof cases
    case 1
    then have "HasPrefix (hr_Path r) ''/api''" using handled(2) by (auto simp: go_simps HasPrefix_iff)
    then show ?thesis using handled(3) 1 by (auto simp: StripPrefix_def TrimPrefix_def HasPrefix_iff plain_def split: prod.splits)
  next
    case 2
    then have "\<not> HasPrefix (hr_Path r) ''/api''" using handled(2) by (auto simp: go_simps HasPrefix_iff)
    then show ?thesis using handled(3) 2 by (simp add: TrimPrefix_def plain_def split: prod.splits)
  qed
qed

text \<open>Where a cookie with a value comes from.\<close>

lemma auth_session_origin:
  assumes "fst (server_main P K (Some ''auth'') w0) = Inr srv"
    and "\<forall>db. pf_ParseConfig P (postgresDSN (pf_Getenv P)) = Some db \<longrightarrow> pf_auth P db (redisOptions (pf_Getenv P)) = S"
    and "redis_api (as_redis S) absr" and "part (as_redisGet S) (as_redisPut S)"
    and "srv_Handler srv env rw r w = (Replied rw', w')" and "rw_Cookies rw = []"
    and "c \<in> set (rw_Cookies rw')" and "ck_Value c \<noteq> []"
    and "\<not> HasPrefix (hr_Path r) ''/auth.v1.AuthService/''" and "\<not> HasPrefix (hr_Path r) ''/api/auth.v1.AuthService/''"
  obtains ah oh v prov name user w1 where
    "auth_Bootstrap (pk_jwt K) (pk_gcm K) (pk_id K) (pk_oauth K) S (authConfig (pf_Getenv P)) = Inr (ah, oh)"
    "oh_cookieDomain oh = pf_Getenv P ''COOKIE_DOMAIN''"
    "state_pending (oe_now env) (absr (as_redisGet S w)) (hr_Query r ''state'') = Some v" "hr_Query r ''code'' \<noteq> []"
    "hr_Method r \<in> {''GET'', ''HEAD''}" "(prov, name) \<in> {(oh_github oh, ''github''), (oh_google oh, ''google'')}"
    "TrimPrefix (hr_Path r) ''/api'' = ''/auth/'' @ name @ ''/callback''"
    "op_HandleCallback prov env (hr_Query r ''code'') (hr_Query r ''state'') (getRedirectURI r name) w = (Inr user, w1)"
    "issueTokensAndRedirect oh env user (corsHeaders rw) (r\<lparr>hr_Path := TrimPrefix (hr_Path r) ''/api''\<rparr>) w1 = (rw', w')"
proof -
  let ?cfg = "authConfig (pf_Getenv P)" and ?r = "r\<lparr>hr_Path := TrimPrefix (hr_Path r) ''/api''\<rparr>"
  let ?ss = "NewStateStore (as_redisGet S) (as_redisPut S) (as_redis S)"
  obtain ah oh where b: "auth_Bootstrap (pk_jwt K) (pk_gcm K) (pk_id K) (pk_oauth K) S ?cfg = Inr (ah, oh)"
    and h: "srv_Handler srv = corsMiddleware (mux_serve (authRoutes (pk_authRPC K ?cfg ah) oh))"
    using auth_started [OF assms(1)] assms(2) by metis
  obtain p g where o: "oh_github oh = githubProvider (pk_oauth K) p" "gh_stateStore p = ?ss"
    "oh_google oh = googleProvider (pk_id K) (pk_oauth K) g" "gg_stateStore g = ?ss" "oh_cookieDomain oh = ac_CookieDomain ?cfg"
    by (rule bootstrap_oauth [OF b])
  have "hr_Method r \<noteq> ''OPTIONS''" using assms(5-7) h by (auto simp: corsMiddleware_def Let_def)
  then have m: "mux_serve (authRoutes (pk_authRPC K ?cfg ah) oh) env (corsHeaders rw) r w = (Replied rw', w')"
    using assms(5) h by (simp add: corsMiddleware_def Let_def)
  have new: "rw_Cookies rw' \<noteq> rw_Cookies (corsHeaders rw)" using assms(6,7) by auto
  note s = auth_cookie_route [OF m new assms(9,10)]
  note ss = redis_api.state_store_ok [OF assms(3,4)]
  have e: "rw_Cookies (corsHeaders rw) = []" using assms(6) by simp
  have d: "oh_cookieDomain oh = pf_Getenv P ''COOKIE_DOMAIN''" using o(5) by (simp add: authConfig_def)
  have q: "hr_Query ?r = hr_Query r" "hr_Path ?r = TrimPrefix (hr_Path r) ''/api''" "getRedirectURI ?r n = getRedirectURI r n"
    "hr_Method ?r = hr_Method r" for n by (simp_all add: getRedirectURI_def)
  show thesis
    using oauth_session_needs_state [OF ss o(1,2,3,4) s e assms(7,8)] serve_method [OF s new] unfolding q
    by (elim exE conjE) (rule that [OF b d])
qed


text \<open>C8: A callback cannot be replayed: once a request has obtained a session from the server, no second request
  with the same state token obtains one in the world it left, whatever its provider, its code, its time and its prefix.
  The databases, the providers and the key cache are other parts of the world than Redis.\<close>

theorem auth_server_no_replay:
  assumes "fst (server_main P K (Some ''auth'') w0) = Inr srv"
    and "\<forall>db. pf_ParseConfig P (postgresDSN (pf_Getenv P)) = Some db \<longrightarrow> pf_auth P db (redisOptions (pf_Getenv P)) = S"
    and "redis_api (as_redis S) absr" and "part (as_redisGet S) (as_redisPut S)" and "redis_apart S (pk_oauth K)"
    and "srv_Handler srv env rw r w = (Replied rw', w')" and "rw_Cookies rw = []"
    and "c \<in> set (rw_Cookies rw')" and "ck_Value c \<noteq> []"
    and "\<not> HasPrefix (hr_Path r) ''/auth.v1.AuthService/''" and "\<not> HasPrefix (hr_Path r) ''/api/auth.v1.AuthService/''"
    and "srv_Handler srv env2 rw r2 w' = (Replied rw2, w2)" and "hr_Query r2 ''state'' = hr_Query r ''state''"
    and "\<not> HasPrefix (hr_Path r2) ''/auth.v1.AuthService/''" and "\<not> HasPrefix (hr_Path r2) ''/api/auth.v1.AuthService/''"
  shows "\<forall>c2 \<in> set (rw_Cookies rw2). ck_Value c2 = []"
proof (rule auth_session_origin [OF assms(1-4,6-11)], goal_cases)
  case (1 ah oh v prov name user w1)
  have p: "prov \<in> {oh_github oh, oh_google oh}" using 1(6) by auto
  have gone: "state_pending t (absr (as_redisGet S w')) (hr_Query r2 ''state'') = None" for t
    using issue_keeps_states [OF assms(5,3,4) 1(1,9)] callback_consumes [OF assms(5,3,4) 1(1) p 1(8)] assms(13) by simp
  show ?case
  proof (rule ccontr)
    assume "\<not> (\<forall>c2 \<in> set (rw_Cookies rw2). ck_Value c2 = [])"
    then obtain c2 where c2: "c2 \<in> set (rw_Cookies rw2)" "ck_Value c2 \<noteq> []" by blast
    show False by (rule auth_session_origin [OF assms(1-4,12,7) c2 assms(14,15)]) (simp add: gone)
  qed
qed

section \<open>Webhooks of the ingestion service\<close>

text \<open>The wiring of the process leaves the ingestion service without a tracer: a webhook that carries a
  signature, valid or not, is never processed. Its connection is dropped and nothing changes.\<close>

lemma ingestion_webhook_aborts:
  assumes "fst (server_main P K None w0) = Inr srv" and "\<And>ih. HasSuffix (fst (pk_ingestionRPC K ih)) [slash]"
    and "hr_Path r = ''/v1/webhooks/ingest''" and "hr_Method r = ''POST''" and "hr_Body r = Some payload"
    and "webhookInput r payload \<noteq> None"
  shows "srv_Handler srv env rw r w = (Aborted, w)"
proof -
  obtain db h port where "startIngestion P K db (redisOptions (pf_Getenv P)) = Inr (h, port)" and s: "srv_Handler srv = corsMiddleware h"
    using server_main_started [OF assms(1)] by (auto simp: startMode_def)
  then obtain ih g where h: "h = mux_serve (ingestionRoutes (pk_ingestionRPC K ih) g)"
    by (auto simp: startIngestion_def split: sum.splits)
  let ?rpc = "pk_ingestionRPC K ih" and ?m = "ingestionRoutes (pk_ingestionRPC K ih) g"
  obtain q where q: "fst ?rpc = q @ [slash]" using assms(2) [of ih] by (auto simp: HasSuffix_def HasPrefix_iff rev_eq_Cons_iff)
  have c: "cleanPath (hr_Path r) = hr_Path r" unfolding assms(3) by code_simp
  have "distinct (map fst ?m)" using q by (auto simp: ingestionRoutes_def)
  then have m: "mux_match ?m (hr_Path r) = Some (''/v1/webhooks/ingest'', webhook_nilTracer g)"
    by (rule mux_match_eq)
      (auto simp: ingestionRoutes_def pat_matches_def assms(3) HasSuffix_def HasPrefix_iff dest!: arg_cong [where f = length] split: if_splits)
  have "mux_serve ?m env (corsHeaders rw) r w = webhook_nilTracer g env (corsHeaders rw) r w"
    by (rule mux_serve_exact [OF c m [folded assms(3)]])
  also have "webhook_nilTracer g env (corsHeaders rw) r w = (Aborted, w)" using assms(4-6) by (simp add: webhook_nilTracer_def)
  finally show ?thesis using assms(4) by (simp add: s h corsMiddleware_def Let_def)
qed

section \<open>Concrete servers\<close>

text \<open>A platform that reaches its database and Redis, with the world of the OAuth examples; the tables that
  a login does not need fail.\<close>

definition down_pg :: "('r, 'w) pgx" where
  "down_pg st w = (Inl (PgErr ''down''), w)"

definition demo_vars :: "string \<Rightarrow> string" where
  "demo_vars k =
     (if k \<in> {''ENCRYPTION_KEY'', ''ENCRYPTION_KEY_V1''} then replicate 32 (CHR ''a'')
      else if k = ''JWT_PRIVATE_KEY_PEM'' then [CHR ''k'', CHR 0x0D]
      else if k = ''GOOGLE_CLIENT_ID'' then ''id'' else if k = ''COOKIE_DOMAIN'' then ''example.org'' else [])"

definition demo_services :: "(gworld, rstore) auth_services" where
  "demo_services = \<lparr>as_redisGet = fst, as_redisPut = (\<lambda>s w. (s, snd w)), as_redis = pure_redis,
     as_users = snd_pg (fst_pg (pure_pg user_clash)), as_members = down_pg, as_sessions = down_pg, as_http = demo_http,
     as_cacheGet = (\<lambda>w. snd (snd w)), as_cachePut = (\<lambda>c w. (fst w, fst (snd w), c))\<rparr>"

definition demo_platform :: "(unit, rstore, User list \<times> jwksCache, rstore) platform" where
  "demo_platform = \<lparr>pf_Getenv = demo_vars, pf_ParseConfig = (\<lambda>dsn. Some ()), pf_NewWithConfig = (\<lambda>c w. (True, w)),
     pf_Ping = (\<lambda>opts w. (True, w)), pf_auth = (\<lambda>c opts. demo_services), pf_workloads = (\<lambda>c. down_pg),
     pf_credentials = (\<lambda>c. down_pg), pf_asynq = (\<lambda>opts t q. (Some ''down'', q))\<rparr>"

definition demo_packages :: "(string, string, gworld) packages" where
  "demo_packages = \<lparr>pk_jwt = \<lparr>ParseRSAPrivateKeyFromPEM = (\<lambda>p. if p = [] then None else Some p),
       PublicKeyOf = (\<lambda>k. k), SignRS256 = (\<lambda>k c. Some (''at.'' @ k)), ParseWithClaims = (\<lambda>opts kf now s. Inl ErrJwtExpired)\<rparr>,
      pk_gcm = tag_gcm, pk_id = demo_idlib,
     pk_oauth = demo_lib, pk_hmac = (\<lambda>k m. k), pk_timeString = (\<lambda>t. []),
     pk_authRPC = (\<lambda>cfg ah. http_NotFound), pk_ingestionRPC = (\<lambda>ih. (''/raftweave.v1.IngestionService/'', http_NotFound))\<rparr>"

definition demo_answer :: "string option \<Rightarrow> http_request \<Rightarrow> served option" where
  "demo_answer mode r =
     (case fst (server_main demo_platform demo_packages mode (demo_store, [], emptyCache)) of
        Inl msg \<Rightarrow> None
      | Inr srv \<Rightarrow> Some (fst (srv_Handler srv demo_env demo_rw r (demo_store, [], emptyCache))))"

lemma demo_server_callback:
  "case demo_answer (Some ''auth'') (demo_req ''/api/auth/google/callback'' []) of
     Some (Replied rw) \<Rightarrow> map ck_Value (rw_Cookies rw) = [''at.k'', ''6b6579''] | _ \<Rightarrow> False"
  by code_simp

lemma demo_started:
  "\<exists>srv. fst (server_main demo_platform demo_packages (Some ''auth'') w) = Inr srv"
  "\<exists>srv. fst (server_main demo_platform demo_packages None w) = Inr srv"
  by (simp_all add: server_main_def initDB_def initRedis_def startMode_def startAuth_def startIngestion_def Let_def
      auth_Bootstrap_def jwt_New_def NewEncryptor_def aes_key_def ing_Bootstrap_def NewAESEncryptor_def
      authConfig_def demo_platform_def demo_packages_def demo_vars_def)

theorem server_cors_witness:
  "\<exists>srv rw' w'. fst (server_main demo_platform demo_packages None (demo_store, [], emptyCache)) = Inr srv
    \<and> srv_Handler srv demo_env demo_rw ((demo_req ''/healthz'' [])\<lparr>hr_Method := ''OPTIONS''\<rparr>) (demo_store, [], emptyCache) = (Replied rw', w')
    \<and> rw_Header rw' ''Access-Control-Allow-Origin'' = [''http://localhost:4200''] \<and> rw_Status rw' = Some 204
    \<and> w' = (demo_store, [], emptyCache)"
proof -
  let ?w = "(demo_store, [], emptyCache)" and ?r = "(demo_req ''/healthz'' [])\<lparr>hr_Method := ''OPTIONS''\<rparr>"
  obtain srv where s: "fst (server_main demo_platform demo_packages None ?w) = Inr srv" using demo_started(2) by blast
  have "\<exists>h. srv_Handler srv = corsMiddleware h" using server_main_started [OF s] by auto
  then obtain rw' w' where h: "srv_Handler srv demo_env demo_rw ?r ?w = (Replied rw', w')" by (auto simp: corsMiddleware_def Let_def)
  have n: "cors_neutral (pk_authRPC demo_packages cfg ah)" "cors_neutral (snd (pk_ingestionRPC demo_packages ih))" for cfg ah ih
    by (simp_all add: demo_packages_def notfound.cors_neutral_axioms)
  have k: "(''Access-Control-Allow-Origin'', ''http://localhost:4200'') \<in> set corsPolicy" by (simp add: corsPolicy_def)
  from server_cors [OF s n h k] show ?thesis using s h
    by (auto simp: demo_rw_def corsHeaders_def rw_Set_def rw_WriteHeader_def)
qed


text \<open>The login of the demonstration.\<close>

lemma demo_session:
  obtains srv rw' w' where "fst (server_main demo_platform demo_packages (Some ''auth'') (demo_store, [], emptyCache)) = Inr srv"
    "srv_Handler srv demo_env demo_rw (demo_req ''/api/auth/google/callback'' []) (demo_store, [], emptyCache) = (Replied rw', w')"
    "map ck_Value (rw_Cookies rw') = [''at.k'', ''6b6579'']"
    "hd (rw_Cookies rw') \<in> set (rw_Cookies rw')" "ck_Value (hd (rw_Cookies rw')) \<noteq> []"
proof -
  let ?w = "(demo_store, [], emptyCache)" and ?r = "demo_req ''/api/auth/google/callback'' []"
  obtain srv where s: "fst (server_main demo_platform demo_packages (Some ''auth'') ?w) = Inr srv" using demo_started(1) by blast
  obtain res w' where h: "srv_Handler srv demo_env demo_rw ?r ?w = (res, w')" by (rule prod.exhaust)
  then obtain rw' where a: "res = Replied rw'" "map ck_Value (rw_Cookies rw') = [''at.k'', ''6b6579'']"
    using demo_server_callback s by (cases res) (simp_all add: demo_answer_def)
  then have "hd (rw_Cookies rw') \<in> set (rw_Cookies rw')" "ck_Value (hd (rw_Cookies rw')) \<noteq> []" by (auto simp: map_eq_Cons_conv)
  then show thesis using that [OF s h [unfolded a(1)] a(2)] by blast
qed

lemma demo_services_ok:
  "\<forall>db. pf_ParseConfig demo_platform (postgresDSN (pf_Getenv demo_platform)) = Some db
     \<longrightarrow> pf_auth demo_platform db (redisOptions (pf_Getenv demo_platform)) = demo_services"
  "redis_api (as_redis demo_services) (\<lambda>st. st)" "part (as_redisGet demo_services) (as_redisPut demo_services)"
  "rw_Cookies demo_rw = []"
  by (simp_all add: demo_platform_def demo_services_def pure.redis_api_axioms Prelude.part_def demo_rw_def)

lemma demo_paths:
  "\<not> HasPrefix (hr_Path (demo_req ''/api/auth/google/callback'' [])) ''/auth.v1.AuthService/''"
  "\<not> HasPrefix (hr_Path (demo_req ''/api/auth/google/callback'' [])) ''/api/auth.v1.AuthService/''"
  "\<not> HasPrefix (hr_Path (demo_req ''/auth/github/callback'' [])) ''/auth.v1.AuthService/''"
  "\<not> HasPrefix (hr_Path (demo_req ''/auth/github/callback'' [])) ''/api/auth.v1.AuthService/''"
  by (simp_all add: demo_req_def)

interpretation demoapart: redis_apart demo_services demo_lib
  by unfold_locales
    (auto simp: demo_services_def demo_lib_def demo_http_def down_pg_def snd_pg_def fst_pg_def lift_part_def split: prod.splits if_splits)

lemma demo_github_replies:
  assumes "fst (server_main demo_platform demo_packages (Some ''auth'') w0) = Inr srv"
  shows "\<exists>rw2 w2. srv_Handler srv env demo_rw (demo_req ''/auth/github/callback'' []) w = (Replied rw2, w2)"
proof -
  let ?r = "demo_req ''/auth/github/callback'' []"
  obtain rpc oh where h: "srv_Handler srv = corsMiddleware (mux_serve (authRoutes rpc oh))" using auth_started [OF assms] by blast
  have c: "cleanPath (hr_Path ?r) = hr_Path ?r" by code_simp
  have "mux_match (authRoutes rpc oh) (hr_Path ?r) = Some (''/auth/'', plain (oauthServe oh))"
    using auth_match(1) [of rpc oh "''github/callback''"] by (simp add: demo_req_def)
  from mux_serve_route [OF c this] have "mux_serve (authRoutes rpc oh) env rw ?r w = plain (oauthServe oh) env rw ?r w" for rw
    by (simp add: demo_req_def authRoutes_def)
  then show ?thesis by (simp add: h corsMiddleware_def Let_def demo_req_def plain_def split: prod.splits)
qed


theorem auth_server_no_replay_witness:
  "\<exists>srv rw' w' rw2 w2. fst (server_main demo_platform demo_packages (Some ''auth'') (demo_store, [], emptyCache)) = Inr srv
    \<and> srv_Handler srv demo_env demo_rw (demo_req ''/api/auth/google/callback'' []) (demo_store, [], emptyCache) = (Replied rw', w')
    \<and> map ck_Value (rw_Cookies rw') = [''at.k'', ''6b6579'']
    \<and> srv_Handler srv demo_env demo_rw (demo_req ''/auth/github/callback'' []) w' = (Replied rw2, w2)
    \<and> list_all (\<lambda>c. ck_Value c = []) (rw_Cookies rw2)"
proof (rule demo_session, goal_cases)
  case (1 srv rw' w')
  obtain rw2 w2 where h: "srv_Handler srv demo_env demo_rw (demo_req ''/auth/github/callback'' []) w' = (Replied rw2, w2)"
    using demo_github_replies [OF 1(1)] by blast
  have L: "redis_apart demo_services (pk_oauth demo_packages)" using demoapart.redis_apart_axioms by (simp add: demo_packages_def)
  have q: "hr_Query (demo_req ''/auth/github/callback'' []) ''state'' = hr_Query (demo_req ''/api/auth/google/callback'' []) ''state''"
    by (simp add: demo_req_def)
  have v: "list_all (\<lambda>c. ck_Value c = []) (rw_Cookies rw2)"
    using auth_server_no_replay [OF 1(1) demo_services_ok(1-3) L 1(2) demo_services_ok(4) 1(4,5) demo_paths(1,2) h q demo_paths(3,4)]
    by (simp add: list_all_iff)
  show ?case by (intro exI conjI) (rule 1(1), rule 1(2), rule 1(3), rule h, rule v)
qed

end
