(* ===== verification/Rate_Limit.thy ===== *)
theory Rate_Limit
  imports Redis Auth_Middleware
begin

text \<open>
  The sliding-window rate limiter of \<^verbatim>\<open>internal/middleware/ratelimit.go\<close> and the header middleware of
  \<^verbatim>\<open>security_headers.go\<close>. Redis holds, per route and client, a sorted set of the microsecond stamps of
  the recent requests; a request is let through when fewer than the maximum lie in the window
  before it.
\<close>

section \<open>The limiter\<close>

record RateLimit =
  Max :: int
  Window :: duration
  Key :: string

type_synonym limits = "string \<Rightarrow> RateLimit option"

definition zeroLimit :: RateLimit where
  "zeroLimit = \<lparr>Max = 0, Window = 0, Key = []\<rparr>"

definition DefaultLimits :: limits where
  "DefaultLimits =
     [''/auth/otp/request'' \<mapsto> \<lparr>Max = 3, Window = minutes 15, Key = ''email''\<rparr>,
      ''/auth/otp/verify'' \<mapsto> \<lparr>Max = 5, Window = minutes 5, Key = ''ip''\<rparr>,
      ''/auth/token/refresh'' \<mapsto> \<lparr>Max = 30, Window = minutes 1, Key = ''ip''\<rparr>,
      ''/auth.v1.AuthService/GetMe'' \<mapsto> \<lparr>Max = 60, Window = minutes 1, Key = ''userID''\<rparr>,
      ''default'' \<mapsto> \<lparr>Max = 100, Window = minutes 1, Key = ''ip''\<rparr>]"

definition NewRateLimiter :: "limits option \<Rightarrow> limits" where
  "NewRateLimiter l = (case l of None \<Rightarrow> DefaultLimits | Some m \<Rightarrow> m)"

definition mw_extractIP :: "http_request \<Rightarrow> string" where
  "mw_extractIP r =
     (if hdr_Get (hr_Header r) ''X-Forwarded-For'' \<noteq> [] then hdr_Get (hr_Header r) ''X-Forwarded-For''
      else if hdr_Get (hr_Header r) ''X-Real-Ip'' \<noteq> [] then hdr_Get (hr_Header r) ''X-Real-Ip''
      else hr_RemoteAddr r)"

definition extractIdentifier :: "gctx \<Rightarrow> http_request \<Rightarrow> string \<Rightarrow> string" where
  "extractIdentifier ctx r keyType =
     (if keyType = ''email'' then hr_Form r ''email''
      else if keyType = ''userID''
      then (case mw_ClaimsFromContext ctx of Some c \<Rightarrow> c_UserID c | None \<Rightarrow> mw_extractIP r)
      else mw_extractIP r)"

definition UnixMicro :: "gotime \<Rightarrow> int" where "UnixMicro t = t div 1000"
definition Unix :: "gotime \<Rightarrow> int" where "Unix t = t div 1000000000"

definition checkCmds :: "gotime \<Rightarrow> string \<Rightarrow> RateLimit \<Rightarrow> rcmd list" where
  "checkCmds now key limit =
     [CZRemRangeByScore key (UnixMicro (now - Window limit)),
      CZCard key,
      CZAdd key (UnixMicro now) (dec_int (UnixMicro now)),
      CExpire key (Window limit)]"

text \<open>The result: allowed, remaining, reset instant, and the error if the transaction failed.\<close>

definition rl_check ::
    "'s redis \<Rightarrow> gotime \<Rightarrow> string \<Rightarrow> RateLimit \<Rightarrow> 's \<Rightarrow> (bool \<times> int \<times> int \<times> rerr option) \<times> 's" where
  "rl_check R now key limit s =
     (let resetAt = Unix (now + Window limit) in
      case rdb_Exec R now (checkCmds now key limit) s of
        (Inl e, s') \<Rightarrow> ((True, Max limit, resetAt, Some e), s')
      | (Inr rs, s') \<Rightarrow>
          let cnt = (case rs of _ # RepInt n # _ \<Rightarrow> n | _ \<Rightarrow> 0);
              remaining = max 0 (Max limit - cnt - 1)
          in if Max limit \<le> cnt then ((False, 0, resetAt, None), s')
             else ((True, remaining, resetAt, None), s'))"

text \<open>The clock is read once more for the Retry-After header.\<close>

definition RateLimitMiddleware ::
    "'s redis \<Rightarrow> limits \<Rightarrow> gotime \<Rightarrow> gotime \<Rightarrow> gctx \<Rightarrow> 's http_handler \<Rightarrow> 's http_handler" where
  "RateLimitMiddleware R ls now now2 ctx next rw r s =
     (let limit = (case ls (hr_Path r) of Some l \<Rightarrow> l
                   | None \<Rightarrow> (case ls ''default'' of Some l \<Rightarrow> l | None \<Rightarrow> zeroLimit));
          key = ''rftw:rl:'' @ hr_Path r @ '':'' @ extractIdentifier ctx r (Key limit)
      in case rl_check R now key limit s of
           ((allowed, remaining, resetAt, Some e), s1) \<Rightarrow> next rw r s1
         | ((allowed, remaining, resetAt, None), s1) \<Rightarrow>
             let rw1 = rw_Set ''X-RateLimit-Reset'' (dec_int resetAt)
                        (rw_Set ''X-RateLimit-Remaining'' (dec_int remaining)
                         (rw_Set ''X-RateLimit-Limit'' (dec_int (Max limit)) rw))
             in if \<not> allowed
                then let retryAfter = max 1 (resetAt - Unix now2)
                     in (http_Error ''Too Many Requests'' 429 (rw_Set ''Retry-After'' (dec_int retryAfter) rw1), s1)
                else next rw1 r s1)"

section \<open>Security headers\<close>

definition securityHeaders :: "(string \<times> string) list" where
  "securityHeaders =
     [(''Strict-Transport-Security'', ''max-age=31536000; includeSubDomains; preload''),
      (''X-Content-Type-Options'', ''nosniff''),
      (''X-Frame-Options'', ''DENY''),
      (''Referrer-Policy'', ''strict-origin-when-cross-origin''),
      (''Permissions-Policy'', ''camera=(), microphone=(), geolocation=()''),
      (''Content-Security-Policy'',
        ''default-src 'self'; '' @ ''script-src 'self'; '' @ ''style-src 'self' 'unsafe-inline'; '' @
        ''img-src 'self' https://avatars.githubusercontent.com https://lh3.googleusercontent.com data:; '' @
        ''connect-src 'self'; '' @ ''frame-ancestors '' @ [CHR 0x27] @ ''none'' @ [CHR 0x27])]"

definition SecurityHeaders :: "'w http_handler \<Rightarrow> 'w http_handler" where
  "SecurityHeaders next rw r w = next (foldl (\<lambda>rw (k, v). rw_Set k v rw) rw securityHeaders) r w"

section \<open>The window as a log of requests\<close>

text \<open>
  The contract: a log of the stamps of all requests so far. A request at \<open>t\<close> is allowed when fewer
  than the maximum of the logged stamps are later than the start of its window.
\<close>

definition in_window :: "RateLimit \<Rightarrow> gotime \<Rightarrow> int list \<Rightarrow> int list" where
  "in_window l t H = filter (\<lambda>x. UnixMicro (t - Window l) < x) H"

definition scores :: "gotime \<Rightarrow> rstore \<Rightarrow> string \<Rightarrow> int list" where
  "scores t st k = (case live t st k of Some (RZSet ms) \<Rightarrow> map snd ms | _ \<Rightarrow> [])"

definition zset_key :: "gotime \<Rightarrow> rstore \<Rightarrow> string \<Rightarrow> bool" where
  "zset_key t st k = (case live t st k of None \<Rightarrow> True
     | Some (RZSet ms) \<Rightarrow> (\<forall>(m, sc) \<in> set ms. m = dec_int sc) | _ \<Rightarrow> False)"

text \<open>The key holds the log, as far as any later request can see it.\<close>

definition logs :: "RateLimit \<Rightarrow> string \<Rightarrow> gotime \<Rightarrow> int list \<Rightarrow> rstore \<Rightarrow> bool" where
  "logs l k t0 H st \<longleftrightarrow>
     (\<forall>x \<in> set H. x \<le> UnixMicro t0)
   \<and> (\<forall>t \<ge> t0. zset_key t st k \<and> in_window l t (scores t st k) = in_window l t H)"

fun rl_run :: "'s redis \<Rightarrow> string \<Rightarrow> RateLimit \<Rightarrow> gotime list \<Rightarrow> 's \<Rightarrow> bool list \<times> 's" where
  "rl_run R k l [] s = ([], s)"
| "rl_run R k l (t # ts) s =
     (let ((ok, _), s1) = rl_check R t k l s; (oks, s2) = rl_run R k l ts s1 in (ok # oks, s2))"

fun log_run :: "RateLimit \<Rightarrow> int list \<Rightarrow> gotime list \<Rightarrow> bool list" where
  "log_run l H [] = []"
| "log_run l H (t # ts) =
     (int (length (in_window l t H)) < Max l) # log_run l (H @ [UnixMicro t]) ts"

lemma dec_int_inj [simp]: "dec_int a = dec_int b \<longleftrightarrow> a = b"
proof -
  have neg: "dec_nat n \<noteq> ''-'' @ dec_nat m" for n m
  proof
    assume "dec_nat n = ''-'' @ dec_nat m"
    then have "CHR ''-'' \<in> set (dec_nat n)" by simp
    then show False using dec_nat_digits [of n] by (fastforce simp: is_digit_def)
  qed
  show ?thesis using neg neg [symmetric] by (auto simp: dec_int_def)
qed

lemma UnixMicro_mono: "s \<le> t \<Longrightarrow> UnixMicro s \<le> UnixMicro t"
  by (simp add: UnixMicro_def zdiv_mono1)

lemma in_window_append [simp]: "in_window l t (H @ G) = in_window l t H @ in_window l t G"
  by (simp add: in_window_def)

lemma in_window_later: "t \<le> t' \<Longrightarrow> in_window l t' (in_window l t H) = in_window l t' H"
  using UnixMicro_mono [of "t - Window l" "t' - Window l"] by (auto simp: in_window_def intro: filter_cong)

text \<open>What one transaction of the limiter does.\<close>

lemma check_cmds:
  assumes z: "zset_key t st k" and w: "0 < Window l" and fresh: "UnixMicro t \<notin> set (in_window l t (scores t st k))"
  shows "\<exists>ms a b. run_cmds t (checkCmds t k l) st =
      ([RepInt a, RepInt (int (length (in_window l t (scores t st k)))), RepInt b, RepInt 1],
       st(k \<mapsto> \<lparr>rv = RZSet ms, rexp = Some (t + Window l)\<rparr>))
    \<and> map snd ms = in_window l t (scores t st k) @ [UnixMicro t] \<and> (\<forall>(m, sc) \<in> set ms. m = dec_int sc)"
proof (cases "entry t st k")
  case None
  then have "live t st k = None" by (simp add: live_def)
  with None w show ?thesis
    by (intro exI [of _ "[(dec_int (UnixMicro t), UnixMicro t)]"])
      (simp add: checkCmds_def scores_def in_window_def put_zset_def Let_def)
next
  case (Some e)
  then have le: "live t st k = Some (rv e)" by (simp add: live_def)
  then obtain zs where zs: "rv e = RZSet zs" "\<forall>(m, sc) \<in> set zs. m = dec_int sc"
    using z by (auto simp: zset_key_def split: rval.splits)
  have ne: "\<not> expired t \<lparr>rv = v, rexp = rexp e\<rparr>" for v
    using Some by (auto simp: entry_def expired_def split: option.splits if_splits)
  let ?f = "filter (\<lambda>m. UnixMicro (t - Window l) < snd m) zs"
  have win: "in_window l t (scores t st k) = map snd ?f" using le zs(1) by (simp add: scores_def in_window_def filter_map comp_def)
  have "fst x \<noteq> dec_int (UnixMicro t)" if "x \<in> set ?f" for x
  proof
    assume eq: "fst x = dec_int (UnixMicro t)"
    have "fst x = dec_int (snd x)" using zs(2) that by auto
    then have "UnixMicro t = snd x" using eq by simp
    then have "UnixMicro t \<in> set (map snd ?f)" using that by simp
    then show False using fresh win by simp
  qed
  then have keep: "filter (\<lambda>x. fst x \<noteq> dec_int (UnixMicro t)) ?f = ?f"
    by (intro filter_True) blast
  show ?thesis
  proof (cases "?f = []")
    case True
    then show ?thesis using Some zs le w win
      by (intro exI [of _ "[(dec_int (UnixMicro t), UnixMicro t)]"])
        (simp add: checkCmds_def put_zset_def Let_def)
  next
    case False
    then show ?thesis using Some zs le w win ne keep
      by (intro exI [of _ "?f @ [(dec_int (UnixMicro t), UnixMicro t)]"])
        (auto simp: checkCmds_def put_zset_def Let_def simp del: filter_filter)
  qed
qed

context redis_up
begin

lemma check_step:
  assumes lg: "logs l k t0 H (absr s)" and t: "t0 \<le> t" and w: "0 < Window l" and fresh: "UnixMicro t \<notin> set H"
  shows "\<exists>rem s'. rl_check R t k l s = ((int (length (in_window l t H)) < Max l, rem, Unix (t + Window l), None), s')
    \<and> rem = (if int (length (in_window l t H)) < Max l then Max l - int (length (in_window l t H)) - 1 else 0)
    \<and> logs l k t (H @ [UnixMicro t]) (absr s')"
proof -
  have z: "zset_key t (absr s) k" and win: "in_window l t (scores t (absr s) k) = in_window l t H"
    using lg t by (auto simp: logs_def)
  have "UnixMicro t \<notin> set (in_window l t (scores t (absr s) k))" using fresh win by (auto simp: in_window_def)
  from check_cmds [OF z w this] obtain ms a b where run: "run_cmds t (checkCmds t k l) (absr s) =
      ([RepInt a, RepInt (int (length (in_window l t H))), RepInt b, RepInt 1],
       (absr s)(k \<mapsto> \<lparr>rv = RZSet ms, rexp = Some (t + Window l)\<rparr>))"
    and ms: "map snd ms = in_window l t H @ [UnixMicro t]" "\<forall>(m, sc) \<in> set ms. m = dec_int sc"
    unfolding win by blast
  obtain rs s' where ex: "rdb_Exec R t (checkCmds t k l) s = (Inr rs, s')"
    "absr s' = (absr s)(k \<mapsto> \<lparr>rv = RZSet ms, rexp = Some (t + Window l)\<rparr>)"
    "rs = [RepInt a, RepInt (int (length (in_window l t H))), RepInt b, RepInt 1]"
    using Exec_up [of t "checkCmds t k l" s] run by (auto simp: list_all2_Cons1)
  have old: "\<forall>x \<in> set H. x \<le> UnixMicro t"
    using lg UnixMicro_mono [OF t] by (force simp: logs_def)
  have "in_window l t' (scores t' (absr s') k) = in_window l t' (H @ [UnixMicro t])" if "t \<le> t'" for t'
  proof (cases "t' < t + Window l")
    case True
    then show ?thesis using ms(1) in_window_later [OF that] by (simp add: ex(2) scores_def)
  next
    case False
    then have "UnixMicro t \<le> UnixMicro (t' - Window l)" by (intro UnixMicro_mono) simp
    then have "in_window l t' (H @ [UnixMicro t]) = []" using old by (auto simp: in_window_def filter_empty_conv)
    then show ?thesis using False by (simp add: ex(2) scores_def in_window_def)
  qed
  then have "logs l k t (H @ [UnixMicro t]) (absr s')"
    using old ms(2) by (auto simp: logs_def zset_key_def ex(2))
  then show ?thesis using ex by (auto simp: rl_check_def Let_def)
qed

text \<open>A run of the limiter over requests with distinct stamps is a run over the log.\<close>

lemma run_refines:
  assumes "logs l k t0 H (absr s)" and "0 < Window l"
    and "sorted_wrt (\<lambda>a b. UnixMicro a < UnixMicro b) (t0 # ts)"
  shows "fst (rl_run R k l ts s) = log_run l H ts"
  using assms
proof (induction ts arbitrary: t0 H s)
  case (Cons t ts)
  have lt: "UnixMicro t0 < UnixMicro t" using Cons.prems(3) by simp
  then have "t0 \<le> t" using UnixMicro_mono [of t t0] by linarith
  moreover have "UnixMicro t \<notin> set H" using Cons.prems(1) lt by (auto simp: logs_def)
  ultimately obtain rem s' where st: "rl_check R t k l s =
      ((int (length (in_window l t H)) < Max l, rem, Unix (t + Window l), None), s')"
    "logs l k t (H @ [UnixMicro t]) (absr s')"
    using check_step [OF Cons.prems(1)] Cons.prems(2) by blast
  show ?case using Cons.IH [OF st(2) Cons.prems(2)] Cons.prems(3) st(1) by (simp add: Let_def case_prod_unfold)
qed simp

end

lemma log_run_snoc:
  "log_run l H (ts @ [t]) = log_run l H ts @ [int (length (in_window l t (H @ map UnixMicro ts))) < Max l]"
  by (induction ts arbitrary: H) (simp_all del: in_window_append)

lemma log_run_length [simp]: "length (log_run l H ts) = length ts"
  by (induction ts arbitrary: H) auto

lemma log_run_bound:
  assumes "0 \<le> Max l"
  shows "int (length (filter (\<lambda>(t, ok). ok \<and> t \<le> T \<and> UnixMicro (T - Window l) < UnixMicro t)
           (zip ts (log_run l [] ts)))) \<le> Max l"
proof (induction ts rule: rev_induct)
  case (snoc t ts)
  let ?P = "\<lambda>(t, ok). ok \<and> t \<le> T \<and> UnixMicro (T - Window l) < UnixMicro t"
  let ?ok = "int (length (in_window l t (map UnixMicro ts))) < Max l"
  have zip: "zip (ts @ [t]) (log_run l [] (ts @ [t])) = zip ts (log_run l [] ts) @ [(t, ?ok)]"
    by (simp add: log_run_snoc)
  show ?case
  proof (cases "?P (t, ?ok)")
    case True
    then have tT: "UnixMicro (t - Window l) \<le> UnixMicro (T - Window l)" by (intro UnixMicro_mono) simp
    have "length (filter ?P (zip ts oks)) \<le> length (filter (\<lambda>t'. UnixMicro (T - Window l) < UnixMicro t') ts)"
      for oks :: "bool list"
      by (induction ts oks rule: list_induct2') auto
    also have "\<dots> \<le> length (filter (\<lambda>t'. UnixMicro (t - Window l) < UnixMicro t') ts)"
      using tT by (induction ts) auto
    finally have "length (filter ?P (zip ts (log_run l [] ts))) \<le> length (in_window l t (map UnixMicro ts))"
      by (simp add: in_window_def filter_map comp_def)
    then show ?thesis using True unfolding zip by simp
  next
    case False
    then show ?thesis using snoc unfolding zip by auto
  qed
qed (simp add: assms)

section \<open>Properties\<close>

lemma logs_absent: "live t0 st k = None \<Longrightarrow> logs l k t0 [] st"
  using live_expired_mono [of t0 st k] by (auto simp: logs_def zset_key_def scores_def in_window_def)



text \<open>The middleware decides by the window alone. With fewer than the maximum of the client's
  stamps in the window the handler runs, with the limit headers set and the request recorded; otherwise the
  answer is 429 with a Retry-After of at least one second, the handler does not run, and the refused request is
  recorded all the same.\<close>

theorem rate_limit_middleware:
  assumes up: "redis_up R absr"
    and l: "ls (hr_Path r) = Some l" "0 < Window l"
    and key: "k = ''rftw:rl:'' @ hr_Path r @ '':'' @ extractIdentifier ctx r (Key l)"
    and lg: "logs l k t0 H (absr s)" "t0 \<le> now" "UnixMicro now \<notin> set H" and rw: "rw_Status rw = None"
  shows "\<exists>s1. logs l k now (H @ [UnixMicro now]) (absr s1)
    \<and> (if int (length (in_window l now H)) < Max l
       then \<exists>rw1. RateLimitMiddleware R ls now now2 ctx nxt rw r s = nxt rw1 r s1
         \<and> rw_Header rw1 ''X-RateLimit-Remaining'' = [dec_int (Max l - int (length (in_window l now H)) - 1)]
         \<and> rw_Status rw1 = None
       else \<exists>rw1 n. RateLimitMiddleware R ls now now2 ctx nxt rw r s = (rw1, s1)
         \<and> rw_Status rw1 = Some 429 \<and> rw_Header rw1 ''Retry-After'' = [dec_int n] \<and> 1 \<le> n)"
proof -
  let ?c = "int (length (in_window l now H))"
  from redis_up.check_step [OF up lg(1,2) l(2) lg(3)] obtain rem s1
    where chk: "rl_check R now k l s = ((?c < Max l, rem, Unix (now + Window l), None), s1)"
    and rem: "rem = (if ?c < Max l then Max l - ?c - 1 else 0)"
    and lg': "logs l k now (H @ [UnixMicro now]) (absr s1)" by blast
  show ?thesis
  proof (cases "?c < Max l")
    case True
    then have "rl_check R now (''rftw:rl:'' @ hr_Path r @ '':'' @ extractIdentifier ctx r (Key l)) l s =
        ((True, Max l - ?c - 1, Unix (now + Window l), None), s1)" using chk rem unfolding key by simp
    with True lg' show ?thesis using l(1) rw
      by (intro exI [of _ s1]) (auto simp: RateLimitMiddleware_def Let_def rw_Set_def)
  next
    case False
    then have c: "rl_check R now (''rftw:rl:'' @ hr_Path r @ '':'' @ extractIdentifier ctx r (Key l)) l s =
        ((False, 0, Unix (now + Window l), None), s1)" using chk rem unfolding key by simp
    have "\<exists>rw1. RateLimitMiddleware R ls now now2 ctx nxt rw r s = (rw1, s1) \<and> rw_Status rw1 = Some 429
        \<and> rw_Header rw1 ''Retry-After'' = [dec_int (max 1 (Unix (now + Window l) - Unix now2))]"
      using l(1) rw c by (simp add: RateLimitMiddleware_def Let_def rw_defs)
    with False lg' show ?thesis by (intro exI [of _ s1]) (auto intro!: exI [of _ "max 1 (Unix (now + Window l) - Unix now2)"])
  qed
qed

definition ex_hreq :: http_request where
  "ex_hreq = \<lparr>hr_Method = ''POST'', hr_Path = ''/auth/otp/verify'', hr_Header = (\<lambda>_. []), hr_Query = (\<lambda>_. []),
     hr_Form = (\<lambda>_. []), hr_RemoteAddr = ''10.0.0.1:80'', hr_Body = None, hr_Host = [], hr_RawQuery = []\<rparr>"

definition ex_rw :: ResponseWriter where
  "ex_rw = \<lparr>rw_Header = (\<lambda>_. []), rw_Status = None, rw_Body = [], rw_Cookies = []\<rparr>"

theorem rate_limit_middleware_witness:
  "\<exists>s1 rw1. RateLimitMiddleware pure_redis DefaultLimits 1000 1000 background (\<lambda>rw r s. (rw_WriteHeader 200 rw, s)) ex_rw ex_hreq (\<lambda>_. None)
     = (rw_WriteHeader 200 rw1, s1) \<and> rw_Header rw1 ''X-RateLimit-Remaining'' = [''4'']"
proof -
  have four: "dec_int 4 = ''4''" by code_simp
  show ?thesis
    using rate_limit_middleware [of pure_redis "\<lambda>st. st" DefaultLimits ex_hreq "\<lparr>Max = 5, Window = minutes 5, Key = ''ip''\<rparr>"
        _ background 0 "[]" "\<lambda>_. None" 1000 ex_rw 1000 "\<lambda>rw r s. (rw_WriteHeader 200 rw, s)",
        OF pure.redis_up_axioms _ _ refl logs_absent]
    by (auto simp: DefaultLimits_def ex_hreq_def ex_rw_def live_def entry_def in_window_def four)
qed

end
