(* ===== verification/Build_Domain.thy ===== *)
theory Build_Domain
  imports Prelude
begin

text \<open>
  The types of \<^verbatim>\<open>internal/build/domain\<close>: the life cycle of a build, the languages, the result of a
  detection, log lines, the sentinel errors, and errors made by \<^verbatim>\<open>fmt.Errorf\<close>. The confidence of a
  detection, a \<^verbatim>\<open>float64\<close> the sources build from 0.5, 0.15, 0.2, 0.1 and 1.0, is kept in hundredths, the
  precision at which it is printed.
\<close>

section \<open>Errors\<close>

text \<open>\<open>SkipRetry\<close> is the sentinel of the asynq library.\<close>

datatype sentinel =
    ErrBuildNotFound
  | ErrBuildAlreadyExists
  | ErrDetectionFailed
  | ErrDockerfileInvalid
  | ErrRegistryPushFailed
  | ErrKanikoJobFailed
  | ErrBuildCancelled
  | SkipRetry

fun sentinel_text :: "sentinel \<Rightarrow> string" where
  "sentinel_text ErrBuildNotFound = ''build not found''"
| "sentinel_text ErrBuildAlreadyExists = ''build already exists''"
| "sentinel_text ErrDetectionFailed = ''language detection failed''"
| "sentinel_text ErrDockerfileInvalid = ''generated dockerfile failed validation''"
| "sentinel_text ErrRegistryPushFailed = ''image push to registry failed''"
| "sentinel_text ErrKanikoJobFailed = ''kaniko build job failed''"
| "sentinel_text ErrBuildCancelled = ''build was cancelled''"
| "sentinel_text SkipRetry = ''skip retry for the task''"

text \<open>
  An error is a sentinel, an error of a library known by its text, or the result of \<^verbatim>\<open>fmt.Errorf\<close>: a
  sequence of text and of wrapped errors (\<^verbatim>\<open>%w\<close>, possibly several). An operand of \<^verbatim>\<open>%v\<close> is text.
\<close>

datatype berr = Sent sentinel | LibErr string | Errorf "piece list"
  and piece = Txt string | W berr

fun Error :: "berr \<Rightarrow> string" and piece_text :: "piece \<Rightarrow> string" and pieces_text :: "piece list \<Rightarrow> string" where
  "Error (Sent s) = sentinel_text s"
| "Error (LibErr m) = m"
| "Error (Errorf ps) = pieces_text ps"
| "piece_text (Txt m) = m"
| "piece_text (W e) = Error e"
| "pieces_text [] = []"
| "pieces_text (p # ps) = piece_text p @ pieces_text ps"

fun is_err :: "sentinel \<Rightarrow> berr \<Rightarrow> bool" and piece_is :: "sentinel \<Rightarrow> piece \<Rightarrow> bool" and pieces_is :: "sentinel \<Rightarrow> piece list \<Rightarrow> bool" where
  "is_err s (Sent t) = (s = t)"
| "is_err s (LibErr m) = False"
| "is_err s (Errorf ps) = pieces_is s ps"
| "piece_is s (Txt m) = False"
| "piece_is s (W e) = is_err s e"
| "pieces_is s [] = False"
| "pieces_is s (p # ps) = (piece_is s p \<or> pieces_is s ps)"

text \<open>\<^verbatim>\<open>fmt.Errorf("<context>: %w", err)\<close>.\<close>

definition wrap :: "string \<Rightarrow> berr \<Rightarrow> berr" where
  "wrap ctx e = Errorf [Txt (ctx @ '': ''), W e]"

lemma wrap_simps [simp]:
  "Error (wrap ctx e) = ctx @ '': '' @ Error e" "is_err s (wrap ctx e) = is_err s e"
  by (simp_all add: wrap_def)

section \<open>Builds\<close>

type_synonym BuildStatus = string

definition BuildStatusQueued :: BuildStatus where "BuildStatusQueued = ''QUEUED''"
definition BuildStatusCloning :: BuildStatus where "BuildStatusCloning = ''CLONING''"
definition BuildStatusDetecting :: BuildStatus where "BuildStatusDetecting = ''DETECTING''"
definition BuildStatusGenerating :: BuildStatus where "BuildStatusGenerating = ''GENERATING''"
definition BuildStatusBuilding :: BuildStatus where "BuildStatusBuilding = ''BUILDING''"
definition BuildStatusPushing :: BuildStatus where "BuildStatusPushing = ''PUSHING''"
definition BuildStatusSucceeded :: BuildStatus where "BuildStatusSucceeded = ''SUCCEEDED''"
definition BuildStatusFailed :: BuildStatus where "BuildStatusFailed = ''FAILED''"
definition BuildStatusCancelled :: BuildStatus where "BuildStatusCancelled = ''CANCELLED''"

lemmas status_defs = BuildStatusQueued_def BuildStatusCloning_def BuildStatusDetecting_def
  BuildStatusGenerating_def BuildStatusBuilding_def BuildStatusPushing_def BuildStatusSucceeded_def
  BuildStatusFailed_def BuildStatusCancelled_def

type_synonym Language = string

definition LanguageGo :: Language where "LanguageGo = ''go''"
definition LanguageNode :: Language where "LanguageNode = ''node''"
definition LanguagePython :: Language where "LanguagePython = ''python''"
definition LanguageJava :: Language where "LanguageJava = ''java''"
definition LanguageRuby :: Language where "LanguageRuby = ''ruby''"
definition LanguageRust :: Language where "LanguageRust = ''rust''"
definition LanguageDotnet :: Language where "LanguageDotnet = ''dotnet''"
definition LanguageUnknown :: Language where "LanguageUnknown = ''unknown''"

lemmas language_defs = LanguageGo_def LanguageNode_def LanguagePython_def LanguageJava_def
  LanguageRuby_def LanguageRust_def LanguageDotnet_def LanguageUnknown_def

record DetectionResult =
  dr_Language :: Language
  dr_Framework :: string
  dr_RuntimeVersion :: string
  dr_BuildCommand :: string
  dr_StartCommand :: string
  dr_ExposedPort :: int
  dr_HasDockerfile :: bool
  dr_Confidence :: nat

definition zero_Detection :: DetectionResult where
  "zero_Detection = \<lparr>dr_Language = [], dr_Framework = [], dr_RuntimeVersion = [], dr_BuildCommand = [], dr_StartCommand = [],
     dr_ExposedPort = 0, dr_HasDockerfile = False, dr_Confidence = 0\<rparr>"

record Build =
  b_ID :: string
  b_WorkloadID :: string
  b_WorkspaceID :: string
  b_GitCommitSHA :: string
  b_GitBranch :: string
  b_Status :: BuildStatus
  b_Language :: Language
  b_ImageRef :: string
  b_ImageDigest :: string
  b_SizeBytes :: "64 word"
  b_ErrorMessage :: string
  b_StartedAt :: gotime
  b_CompletedAt :: "gotime option"
  b_CreatedAt :: gotime
  b_UpdatedAt :: gotime

record LogLine =
  ll_BuildID :: string
  ll_Sequence :: "64 word"
  ll_Stream :: string
  ll_Text :: string
  ll_Timestamp :: gotime

section \<open>Interfaces\<close>

record 'w BuildRepository =
  br_Create :: "Build \<Rightarrow> 'w \<Rightarrow> berr option \<times> 'w"
  br_GetByID :: "string \<Rightarrow> 'w \<Rightarrow> (berr + Build) \<times> 'w"
  br_ListByWorkload :: "string \<Rightarrow> int \<Rightarrow> int \<Rightarrow> 'w \<Rightarrow> (berr + Build list) \<times> 'w"
  br_UpdateStatus :: "string \<Rightarrow> BuildStatus \<Rightarrow> string \<Rightarrow> 'w \<Rightarrow> berr option \<times> 'w"
  br_UpdateImageRef :: "string \<Rightarrow> string \<Rightarrow> string \<Rightarrow> 64 word \<Rightarrow> 'w \<Rightarrow> berr option \<times> 'w"
  br_MarkCompleted :: "string \<Rightarrow> 'w \<Rightarrow> berr option \<times> 'w"

record 'w LogRepository =
  lr_AppendLine :: "LogLine \<Rightarrow> 'w \<Rightarrow> berr option \<times> 'w"
  lr_GetLines :: "string \<Rightarrow> 64 word \<Rightarrow> 'w \<Rightarrow> (berr + LogLine list) \<times> 'w"

end
