(* ===== verification/Build_Repo.thy ===== *)
theory Build_Repo
  imports Build_Domain Postgres Json
begin

text \<open>
  The repositories of \<^verbatim>\<open>internal/build/adapter/postgres\<close>. Every write of the build repository is one statement
  in a transaction of its own; the pool that runs transactions is a parameter. \<open>run_tx\<close> is the code's
  sequence of begin, execute, commit and the deferred rollback; \<open>tx_pool\<close> states what the pool promises, and
  its lemmas show that the sequence takes effect as one statement or not at all.
\<close>

section \<open>Transactions\<close>

record ('r, 's) pool =
  pl_Query :: "('r, 's) pgx"
  pl_Begin :: "'s \<Rightarrow> pgerr option \<times> 's"
  pl_Exec :: "('r, 's) pgx"
  pl_Commit :: "'s \<Rightarrow> pgerr option \<times> 's"
  pl_Rollback :: "'s \<Rightarrow> 's"

definition pgText :: "pgerr \<Rightarrow> berr" where
  "pgText e = LibErr (case e of UniqueViolation \<Rightarrow> ''23505'' | PgErr m \<Rightarrow> m)"

definition run_tx :: "('r, 's) pool \<Rightarrow> 'r sql \<Rightarrow> 's \<Rightarrow> berr option \<times> 's" where
  "run_tx P st s =
     (case pl_Begin P s of
        (Some e, s1) \<Rightarrow> (Some (pgText e), s1)
      | (None, s1) \<Rightarrow>
          (case pl_Exec P st s1 of
             (Inl e, s2) \<Rightarrow> (Some (pgText e), pl_Rollback P s2)
           | (Inr _, s2) \<Rightarrow>
               (case pl_Commit P s2 of (r, s3) \<Rightarrow> (map_option pgText r, pl_Rollback P s3))))"

text \<open>
  \<open>tbl\<close> is the committed table, \<open>pend\<close> the table as the open transaction sees it. A commit that reports an
  error may have taken effect.
\<close>

locale tx_pool =
  fixes P :: "('r, 's) pool" and tbl :: "'s \<Rightarrow> 'r list" and pend :: "'s \<Rightarrow> 'r list" and clash :: "'r \<Rightarrow> 'r \<Rightarrow> bool"
  assumes query: "pg_api (pl_Query P) tbl clash"
    and begin_ok: "pl_Begin P s = (None, s') \<Longrightarrow> tbl s' = tbl s \<and> pend s' = tbl s"
    and begin_err: "pl_Begin P s = (Some e, s') \<Longrightarrow> tbl s' = tbl s"
    and exec_tbl: "pl_Exec P st s = (out, s') \<Longrightarrow> tbl s' = tbl s"
    and exec_ok: "pl_Exec P st s = (Inr (rows, n), s') \<Longrightarrow>
      \<exists>spec. sql_step clash st (pend s) = (Inr (spec, n), pend s')"
    and commit_ok: "pl_Commit P s = (None, s') \<Longrightarrow> tbl s' = pend s"
    and commit_err: "pl_Commit P s = (Some e, s') \<Longrightarrow> tbl s' = tbl s \<or> tbl s' = pend s"
    and rollback_tbl: "tbl (pl_Rollback P s) = tbl s"
begin

lemma tx_atomic:
  assumes "run_tx P st s = (res, s')"
  shows "tbl s' = tbl s \<and> res \<noteq> None \<or> (\<exists>spec n. sql_step clash st (tbl s) = (Inr (spec, n), tbl s'))"
proof -
  obtain b s1 where b: "pl_Begin P s = (b, s1)" by fastforce
  show ?thesis
  proof (cases b)
    case (Some e)
    then show ?thesis using assms b begin_err [of s e s1] by (auto simp: run_tx_def)
  next
    case None
    obtain out s2 where x: "pl_Exec P st s1 = (out, s2)" by fastforce
    have t1: "tbl s1 = tbl s" "pend s1 = tbl s" using begin_ok b None by auto
    have t2: "tbl s2 = tbl s" using exec_tbl [OF x] t1 by simp
    show ?thesis
    proof (cases out)
      case (Inl e)
      then show ?thesis using assms b None x t2 by (auto simp: run_tx_def rollback_tbl)
    next
      case (Inr rn)
      obtain rows n where rn: "rn = (rows, n)" by fastforce
      obtain spec where sp: "sql_step clash st (tbl s) = (Inr (spec, n), pend s2)"
        using exec_ok [of st s1 rows n s2] x Inr rn t1 by auto
      obtain c s3 where c: "pl_Commit P s2 = (c, s3)" by fastforce
      have "tbl s' = tbl s3" "res = map_option pgText c"
        using assms b None x Inr c by (auto simp: run_tx_def rollback_tbl)
      then show ?thesis using c sp t2 commit_ok [of s2 s3] commit_err [of s2 _ s3] by (cases c) auto
    qed
  qed
qed

lemma tx_none: "run_tx P st s = (None, s') \<Longrightarrow> \<exists>spec n. sql_step clash st (tbl s) = (Inr (spec, n), tbl s')"
  using tx_atomic [of st s None s'] by auto

lemma tx_any: "run_tx P st s = (res, s') \<Longrightarrow> tbl s' = tbl s \<or> tbl s' = snd (sql_step clash st (tbl s))"
  using tx_atomic [of st s res s'] by (metis snd_conv)

end

text \<open>A pool whose calls succeed unless the statement itself is refused.\<close>

locale tx_pool_up = tx_pool +
  assumes query_up: "pg_up (pl_Query P) tbl clash"
    and begin_up: "\<exists>s'. pl_Begin P s = (None, s')"
    and exec_up: "sql_step clash st (pend s) = (Inr (spec, n), tb') \<Longrightarrow> \<exists>rows s'. pl_Exec P st s = (Inr (rows, n), s')"
    and commit_up: "\<exists>s'. pl_Commit P s = (None, s')"
begin

lemma tx_up:
  assumes "sql_step clash st (tbl s) = (Inr (spec, n), tb')"
  shows "\<exists>s'. run_tx P st s = (None, s') \<and> tbl s' = tb'"
proof -
  obtain s1 where b: "pl_Begin P s = (None, s1)" using begin_up by blast
  then have t1: "pend s1 = tbl s" using begin_ok by auto
  obtain rows s2 where x: "pl_Exec P st s1 = (Inr (rows, n), s2)" using exec_up assms t1 by metis
  obtain s3 where c: "pl_Commit P s2 = (None, s3)" using commit_up by blast
  have "run_tx P st s = (None, pl_Rollback P s3)" using b x c by (simp add: run_tx_def)
  with tx_none [OF this] assms show ?thesis by auto
qed

end

section \<open>The table of builds\<close>

record build_row =
  br_id :: string
  br_workload_id :: string
  br_workspace_id :: string
  br_git_commit_sha :: string
  br_git_branch :: string
  br_status :: string
  br_language :: "string option"
  br_image_ref :: "string option"
  br_image_digest :: "string option"
  br_size_bytes :: "64 word option"
  br_error_message :: "string option"
  br_started_at :: gotime
  br_completed_at :: "gotime option"
  br_created_at :: gotime
  br_updated_at :: gotime

definition build_clash :: "build_row \<Rightarrow> build_row \<Rightarrow> bool" where
  "build_clash a b = (br_id a = br_id b)"

text \<open>\<open>now\<close> stands for the server's \<^verbatim>\<open>NOW()\<close>, which is also the default of \<open>started_at\<close>.\<close>

definition new_row :: "gotime \<Rightarrow> Build \<Rightarrow> build_row" where
  "new_row now b = \<lparr>br_id = b_ID b, br_workload_id = b_WorkloadID b, br_workspace_id = b_WorkspaceID b,
     br_git_commit_sha = b_GitCommitSHA b, br_git_branch = b_GitBranch b, br_status = b_Status b,
     br_language = Some (b_Language b), br_image_ref = None, br_image_digest = None, br_size_bytes = None,
     br_error_message = None, br_started_at = now, br_completed_at = None, br_created_at = now, br_updated_at = now\<rparr>"

definition bld_Create :: "(build_row, 's) pool \<Rightarrow> ('s \<Rightarrow> gotime) \<Rightarrow> Build \<Rightarrow> 's \<Rightarrow> berr option \<times> 's" where
  "bld_Create P NOW b s = run_tx P (SInsert (new_row (NOW s) b)) s"

definition set_status :: "gotime \<Rightarrow> BuildStatus \<Rightarrow> string \<Rightarrow> build_row \<Rightarrow> build_row" where
  "set_status now status errMsg r = r\<lparr>br_status := status, br_error_message := Some errMsg, br_updated_at := now\<rparr>"

definition bld_UpdateStatus ::
    "(build_row, 's) pool \<Rightarrow> ('s \<Rightarrow> gotime) \<Rightarrow> string \<Rightarrow> BuildStatus \<Rightarrow> string \<Rightarrow> 's \<Rightarrow> berr option \<times> 's" where
  "bld_UpdateStatus P NOW i status errMsg s =
     run_tx P (SUpdate (\<lambda>r. br_id r = i) (set_status (NOW s) status errMsg)) s"

definition set_image :: "gotime \<Rightarrow> string \<Rightarrow> string \<Rightarrow> 64 word \<Rightarrow> build_row \<Rightarrow> build_row" where
  "set_image now imageRef imageDigest sizeBytes r = r\<lparr>br_image_ref := Some imageRef, br_image_digest := Some imageDigest,
     br_size_bytes := Some sizeBytes, br_updated_at := now\<rparr>"

definition bld_UpdateImageRef ::
    "(build_row, 's) pool \<Rightarrow> ('s \<Rightarrow> gotime) \<Rightarrow> string \<Rightarrow> string \<Rightarrow> string \<Rightarrow> 64 word \<Rightarrow> 's \<Rightarrow> berr option \<times> 's" where
  "bld_UpdateImageRef P NOW i imageRef imageDigest sizeBytes s =
     run_tx P (SUpdate (\<lambda>r. br_id r = i) (set_image (NOW s) imageRef imageDigest sizeBytes)) s"

definition set_completed :: "gotime \<Rightarrow> build_row \<Rightarrow> build_row" where
  "set_completed now r = r\<lparr>br_completed_at := Some now, br_status := ''SUCCEEDED'', br_updated_at := now\<rparr>"

definition bld_MarkCompleted :: "(build_row, 's) pool \<Rightarrow> ('s \<Rightarrow> gotime) \<Rightarrow> string \<Rightarrow> 's \<Rightarrow> berr option \<times> 's" where
  "bld_MarkCompleted P NOW i s = run_tx P (SUpdate (\<lambda>r. br_id r = i) (set_completed (NOW s))) s"

text \<open>The columns that may be NULL are scanned into pointers and copied when they are not nil.\<close>

definition bld_scan :: "build_row \<Rightarrow> Build" where
  "bld_scan r = \<lparr>b_ID = br_id r, b_WorkloadID = br_workload_id r, b_WorkspaceID = br_workspace_id r,
     b_GitCommitSHA = br_git_commit_sha r, b_GitBranch = br_git_branch r, b_Status = br_status r,
     b_Language = (case br_language r of None \<Rightarrow> [] | Some l \<Rightarrow> l),
     b_ImageRef = (case br_image_ref r of None \<Rightarrow> [] | Some l \<Rightarrow> l),
     b_ImageDigest = (case br_image_digest r of None \<Rightarrow> [] | Some l \<Rightarrow> l),
     b_SizeBytes = (case br_size_bytes r of None \<Rightarrow> 0 | Some n \<Rightarrow> n),
     b_ErrorMessage = (case br_error_message r of None \<Rightarrow> [] | Some l \<Rightarrow> l),
     b_StartedAt = br_started_at r, b_CompletedAt = br_completed_at r,
     b_CreatedAt = br_created_at r, b_UpdatedAt = br_updated_at r\<rparr>"

definition bld_GetByID :: "(build_row, 's) pool \<Rightarrow> string \<Rightarrow> 's \<Rightarrow> (berr + Build) \<times> 's" where
  "bld_GetByID P i s =
     (case pl_Query P (SSelect (\<lambda>r. br_id r = i)) s of
        (Inl e, s') \<Rightarrow> (Inl (pgText e), s')
      | (Inr ([], _), s') \<Rightarrow> (Inl (Sent ErrBuildNotFound), s')
      | (Inr (row # _, _), s') \<Rightarrow> (Inr (bld_scan row), s'))"

text \<open>The server returns the page of the ordered rows that \<^verbatim>\<open>LIMIT\<close> and \<^verbatim>\<open>OFFSET\<close> name and refuses negative ones.\<close>

definition page :: "int \<Rightarrow> int \<Rightarrow> 'a list \<Rightarrow> berr + 'a list" where
  "page limit offset rows =
     (if limit < 0 then Inl (LibErr ''LIMIT must not be negative'')
      else if offset < 0 then Inl (LibErr ''OFFSET must not be negative'')
      else Inr (take (nat limit) (drop (nat offset) rows)))"

definition bld_ListByWorkload ::
    "(build_row, 's) pool \<Rightarrow> string \<Rightarrow> int \<Rightarrow> int \<Rightarrow> 's \<Rightarrow> (berr + Build list) \<times> 's" where
  "bld_ListByWorkload P workloadID limit offset s =
     (case pl_Query P (SSelectDesc (\<lambda>r. br_workload_id r = workloadID) br_created_at) s of
        (Inl e, s') \<Rightarrow> (Inl (pgText e), s')
      | (Inr (rows, _), s') \<Rightarrow> (map_sum id (map bld_scan) (page limit offset rows), s'))"

definition pgBuildRepository :: "(build_row, 's) pool \<Rightarrow> ('s \<Rightarrow> gotime) \<Rightarrow> 's BuildRepository" where
  "pgBuildRepository P NOW = \<lparr>br_Create = bld_Create P NOW, br_GetByID = bld_GetByID P, br_ListByWorkload = bld_ListByWorkload P,
     br_UpdateStatus = bld_UpdateStatus P NOW, br_UpdateImageRef = bld_UpdateImageRef P NOW, br_MarkCompleted = bld_MarkCompleted P NOW\<rparr>"

section \<open>The table of log lines\<close>

text \<open>\<^verbatim>\<open>UNIQUE (build_id, sequence)\<close>.\<close>

definition line_clash :: "LogLine \<Rightarrow> LogLine \<Rightarrow> bool" where
  "line_clash a b = (ll_BuildID a = ll_BuildID b \<and> ll_Sequence a = ll_Sequence b)"

definition log_AppendLine :: "(LogLine, 's) pgx \<Rightarrow> LogLine \<Rightarrow> 's \<Rightarrow> berr option \<times> 's" where
  "log_AppendLine Q line s =
     (case Q (SInsert line) s of (Inl e, s') \<Rightarrow> (Some (pgText e), s') | (Inr _, s') \<Rightarrow> (None, s'))"

text \<open>Ascending order is descending order of the opposite key.\<close>

definition log_GetLines :: "(LogLine, 's) pgx \<Rightarrow> string \<Rightarrow> 64 word \<Rightarrow> 's \<Rightarrow> (berr + LogLine list) \<times> 's" where
  "log_GetLines Q buildID fromSeq s =
     (case Q (SSelectDesc (\<lambda>l. ll_BuildID l = buildID \<and> sint fromSeq < sint (ll_Sequence l)) (\<lambda>l. - sint (ll_Sequence l))) s of
        (Inl e, s') \<Rightarrow> (Inl (pgText e), s')
      | (Inr (rows, _), s') \<Rightarrow> (Inr rows, s'))"

definition pgLogRepository :: "(LogLine, 's) pgx \<Rightarrow> 's LogRepository" where
  "pgLogRepository Q = \<lparr>lr_AppendLine = log_AppendLine Q, lr_GetLines = log_GetLines Q\<rparr>"

section \<open>What the repositories promise\<close>

text \<open>
  A build repository is a partial map from identifiers to builds. A write takes effect and reports success,
  or reports an error and may or may not have taken effect.
\<close>

definition fresh :: "gotime \<Rightarrow> Build \<Rightarrow> Build" where
  "fresh t b = b\<lparr>b_ImageRef := [], b_ImageDigest := [], b_SizeBytes := 0, b_ErrorMessage := [],
     b_StartedAt := t, b_CompletedAt := None, b_CreatedAt := t, b_UpdatedAt := t\<rparr>"

definition with_status :: "BuildStatus \<Rightarrow> string \<Rightarrow> gotime \<Rightarrow> Build \<Rightarrow> Build" where
  "with_status st m t b = b\<lparr>b_Status := st, b_ErrorMessage := m, b_UpdatedAt := t\<rparr>"

definition with_image :: "string \<Rightarrow> string \<Rightarrow> 64 word \<Rightarrow> gotime \<Rightarrow> Build \<Rightarrow> Build" where
  "with_image ref dig n t b = b\<lparr>b_ImageRef := ref, b_ImageDigest := dig, b_SizeBytes := n, b_UpdatedAt := t\<rparr>"

definition with_completed :: "gotime \<Rightarrow> Build \<Rightarrow> Build" where
  "with_completed t b = b\<lparr>b_CompletedAt := Some t, b_Status := BuildStatusSucceeded, b_UpdatedAt := t\<rparr>"

text \<open>The effect of an update of one build.\<close>

definition touched :: "string \<Rightarrow> (gotime \<Rightarrow> Build \<Rightarrow> Build) \<Rightarrow> (string \<Rightarrow> Build option) \<Rightarrow> (string \<Rightarrow> Build option) \<Rightarrow> bool" where
  "touched i upd m m' = (\<exists>t. m' = m(i := map_option (upd t) (m i)))"

locale build_repository =
  fixes BR :: "'w BuildRepository" and blds :: "'w \<Rightarrow> string \<Rightarrow> Build option" and binv :: "'w \<Rightarrow> bool"
  assumes create: "binv w \<Longrightarrow> br_Create BR b w = (res, w') \<Longrightarrow>
      binv w' \<and> (res \<noteq> None \<and> blds w' = blds w \<or>
        blds w (b_ID b) = None \<and> (\<exists>t. blds w' = (blds w)(b_ID b \<mapsto> fresh t b)))"
    and status: "binv w \<Longrightarrow> br_UpdateStatus BR i st m w = (res, w') \<Longrightarrow>
      binv w' \<and> (res \<noteq> None \<and> blds w' = blds w \<or> touched i (with_status st m) (blds w) (blds w'))"
    and image: "binv w \<Longrightarrow> br_UpdateImageRef BR i ref dig n w = (res, w') \<Longrightarrow>
      binv w' \<and> (res \<noteq> None \<and> blds w' = blds w \<or> touched i (with_image ref dig n) (blds w) (blds w'))"
    and completed: "binv w \<Longrightarrow> br_MarkCompleted BR i w = (res, w') \<Longrightarrow>
      binv w' \<and> (res \<noteq> None \<and> blds w' = blds w \<or> touched i with_completed (blds w) (blds w'))"
    and get: "binv w \<Longrightarrow> br_GetByID BR i w = (out, w') \<Longrightarrow> binv w' \<and> blds w' = blds w \<and>
        (case out of Inr b \<Rightarrow> blds w i = Some b | Inl e \<Rightarrow> e = Sent ErrBuildNotFound \<longrightarrow> blds w i = None)"

locale build_repository_up = build_repository +
  assumes create_up: "binv w \<Longrightarrow> blds w (b_ID b) = None \<Longrightarrow> fst (br_Create BR b w) = None"
    and status_up: "binv w \<Longrightarrow> fst (br_UpdateStatus BR i st m w) = None"
    and image_up: "binv w \<Longrightarrow> fst (br_UpdateImageRef BR i ref dig n w) = None"
    and completed_up: "binv w \<Longrightarrow> fst (br_MarkCompleted BR i w) = None"
    and get_up: "binv w \<Longrightarrow> blds w i = Some b \<Longrightarrow> fst (br_GetByID BR i w) = Inr b"

section \<open>The adapter keeps the promise\<close>

definition rows_map :: "build_row list \<Rightarrow> string \<Rightarrow> Build option" where
  "rows_map tb i = map_option bld_scan (find (\<lambda>r. br_id r = i) tb)"

lemma rows_map_simps [simp]:
  "rows_map [] i = None" "rows_map (r # rs) i = (if br_id r = i then Some (bld_scan r) else rows_map rs i)"
  by (simp_all add: rows_map_def)

lemma rows_map_None: "rows_map tb i = None \<longleftrightarrow> (\<forall>r \<in> set tb. br_id r \<noteq> i)"
  by (induction tb) auto

lemma rows_map_snoc: "rows_map tb (br_id r) = None \<Longrightarrow> rows_map (tb @ [r]) = (rows_map tb)(br_id r \<mapsto> bld_scan r)"
  by (rule ext, induction tb) (auto split: if_splits)

text \<open>An update that keeps the identifier and that reading turns into \<open>g\<close>.\<close>

lemma rows_map_update:
  assumes "\<And>r. br_id (f r) = br_id r" and "\<And>r. bld_scan (f r) = g (bld_scan r)"
  shows "rows_map (map (\<lambda>r. if br_id r = i then f r else r) tb) = (rows_map tb)(i := map_option g (rows_map tb i))"
proof
  fix j
  show "rows_map (map (\<lambda>r. if br_id r = i then f r else r) tb) j = ((rows_map tb)(i := map_option g (rows_map tb i))) j"
    by (induction tb) (auto simp: assms)
qed

lemma update_uniq:
  assumes "\<And>r. br_id (f r) = br_id r"
  shows "uniq build_clash (map (\<lambda>r. if br_id r = i then f r else r) tb) = uniq build_clash tb"
  by (rule uniq_map) (simp add: build_clash_def assms)

lemma rows_map_filter:
  "uniq build_clash tb \<Longrightarrow> mset rows = mset (filter (\<lambda>r. br_id r = i) tb) \<Longrightarrow>
     rows_map tb i = (case rows of [] \<Rightarrow> None | r # _ \<Rightarrow> Some (bld_scan r))"
proof -
  assume u: "uniq build_clash tb" and m: "mset rows = mset (filter (\<lambda>r. br_id r = i) tb)"
  show ?thesis
  proof (cases "rows_map tb i")
    case None
    then have "filter (\<lambda>r. br_id r = i) tb = []" by (simp add: rows_map_None filter_empty_conv)
    then show ?thesis using m None by simp
  next
    case (Some b)
    then obtain r where r: "find (\<lambda>r. br_id r = i) tb = Some r" "b = bld_scan r" by (auto simp: rows_map_def)
    have "filter (\<lambda>r. br_id r = i) tb = [r]"
      using find_SomeD [OF r(1)] u by (intro uniq_filter_single [where clash = build_clash]) (auto simp: build_clash_def)
    then show ?thesis using m r Some by simp
  qed
qed

lemma scan_simps:
  "bld_scan (new_row t b) = fresh t b"
  "bld_scan (set_status t st m r) = with_status st m t (bld_scan r)"
  "bld_scan (set_image t ref dig n r) = with_image ref dig n t (bld_scan r)"
  "bld_scan (set_completed t r) = with_completed t (bld_scan r)"
  "br_id (set_status t st m r) = br_id r" "br_id (set_image t ref dig n r) = br_id r" "br_id (set_completed t r) = br_id r"
  "br_id (new_row t b) = b_ID b"
  by (simp_all add: bld_scan_def new_row_def fresh_def set_status_def with_status_def set_image_def with_image_def
      set_completed_def with_completed_def BuildStatusSucceeded_def)

locale pg_builds = tx_pool P tbl pend build_clash
  for P :: "(build_row, 's) pool" and tbl pend +
  fixes NOW :: "'s \<Rightarrow> gotime"
begin

lemma tx_update:
  assumes inv: "uniq build_clash (tbl s)" and f: "\<And>r. br_id (f r) = br_id r" "\<And>r. bld_scan (f r) = g t (bld_scan r)"
    and run: "run_tx P (SUpdate (\<lambda>r. br_id r = i) f) s = (res, s')"
  shows "uniq build_clash (tbl s') \<and> (res \<noteq> None \<and> rows_map (tbl s') = rows_map (tbl s) \<or>
           touched i g (rows_map (tbl s)) (rows_map (tbl s')))"
proof -
  let ?tb = "map (\<lambda>r. if br_id r = i then f r else r) (tbl s)"
  have u: "uniq build_clash ?tb" using inv update_uniq [of f i "tbl s"] f(1) by simp
  consider "tbl s' = tbl s" "res \<noteq> None" | "tbl s' = ?tb"
    using tx_atomic [OF run] u by (auto simp: Let_def)
  then show ?thesis
  proof cases
    case 1
    then show ?thesis using inv by simp
  next
    case 2
    then have "rows_map (tbl s') = (rows_map (tbl s))(i := map_option (g t) (rows_map (tbl s) i))"
      using rows_map_update [of f "g t" i "tbl s"] f by simp
    then show ?thesis using u 2 unfolding touched_def by metis
  qed
qed

lemma create_contract:
  assumes inv: "uniq build_clash (tbl s)" and run: "bld_Create P NOW b s = (res, s')"
  shows "uniq build_clash (tbl s') \<and> (res \<noteq> None \<and> rows_map (tbl s') = rows_map (tbl s) \<or>
        rows_map (tbl s) (b_ID b) = None \<and> (\<exists>t. rows_map (tbl s') = (rows_map (tbl s))(b_ID b \<mapsto> fresh t b)))"
proof -
  let ?r = "new_row (NOW s) b"
  consider "tbl s' = tbl s" "res \<noteq> None" | "\<forall>x \<in> set (tbl s). \<not> build_clash x ?r" "tbl s' = tbl s @ [?r]"
    using tx_atomic [OF run [unfolded bld_Create_def]] by (auto split: if_splits)
  then show ?thesis
  proof cases
    case 1
    then show ?thesis using inv by simp
  next
    case 2
    have n: "rows_map (tbl s) (b_ID b) = None" using 2(1) by (auto simp: rows_map_None build_clash_def scan_simps)
    then have m: "rows_map (tbl s') = (rows_map (tbl s))(b_ID b \<mapsto> fresh (NOW s) b)"
      using rows_map_snoc [of "tbl s" ?r] 2(2) by (simp add: scan_simps)
    show ?thesis using n m inv 2 by (auto simp: uniq_append)
  qed
qed

lemma get_contract:
  assumes inv: "uniq build_clash (tbl s)" and run: "bld_GetByID P i s = (out, s')"
  shows "uniq build_clash (tbl s') \<and> rows_map (tbl s') = rows_map (tbl s) \<and>
        (case out of Inr b \<Rightarrow> rows_map (tbl s) i = Some b | Inl e \<Rightarrow> e = Sent ErrBuildNotFound \<longrightarrow> rows_map (tbl s) i = None)"
proof -
  obtain r s1 where q: "pl_Query P (SSelect (\<lambda>r. br_id r = i)) s = (r, s1)" by fastforce
  have fr: "tbl s1 = tbl s" by (rule pg_api.select_frame [OF query q])
  show ?thesis
  proof (cases r)
    case (Inl e)
    then show ?thesis using run q fr inv by (auto simp: bld_GetByID_def pgText_def)
  next
    case (Inr rn)
    obtain rows n where rn: "rn = (rows, n)" by fastforce
    have "mset rows = mset (filter (\<lambda>r. br_id r = i) (tbl s))" using pg_api.select_ok [OF query] q Inr rn by blast
    note m = rows_map_filter [OF inv this]
    show ?thesis using run q fr inv m Inr rn by (cases rows) (auto simp: bld_GetByID_def)
  qed
qed

end

sublocale pg_builds \<subseteq> repo: build_repository "pgBuildRepository P NOW" "\<lambda>s. rows_map (tbl s)" "\<lambda>s. uniq build_clash (tbl s)"
proof (standard, goal_cases)
  case (1 w b res w')
  then show ?case using create_contract [of w b res w'] by (simp add: pgBuildRepository_def)
next
  case (2 w i st m res w')
  then show ?case
    using tx_update [of w "set_status (NOW w) st m" "with_status st m" "NOW w" i res w']
    by (simp add: pgBuildRepository_def bld_UpdateStatus_def scan_simps)
next
  case (3 w i ref dig n res w')
  then show ?case
    using tx_update [of w "set_image (NOW w) ref dig n" "with_image ref dig n" "NOW w" i res w']
    by (simp add: pgBuildRepository_def bld_UpdateImageRef_def scan_simps)
next
  case (4 w i res w')
  then show ?case
    using tx_update [of w "set_completed (NOW w)" with_completed "NOW w" i res w']
    by (simp add: pgBuildRepository_def bld_MarkCompleted_def scan_simps)
next
  case (5 w i out w')
  then show ?case using get_contract [of w i out w'] by (simp add: pgBuildRepository_def)
qed

locale pg_builds_up = pg_builds + tx_pool_up P tbl pend build_clash
begin

lemma update_up:
  "uniq build_clash (tbl s) \<Longrightarrow> (\<And>r. br_id (f r) = br_id r) \<Longrightarrow> fst (run_tx P (SUpdate (\<lambda>r. br_id r = i) f) s) = None"
proof -
  assume "uniq build_clash (tbl s)" and "\<And>r. br_id (f r) = br_id r"
  then have "uniq build_clash (map (\<lambda>r. if br_id r = i then f r else r) (tbl s))" using update_uniq by blast
  then have "\<exists>s'. run_tx P (SUpdate (\<lambda>r. br_id r = i) f) s = (None, s') \<and>
      tbl s' = map (\<lambda>r. if br_id r = i then f r else r) (tbl s)"
    by (intro tx_up [where spec = "[]" and n = "length (filter (\<lambda>r. br_id r = i) (tbl s))"]) (simp add: Let_def)
  then show ?thesis by force
qed

lemma get_found:
  assumes inv: "uniq build_clash (tbl s)" and b: "rows_map (tbl s) i = Some b"
  shows "fst (bld_GetByID P i s) = Inr b"
proof -
  obtain rows s' where q: "pl_Query P (SSelect (\<lambda>r. br_id r = i)) s = (Inr (rows, length (filter (\<lambda>r. br_id r = i) (tbl s))), s')"
    using pg_up.pg_total [OF query_up, of "SSelect (\<lambda>r. br_id r = i)" s] by fastforce
  have "mset rows = mset (filter (\<lambda>r. br_id r = i) (tbl s))" using pg_api.select_ok [OF query] q by blast
  note rows_map_filter [OF inv this]
  then show ?thesis using q b by (cases rows) (simp_all add: bld_GetByID_def)
qed

end

sublocale pg_builds_up \<subseteq> repo: build_repository_up "pgBuildRepository P NOW" "\<lambda>s. rows_map (tbl s)" "\<lambda>s. uniq build_clash (tbl s)"
proof (standard, goal_cases)
  case (1 w b)
  then have "sql_step build_clash (SInsert (new_row (NOW w) b)) (tbl w) = (Inr ([], 1), tbl w @ [new_row (NOW w) b])"
    by (auto simp: rows_map_None build_clash_def scan_simps)
  from tx_up [OF this] show ?case by (auto simp: pgBuildRepository_def bld_Create_def)
qed (simp_all add: pgBuildRepository_def bld_UpdateStatus_def bld_UpdateImageRef_def bld_MarkCompleted_def update_up scan_simps get_found)

section \<open>An executable pool\<close>

definition pure_pool :: "('r \<Rightarrow> 'r \<Rightarrow> bool) \<Rightarrow> ('r, 'r list \<times> 'r list) pool" where
  "pure_pool clash = \<lparr>pl_Query = fst_pg (pure_pg clash), pl_Begin = (\<lambda>s. (None, (fst s, fst s))), pl_Exec = snd_pg (pure_pg clash),
     pl_Commit = (\<lambda>s. (None, (snd s, snd s))), pl_Rollback = (\<lambda>s. (fst s, fst s))\<rparr>"

lemma pure_pool_up:
  fixes clash :: "'r \<Rightarrow> 'r \<Rightarrow> bool"
  shows "tx_pool_up (pure_pool clash) fst snd clash"
proof -
  let ?Q = "fst_pg (pure_pg clash) :: ('r, 'r list \<times> 'r list) pgx"
  have up: "pg_up ?Q fst clash" by (rule pg_up_fst) (rule purepg.pg_up_axioms)
  then have api: "pg_api ?Q fst clash" by (simp add: pg_up_def)
  show ?thesis
    unfolding tx_pool_up_def tx_pool_def tx_pool_up_axioms_def
    using api up by (auto simp: pure_pool_def snd_pg_eq pure_pg_def)
qed

interpretation purepool: tx_pool_up "pure_pool clash" fst snd clash
  by (rule pure_pool_up)

interpretation pure_builds: pg_builds_up "pure_pool build_clash" fst snd NOW for NOW
  by unfold_locales

section \<open>Reading logs\<close>

text \<open>A log repository keeps the lines it accepted; a line with the number of another one of the same build is refused.\<close>

locale log_repository =
  fixes LR :: "'w LogRepository" and lines :: "'w \<Rightarrow> LogLine list"
  assumes append: "lr_AppendLine LR l w = (res, w') \<Longrightarrow>
      lines w' = lines w \<and> res \<noteq> None \<or> lines w' = lines w @ [l] \<and> \<not> (\<exists>x \<in> set (lines w). line_clash x l)"
    and read: "lr_GetLines LR i q w = (out, w') \<Longrightarrow> lines w' = lines w \<and>
      (case out of Inl _ \<Rightarrow> True | Inr ls \<Rightarrow> mset ls = mset (filter (\<lambda>l. ll_BuildID l = i \<and> sint q < sint (ll_Sequence l)) (lines w))
        \<and> sorted_wrt (\<lambda>a b. sint (ll_Sequence a) \<le> sint (ll_Sequence b)) ls)"
begin

text \<open>Appending keeps the numbers of the lines of a build apart.\<close>

lemma append_uniq: "lr_AppendLine LR l w = (res, w') \<Longrightarrow> uniq line_clash (lines w) \<Longrightarrow> uniq line_clash (lines w')"
  using append [of l w res w'] by (auto simp: uniq_append)

end

locale pg_logs = pg_api Q tbl line_clash for Q :: "(LogLine, 's) pgx" and tbl

sublocale pg_logs \<subseteq> logs: log_repository "pgLogRepository Q" tbl
proof (standard, goal_cases)
  case (1 l w res w')
  obtain out s1 where q: "Q (SInsert l) w = (out, s1)" by fastforce
  have res: "res = None \<longleftrightarrow> (\<exists>rn. out = Inr rn)" "w' = s1"
    using 1 q by (auto simp: pgLogRepository_def log_AppendLine_def split: sum.splits)
  show ?case
  proof (cases out)
    case (Inl e)
    then show ?thesis using any_step [OF q] res by (auto split: if_splits)
  next
    case (Inr rn)
    obtain rows n where rn: "rn = (rows, n)" by fastforce
    show ?thesis using pg_ok [of "SInsert l" w rows n s1] q res Inr rn by (auto split: if_splits)
  qed
next
  case (2 i q w out w')
  let ?p = "\<lambda>l. ll_BuildID l = i \<and> sint q < sint (ll_Sequence l)"
  let ?st = "SSelectDesc ?p (\<lambda>l. - sint (ll_Sequence l))"
  obtain r s1 where qq: "Q ?st w = (r, s1)" by fastforce
  have fr: "tbl s1 = tbl w" using any_step [OF qq] by simp
  show ?case
  proof (cases r)
    case (Inl e)
    then show ?thesis using 2 qq fr by (auto simp: pgLogRepository_def log_GetLines_def)
  next
    case (Inr rn)
    obtain rows n where rn: "rn = (rows, n)" by fastforce
    have "mset rows = mset (filter ?p (tbl w)) \<and> sorted_wrt (\<lambda>a b. - sint (ll_Sequence b) \<le> - sint (ll_Sequence a)) rows"
      using select_desc_ok [of ?p _ w rows n s1] qq Inr rn by blast
    then show ?thesis using 2 qq fr Inr rn by (auto simp: pgLogRepository_def log_GetLines_def)
  qed
qed

interpretation pure_logs: pg_logs "pure_pg line_clash" "\<lambda>tb. tb" by unfold_locales

end
