(* ===== verification/Build_Logstream.thy ===== *)
theory Build_Logstream
  imports Build_Domain Json
begin

text \<open>
  The log broadcasters of \<^verbatim>\<open>internal/build/adapter/logstream\<close>. The in-memory broadcaster keeps, for each build,
  a Go slice of pointers to subscribers, and removes a subscriber by shifting the backing array in place, while
  \<^verbatim>\<open>Publish\<close> walks a copy of the slice header without the lock. So the model has an explicit store: the
  subscriber objects, the backing arrays, and slices as an array with a length. A pointer that is nil is \<open>None\<close>,
  and dereferencing it (a panic) is the result \<open>None\<close>.
\<close>

section \<open>Subscribers\<close>

record chanSubscriber =
  sub_ch :: "LogLine list"
  sub_done :: bool

abbreviation subscriber_buffer :: nat where "subscriber_buffer \<equiv> 100"

definition new_sub :: chanSubscriber where
  "new_sub = \<lparr>sub_ch = [], sub_done = False\<rparr>"

text \<open>When both the channel has room and \<^verbatim>\<open>done\<close> is closed, \<^verbatim>\<open>select\<close> takes either case: \<open>pick\<close> says which.\<close>

definition Send :: "bool \<Rightarrow> LogLine \<Rightarrow> chanSubscriber \<Rightarrow> berr option \<times> chanSubscriber" where
  "Send pick line s =
     (if length (sub_ch s) < subscriber_buffer \<and> (\<not> sub_done s \<or> pick) then (None, s\<lparr>sub_ch := sub_ch s @ [line]\<rparr>)
      else if sub_done s then (Some (LibErr ''subscriber closed''), s)
      else (Some (LibErr ''subscriber buffer full''), s))"

section \<open>The in-memory broadcaster\<close>

record slice =
  sl_arr :: nat
  sl_len :: nat

record memBroadcaster =
  mb_objs :: "chanSubscriber list"
  mb_arrays :: "nat option list list"
  mb_subscribers :: "string \<Rightarrow> slice option"

definition mb_New :: memBroadcaster where
  "mb_New = \<lparr>mb_objs = [], mb_arrays = [], mb_subscribers = (\<lambda>_. None)\<rparr>"

text \<open>
  \<^verbatim>\<open>append\<close> of one element: in place while there is capacity, otherwise into a new array with the
  capacity the runtime chooses (\<open>grow\<close>), which holds the new length at least.
\<close>

definition append_slice :: "(nat \<Rightarrow> nat) \<Rightarrow> slice option \<Rightarrow> nat \<Rightarrow> nat option list list \<Rightarrow> slice \<times> nat option list list" where
  "append_slice grow sl x arrs =
     (case sl of
        None \<Rightarrow> (\<lparr>sl_arr = length arrs, sl_len = 1\<rparr>, arrs @ [Some x # replicate (grow 0 - 1) None])
      | Some s \<Rightarrow>
          let a = arrs ! sl_arr s; n = sl_len s in
          if n < length a then (s\<lparr>sl_len := Suc n\<rparr>, arrs[sl_arr s := a[n := Some x]])
          else (\<lparr>sl_arr = length arrs, sl_len = Suc n\<rparr>, arrs @ [a @ Some x # replicate (grow n - Suc n) None]))"

definition mb_Subscribe :: "(nat \<Rightarrow> nat) \<Rightarrow> string \<Rightarrow> memBroadcaster \<Rightarrow> nat \<times> memBroadcaster" where
  "mb_Subscribe grow buildID m =
     (let sub = length (mb_objs m);
          (s, arrs) = append_slice grow (mb_subscribers m buildID) sub (mb_arrays m)
      in (sub, m\<lparr>mb_objs := mb_objs m @ [new_sub], mb_arrays := arrs, mb_subscribers := (mb_subscribers m)(buildID \<mapsto> s)\<rparr>))"

text \<open>The position of a subscriber among the first \<open>n\<close> pointers of an array.\<close>

fun index_of :: "nat \<Rightarrow> nat option list \<Rightarrow> nat option" where
  "index_of x [] = None"
| "index_of x (p # ps) = (if p = Some x then Some 0 else map_option Suc (index_of x ps))"

text \<open>\<^verbatim>\<open>append(subs[:i], subs[i+1:]...)\<close> writes into the array the slice stands on and leaves the last pointer there.\<close>

definition shift_left :: "nat \<Rightarrow> nat \<Rightarrow> 'a list \<Rightarrow> 'a list" where
  "shift_left i n a = take i a @ drop (Suc i) (take n a) @ drop (n - 1) a"

definition mb_unsubscribe :: "string \<Rightarrow> nat \<Rightarrow> memBroadcaster \<Rightarrow> memBroadcaster" where
  "mb_unsubscribe buildID sub m =
     (case mb_subscribers m buildID of
        None \<Rightarrow> m
      | Some s \<Rightarrow>
          let a = mb_arrays m ! sl_arr s; n = sl_len s in
          case index_of sub (take n a) of
            None \<Rightarrow> m
          | Some i \<Rightarrow> m\<lparr>mb_arrays := (mb_arrays m)[sl_arr s := shift_left i n a],
               mb_subscribers := (mb_subscribers m)(buildID \<mapsto> s\<lparr>sl_len := n - 1\<rparr>),
               mb_objs := (mb_objs m)[sub := (mb_objs m ! sub)\<lparr>sub_done := True\<rparr>]\<rparr>)"

text \<open>\<open>Publish\<close> reads the slice header under the lock and then walks the array, one pointer at a time.\<close>

definition pub_at :: "bool \<Rightarrow> LogLine \<Rightarrow> slice \<Rightarrow> nat \<Rightarrow> memBroadcaster \<Rightarrow> memBroadcaster option" where
  "pub_at pick line s i m =
     (case mb_arrays m ! sl_arr s ! i of
        None \<Rightarrow> None
      | Some a \<Rightarrow> Some (m\<lparr>mb_objs := (mb_objs m)[a := snd (Send pick line (mb_objs m ! a))]\<rparr>))"

fun pub_loop :: "(nat \<Rightarrow> bool) \<Rightarrow> LogLine \<Rightarrow> slice \<Rightarrow> nat list \<Rightarrow> memBroadcaster \<Rightarrow> memBroadcaster option" where
  "pub_loop pick line s [] m = Some m"
| "pub_loop pick line s (i # is) m =
     (case pub_at (pick i) line s i m of None \<Rightarrow> None | Some m' \<Rightarrow> pub_loop pick line s is m')"

definition mb_Publish :: "(nat \<Rightarrow> bool) \<Rightarrow> LogLine \<Rightarrow> memBroadcaster \<Rightarrow> memBroadcaster option" where
  "mb_Publish pick line m =
     (case mb_subscribers m (ll_BuildID line) of
        None \<Rightarrow> Some m
      | Some s \<Rightarrow> pub_loop pick line s [0..<sl_len s] m)"

text \<open>The loop of \<^verbatim>\<open>MarkComplete\<close> has an empty body.\<close>

definition mb_MarkComplete :: "string \<Rightarrow> memBroadcaster \<Rightarrow> memBroadcaster" where
  "mb_MarkComplete buildID m = m"

section \<open>The abstract broadcaster\<close>

definition subs_of :: "memBroadcaster \<Rightarrow> string \<Rightarrow> nat list" where
  "subs_of m b = (case mb_subscribers m b of None \<Rightarrow> [] | Some s \<Rightarrow> map the (take (sl_len s) (mb_arrays m ! sl_arr s)))"

definition slice_ok :: "memBroadcaster \<Rightarrow> slice \<Rightarrow> bool" where
  "slice_ok m s = (sl_arr s < length (mb_arrays m) \<and> sl_len s \<le> length (mb_arrays m ! sl_arr s) \<and>
     None \<notin> set (take (sl_len s) (mb_arrays m ! sl_arr s)))"

text \<open>
  Slices lie in their arrays and hold no nil; no array belongs to two builds; the subscribers of a build are
  distinct objects, and no two builds share one; only open subscribers are listed.
\<close>

definition mb_inv :: "memBroadcaster \<Rightarrow> bool" where
  "mb_inv m = ((\<forall>b s. mb_subscribers m b = Some s \<longrightarrow> slice_ok m s) \<and>
     (\<forall>b c s t. mb_subscribers m b = Some s \<longrightarrow> mb_subscribers m c = Some t \<longrightarrow> sl_arr s = sl_arr t \<longrightarrow> b = c) \<and>
     (\<forall>b. distinct (subs_of m b)) \<and>
     (\<forall>b c a. a \<in> set (subs_of m b) \<longrightarrow> a \<in> set (subs_of m c) \<longrightarrow> b = c) \<and>
     (\<forall>b a. a \<in> set (subs_of m b) \<longrightarrow> a < length (mb_objs m) \<and> \<not> sub_done (mb_objs m ! a)))"

lemma mb_inv_slice: "mb_inv m \<Longrightarrow> mb_subscribers m b = Some s \<Longrightarrow> slice_ok m s"
  by (simp add: mb_inv_def)

lemma mb_inv_arr:
  "mb_inv m \<Longrightarrow> mb_subscribers m b = Some s \<Longrightarrow> mb_subscribers m c = Some t \<Longrightarrow> b \<noteq> c \<Longrightarrow> sl_arr t \<noteq> sl_arr s"
  unfolding mb_inv_def by metis

subsection \<open>Subscribing\<close>

text \<open>What appending does to the slice itself and to every other slice.\<close>

lemma append_slice_self:
  assumes "append_slice grow sl x arrs = (s', arrs')" and "\<forall>s. sl = Some s \<longrightarrow> sl_arr s < length arrs \<and> sl_len s \<le> length (arrs ! sl_arr s)"
  shows "sl_arr s' < length arrs'" "sl_len s' \<le> length (arrs' ! sl_arr s')"
    "take (sl_len s') (arrs' ! sl_arr s') =
       (case sl of None \<Rightarrow> [] | Some s \<Rightarrow> take (sl_len s) (arrs ! sl_arr s)) @ [Some x]"
    "sl_arr s' = length arrs \<or> (\<exists>s. sl = Some s \<and> sl_arr s' = sl_arr s)" "length arrs \<le> length arrs'"
  using assms
  by (auto simp: append_slice_def Let_def take_Suc_conv_app_nth nth_append split: option.splits if_splits)

lemma append_slice_other:
  assumes "append_slice grow sl x arrs = (s', arrs')" and "k < length arrs" and "\<forall>s. sl = Some s \<longrightarrow> sl_arr s \<noteq> k"
  shows "arrs' ! k = arrs ! k"
  using assms by (auto simp: append_slice_def Let_def nth_append split: option.splits if_splits)

text \<open>The memory half of a subscription: the slices stay within their arrays, no two builds come to share an
  array, and only the list of the build grows.\<close>

lemma Subscribe_slices:
  assumes inv: "mb_inv m" and run: "mb_Subscribe grow b m = (sub, m')"
  shows "subs_of m' c = (if c = b then subs_of m b @ [sub] else subs_of m c)"
    and "mb_subscribers m' c = Some t \<Longrightarrow> slice_ok m' t"
    and "mb_subscribers m' c = Some t \<Longrightarrow> mb_subscribers m' d = Some u \<Longrightarrow> sl_arr t = sl_arr u \<Longrightarrow> c = d"
proof -
  obtain s' arrs' where ap: "append_slice grow (mb_subscribers m b) (length (mb_objs m)) (mb_arrays m) = (s', arrs')" by fastforce
  have m': "m' = m\<lparr>mb_objs := mb_objs m @ [new_sub], mb_arrays := arrs', mb_subscribers := (mb_subscribers m)(b \<mapsto> s')\<rparr>"
    and sub: "sub = length (mb_objs m)"
    using run ap by (auto simp: mb_Subscribe_def Let_def)
  have pre: "\<forall>s. mb_subscribers m b = Some s \<longrightarrow> sl_arr s < length (mb_arrays m) \<and> sl_len s \<le> length (mb_arrays m ! sl_arr s)"
    using mb_inv_slice [OF inv] by (auto simp: slice_ok_def)
  note self = append_slice_self [OF ap pre]
  have old: "arrs' ! sl_arr t = mb_arrays m ! sl_arr t" if "mb_subscribers m c = Some t" "c \<noteq> b" for c t
  proof (rule append_slice_other [OF ap])
    show "sl_arr t < length (mb_arrays m)" using mb_inv_slice [OF inv that(1)] by (simp add: slice_ok_def)
    show "\<forall>s. mb_subscribers m b = Some s \<longrightarrow> sl_arr s \<noteq> sl_arr t" using mb_inv_arr [OF inv _ that(1)] that(2) by metis
  qed
  show "subs_of m' c = (if c = b then subs_of m b @ [sub] else subs_of m c)"
    using self(3) old [of c] by (auto simp: subs_of_def m' sub split: option.splits)
  show "slice_ok m' t" if "mb_subscribers m' c = Some t"
  proof (cases "c = b")
    case True
    have "None \<notin> set (case mb_subscribers m b of None \<Rightarrow> [] | Some s \<Rightarrow> take (sl_len s) (mb_arrays m ! sl_arr s))"
      using mb_inv_slice [OF inv, of b] by (auto simp: slice_ok_def split: option.splits)
    then show ?thesis using True that self(1,2,3) by (auto simp: slice_ok_def m')
  next
    case False
    then show ?thesis using that mb_inv_slice [OF inv, of c t] old [of c t] self(5) by (auto simp: slice_ok_def m')
  qed
  have new: "sl_arr t \<noteq> sl_arr s'" if "mb_subscribers m c = Some t" "c \<noteq> b" for c t
  proof -
    have "sl_arr t < length (mb_arrays m)" using mb_inv_slice [OF inv that(1)] by (simp add: slice_ok_def)
    then show ?thesis using self(4) mb_inv_arr [OF inv _ that(1)] that(2) by (metis less_irrefl_nat)
  qed
  show "c = d" if "mb_subscribers m' c = Some t" "mb_subscribers m' d = Some u" "sl_arr t = sl_arr u"
    using that new [of c t] new [of d u] mb_inv_arr [OF inv, of c t d u] by (auto simp: m' split: if_splits)
qed

lemma Subscribe_subs:
  assumes inv: "mb_inv m" and run: "mb_Subscribe grow b m = (sub, m')"
  shows "subs_of m' = (subs_of m)(b := subs_of m b @ [sub])" and "mb_inv m'" and "sub = length (mb_objs m)"
    and "mb_objs m' = mb_objs m @ [new_sub]"
proof -
  note subs = Subscribe_slices(1) [OF inv run]
  show sub: "sub = length (mb_objs m)" and objs: "mb_objs m' = mb_objs m @ [new_sub]"
    using run by (auto simp: mb_Subscribe_def Let_def split: prod.splits)
  show "subs_of m' = (subs_of m)(b := subs_of m b @ [sub])" using subs by auto
  have fresh: "sub \<notin> set (subs_of m c)" for c using inv sub by (auto simp: mb_inv_def)
  have own: "c = d" if "a \<in> set (subs_of m c)" "a \<in> set (subs_of m d)" for a c d
    using inv that unfolding mb_inv_def by metis
  have opened: "a < length (mb_objs m) \<and> \<not> sub_done (mb_objs m ! a)" if "a \<in> set (subs_of m c)" for a c
    using inv that unfolding mb_inv_def by metis
  have dist: "distinct (subs_of m' c)" for c using subs fresh inv by (auto simp: mb_inv_def)
  have own': "c = d" if "a \<in> set (subs_of m' c)" "a \<in> set (subs_of m' d)" for a c d
    using that fresh own [of a c d] by (auto simp: subs split: if_splits)
  have opened': "a < length (mb_objs m') \<and> \<not> sub_done (mb_objs m' ! a)" if "a \<in> set (subs_of m' c)" for a c
  proof -
    have "a \<in> set (subs_of m c) \<or> a = sub" using that by (auto simp: subs split: if_splits)
    then show ?thesis using opened [of a c] sub by (auto simp: objs nth_append new_sub_def)
  qed
  show "mb_inv m'"
    unfolding mb_inv_def using Subscribe_slices(2,3) [OF inv run] dist own' opened' by blast
qed

subsection \<open>Unsubscribing\<close>

lemma index_of_Some: "index_of x ps = Some i \<Longrightarrow> i < length ps \<and> ps ! i = Some x \<and> (\<forall>j < i. ps ! j \<noteq> Some x)"
proof (induction ps arbitrary: i)
  case (Cons p ps)
  then show ?case by (auto simp: less_Suc_eq_0_disj split: if_splits)
qed simp

lemma index_of_None: "index_of x ps = None \<longleftrightarrow> Some x \<notin> set ps"
  by (induction ps) auto

lemma take_shift:
  assumes "i < n" and "n \<le> length a"
  shows "take (n - 1) (shift_left i n a) = take i (take n a) @ drop (Suc i) (take n a)" and "length (shift_left i n a) = length a"
proof -
  show "length (shift_left i n a) = length a" using assms by (simp add: shift_left_def min_def)
  have "length (take i a @ drop (Suc i) (take n a)) = n - 1" using assms by (simp add: min_def)
  then have "take (n - 1) (shift_left i n a) = take i a @ drop (Suc i) (take n a)"
    unfolding shift_left_def by (metis append.assoc append_eq_conv_conj)
  then show "take (n - 1) (shift_left i n a) = take i (take n a) @ drop (Suc i) (take n a)" using assms by (simp add: min_def)
qed

lemma remove_at:
  assumes "distinct xs" and "i < length xs"
  shows "take i xs @ drop (Suc i) xs = removeAll (xs ! i) xs"
proof -
  have "xs = take i xs @ xs ! i # drop (Suc i) xs" using assms(2) by (simp add: id_take_nth_drop)
  moreover from this have "xs ! i \<notin> set (take i xs)" "xs ! i \<notin> set (drop (Suc i) xs)"
    using assms(1) by (metis distinct_append disjoint_iff list.set_intros(1), metis distinct_append distinct.simps(2))
  ultimately show ?thesis by (metis removeAll.simps(2) removeAll_append removeAll_id)
qed

lemma mb_inv_own: "mb_inv m \<Longrightarrow> a \<in> set (subs_of m b) \<Longrightarrow> a \<in> set (subs_of m c) \<Longrightarrow> b = c"
  unfolding mb_inv_def by metis

lemma mb_inv_open: "mb_inv m \<Longrightarrow> a \<in> set (subs_of m b) \<Longrightarrow> a < length (mb_objs m) \<and> \<not> sub_done (mb_objs m ! a)"
  unfolding mb_inv_def by metis

lemma unsubscribe_absent:
  assumes "sub \<notin> set (subs_of m b)"
  shows "mb_unsubscribe b sub m = m"
proof (cases "mb_subscribers m b")
  case (Some s)
  have "Some sub \<notin> set (take (sl_len s) (mb_arrays m ! sl_arr s))" using assms Some by (force simp: subs_of_def)
  then show ?thesis using Some by (auto simp: mb_unsubscribe_def Let_def index_of_None [symmetric])
qed (simp add: mb_unsubscribe_def)

text \<open>The new array of the slice and what its shorter prefix holds.\<close>

lemma unsubscribe_present:
  assumes inv: "mb_inv m" and sub: "sub \<in> set (subs_of m b)"
  obtains s arr where "mb_subscribers m b = Some s" "sl_arr s < length (mb_arrays m)"
    "mb_unsubscribe b sub m = m\<lparr>mb_arrays := (mb_arrays m)[sl_arr s := arr],
       mb_subscribers := (mb_subscribers m)(b \<mapsto> s\<lparr>sl_len := sl_len s - 1\<rparr>),
       mb_objs := (mb_objs m)[sub := (mb_objs m ! sub)\<lparr>sub_done := True\<rparr>]\<rparr>"
    "sl_len s - 1 \<le> length arr" "None \<notin> set (take (sl_len s - 1) arr)"
    "map the (take (sl_len s - 1) arr) = removeAll sub (subs_of m b)"
proof -
  obtain s where s: "mb_subscribers m b = Some s" using sub by (cases "mb_subscribers m b") (auto simp: subs_of_def)
  define a where "a = mb_arrays m ! sl_arr s"
  define n where "n = sl_len s"
  have sok: "sl_arr s < length (mb_arrays m)" "n \<le> length a" "None \<notin> set (take n a)"
    using mb_inv_slice [OF inv s] by (auto simp: slice_ok_def a_def n_def)
  have els: "subs_of m b = map the (take n a)" by (simp add: subs_of_def s a_def n_def)
  have "Some sub \<in> set (take n a)" using sub sok(3) els by (auto, metis option.exhaust_sel)
  then obtain i where i: "index_of sub (take n a) = Some i" using index_of_None [of sub "take n a"] by auto
  have ii: "i < n" "take n a ! i = Some sub" using index_of_Some [OF i] by auto
  have dis: "distinct (subs_of m b)" using inv by (simp add: mb_inv_def)
  note tk = take_shift [OF ii(1) sok(2)]
  have "map the (take i (take n a) @ drop (Suc i) (take n a)) = removeAll (subs_of m b ! i) (subs_of m b)"
    using remove_at [OF dis, of i] ii(1) sok(2) by (simp add: els take_map [symmetric] drop_map [symmetric])
  moreover have "subs_of m b ! i = sub" using ii sok(2) by (simp add: els)
  ultimately have mine: "map the (take (n - 1) (shift_left i n a)) = removeAll sub (subs_of m b)" using tk(1) by simp
  have "set (take (n - 1) (shift_left i n a)) \<subseteq> set (take n a)"
    unfolding tk(1) using set_take_subset [of i "take n a"] set_drop_subset [of "Suc i" "take n a"] by (simp del: take_take)
  then have no: "None \<notin> set (take (n - 1) (shift_left i n a))" using sok(3) by blast
  have "mb_unsubscribe b sub m = m\<lparr>mb_arrays := (mb_arrays m)[sl_arr s := shift_left i n a],
       mb_subscribers := (mb_subscribers m)(b \<mapsto> s\<lparr>sl_len := n - 1\<rparr>),
       mb_objs := (mb_objs m)[sub := (mb_objs m ! sub)\<lparr>sub_done := True\<rparr>]\<rparr>"
    using s i by (simp add: mb_unsubscribe_def Let_def a_def n_def)
  then show thesis using that [of s "shift_left i n a"] s sok(1,2) tk(2) no mine unfolding n_def by simp
qed

lemma unsubscribe_subs:
  assumes inv: "mb_inv m"
  shows "subs_of (mb_unsubscribe b sub m) = (subs_of m)(b := removeAll sub (subs_of m b)) \<and> mb_inv (mb_unsubscribe b sub m)"
proof (cases "sub \<in> set (subs_of m b)")
  case False
  then show ?thesis using inv by (simp add: unsubscribe_absent fun_upd_idem)
next
  case True
  let ?m' = "mb_unsubscribe b sub m"
  obtain s arr where s: "mb_subscribers m b = Some s" "sl_arr s < length (mb_arrays m)"
    and m': "?m' = m\<lparr>mb_arrays := (mb_arrays m)[sl_arr s := arr], mb_subscribers := (mb_subscribers m)(b \<mapsto> s\<lparr>sl_len := sl_len s - 1\<rparr>),
       mb_objs := (mb_objs m)[sub := (mb_objs m ! sub)\<lparr>sub_done := True\<rparr>]\<rparr>"
    and arr: "sl_len s - 1 \<le> length arr" "None \<notin> set (take (sl_len s - 1) arr)"
    and mine: "map the (take (sl_len s - 1) arr) = removeAll sub (subs_of m b)"
    by (rule unsubscribe_present [OF inv True])
  have other: "sl_arr t \<noteq> sl_arr s" if "mb_subscribers m c = Some t" "c \<noteq> b" for c t
    using mb_inv_arr [OF inv s(1) that(1)] that(2) by blast
  have subs: "subs_of ?m' c = (if c = b then removeAll sub (subs_of m b) else subs_of m c)" for c
    using mine other [of c] s(2) by (auto simp: subs_of_def m' split: option.splits)
  have ok: "slice_ok ?m' t" if "mb_subscribers ?m' c = Some t" for c t
    using that arr s(2) other [of c t] mb_inv_slice [OF inv, of c t] by (cases "c = b") (auto simp: slice_ok_def m')
  have own: "c = d" if "mb_subscribers ?m' c = Some t" "mb_subscribers ?m' d = Some u" "sl_arr t = sl_arr u" for c d t u
    using that other [of c t] other [of d u] mb_inv_arr [OF inv, of c t d u] by (auto simp: m' split: if_splits)
  have opened: "x < length (mb_objs ?m') \<and> \<not> sub_done (mb_objs ?m' ! x)" if "x \<in> set (subs_of ?m' c)" for x c
  proof -
    have x: "x \<in> set (subs_of m c)" "x \<noteq> sub" using that mb_inv_own [OF inv True, of c] by (auto simp: subs split: if_splits)
    then show ?thesis using mb_inv_open [OF inv x(1)] by (simp add: m')
  qed
  have dist: "distinct (subs_of ?m' c)" for c using subs inv by (auto simp: mb_inv_def distinct_removeAll)
  have "c = d" if "x \<in> set (subs_of ?m' c)" "x \<in> set (subs_of ?m' d)" for x c d
    using that mb_inv_own [OF inv, of x c d] by (auto simp: subs split: if_splits)
  then have "mb_inv ?m'" unfolding mb_inv_def using ok own dist opened by blast
  then show ?thesis using subs by auto
qed

subsection \<open>Publishing\<close>

text \<open>Publishing changes nothing but the channels of the subscribers of the line's build, each once.\<close>

lemma pub_loop_objs:
  assumes "slice_ok m s" and "\<forall>i \<in> set is. i < sl_len s" and "distinct (map (\<lambda>i. the (mb_arrays m ! sl_arr s ! i)) is)"
    and "\<forall>i \<in> set is. the (mb_arrays m ! sl_arr s ! i) < length (mb_objs m) \<and> \<not> sub_done (mb_objs m ! the (mb_arrays m ! sl_arr s ! i))"
  shows "\<exists>objs. pub_loop pick line s is m = Some (m\<lparr>mb_objs := objs\<rparr>) \<and> length objs = length (mb_objs m) \<and>
      (\<forall>a. objs ! a = (if a \<in> (\<lambda>i. the (mb_arrays m ! sl_arr s ! i)) ` set is then snd (Send True line (mb_objs m ! a)) else mb_objs m ! a))"
  using assms
proof (induction "is" arbitrary: m)
  case Nil
  then show ?case by (intro exI [of _ "mb_objs m"]) simp
next
  case (Cons i "is")
  let ?p = "\<lambda>i. the (mb_arrays m ! sl_arr s ! i)"
  have "mb_arrays m ! sl_arr s ! i \<in> set (take (sl_len s) (mb_arrays m ! sl_arr s))"
    using Cons.prems(1,2) by (auto simp: slice_ok_def in_set_conv_nth intro!: exI [of _ i])
  then have pi: "mb_arrays m ! sl_arr s ! i = Some (?p i)" using Cons.prems(1) by (metis slice_ok_def option.exhaust_sel)
  define m1 where "m1 = m\<lparr>mb_objs := (mb_objs m)[?p i := snd (Send True line (mb_objs m ! ?p i))]\<rparr>"
  have "\<not> sub_done (mb_objs m ! ?p i)" "?p i < length (mb_objs m)" using Cons.prems(4) by simp_all
  then have at: "pub_at (pick i) line s i m = Some m1" by (subst pub_at_def, subst pi) (simp add: m1_def Send_def)
  have pr: "slice_ok m1 s" "\<forall>j \<in> set is. j < sl_len s" "distinct (map (\<lambda>i. the (mb_arrays m1 ! sl_arr s ! i)) is)"
    "\<forall>j \<in> set is. the (mb_arrays m1 ! sl_arr s ! j) < length (mb_objs m1) \<and> \<not> sub_done (mb_objs m1 ! the (mb_arrays m1 ! sl_arr s ! j))"
    using Cons.prems by (auto simp: m1_def slice_ok_def nth_list_update)
  obtain objs where o: "pub_loop pick line s is m1 = Some (m1\<lparr>mb_objs := objs\<rparr>)" "length objs = length (mb_objs m1)"
    "\<forall>a. objs ! a = (if a \<in> ?p ` set is then snd (Send True line (mb_objs m1 ! a)) else mb_objs m1 ! a)"
    using Cons.IH [OF pr] by (auto simp: m1_def)
  have "?p i \<notin> ?p ` set is" using Cons.prems(3) by simp
  moreover have "mb_objs m1 ! a = (if a = ?p i then snd (Send True line (mb_objs m ! a)) else mb_objs m ! a)" for a
    using Cons.prems(4) by (auto simp: m1_def)
  ultimately have "\<forall>a. objs ! a = (if a \<in> ?p ` set (i # is) then snd (Send True line (mb_objs m ! a)) else mb_objs m ! a)"
    using o(3) by auto
  then show ?case using at o by (intro exI [of _ objs]) (simp add: m1_def)
qed

lemma Publish_objs:
  assumes inv: "mb_inv m"
  shows "\<exists>m'. mb_Publish pick line m = Some m' \<and> mb_inv m' \<and> subs_of m' = subs_of m \<and> length (mb_objs m') = length (mb_objs m) \<and>
      (\<forall>a. mb_objs m' ! a = (if a \<in> set (subs_of m (ll_BuildID line)) then snd (Send True line (mb_objs m ! a)) else mb_objs m ! a))"
proof (cases "mb_subscribers m (ll_BuildID line)")
  case None
  then show ?thesis using inv by (auto simp: mb_Publish_def subs_of_def)
next
  case (Some s)
  let ?p = "\<lambda>i. the (mb_arrays m ! sl_arr s ! i)"
  have sok: "slice_ok m s" by (rule mb_inv_slice [OF inv Some])
  then have subs: "subs_of m (ll_BuildID line) = map ?p [0..<sl_len s]"
    by (auto simp: subs_of_def Some slice_ok_def list_eq_iff_nth_eq)
  have "distinct (map ?p [0..<sl_len s])" using inv subs by (metis mb_inv_def)
  moreover have "\<forall>i \<in> set [0..<sl_len s]. ?p i < length (mb_objs m) \<and> \<not> sub_done (mb_objs m ! ?p i)"
    using mb_inv_open [OF inv, of _ "ll_BuildID line"] subs by auto
  ultimately obtain objs where o: "pub_loop pick line s [0..<sl_len s] m = Some (m\<lparr>mb_objs := objs\<rparr>)"
    "length objs = length (mb_objs m)"
    "\<forall>a. objs ! a = (if a \<in> ?p ` set [0..<sl_len s] then snd (Send True line (mb_objs m ! a)) else mb_objs m ! a)"
    using pub_loop_objs [OF sok, of "[0..<sl_len s]" pick line] by auto
  have so: "subs_of (m\<lparr>mb_objs := objs\<rparr>) = subs_of m" by (rule ext) (simp add: subs_of_def split: option.splits)
  have "sub_done (objs ! a) = sub_done (mb_objs m ! a)" for a using o(3) by (auto simp: Send_def)
  then have "mb_inv (m\<lparr>mb_objs := objs\<rparr>)" using inv o(2) unfolding mb_inv_def so by (auto simp: slice_ok_def)
  then show ?thesis using o so Some subs by (auto simp: mb_Publish_def)
qed

section \<open>Runs\<close>

text \<open>Calls of the broadcaster one after the other. The mutex makes subscribing and unsubscribing atomic; a
  publication is one event here, and is taken apart below.\<close>

datatype bc_call = CPublish "nat \<Rightarrow> bool" LogLine | CSubscribe string | CUnsubscribe string nat | CMarkComplete string

fun bc_step :: "(nat \<Rightarrow> nat) \<Rightarrow> bc_call \<Rightarrow> memBroadcaster \<Rightarrow> memBroadcaster option" where
  "bc_step grow (CPublish pick line) m = mb_Publish pick line m"
| "bc_step grow (CSubscribe b) m = Some (snd (mb_Subscribe grow b m))"
| "bc_step grow (CUnsubscribe b sub) m = Some (mb_unsubscribe b sub m)"
| "bc_step grow (CMarkComplete b) m = Some (mb_MarkComplete b m)"

fun bc_run :: "(nat \<Rightarrow> nat) \<Rightarrow> bc_call list \<Rightarrow> memBroadcaster \<Rightarrow> memBroadcaster option" where
  "bc_run grow [] m = Some m"
| "bc_run grow (c # cs) m = (case bc_step grow c m of None \<Rightarrow> None | Some m' \<Rightarrow> bc_run grow cs m')"

fun published :: "string \<Rightarrow> bc_call list \<Rightarrow> LogLine list" where
  "published b [] = []"
| "published b (CPublish pick line # cs) = (if ll_BuildID line = b then line # published b cs else published b cs)"
| "published b (c # cs) = published b cs"

text \<open>One call: it does not panic, keeps the invariant, and treats a subscriber that it does not remove as a
  bounded queue of the lines of its build.\<close>

lemma bc_step_sub:
  assumes inv: "mb_inv m" and a: "a \<in> set (subs_of m b)" and c: "c \<noteq> CUnsubscribe b a"
  shows "\<exists>m'. bc_step grow c m = Some m' \<and> mb_inv m' \<and> a \<in> set (subs_of m' b) \<and>
      (length (sub_ch (mb_objs m ! a)) \<le> subscriber_buffer \<longrightarrow>
        sub_ch (mb_objs m' ! a) = take subscriber_buffer (sub_ch (mb_objs m ! a) @ published b [c]))"
proof (cases c)
  case (CPublish pick line)
  obtain m' where m': "mb_Publish pick line m = Some m'" "mb_inv m'" "subs_of m' = subs_of m"
    "mb_objs m' ! a = (if a \<in> set (subs_of m (ll_BuildID line)) then snd (Send True line (mb_objs m ! a)) else mb_objs m ! a)"
    using Publish_objs [OF inv, of pick line] by blast
  have "a \<in> set (subs_of m (ll_BuildID line)) \<longleftrightarrow> ll_BuildID line = b" using a mb_inv_own [OF inv a] by metis
  then show ?thesis using m' a mb_inv_open [OF inv a] CPublish by (auto simp: Send_def)
next
  case (CSubscribe b')
  obtain sub m' where s: "mb_Subscribe grow b' m = (sub, m')" by fastforce
  note f = Subscribe_subs [OF inv s]
  show ?thesis using f a mb_inv_open [OF inv a] s CSubscribe by (auto simp: nth_append)
next
  case (CUnsubscribe b' sub)
  note f = unsubscribe_subs [OF inv, of b' sub]
  have ne: "sub \<noteq> a \<or> b' \<noteq> b" using c CUnsubscribe by auto
  have "mb_objs (mb_unsubscribe b' sub m) ! a = mb_objs m ! a"
  proof (cases "sub \<in> set (subs_of m b')")
    case True
    then have "sub \<noteq> a" using ne a mb_inv_own [OF inv a] by metis
    then show ?thesis using unsubscribe_present [OF inv True] by (metis memBroadcaster.select_convs(1) memBroadcaster.surjective memBroadcaster.update_convs(1) nth_list_update_neq)
  qed (simp add: unsubscribe_absent)
  then show ?thesis using f a ne CUnsubscribe by auto
next
  case (CMarkComplete b')
  then show ?thesis using inv a by (simp add: mb_MarkComplete_def)
qed

lemma take_take_append: "take n (take n xs @ ys) = take n (xs @ ys)"
  by (cases "n \<le> length xs") simp_all

lemma bc_run_sub:
  "mb_inv m \<Longrightarrow> a \<in> set (subs_of m b) \<Longrightarrow> CUnsubscribe b a \<notin> set cs \<Longrightarrow> length (sub_ch (mb_objs m ! a)) \<le> subscriber_buffer \<Longrightarrow>
   \<exists>m'. bc_run grow cs m = Some m' \<and> mb_inv m' \<and>
      sub_ch (mb_objs m' ! a) = take subscriber_buffer (sub_ch (mb_objs m ! a) @ published b cs)"
proof (induction cs arbitrary: m)
  case (Cons c cs)
  obtain m1 where m1: "bc_step grow c m = Some m1" "mb_inv m1" "a \<in> set (subs_of m1 b)"
    "sub_ch (mb_objs m1 ! a) = take subscriber_buffer (sub_ch (mb_objs m ! a) @ published b [c])"
    using bc_step_sub [of m a b c grow] Cons.prems by auto
  have "published b (c # cs) = published b [c] @ published b cs" by (cases c) auto
  then have eq: "take subscriber_buffer (sub_ch (mb_objs m1 ! a) @ published b cs) =
      take subscriber_buffer (sub_ch (mb_objs m ! a) @ published b (c # cs))"
    using take_take_append [of subscriber_buffer "sub_ch (mb_objs m ! a) @ published b [c]" "published b cs"] m1(4)
    by (simp del: take_append)
  have "length (sub_ch (mb_objs m1 ! a)) \<le> subscriber_buffer" unfolding m1(4) by (simp del: take_append)
  then have "\<exists>m'. bc_run grow cs m1 = Some m' \<and> mb_inv m' \<and>
      sub_ch (mb_objs m' ! a) = take subscriber_buffer (sub_ch (mb_objs m1 ! a) @ published b cs)"
    using Cons.prems(3) by (intro Cons.IH m1(2,3)) simp_all
  then show ?case unfolding eq using m1(1) by (simp del: take_append)
qed simp

lemma mb_inv_New: "mb_inv mb_New"
  by (simp add: mb_inv_def mb_New_def subs_of_def)

lemma bc_run_inv: "mb_inv m \<Longrightarrow> \<exists>m'. bc_run grow cs m = Some m' \<and> mb_inv m'"
proof (induction cs arbitrary: m)
  case (Cons c cs)
  have "mb_inv (snd (mb_Subscribe grow b m))" for b using Subscribe_subs(2) [OF Cons.prems] by (metis prod.collapse)
  moreover have "\<exists>m'. mb_Publish pick line m = Some m' \<and> mb_inv m'" for pick line
    using Publish_objs [OF Cons.prems, of pick line] by blast
  ultimately have "\<exists>m'. bc_step grow c m = Some m' \<and> mb_inv m'"
    using Cons.prems unsubscribe_subs [OF Cons.prems]
    by (cases c) (auto simp: mb_MarkComplete_def)
  then show ?case using Cons.IH by auto
qed simp

text \<open>C30: In any run of the in-memory broadcaster, from its creation, in which publications are not interleaved with other
  calls, no call panics, and a subscriber that is not removed holds exactly the first hundred lines published for its
  build after it subscribed, in the order of publication: lines of other builds never reach it, and later ones are dropped
  since nothing empties the channel.
\<close>

theorem broadcaster_delivers:
  assumes "CUnsubscribe b a \<notin> set after" and "bc_run grow before mb_New = Some m" and "mb_Subscribe grow b m = (a, m1)"
  shows "\<exists>m'. bc_run grow after m1 = Some m' \<and> sub_ch (mb_objs m' ! a) = take 100 (published b after)"
proof -
  have inv: "mb_inv m" using bc_run_inv [OF mb_inv_New, of grow before] assms(2) by auto
  note f = Subscribe_subs [OF inv assms(3)]
  have "a \<in> set (subs_of m1 b)" "sub_ch (mb_objs m1 ! a) = []" using f by (auto simp: nth_append new_sub_def)
  then show ?thesis using bc_run_sub [OF f(2) _ assms(1), of grow] by auto
qed

theorem broadcaster_delivers_witness:
  "\<exists>m'. bc_run (\<lambda>n. 2 * n) [CPublish (\<lambda>_. True) \<lparr>ll_BuildID = ''b'', ll_Sequence = 1, ll_Stream = ''stdout'', ll_Text = ''x'', ll_Timestamp = 0\<rparr>]
       (snd (mb_Subscribe (\<lambda>n. 2 * n) ''b'' mb_New)) = Some m' \<and>
     sub_ch (mb_objs m' ! 0) = [\<lparr>ll_BuildID = ''b'', ll_Sequence = 1, ll_Stream = ''stdout'', ll_Text = ''x'', ll_Timestamp = 0\<rparr>]"
proof -
  have "fst (mb_Subscribe (\<lambda>n. 2 * n) ''b'' mb_New) = 0" by (simp add: mb_Subscribe_def mb_New_def append_slice_def)
  then have s: "mb_Subscribe (\<lambda>n. 2 * n) ''b'' mb_New = (0, snd (mb_Subscribe (\<lambda>n. 2 * n) ''b'' mb_New))" by (metis prod.collapse)
  show ?thesis
    using broadcaster_delivers [OF _ _ s, of
        "[CPublish (\<lambda>_. True) \<lparr>ll_BuildID = ''b'', ll_Sequence = 1, ll_Stream = ''stdout'', ll_Text = ''x'', ll_Timestamp = 0\<rparr>]" "[]"]
    by simp
qed

section \<open>A publication that is interleaved with an unsubscription\<close>

text \<open>\<open>Publish\<close> walks the array without the lock while \<open>unsubscribe\<close> shifts it in place. Of three subscribers of a
  build, when the first leaves after it was sent the line, the second never gets the line and the third gets it twice.
\<close>

theorem publish_race:
  "\<exists>m s m1 m2 m3. bc_run (\<lambda>n. 2 * n) [CSubscribe b, CSubscribe b, CSubscribe b] mb_New = Some m \<and>
     mb_subscribers m b = Some s \<and> sl_len s = 3 \<and>
     pub_at pick line s 0 m = Some m1 \<and>
     pub_at pick line s 1 (mb_unsubscribe b 0 m1) = Some m2 \<and>
     pub_at pick line s 2 m2 = Some m3 \<and>
     sub_ch (mb_objs m3 ! 1) = [] \<and> sub_ch (mb_objs m3 ! 2) = [line, line]"
  by (simp add: mb_Subscribe_def mb_New_def append_slice_def pub_at_def mb_unsubscribe_def shift_left_def Send_def new_sub_def
      Let_def numeral_2_eq_2 numeral_3_eq_3)

section \<open>The Redis broadcaster\<close>

text \<open>A channel of Redis is a parameter: the call that publishes a message.\<close>

type_synonym 'r pubsub = "string \<Rightarrow> payload \<Rightarrow> 'r \<Rightarrow> string option \<times> 'r"

definition ll_marshal :: "LogLine \<Rightarrow> json option" where
  "ll_marshal l =
     (if json_time_ok (ll_Timestamp l)
      then Some (JObj [(''BuildID'', JStr (ll_BuildID l)), (''Sequence'', JNum (sint (ll_Sequence l))), (''Stream'', JStr (ll_Stream l)),
        (''Text'', JStr (ll_Text l)), (''Timestamp'', JTime (ll_Timestamp l))])
      else None)"

fun dInt64 :: "64 word decoder" where
  "dInt64 (JNum n) acc = (if - (2 ^ 63) \<le> n \<and> n < 2 ^ 63 then Inr (word_of_int n) else Inl UnmarshalTypeError)"
| "dInt64 JNull acc = Inr acc"
| "dInt64 _ acc = Inl UnmarshalTypeError"

definition zero_LogLine :: LogLine where
  "zero_LogLine = \<lparr>ll_BuildID = [], ll_Sequence = 0, ll_Stream = [], ll_Text = [], ll_Timestamp = zero_time\<rparr>"

definition ll_unmarshal :: "payload \<Rightarrow> json_err + LogLine" where
  "ll_unmarshal p =
     (case p of
        NotJson _ \<Rightarrow> Inl SyntaxError
      | Doc d \<Rightarrow> dStruct [fld ''BuildID'' dStr ll_BuildID ll_BuildID_update, fld ''Sequence'' dInt64 ll_Sequence ll_Sequence_update,
          fld ''Stream'' dStr ll_Stream ll_Stream_update, fld ''Text'' dStr ll_Text ll_Text_update,
          fld ''Timestamp'' dTime ll_Timestamp ll_Timestamp_update] d zero_LogLine)"

definition log_channel :: "string \<Rightarrow> string" where
  "log_channel buildID = ''raftweave:build:logs:'' @ buildID"

definition rb_Publish :: "'r pubsub \<Rightarrow> LogLine \<Rightarrow> 'r \<Rightarrow> berr option \<times> 'r" where
  "rb_Publish pub line r =
     (case ll_marshal line of
        None \<Rightarrow> (Some (LibErr ''json: error calling MarshalJSON for type time.Time''), r)
      | Some data \<Rightarrow> (case pub (log_channel (ll_BuildID line)) (Doc data) r of (e, r') \<Rightarrow> (map_option LibErr e, r')))"

text \<open>The goroutine of a subscription forwards each message of its channel that is a log line.\<close>

fun rb_forward :: "(nat \<Rightarrow> bool) \<Rightarrow> payload list \<Rightarrow> chanSubscriber \<Rightarrow> chanSubscriber" where
  "rb_forward pick [] s = s"
| "rb_forward pick (p # ps) s =
     (case ll_unmarshal p of
        Inl _ \<Rightarrow> rb_forward pick ps s
      | Inr line \<Rightarrow> rb_forward pick ps (snd (Send (pick (length ps)) line s)))"

definition rb_MarkComplete :: "string \<Rightarrow> 'r \<Rightarrow> 'r" where
  "rb_MarkComplete buildID r = r"

lemma ll_unmarshal_marshal: "ll_marshal l = Some d \<Longrightarrow> ll_unmarshal (Doc d) = Inr l"
proof -
  assume m: "ll_marshal l = Some d"
  let ?kvs = "[(''BuildID'', JStr (ll_BuildID l)), (''Sequence'', JNum (sint (ll_Sequence l))), (''Stream'', JStr (ll_Stream l)),
        (''Text'', JStr (ll_Text l)), (''Timestamp'', JTime (ll_Timestamp l))]"
  have d: "d = JObj ?kvs" using m by (simp add: ll_marshal_def split: if_splits)
  have kd: "keys_distinct ?kvs" by (simp add: keys_distinct_def ToLower_def lower_char_def Let_def)
  have sq: "dInt64 (JNum (sint (ll_Sequence l))) acc = Inr (ll_Sequence l)" for acc
    using sint_greater_eq [of "ll_Sequence l"] sint_less [of "ll_Sequence l"] by simp
  show ?thesis unfolding ll_unmarshal_def d payload.case dStruct.simps by (simp add: fld_one [OF kd] sq del: dInt64.simps)
qed

text \<open>A log line that the Redis broadcaster published reaches a subscription whose channel has room unchanged: the
  message holds every field of the line, and messages on the channel that are not log lines are passed over.
\<close>

theorem redis_log_roundtrip:
  assumes "ll_marshal line = Some data" and "ll_unmarshal junk = Inl e" and "length (sub_ch s) < 100" and "\<not> sub_done s"
  shows "sub_ch (rb_forward pick [junk, Doc data] s) = sub_ch s @ [line]"
  using assms by (simp add: ll_unmarshal_marshal Send_def)

section \<open>The interface\<close>

record 'w Broadcaster =
  bc_Publish :: "LogLine \<Rightarrow> 'w \<Rightarrow> berr option \<times> 'w"
  bc_MarkComplete :: "string \<Rightarrow> 'w \<Rightarrow> 'w"

definition redisBroadcaster :: "'r pubsub \<Rightarrow> 'r Broadcaster" where
  "redisBroadcaster pub = \<lparr>bc_Publish = rb_Publish pub, bc_MarkComplete = rb_MarkComplete\<rparr>"

end
