(* ===== verification/Build_Detector.thy ===== *)
theory Build_Detector
  imports Build_Domain
begin

text \<open>
  The language detector of \<^verbatim>\<open>internal/build/adapter/detector\<close>. The file system is a parameter, asked for the entries
  of the source directory and for files in it by name. Dereferencing the nil \<^verbatim>\<open>FileInfo\<close> of a failed \<^verbatim>\<open>os.Stat\<close> panics,
  which is the result \<open>None\<close>. The regular expressions are matched as \<^verbatim>\<open>regexp\<close> does: the leftmost match, with
  greedy or lazy repetition as written.
\<close>

section \<open>Files\<close>

datatype stat = NotExist | StatError | IsDir | IsFile

text \<open>\<open>ReadFile\<close> gives what it could read and whether it succeeded.\<close>

record fs =
  fs_ReadDir :: "string \<Rightarrow> string list option"
  fs_Stat :: "string \<Rightarrow> string \<Rightarrow> stat"
  fs_ReadFile :: "string \<Rightarrow> string \<Rightarrow> string \<times> bool"

definition fileExists :: "fs \<Rightarrow> string \<Rightarrow> string \<Rightarrow> bool option" where
  "fileExists F dir name =
     (case fs_Stat F dir name of NotExist \<Rightarrow> Some False | StatError \<Rightarrow> None | IsDir \<Rightarrow> Some False | IsFile \<Rightarrow> Some True)"

text \<open>\<^verbatim>\<open>fileExists(a) || fileExists(b)\<close>.\<close>

definition eitherExists :: "fs \<Rightarrow> string \<Rightarrow> string \<Rightarrow> string \<Rightarrow> bool option" where
  "eitherExists F dir a b = (case fileExists F dir a of None \<Rightarrow> None | Some True \<Rightarrow> Some True | Some False \<Rightarrow> fileExists F dir b)"

section \<open>Regular expressions\<close>

definition re_space :: "char \<Rightarrow> bool" where
  "re_space c = ((of_char c :: nat) \<in> {9, 10, 12, 13, 32})"

fun leftmost :: "(string \<Rightarrow> string option) \<Rightarrow> string \<Rightarrow> string option" where
  "leftmost m [] = m []"
| "leftmost m (c # s) = (case m (c # s) of Some v \<Rightarrow> Some v | None \<Rightarrow> leftmost m s)"

text \<open>\<^verbatim>\<open>(?m)^\<close> matches at the beginning of the text and after every newline.\<close>

fun leftmost_line :: "(string \<Rightarrow> string option) \<Rightarrow> bool \<Rightarrow> string \<Rightarrow> string option" where
  "leftmost_line m bol [] = (if bol then m [] else None)"
| "leftmost_line m bol (c # s) =
     (case (if bol then m (c # s) else None) of Some v \<Rightarrow> Some v | None \<Rightarrow> leftmost_line m (c = newline) s)"

text \<open>\<^verbatim>\<open>(\d+\.\d+)\<close>.\<close>

definition m_version :: "string \<Rightarrow> string option" where
  "m_version s =
     (let major = takeWhile is_digit s in
      case dropWhile is_digit s of
        [] \<Rightarrow> None
      | c # r \<Rightarrow> let minor = takeWhile is_digit r in
          if c = CHR ''.'' \<and> major \<noteq> [] \<and> minor \<noteq> [] then Some (major @ ''.'' @ minor) else None)"

text \<open>\<^verbatim>\<open>go\s+(\d+\.\d+)\<close>.\<close>

definition m_go :: "string \<Rightarrow> string option" where
  "m_go s =
     (if HasPrefix s ''go'' \<and> takeWhile re_space (drop 2 s) \<noteq> [] then m_version (dropWhile re_space (drop 2 s)) else None)"

definition reVersion :: "string \<Rightarrow> string option" where
  "reVersion s = leftmost_line m_go True s"

text \<open>\<^verbatim>\<open>"([^"]+)"\<close>.\<close>

definition m_quoted :: "string \<Rightarrow> string option" where
  "m_quoted s =
     (case s of
        [] \<Rightarrow> None
      | c # r \<Rightarrow> let v = takeWhile (\<lambda>x. x \<noteq> dquote) r in
          if c = dquote \<and> v \<noteq> [] \<and> length v < length r then Some v else None)"

definition m_node :: "string \<Rightarrow> string option" where
  "m_node s = (if HasPrefix s (dquote # ''node'' @ [dquote] @ '':'') then m_quoted (dropWhile re_space (drop 7 s)) else None)"

definition reNodeVer :: "string \<Rightarrow> string option" where
  "reNodeVer = leftmost m_node"

definition m_edition :: "string \<Rightarrow> string option" where
  "m_edition s =
     (if HasPrefix s ''edition''
      then case dropWhile re_space (drop 7 s) of
             [] \<Rightarrow> None
           | c # r \<Rightarrow> if c = CHR ''='' then m_quoted (dropWhile re_space r) else None
      else None)"

definition reEdition :: "string \<Rightarrow> string option" where
  "reEdition = leftmost m_edition"

text \<open>\<^verbatim>\<open>(.*?)\<close> up to a closing tag, on one line.\<close>

fun upto_tag :: "string \<Rightarrow> string \<Rightarrow> string option" where
  "upto_tag close [] = (if close = [] then Some [] else None)"
| "upto_tag close (c # s) =
     (if HasPrefix (c # s) close then Some []
      else if c = newline then None else map_option (Cons c) (upto_tag close s))"

definition m_element :: "string \<Rightarrow> string \<Rightarrow> string option" where
  "m_element tag s =
     (if HasPrefix s (''<'' @ tag @ ''>'') then upto_tag (''</'' @ tag @ ''>'') (drop (length tag + 2) s) else None)"

definition reJavaVer :: "string \<Rightarrow> string option" where
  "reJavaVer = leftmost (m_element ''java.version'')"

definition reTargetFramework :: "string \<Rightarrow> string option" where
  "reTargetFramework = leftmost (m_element ''TargetFramework'')"

section \<open>Detection\<close>

text \<open>The first framework whose words occur in the text raises the confidence by 0.2, a version by 0.15.\<close>

fun framework :: "(string list \<times> string) list \<Rightarrow> string \<Rightarrow> DetectionResult \<Rightarrow> DetectionResult" where
  "framework [] text res = res"
| "framework ((ws, name) # fws) text res =
     (if \<exists>w \<in> set ws. Contains text w then res\<lparr>dr_Framework := name, dr_Confidence := dr_Confidence res + 20\<rparr>
      else framework fws text res)"

definition version :: "string option \<Rightarrow> DetectionResult \<Rightarrow> DetectionResult" where
  "version v res = (case v of None \<Rightarrow> res | Some m \<Rightarrow> res\<lparr>dr_RuntimeVersion := m, dr_Confidence := dr_Confidence res + 15\<rparr>)"

definition base :: "Language \<Rightarrow> int \<Rightarrow> string \<Rightarrow> string \<Rightarrow> DetectionResult" where
  "base lang port build start = zero_Detection\<lparr>dr_Language := lang, dr_Confidence := 50, dr_ExposedPort := port,
     dr_BuildCommand := build, dr_StartCommand := start\<rparr>"

text \<open>The version of a file that holds nothing else, trimmed; \<open>None\<close> when the file is not there.\<close>

definition versionFile :: "fs \<Rightarrow> string \<Rightarrow> string \<Rightarrow> string option option" where
  "versionFile F dir name =
     (case fileExists F dir name of
        None \<Rightarrow> None
      | Some False \<Rightarrow> Some None
      | Some True \<Rightarrow> Some (Some (TrimSpace (fst (fs_ReadFile F dir name)))))"

definition detectGo :: "fs \<Rightarrow> string \<Rightarrow> DetectionResult" where
  "detectGo F dir =
     (let text = fst (fs_ReadFile F dir ''go.mod'') in
      framework [([''github.com/gin-gonic/gin'', ''github.com/gin-gerson/gin''], ''gin''), ([''github.com/labstack/echo''], ''echo''),
          ([''github.com/gofiber/fiber''], ''fiber''), ([''github.com/go-chi/chi''], ''chi'')] text
        (version (reVersion text) (base LanguageGo 8080 ''go build -o server .'' ''./server'')))"

definition quoted :: "string \<Rightarrow> string" where
  "quoted s = dquote # s @ [dquote]"

definition squoted :: "string \<Rightarrow> string" where
  "squoted s = CHR 0x27 # s @ [CHR 0x27]"

definition detectNode :: "fs \<Rightarrow> string \<Rightarrow> DetectionResult option" where
  "detectNode F dir =
     (let text = fst (fs_ReadFile F dir ''package.json'');
          res = framework [([quoted ''express''], ''express''), ([quoted ''next''], ''next''), ([quoted ''@nestjs/core''], ''nest''),
            ([quoted ''fastify''], ''fastify'')] text (base LanguageNode 3000 ''npm install'' ''npm start'')
      in case versionFile F dir ''.nvmrc'' of
           None \<Rightarrow> None
         | Some None \<Rightarrow> Some (version (reNodeVer text) res)
         | Some v \<Rightarrow> Some (version v res))"

text \<open>The texts of two files one after the other, each only when it could be read.\<close>

definition readBoth :: "fs \<Rightarrow> string \<Rightarrow> string \<Rightarrow> string \<Rightarrow> string" where
  "readBoth F dir a b =
     (let (x, okx) = fs_ReadFile F dir a; (y, oky) = fs_ReadFile F dir b in (if okx then x else []) @ (if oky then y else []))"

definition detectPython :: "fs \<Rightarrow> string \<Rightarrow> DetectionResult option" where
  "detectPython F dir =
     (let text = ToLower (readBoth F dir ''requirements.txt'' ''pyproject.toml'');
          res = framework [([''django''], ''django''), ([''flask''], ''flask''), ([''fastapi''], ''fastapi'')] text
            (base LanguagePython 8000 ''pip install -r requirements.txt'' ''python main.py'')
      in map_option (\<lambda>v. version v res) (versionFile F dir ''.python-version''))"

definition detectJava :: "fs \<Rightarrow> string \<Rightarrow> DetectionResult" where
  "detectJava F dir =
     (let text = readBoth F dir ''pom.xml'' ''build.gradle'' in
      version (reJavaVer text) (framework [([''spring-boot''], ''spring-boot''), ([''quarkus''], ''quarkus'')] text
        (base LanguageJava 8080 ''mvn package'' ''java -jar target/app.jar'')))"

definition detectRuby :: "fs \<Rightarrow> string \<Rightarrow> DetectionResult option" where
  "detectRuby F dir =
     (let text = fst (fs_ReadFile F dir ''Gemfile'');
          res = framework [([squoted ''rails'', quoted ''rails''], ''rails''), ([squoted ''sinatra'', quoted ''sinatra''], ''sinatra'')] text
            (base LanguageRuby 3000 ''bundle install'' ''bundle exec rails s'')
      in map_option (\<lambda>v. version v res) (versionFile F dir ''.ruby-version''))"

definition detectRust :: "fs \<Rightarrow> string \<Rightarrow> DetectionResult" where
  "detectRust F dir =
     (let text = fst (fs_ReadFile F dir ''Cargo.toml'') in
      version (reEdition text) (framework [([''actix''], ''actix''), ([''axum''], ''axum''), ([''warp''], ''warp'')] text
        (base LanguageRust 8080 ''cargo build --release'' ''./target/release/app'')))"

definition isDotnet :: "string list \<Rightarrow> bool" where
  "isDotnet files = (\<exists>f \<in> set files. HasSuffix f ''.csproj'' \<or> HasSuffix f ''.sln'')"

definition detectDotnet :: "fs \<Rightarrow> string \<Rightarrow> string list \<Rightarrow> DetectionResult" where
  "detectDotnet F dir files =
     (let text = concat (map (\<lambda>f. if HasSuffix f ''.csproj'' then fst (fs_ReadFile F dir f) else []) files) in
      version (reTargetFramework text) (framework [([''Microsoft.AspNetCore'', ''Microsoft.NET.Sdk.Web''], ''AspNetCore'')] text
        (base LanguageDotnet 5000 ''dotnet publish -c Release -o out'' ''dotnet out/app.dll'')))"

text \<open>The rules in order: the first test that holds decides, and a test that panics ends the call.\<close>

fun first_rule :: "(bool option \<times> DetectionResult option) list \<Rightarrow> DetectionResult \<Rightarrow> DetectionResult option" where
  "first_rule [] dflt = Some dflt"
| "first_rule ((test, res) # rules) dflt =
     (case test of None \<Rightarrow> None | Some True \<Rightarrow> res | Some False \<Rightarrow> first_rule rules dflt)"

definition detect_rules :: "fs \<Rightarrow> string \<Rightarrow> string list \<Rightarrow> (bool option \<times> DetectionResult option) list" where
  "detect_rules F dir files =
    [(eitherExists F dir ''Dockerfile'' ''dockerfile'', Some (zero_Detection\<lparr>dr_HasDockerfile := True, dr_Confidence := 100\<rparr>)),
     (fileExists F dir ''go.mod'', Some (detectGo F dir)),
     (fileExists F dir ''package.json'', detectNode F dir),
     (eitherExists F dir ''requirements.txt'' ''pyproject.toml'', detectPython F dir),
     (eitherExists F dir ''pom.xml'' ''build.gradle'', Some (detectJava F dir)),
     (fileExists F dir ''Gemfile'', detectRuby F dir),
     (fileExists F dir ''Cargo.toml'', Some (detectRust F dir)),
     (Some (isDotnet files), Some (detectDotnet F dir files))]"

definition Detect :: "fs \<Rightarrow> string \<Rightarrow> (berr + DetectionResult) option" where
  "Detect F dir =
     (case fs_ReadDir F dir of
        None \<Rightarrow> Some (Inl (Sent ErrDetectionFailed))
      | Some files \<Rightarrow>
          if files = [] then Some (Inl (Sent ErrDetectionFailed))
          else map_option Inr (first_rule (detect_rules F dir files) (zero_Detection\<lparr>dr_Language := LanguageUnknown, dr_Confidence := 10\<rparr>)))"

section \<open>Results\<close>

definition detection_ok :: "DetectionResult \<Rightarrow> bool" where
  "detection_ok r =
     (if dr_HasDockerfile r then dr_Confidence r = 100 \<and> dr_Language r = [] \<and> dr_RuntimeVersion r = []
      else if dr_Language r = LanguageUnknown then dr_Confidence r = 10 \<and> dr_ExposedPort r = 0
      else (dr_Language r, dr_ExposedPort r) \<in> {(LanguageGo, 8080), (LanguageNode, 3000), (LanguagePython, 8000), (LanguageJava, 8080),
             (LanguageRuby, 3000), (LanguageRust, 8080), (LanguageDotnet, 5000)}
        \<and> dr_Confidence r = 50 + (if dr_Framework r = [] then 0 else 20) + (if dr_Confidence r \<in> {65, 85} then 15 else 0)
        \<and> dr_StartCommand r \<noteq> [] \<and> dr_BuildCommand r \<noteq> [])"

text \<open>What the two refinements keep of a result and how they change the confidence.\<close>

definition found :: "Language \<Rightarrow> int \<Rightarrow> string \<Rightarrow> string \<Rightarrow> DetectionResult \<Rightarrow> bool" where
  "found lang port build start r = (dr_Language r = lang \<and> dr_ExposedPort r = port \<and> dr_BuildCommand r = build \<and> dr_StartCommand r = start
     \<and> \<not> dr_HasDockerfile r)"

lemma found_framework [simp]: "found l p b s (framework fws t r) = found l p b s r"
  by (induction fws t r rule: framework.induct) (simp_all add: found_def)

lemma found_version [simp]: "found l p b s (version v r) = found l p b s r"
  by (simp add: version_def found_def split: option.splits)

lemma found_base [simp]: "found l p b s (base l p b s)"
  by (simp add: found_def base_def zero_Detection_def)

lemma framework_conf:
  "\<forall>(ws, n) \<in> set fws. n \<noteq> [] \<Longrightarrow> dr_Framework r = [] \<Longrightarrow>
     dr_Confidence (framework fws t r) = dr_Confidence r + (if dr_Framework (framework fws t r) = [] then 0 else 20)"
  by (induction fws t r rule: framework.induct) auto

lemma version_conf:
  "dr_Confidence (version v r) = dr_Confidence r + (if v = None then 0 else 15)" "dr_Framework (version v r) = dr_Framework r"
  by (auto simp: version_def split: option.splits)

lemma base_conf: "dr_Confidence (base l p b s) = 50" "dr_Framework (base l p b s) = []"
  by (simp_all add: base_def zero_Detection_def)

lemma found_ok:
  assumes "found l p b s r" and "(l, p) \<in> {(LanguageGo, 8080), (LanguageNode, 3000), (LanguagePython, 8000), (LanguageJava, 8080),
             (LanguageRuby, 3000), (LanguageRust, 8080), (LanguageDotnet, 5000)}" and "b \<noteq> []" "s \<noteq> []"
    and "\<exists>k \<in> {0, 15}. dr_Confidence r = 50 + (if dr_Framework r = [] then 0 else 20) + k"
  shows "detection_ok r"
proof -
  have "l \<noteq> LanguageUnknown" using assms(2) by (auto simp: language_defs)
  then show ?thesis using assms by (auto simp: detection_ok_def found_def)
qed

lemma framework_version_conf:
  "\<forall>(ws, n) \<in> set fws. n \<noteq> [] \<Longrightarrow>
     \<exists>k \<in> {0, 15}. dr_Confidence (framework fws t (version v (base l p b s))) =
       50 + (if dr_Framework (framework fws t (version v (base l p b s))) = [] then 0 else 20) + k"
  "\<forall>(ws, n) \<in> set fws. n \<noteq> [] \<Longrightarrow>
     \<exists>k \<in> {0, 15}. dr_Confidence (version v (framework fws t (base l p b s))) =
       50 + (if dr_Framework (version v (framework fws t (base l p b s))) = [] then 0 else 20) + k"
  by (simp_all add: framework_conf version_conf base_conf)

text \<open>The two ways in which the results are put together.\<close>

definition built :: "Language \<Rightarrow> int \<Rightarrow> DetectionResult \<Rightarrow> bool" where
  "built l p r = (\<exists>v fws t b s. (\<forall>(ws, n) \<in> set fws. n \<noteq> []) \<and> b \<noteq> [] \<and> s \<noteq> [] \<and>
     r \<in> {version v (framework fws t (base l p b s)), framework fws t (version v (base l p b s))})"

lemma builtI:
  assumes "\<forall>(ws, n) \<in> set fws. n \<noteq> []" and "b \<noteq> []" and "s \<noteq> []"
  shows "built l p (version v (framework fws t (base l p b s)))" and "built l p (framework fws t (version v (base l p b s)))"
  unfolding built_def using assms by blast+

lemma built_ok:
  assumes "built l p r" and "(l, p) \<in> {(LanguageGo, 8080), (LanguageNode, 3000), (LanguagePython, 8000), (LanguageJava, 8080),
             (LanguageRuby, 3000), (LanguageRust, 8080), (LanguageDotnet, 5000)}"
  shows "detection_ok r"
proof -
  obtain v fws t b s where f: "\<forall>(ws, n) \<in> set fws. n \<noteq> []" "b \<noteq> []" "s \<noteq> []"
    and r: "r \<in> {version v (framework fws t (base l p b s)), framework fws t (version v (base l p b s))}"
    using assms(1) unfolding built_def by blast
  have "found l p b s r" using r by auto
  moreover have "\<exists>k \<in> {0, 15}. dr_Confidence r = 50 + (if dr_Framework r = [] then 0 else 20) + k"
    using r framework_version_conf [OF f(1)] by blast
  ultimately show ?thesis using found_ok assms(2) f(2,3) by blast
qed

lemma go_built: "built LanguageGo 8080 (detectGo F dir)"
  unfolding detectGo_def Let_def by (rule builtI) (simp_all del: framework.simps)

lemma node_built:
  assumes "detectNode F dir = Some r"
  shows "built LanguageNode 3000 r"
proof -
  have "built LanguageNode 3000 (version v (framework [([quoted ''express''], ''express''), ([quoted ''next''], ''next''),
      ([quoted ''@nestjs/core''], ''nest''), ([quoted ''fastify''], ''fastify'')] t (base LanguageNode 3000 ''npm install'' ''npm start'')))" for v t
    by (rule builtI) (simp_all del: framework.simps)
  then show ?thesis using assms unfolding detectNode_def Let_def
    by (cases "versionFile F dir ''.nvmrc''") (auto simp del: framework.simps split: option.splits)
qed

lemma python_built: "detectPython F dir = Some r \<Longrightarrow> built LanguagePython 8000 r"
  unfolding detectPython_def Let_def by (elim map_option_eq_Some [THEN iffD1, THEN exE] conjE) (hypsubst, rule builtI, simp_all del: framework.simps)

lemma java_built: "built LanguageJava 8080 (detectJava F dir)"
  unfolding detectJava_def Let_def by (rule builtI) (simp_all del: framework.simps)

lemma ruby_built: "detectRuby F dir = Some r \<Longrightarrow> built LanguageRuby 3000 r"
  unfolding detectRuby_def Let_def by (elim map_option_eq_Some [THEN iffD1, THEN exE] conjE) (hypsubst, rule builtI, simp_all del: framework.simps)

lemma rust_built: "built LanguageRust 8080 (detectRust F dir)"
  unfolding detectRust_def Let_def by (rule builtI) (simp_all del: framework.simps)

lemma dotnet_built: "built LanguageDotnet 5000 (detectDotnet F dir files)"
  unfolding detectDotnet_def Let_def by (rule builtI) (simp_all del: framework.simps)

lemma first_rule_cases:
  "first_rule rules d = Some r \<Longrightarrow> r = d \<or> (\<exists>x. (Some True, x) \<in> set rules \<and> x = Some r)"
  by (induction rules d rule: first_rule.induct) (auto split: option.splits bool.splits)

lemma first_rule_total:
  "\<forall>(test, x) \<in> set rules. test \<noteq> None \<and> x \<noteq> None \<Longrightarrow> first_rule rules d \<noteq> None"
  by (induction rules) (auto split: bool.splits)


text \<open>A disk with one directory of plain files.\<close>

definition disk :: "string \<Rightarrow> (string \<times> string) list \<Rightarrow> fs" where
  "disk root files = \<lparr>fs_ReadDir = (\<lambda>d. if d = root then Some (map fst files) else None),
     fs_Stat = (\<lambda>d n. if d = root \<and> n \<in> fst ` set files then IsFile else NotExist),
     fs_ReadFile = (\<lambda>d n. case map_of files n of None \<Rightarrow> ([], False) | Some s \<Rightarrow> (s, d = root))\<rparr>"

definition go_mod :: string where
  "go_mod = ''module x'' @ [newline] @ ''go 1.24'' @ [newline] @ ''require github.com/labstack/echo v4''"

lemma detect_go_mod:
  "Detect (disk ''/src'' [(''go.mod'', go_mod)]) ''/src'' = Some (Inr \<lparr>dr_Language = ''go'', dr_Framework = ''echo'', dr_RuntimeVersion = ''1.24'',
     dr_BuildCommand = ''go build -o server .'', dr_StartCommand = ''./server'', dr_ExposedPort = 8080, dr_HasDockerfile = False, dr_Confidence = 85\<rparr>)"
  by code_simp


section \<open>Which language is found\<close>

text \<open>The reference: the markers in the order of precedence.\<close>

definition markers :: "(string list \<times> Language) list" where
  "markers = [([''Dockerfile'', ''dockerfile''], []), ([''go.mod''], LanguageGo), ([''package.json''], LanguageNode),
     ([''requirements.txt'', ''pyproject.toml''], LanguagePython), ([''pom.xml'', ''build.gradle''], LanguageJava),
     ([''Gemfile''], LanguageRuby), ([''Cargo.toml''], LanguageRust)]"

fun marked :: "(string list \<times> Language) list \<Rightarrow> (string \<Rightarrow> bool) \<Rightarrow> Language \<Rightarrow> Language" where
  "marked [] isfile dflt = dflt"
| "marked ((names, lang) # ms) isfile dflt = (if \<exists>n \<in> set names. isfile n then lang else marked ms isfile dflt)"

lemma fileExists_ok: "fs_Stat F dir n \<noteq> StatError \<Longrightarrow> fileExists F dir n = Some (fs_Stat F dir n = IsFile)"
  by (auto simp: fileExists_def split: stat.splits)

lemma eitherExists_ok:
  "(\<And>n. fs_Stat F dir n \<noteq> StatError) \<Longrightarrow> eitherExists F dir a b = Some (fs_Stat F dir a = IsFile \<or> fs_Stat F dir b = IsFile)"
  by (simp add: eitherExists_def fileExists_ok split: bool.splits)

lemma built_lang: "built l p r \<Longrightarrow> dr_Language r = l"
proof -
  assume "built l p r"
  then obtain v fws t b s where "r \<in> {version v (framework fws t (base l p b s)), framework fws t (version v (base l p b s))}"
    unfolding built_def by blast
  then have "found l p b s r" by auto
  then show ?thesis by (simp add: found_def)
qed

lemma versionFile_total: "fs_Stat F dir n \<noteq> StatError \<Longrightarrow> versionFile F dir n \<noteq> None"
  by (simp add: versionFile_def fileExists_ok split: bool.splits)

lemma detect_some:
  assumes "\<And>n. fs_Stat F dir n \<noteq> StatError"
  shows "\<exists>r. detectNode F dir = Some r \<and> dr_Language r = LanguageNode"
    and "\<exists>r. detectPython F dir = Some r \<and> dr_Language r = LanguagePython"
    and "\<exists>r. detectRuby F dir = Some r \<and> dr_Language r = LanguageRuby"
proof -
  have "detectNode F dir \<noteq> None" using versionFile_total [OF assms, of "''.nvmrc''"] unfolding detectNode_def Let_def
    by (auto simp del: framework.simps split: option.splits)
  then show "\<exists>r. detectNode F dir = Some r \<and> dr_Language r = LanguageNode" using node_built built_lang by blast
  have "detectPython F dir \<noteq> None" using versionFile_total [OF assms, of "''.python-version''"] unfolding detectPython_def Let_def by simp
  then show "\<exists>r. detectPython F dir = Some r \<and> dr_Language r = LanguagePython" using python_built built_lang by blast
  have "detectRuby F dir \<noteq> None" using versionFile_total [OF assms, of "''.ruby-version''"] unfolding detectRuby_def Let_def by simp
  then show "\<exists>r. detectRuby F dir = Some r \<and> dr_Language r = LanguageRuby" using ruby_built built_lang by blast
qed

lemmas detect_lang = go_built [THEN built_lang] java_built [THEN built_lang] rust_built [THEN built_lang] dotnet_built [THEN built_lang]

lemma Detect_total:
  assumes "\<And>n. fs_Stat F dir n \<noteq> StatError"
  shows "Detect F dir \<noteq> None"
proof -
  obtain n p y where "detectNode F dir = Some n" "detectPython F dir = Some p" "detectRuby F dir = Some y"
    using detect_some [OF assms] by blast
  then have "first_rule (detect_rules F dir files) d \<noteq> None" for files d
    by (intro first_rule_total) (simp add: detect_rules_def eitherExists_ok [OF assms] fileExists_ok [OF assms])
  then show ?thesis by (auto simp: Detect_def split: option.splits)
qed

text \<open>C31: When no file of a directory makes \<^verbatim>\<open>os.Stat\<close> fail, detection of a directory that is not empty always returns a result,
  and its language is that of the first marker file present, in the order Dockerfile, go.mod, package.json, Python, Java,
  Ruby, Rust, then .NET project files, then unknown.
\<close>

theorem detect_language:
  assumes st: "\<And>n. fs_Stat F dir n \<noteq> StatError" and files: "fs_ReadDir F dir = Some files" "files \<noteq> []"
  shows "\<exists>r. Detect F dir = Some (Inr r) \<and>
     dr_Language r = marked markers (\<lambda>n. fs_Stat F dir n = IsFile) (if isDotnet files then LanguageDotnet else LanguageUnknown)"
proof -
  obtain n p y where r: "detectNode F dir = Some n" "dr_Language n = LanguageNode" "detectPython F dir = Some p" "dr_Language p = LanguagePython"
    "detectRuby F dir = Some y" "dr_Language y = LanguageRuby"
    using detect_some [OF st] by blast
  show ?thesis
    by (simp add: Detect_def files detect_rules_def markers_def eitherExists_ok [OF st] fileExists_ok [OF st] r detect_lang zero_Detection_def
        split: bool.splits)
qed

theorem detect_language_witness:
  "\<exists>r. Detect (disk ''/src'' [(''Cargo.toml'', []), (''package.json'', [])]) ''/src'' = Some (Inr r) \<and> dr_Language r = ''node''"
proof -
  let ?F = "disk ''/src'' [(''Cargo.toml'', []), (''package.json'', [])]"
  have "\<And>n. fs_Stat ?F ''/src'' n \<noteq> StatError" by (simp add: disk_def)
  moreover have "fs_ReadDir ?F ''/src'' = Some [''Cargo.toml'', ''package.json'']" by (simp add: disk_def)
  ultimately obtain r where r: "Detect ?F ''/src'' = Some (Inr r)"
    "dr_Language r = marked markers (\<lambda>n. fs_Stat ?F ''/src'' n = IsFile) (if isDotnet [''Cargo.toml'', ''package.json''] then LanguageDotnet else LanguageUnknown)"
    using detect_language [of ?F "''/src''" "[''Cargo.toml'', ''package.json'']"] by blast
  have "marked markers (\<lambda>n. fs_Stat ?F ''/src'' n = IsFile) x = ''node''" for x
    by (simp add: markers_def disk_def LanguageNode_def)
  then show ?thesis using r by metis
qed

section \<open>The version of a Go module\<close>

lemma leftmost_line_sound:
  "leftmost_line m bol s = Some v \<Longrightarrow> \<exists>pre suf. s = pre @ suf \<and> m suf = Some v \<and> (if pre = [] then bol else last pre = newline)"
proof (induction s arbitrary: bol)
  case Nil
  then show ?case by (auto split: if_splits)
next
  case (Cons c s)
  show ?case
  proof (cases "bol \<and> m (c # s) = Some v")
    case True
    then show ?thesis by (intro exI [of _ "[]"] exI [of _ "c # s"]) simp
  next
    case False
    then have "leftmost_line m (c = newline) s = Some v" using Cons.prems by (auto split: if_splits option.splits)
    from Cons.IH [OF this] obtain pre suf where "s = pre @ suf" "m suf = Some v" "if pre = [] then c = newline else last pre = newline" by blast
    then show ?thesis by (intro exI [of _ "c # pre"] exI [of _ suf]) (auto split: if_splits)
  qed
qed

lemma leftmost_line_complete:
  "m suf \<noteq> None \<Longrightarrow> (if pre = [] then bol else last pre = newline) \<Longrightarrow> leftmost_line m bol (pre @ suf) \<noteq> None"
proof (induction pre arbitrary: bol)
  case Nil
  then show ?case by (cases suf) auto
next
  case (Cons c pre)
  have "leftmost_line m (c = newline) (pre @ suf) \<noteq> None" by (rule Cons.IH) (use Cons.prems in \<open>auto split: if_splits\<close>)
  then show ?case by (auto split: option.splits)
qed

text \<open>What the expression describes.\<close>

definition go_directive :: "string \<Rightarrow> string \<Rightarrow> bool" where
  "go_directive s v = (\<exists>sp major minor rest. s = ''go'' @ sp @ v @ rest \<and> sp \<noteq> [] \<and> (\<forall>c \<in> set sp. re_space c) \<and>
     v = major @ ''.'' @ minor \<and> major \<noteq> [] \<and> minor \<noteq> [] \<and> (\<forall>c \<in> set (major @ minor). is_digit c))"

lemma space_not_digit: "re_space c \<Longrightarrow> \<not> is_digit c"
  by (auto simp: re_space_def is_digit_def)

lemma m_version_sound:
  "m_version s = Some v \<Longrightarrow> \<exists>major minor rest. s = v @ rest \<and> v = major @ ''.'' @ minor \<and> major \<noteq> [] \<and> minor \<noteq> [] \<and> (\<forall>c \<in> set (major @ minor). is_digit c)"
proof -
  assume m: "m_version s = Some v"
  then obtain c r where r: "dropWhile is_digit s = c # r" by (auto simp: m_version_def Let_def split: list.splits)
  have v: "c = CHR ''.''" "takeWhile is_digit s \<noteq> []" "takeWhile is_digit r \<noteq> []" "v = takeWhile is_digit s @ ''.'' @ takeWhile is_digit r"
    using m r by (auto simp: m_version_def Let_def split: if_splits)
  have "s = takeWhile is_digit s @ c # takeWhile is_digit r @ dropWhile is_digit r" using takeWhile_dropWhile_id [of is_digit s] r by simp
  then have "s = v @ dropWhile is_digit r" using v by simp
  moreover have "\<forall>c \<in> set (takeWhile is_digit s @ takeWhile is_digit r). is_digit c" by (auto dest: set_takeWhileD)
  ultimately show ?thesis using v(2,3,4) by blast
qed

lemma m_version_complete:
  assumes "\<forall>c \<in> set (major @ minor). is_digit c" and "major \<noteq> []" and "minor \<noteq> []"
  shows "m_version (major @ ''.'' @ minor @ rest) \<noteq> None"
proof -
  have nd: "\<not> is_digit (CHR ''.'')" by code_simp
  have "takeWhile is_digit (minor @ rest) \<noteq> []" using assms by (cases minor) auto
  then show ?thesis using assms nd by (simp add: m_version_def Let_def takeWhile_append2 dropWhile_append2 del: takeWhile_eq_Nil_iff)
qed

lemma m_go_sound: "m_go s = Some v \<Longrightarrow> go_directive s v"
proof -
  assume m: "m_go s = Some v"
  then have p: "HasPrefix s ''go''" "takeWhile re_space (drop 2 s) \<noteq> []" "m_version (dropWhile re_space (drop 2 s)) = Some v"
    by (auto simp: m_go_def split: if_splits)
  then obtain x where s: "s = ''go'' @ x" by (auto simp: HasPrefix_iff)
  obtain major minor rest where d: "dropWhile re_space x = v @ rest" "v = major @ ''.'' @ minor" "major \<noteq> []" "minor \<noteq> []"
    "\<forall>c \<in> set (major @ minor). is_digit c" using m_version_sound [OF p(3)] s by auto
  have "s = ''go'' @ takeWhile re_space x @ v @ rest" using s d(1) takeWhile_dropWhile_id [of re_space x] by simp
  moreover have "takeWhile re_space x \<noteq> []" "\<forall>c \<in> set (takeWhile re_space x). re_space c" using p(2) s by (auto dest: set_takeWhileD)
  ultimately show ?thesis unfolding go_directive_def using d(2-5) by blast
qed

lemma m_go_complete: "go_directive s v \<Longrightarrow> m_go s \<noteq> None"
proof -
  assume "go_directive s v"
  then obtain sp major minor rest where d: "s = ''go'' @ sp @ v @ rest" "sp \<noteq> []" "\<forall>c \<in> set sp. re_space c"
    "v = major @ ''.'' @ minor" "major \<noteq> []" "minor \<noteq> []" "\<forall>c \<in> set (major @ minor). is_digit c"
    unfolding go_directive_def by blast
  obtain c cs where c: "major = c # cs" "\<not> re_space c" using d(5,7) space_not_digit by (cases major) auto
  have "dropWhile re_space (sp @ v @ rest) = major @ ''.'' @ minor @ rest" "takeWhile re_space (sp @ v @ rest) = sp"
    using d(3,4) c by (simp_all add: dropWhile_append2 takeWhile_append2)
  then show ?thesis using m_version_complete [OF d(7,5,6), of rest] d(1,2) by (simp add: m_go_def)
qed

text \<open>The version read from a go.mod file is the one of a go directive: whenever one is found the file has a line that begins with
  \<^verbatim>\<open>go\<close>, white space and that version, two digit sequences with a dot between them; and one is found whenever there is such a line.
\<close>

theorem go_version_exact:
  "(\<forall>v. reVersion s = Some v \<longrightarrow> (\<exists>pre suf. s = pre @ suf \<and> (pre = [] \<or> last pre = newline) \<and> go_directive suf v)) \<and>
   (reVersion s = None \<longleftrightarrow> \<not> (\<exists>pre suf v. s = pre @ suf \<and> (pre = [] \<or> last pre = newline) \<and> go_directive suf v))"
proof -
  have sound: "\<exists>pre suf. s = pre @ suf \<and> (pre = [] \<or> last pre = newline) \<and> go_directive suf v" if r: "reVersion s = Some v" for v
  proof -
    obtain pre suf where "s = pre @ suf" "m_go suf = Some v" "if pre = [] then True else last pre = newline"
      using leftmost_line_sound [OF r [unfolded reVersion_def]] by blast
    then show ?thesis using m_go_sound by (metis (full_types))
  qed
  have "reVersion s \<noteq> None" if "s = pre @ suf" "pre = [] \<or> last pre = newline" "go_directive suf v" for pre suf v
    unfolding reVersion_def that(1) by (rule leftmost_line_complete [where m = m_go, OF m_go_complete [OF that(3)]]) (use that(2) in auto)
  then show ?thesis using sound by (metis option.exhaust)
qed

lemma reVersion_go_mod: "reVersion go_mod = Some ''1.24''"
  by code_simp

theorem go_version_exact_witness:
  "\<exists>pre suf. go_mod = pre @ suf \<and> (pre = [] \<or> last pre = newline) \<and> go_directive suf ''1.24''"
  using go_version_exact [of go_mod] reVersion_go_mod by blast

end
