(* ===== verification/Build_Dockerfile.thy ===== *)
theory Build_Dockerfile
  imports Build_Domain
begin

text \<open>
  The Dockerfile generator of \<^verbatim>\<open>internal/build/adapter/dockerfile\<close>. A template is a list of lines, each a list of
  literal text and of the three actions the templates use; rendering is what \<^verbatim>\<open>text/template\<close> does with them. The
  parser of BuildKit, which validates the result, is a parameter.
\<close>

section \<open>Templates\<close>

text \<open>
  \<open>Version p d\<close> is \<^verbatim>\<open>{{ if .RuntimeVersion }}p{{ .RuntimeVersion }}{{ else }}d{{ end }}\<close>, \<open>Port\<close> is \<^verbatim>\<open>{{ .ExposedPort }}\<close>, and
  \<open>Command\<close> the range over the words of the start command that prints them quoted and with commas between.
\<close>

datatype seg = Lit string | Version string string | Port | Command

fun commas :: "string list \<Rightarrow> string" where
  "commas [] = []"
| "commas [w] = dquote # w @ [dquote]"
| "commas (w # ws) = dquote # w @ [dquote] @ '', '' @ commas ws"

fun render_seg :: "DetectionResult \<Rightarrow> seg \<Rightarrow> string" where
  "render_seg r (Lit s) = s"
| "render_seg r (Version p d) = (if dr_RuntimeVersion r \<noteq> [] then p @ dr_RuntimeVersion r else d)"
| "render_seg r Port = dec_int (dr_ExposedPort r)"
| "render_seg r Command = commas (Split (CHR '' '') (dr_StartCommand r))"

definition render_line :: "DetectionResult \<Rightarrow> seg list \<Rightarrow> string" where
  "render_line r l = concat (map (render_seg r) l)"

text \<open>Every template begins with an empty line.\<close>

definition render :: "DetectionResult \<Rightarrow> seg list list \<Rightarrow> string" where
  "render r ls = newline # concat (map (\<lambda>l. render_line r l @ [newline]) ls)"

definition goDockerfileTemplate :: "seg list list" where
  "goDockerfileTemplate = [
    [Lit ''# syntax=docker/dockerfile:1.7''],
    [Lit ''ARG GO_VERSION='', Version [] ''1.24''],
    [Lit ''FROM golang:${GO_VERSION}-alpine AS builder''],
    [Lit ''WORKDIR /src''],
    [Lit ''COPY go.mod go.sum ./''],
    [Lit ''RUN --mount=type=cache,target=/go/pkg/mod go mod download''],
    [Lit ''COPY . .''],
    [Lit (''RUN --mount=type=cache,target=/go/pkg/mod '' @ [backslash])],
    [Lit (''    --mount=type=cache,target=/root/.cache/go-build '' @ [backslash])],
    [Lit (''    CGO_ENABLED=0 GOOS=linux go build -trimpath -ldflags='' @ [dquote] @ ''-s -w'' @ [dquote] @ '' '' @ [backslash])],
    [Lit ''    -o /bin/server .''],
    [],
    [Lit ''FROM gcr.io/distroless/static-debian12:nonroot''],
    [Lit ''COPY --from=builder /bin/server /bin/server''],
    [Lit ''EXPOSE '', Port],
    [Lit (''HEALTHCHECK --interval=30s --timeout=3s --retries=3 '' @ [backslash])],
    [Lit (''    CMD ['' @ [dquote] @ ''/bin/server'' @ [dquote] @ '', '' @ [dquote] @ ''--health-check'' @ [dquote] @ ''] || exit 1'')],
    [Lit (''ENTRYPOINT ['' @ [dquote] @ ''/bin/server'' @ [dquote] @ '']'')]]"

definition nodeDockerfileTemplate :: "seg list list" where
  "nodeDockerfileTemplate = [
    [Lit ''# syntax=docker/dockerfile:1.7''],
    [Lit ''ARG NODE_VERSION='', Version [] ''20''],
    [Lit ''FROM node:${NODE_VERSION}-alpine AS builder''],
    [Lit ''WORKDIR /app''],
    [Lit ''COPY package*.json ./''],
    [Lit ''RUN --mount=type=cache,target=/root/.npm npm ci''],
    [Lit ''COPY . .''],
    [Lit ''RUN npm run build --if-present''],
    [],
    [Lit ''FROM node:${NODE_VERSION}-alpine''],
    [Lit ''WORKDIR /app''],
    [Lit ''COPY package*.json ./''],
    [Lit ''RUN --mount=type=cache,target=/root/.npm npm ci --omit=dev''],
    [Lit ''COPY --from=builder /app /app''],
    [Lit ''USER node''],
    [Lit ''EXPOSE '', Port],
    [Lit (''HEALTHCHECK --interval=30s --timeout=3s --retries=3 '' @ [backslash])],
    [Lit (''    CMD node -e '' @ [dquote] @ ''require('' @ [squote] @ ''http'' @ [squote] @ '').get('' @ [squote] @ ''http://localhost:''), Port, Lit ([squote] @ '', (r) => {if (r.statusCode !== 200) throw new Error('' @ [squote] @ ''health check failed'' @ [squote] @ '')})'' @ [dquote] @ '' || exit 1'')],
    [Lit ''CMD ['', Command, Lit '']'']]"

definition pythonDockerfileTemplate :: "seg list list" where
  "pythonDockerfileTemplate = [
    [Lit ''# syntax=docker/dockerfile:1.7''],
    [Lit ''ARG PYTHON_VERSION='', Version [] ''3.12''],
    [Lit ''FROM python:${PYTHON_VERSION}-slim AS builder''],
    [Lit ''WORKDIR /app''],
    [Lit ''COPY requirements.txt ./''],
    [Lit ''RUN --mount=type=cache,target=/root/.cache/pip pip install --user -r requirements.txt''],
    [Lit ''COPY . .''],
    [],
    [Lit ''FROM python:${PYTHON_VERSION}-slim''],
    [Lit ''WORKDIR /app''],
    [Lit ''COPY --from=builder /root/.local /root/.local''],
    [Lit ''COPY --from=builder /app /app''],
    [Lit ''ENV PATH=/root/.local/bin:$PATH''],
    [Lit ''RUN useradd -m nonrootuser''],
    [Lit ''USER nonrootuser''],
    [Lit ''EXPOSE '', Port],
    [Lit (''HEALTHCHECK --interval=30s --timeout=3s --retries=3 '' @ [backslash])],
    [Lit ''    CMD curl -f http://localhost:'', Port, Lit ''/health || exit 1''],
    [Lit ''CMD ['', Command, Lit '']'']]"

definition javaDockerfileTemplate :: "seg list list" where
  "javaDockerfileTemplate = [
    [Lit ''# syntax=docker/dockerfile:1.7''],
    [Lit ''FROM eclipse-temurin:'', Version [] ''21'', Lit ''-jdk-alpine AS builder''],
    [Lit ''WORKDIR /app''],
    [Lit ''COPY . .''],
    [Lit ''RUN --mount=type=cache,target=/root/.m2 ./mvnw package -DskipTests''],
    [],
    [Lit ''FROM eclipse-temurin:'', Version [] ''21'', Lit ''-jre-alpine''],
    [Lit ''WORKDIR /app''],
    [Lit ''COPY --from=builder /app/target/*.jar app.jar''],
    [Lit ''RUN addgroup -S spring && adduser -S spring -G spring''],
    [Lit ''USER spring:spring''],
    [Lit ''EXPOSE '', Port],
    [Lit (''HEALTHCHECK --interval=30s --timeout=3s --retries=3 '' @ [backslash])],
    [Lit ''    CMD curl -f http://localhost:'', Port, Lit ''/actuator/health || exit 1''],
    [Lit (''ENTRYPOINT ['' @ [dquote] @ ''java'' @ [dquote] @ '', '' @ [dquote] @ ''-jar'' @ [dquote] @ '', '' @ [dquote] @ ''app.jar'' @ [dquote] @ '']'')]]"

definition rubyDockerfileTemplate :: "seg list list" where
  "rubyDockerfileTemplate = [
    [Lit ''# syntax=docker/dockerfile:1.7''],
    [Lit ''ARG RUBY_VERSION='', Version [] ''3.2''],
    [Lit ''FROM ruby:${RUBY_VERSION}-alpine AS builder''],
    [Lit ''WORKDIR /app''],
    [Lit ''COPY Gemfile Gemfile.lock ./''],
    [Lit ''RUN --mount=type=cache,target=/usr/local/bundle bundle install''],
    [Lit ''COPY . .''],
    [],
    [Lit ''FROM ruby:${RUBY_VERSION}-alpine''],
    [Lit ''WORKDIR /app''],
    [Lit ''COPY --from=builder /usr/local/bundle /usr/local/bundle''],
    [Lit ''COPY --from=builder /app /app''],
    [Lit (''RUN adduser -D -g '' @ [squote] @ [squote] @ '' nonroot'')],
    [Lit ''USER nonroot''],
    [Lit ''EXPOSE '', Port],
    [Lit (''HEALTHCHECK --interval=30s --timeout=3s --retries=3 '' @ [backslash])],
    [Lit ''    CMD curl -f http://localhost:'', Port, Lit ''/health || exit 1''],
    [Lit (''CMD ['' @ [dquote] @ ''bundle'' @ [dquote] @ '', '' @ [dquote] @ ''exec'' @ [dquote] @ '', '' @ [dquote] @ ''rails'' @ [dquote] @ '', '' @ [dquote] @ ''s'' @ [dquote] @ '', '' @ [dquote] @ ''-b'' @ [dquote] @ '', '' @ [dquote] @ ''0.0.0.0'' @ [dquote] @ '']'')]]"

definition rustDockerfileTemplate :: "seg list list" where
  "rustDockerfileTemplate = [
    [Lit ''# syntax=docker/dockerfile:1.7''],
    [Lit ''FROM rust:'', Version ''1.'' ''1.75'', Lit ''-alpine AS builder''],
    [Lit ''WORKDIR /app''],
    [Lit ''COPY . .''],
    [Lit (''RUN --mount=type=cache,target=/usr/local/cargo/registry '' @ [backslash])],
    [Lit (''    --mount=type=cache,target=/app/target '' @ [backslash])],
    [Lit ''    cargo build --release && cp target/release/app /app/app''],
    [],
    [Lit ''FROM alpine:latest''],
    [Lit ''WORKDIR /app''],
    [Lit ''COPY --from=builder /app/app /app/app''],
    [Lit ''RUN adduser -D nonroot''],
    [Lit ''USER nonroot''],
    [Lit ''EXPOSE '', Port],
    [Lit (''HEALTHCHECK --interval=30s --timeout=3s --retries=3 '' @ [backslash])],
    [Lit ''    CMD curl -f http://localhost:'', Port, Lit ''/health || exit 1''],
    [Lit (''ENTRYPOINT ['' @ [dquote] @ ''/app/app'' @ [dquote] @ '']'')]]"

definition dotnetDockerfileTemplate :: "seg list list" where
  "dotnetDockerfileTemplate = [
    [Lit ''# syntax=docker/dockerfile:1.7''],
    [Lit ''FROM mcr.microsoft.com/dotnet/sdk:'', Version [] ''8.0'', Lit '' AS builder''],
    [Lit ''WORKDIR /app''],
    [Lit ''COPY . .''],
    [Lit ''RUN --mount=type=cache,target=/root/.nuget/packages dotnet publish -c Release -o out''],
    [],
    [Lit ''FROM mcr.microsoft.com/dotnet/aspnet:'', Version [] ''8.0''],
    [Lit ''WORKDIR /app''],
    [Lit ''COPY --from=builder /app/out .''],
    [Lit ''RUN useradd -m nonroot''],
    [Lit ''USER nonroot''],
    [Lit ''EXPOSE '', Port],
    [Lit (''HEALTHCHECK --interval=30s --timeout=3s --retries=3 '' @ [backslash])],
    [Lit ''    CMD curl -f http://localhost:'', Port, Lit ''/health || exit 1''],
    [Lit (''ENTRYPOINT ['' @ [dquote] @ ''dotnet'' @ [dquote] @ '', '' @ [dquote] @ ''app.dll'' @ [dquote] @ '']'')]]"


section \<open>The generator\<close>

definition template_for :: "Language \<Rightarrow> seg list list option" where
  "template_for lang =
     (if lang = LanguageGo then Some goDockerfileTemplate
      else if lang = LanguageNode then Some nodeDockerfileTemplate
      else if lang = LanguagePython then Some pythonDockerfileTemplate
      else if lang = LanguageJava then Some javaDockerfileTemplate
      else if lang = LanguageRuby then Some rubyDockerfileTemplate
      else if lang = LanguageRust then Some rustDockerfileTemplate
      else if lang = LanguageDotnet then Some dotnetDockerfileTemplate
      else None)"

text \<open>\<open>parse\<close> and \<open>instr\<close> are \<^verbatim>\<open>parser.Parse\<close> and \<^verbatim>\<open>instructions.Parse\<close>.\<close>

definition Validate :: "(bytes \<Rightarrow> string + 'ast) \<Rightarrow> ('ast \<Rightarrow> string option) \<Rightarrow> bytes \<Rightarrow> berr option" where
  "Validate parse instr content =
     (case parse content of
        Inl e \<Rightarrow> Some (wrap ''invalid dockerfile syntax'' (LibErr e))
      | Inr ast \<Rightarrow>
          (case instr ast of
             Some e \<Rightarrow> Some (wrap ''invalid dockerfile instructions'' (LibErr e))
           | None \<Rightarrow> None))"

definition Generate :: "(bytes \<Rightarrow> string + 'ast) \<Rightarrow> ('ast \<Rightarrow> string option) \<Rightarrow> DetectionResult \<Rightarrow> berr + bytes" where
  "Generate parse instr result =
     (case template_for (dr_Language result) of
        None \<Rightarrow> Inl (Sent ErrDockerfileInvalid)
      | Some tpl \<Rightarrow>
          let content = render result tpl in
          case Validate parse instr content of
            Some err \<Rightarrow> Inl (Errorf [W (Sent ErrDockerfileInvalid), Txt ('': '' @ Error err)])
          | None \<Rightarrow> Inr content)"

section \<open>Generated images do not run as root\<close>

text \<open>
  The last stage of a Dockerfile begins with its last FROM instruction. Its user is the one of the last USER instruction after
  that, or, when there is none, that of the base image, which for a tag \<^verbatim>\<open>nonroot\<close> is not root.
\<close>

definition nonroot :: "string list \<Rightarrow> bool" where
  "nonroot ls =
     (case filter (\<lambda>l. HasPrefix l ''USER '') (takeWhile (\<lambda>l. \<not> HasPrefix l ''FROM '') (rev ls)) of
        u # _ \<Rightarrow> drop 5 u \<notin> {''root'', ''0'', []}
      | [] \<Rightarrow> (case dropWhile (\<lambda>l. \<not> HasPrefix l ''FROM '') (rev ls) of f # _ \<Rightarrow> HasSuffix f '':nonroot'' | [] \<Rightarrow> False))"

lemma Split_line: "newline \<notin> set l \<Longrightarrow> Split newline (l @ newline # s) = l # Split newline s"
  by (induction l) auto

lemma Split_lines: "\<forall>l \<in> set ls. newline \<notin> set l \<Longrightarrow> Split newline (concat (map (\<lambda>l. l @ [newline]) ls)) = ls @ [[]]"
  by (induction ls) (auto simp: Split_line)

text \<open>The lines of a rendered template, when no value brings a line break of its own.\<close>

definition clean :: "DetectionResult \<Rightarrow> bool" where
  "clean r = (newline \<notin> set (dr_RuntimeVersion r) \<and> newline \<notin> set (dr_StartCommand r))"

fun seg_clean :: "seg \<Rightarrow> bool" where
  "seg_clean (Lit s) = (newline \<notin> set s)"
| "seg_clean (Version p d) = (newline \<notin> set p \<and> newline \<notin> set d)"
| "seg_clean s = True"

lemma commas_set: "c \<in> set (commas ws) \<Longrightarrow> c \<in> set (concat ws) \<or> c \<in> {dquote, CHR '','', CHR '' ''}"
  by (induction ws rule: commas.induct) auto

lemma Split_set: "set (concat (Split sep s)) \<subseteq> set s"
proof (induction s)
  case (Cons c s)
  then show ?case by (cases "Split sep s") auto
qed simp

lemma dec_int_clean: "newline \<notin> set (dec_int i)"
proof
  assume "newline \<in> set (dec_int i)"
  moreover have "\<not> is_digit newline" "newline \<noteq> CHR ''-''" by code_simp+
  ultimately show False using dec_nat_digits [of "nat i"] dec_nat_digits [of "nat (- i)"] by (auto simp: dec_int_def split: if_splits)
qed

lemma render_seg_clean: "clean r \<Longrightarrow> seg_clean s \<Longrightarrow> newline \<notin> set (render_seg r s)"
proof (cases s)
  case Command
  assume "clean r"
  then have "newline \<notin> set (concat (Split (CHR '' '') (dr_StartCommand r)))" using Split_set [of "CHR '' ''" "dr_StartCommand r"] by (auto simp: clean_def)
  then show ?thesis using Command commas_set [of newline "Split (CHR '' '') (dr_StartCommand r)"] by (auto simp del: set_concat)
qed (auto simp: clean_def dec_int_clean)

lemma Split_render:
  assumes "clean r" and "\<forall>l \<in> set ls. \<forall>s \<in> set l. seg_clean s"
  shows "Split newline (render r ls) = [] # map (render_line r) ls @ [[]]"
proof -
  have "\<forall>l \<in> set (map (render_line r) ls). newline \<notin> set l"
    using assms render_seg_clean by (auto simp: render_line_def)
  from Split_lines [OF this] show ?thesis by (simp add: render_def comp_def)
qed

lemmas template_defs = goDockerfileTemplate_def nodeDockerfileTemplate_def pythonDockerfileTemplate_def javaDockerfileTemplate_def
  rubyDockerfileTemplate_def rustDockerfileTemplate_def dotnetDockerfileTemplate_def

lemma template_clean: "template_for lang = Some tpl \<Longrightarrow> \<forall>l \<in> set tpl. \<forall>s \<in> set l. seg_clean s"
  by (auto simp: template_for_def template_defs split: if_splits)

lemma go_nonroot: "nonroot ([] # map (render_line r) goDockerfileTemplate @ [[]])"
  by (simp add: nonroot_def goDockerfileTemplate_def render_line_def HasSuffix_def)

lemma node_nonroot: "nonroot ([] # map (render_line r) nodeDockerfileTemplate @ [[]])"
  by (simp add: nonroot_def nodeDockerfileTemplate_def render_line_def)

lemma python_nonroot: "nonroot ([] # map (render_line r) pythonDockerfileTemplate @ [[]])"
  by (simp add: nonroot_def pythonDockerfileTemplate_def render_line_def)

lemma java_nonroot: "nonroot ([] # map (render_line r) javaDockerfileTemplate @ [[]])"
  by (simp add: nonroot_def javaDockerfileTemplate_def render_line_def)

lemma ruby_nonroot: "nonroot ([] # map (render_line r) rubyDockerfileTemplate @ [[]])"
  by (simp add: nonroot_def rubyDockerfileTemplate_def render_line_def)

lemma rust_nonroot: "nonroot ([] # map (render_line r) rustDockerfileTemplate @ [[]])"
  by (simp add: nonroot_def rustDockerfileTemplate_def render_line_def)

lemma dotnet_nonroot: "nonroot ([] # map (render_line r) dotnetDockerfileTemplate @ [[]])"
  by (simp add: nonroot_def dotnetDockerfileTemplate_def render_line_def)

lemma template_nonroot:
  assumes "template_for lang = Some tpl"
  shows "nonroot ([] # map (render_line r) tpl @ [[]])"
proof -
  consider "tpl = goDockerfileTemplate" | "tpl = nodeDockerfileTemplate" | "tpl = pythonDockerfileTemplate" | "tpl = javaDockerfileTemplate"
    | "tpl = rubyDockerfileTemplate" | "tpl = rustDockerfileTemplate" | "tpl = dotnetDockerfileTemplate"
    using assms by (auto simp: template_for_def split: if_splits)
  then show ?thesis
    by cases (simp_all only: go_nonroot node_nonroot python_nonroot java_nonroot ruby_nonroot rust_nonroot dotnet_nonroot)
qed

text \<open>C33: Whatever was detected, as long as the version and the start command hold no line break, a Dockerfile that the generator
  returns was accepted by the validator and its last stage does not run as root.
\<close>

theorem dockerfile_nonroot:
  assumes "clean r" and "Generate parse instr r = Inr content"
  shows "nonroot (Split newline content) \<and> (\<exists>ast. parse content = Inr ast \<and> instr ast = None)"
proof -
  obtain tpl where tpl: "template_for (dr_Language r) = Some tpl" "content = render r tpl" "Validate parse instr content = None"
    using assms(2) by (auto simp: Generate_def Let_def split: option.splits)
  then show ?thesis using Split_render [OF assms(1) template_clean [OF tpl(1)]] template_nonroot [OF tpl(1)]
    by (auto simp: Validate_def split: sum.splits option.splits)
qed

theorem dockerfile_nonroot_witness:
  "\<exists>content. Generate (\<lambda>c. Inr ()) (\<lambda>_. None) (zero_Detection\<lparr>dr_Language := LanguageRust, dr_ExposedPort := 8080\<rparr>) = Inr content
     \<and> nonroot (Split newline content)"
proof -
  let ?r = "zero_Detection\<lparr>dr_Language := LanguageRust, dr_ExposedPort := 8080\<rparr>"
  have g: "Generate (\<lambda>c. Inr ()) (\<lambda>_. None) ?r = Inr (render ?r rustDockerfileTemplate)"
    by (simp add: Generate_def template_for_def language_defs Validate_def)
  have "clean ?r" by (simp add: clean_def zero_Detection_def)
  from dockerfile_nonroot [OF this g] g show ?thesis by blast
qed

end
