(* ===== verification/Build_Kaniko.thy ===== *)
theory Build_Kaniko
  imports Build_Domain
begin

text \<open>
  The launchers of \<^verbatim>\<open>internal/build/adapter/kaniko\<close>. The Kubernetes API is a parameter: its calls act on a world and
  return an error text or an answer. The three polling loops wait for a second or for the end of the context; \<open>Tick\<close> is
  that \<^verbatim>\<open>select\<close>. A loop that never ends is the result \<open>None\<close>; \<open>deadline\<close> is what a context with a deadline promises, and under it
  the launcher returns.
\<close>

section \<open>The job\<close>

record BuildSpec =
  sp_BuildID :: string
  sp_WorkspaceID :: string
  sp_WorkloadID :: string
  sp_SourcePath :: string
  sp_DockerfilePath :: string
  sp_Destination :: string
  sp_BuildArgs :: "(string \<times> string) list"
  sp_CacheEnabled :: bool
  sp_CacheRepo :: string

record k8sLauncher =
  kl_namespace :: string
  kl_kanikoImage :: string

record tmplData =
  td_BuildID :: string
  td_Namespace :: string
  td_WorkloadID :: string
  td_SourcePath :: string
  td_DockerfilePath :: string
  td_Destination :: string
  td_CacheEnabled :: bool
  td_CacheRepo :: string
  td_KanikoVersion :: string

definition job_data :: "k8sLauncher \<Rightarrow> BuildSpec \<Rightarrow> tmplData" where
  "job_data l spec = \<lparr>td_BuildID = sp_BuildID spec, td_Namespace = kl_namespace l, td_WorkloadID = sp_WorkloadID spec,
     td_SourcePath = sp_SourcePath spec, td_DockerfilePath = sp_DockerfilePath spec, td_Destination = sp_Destination spec,
     td_CacheEnabled = sp_CacheEnabled spec, td_CacheRepo = sp_CacheRepo spec, td_KanikoVersion = kl_kanikoImage l\<rparr>"

text \<open>The embedded template, rendered.\<close>

definition jobTemplateYAML :: "tmplData \<Rightarrow> string" where
  "jobTemplateYAML d = concat (map (\<lambda>l. l @ [newline]) [
     ''apiVersion: batch/v1'',
     ''kind: Job'',
     ''metadata:'',
     ''  name: '' @ [dquote] @ ''kaniko-'' @ td_BuildID d @ [dquote],
     ''  namespace: '' @ [dquote] @ td_Namespace d @ [dquote],
     ''  labels:'',
     ''    app.kubernetes.io/name: kaniko'',
     ''    raftweave.io/build-id: '' @ [dquote] @ td_BuildID d @ [dquote],
     ''    raftweave.io/workload-id: '' @ [dquote] @ td_WorkloadID d @ [dquote],
     ''spec:'',
     ''  ttlSecondsAfterFinished: 300'',
     ''  backoffLimit: 0          # No retries '' @ [CHR 0xE2, CHR 0x80, CHR 0x94] @ '' build failures are surfaced to user'',
     ''  template:'',
     ''    spec:'',
     ''      restartPolicy: Never'',
     ''      serviceAccountName: raftweave-build'',
     ''      securityContext:'',
     ''        runAsNonRoot: false  # Kaniko requires root internally, job is isolated'',
     ''        seccompProfile:'',
     ''          type: RuntimeDefault'',
     ''      containers:'',
     ''        - name: kaniko'',
     ''          image: '' @ [dquote] @ td_KanikoVersion d @ [dquote],
     ''          args:'',
     ''            - '' @ [dquote] @ ''--context=dir:///workspace'' @ (if td_SourcePath d = [] then [] else ''/'' @ td_SourcePath d) @ [dquote],
     ''            - '' @ [dquote] @ ''--dockerfile='' @ td_DockerfilePath d @ [dquote],
     ''            - '' @ [dquote] @ ''--destination='' @ td_Destination d @ [dquote],
     ''            - '' @ [dquote] @ ''--cache='' @ (if td_CacheEnabled d then ''true'' else ''false'') @ [dquote],
     ''            - '' @ [dquote] @ ''--cache-repo='' @ td_CacheRepo d @ [dquote],
     ''            - '' @ [dquote] @ ''--compressed-caching=false'' @ [dquote],
     ''            - '' @ [dquote] @ ''--snapshot-mode=redo'' @ [dquote],
     ''            - '' @ [dquote] @ ''--image-name-with-digest-file=/dev/termination-log'' @ [dquote],
     ''          volumeMounts:'',
     ''            - name: workspace'',
     ''              mountPath: /workspace'',
     ''            - name: registry-creds'',
     ''              mountPath: /kaniko/.docker'',
     ''          resources:'',
     ''            requests:'',
     ''              cpu: '' @ [dquote] @ ''500m'' @ [dquote],
     ''              memory: '' @ [dquote] @ ''1Gi'' @ [dquote],
     ''            limits:'',
     ''              cpu: '' @ [dquote] @ ''2'' @ [dquote],
     ''              memory: '' @ [dquote] @ ''4Gi'' @ [dquote],
     ''      volumes:'',
     ''        - name: workspace'',
     ''          persistentVolumeClaim:'',
     ''            claimName: '' @ [dquote] @ ''workspace-'' @ td_WorkloadID d @ [dquote],
     ''        - name: registry-creds'',
     ''          secret:'',
     ''            secretName: raftweave-registry-creds'',
     ''            items:'',
     ''              - key: .dockerconfigjson'',
     ''                path: config.json''])"

section \<open>The Kubernetes API\<close>

record container_status =
  c_Name :: string
  c_Terminated :: "string option"

record pod =
  pod_Phase :: string
  pod_Statuses :: "container_status list"

record job_status =
  js_Succeeded :: int
  js_Failed :: int

text \<open>\<open>Decode\<close> reads a manifest: \<open>None\<close> for an object that is not a job. \<open>Logs\<close> gives the bytes of the stream and the error that ended it.\<close>

record ('job, 'w) k8s =
  k_Decode :: "string \<Rightarrow> string + 'job option"
  k_CreateJob :: "string \<Rightarrow> 'job \<Rightarrow> 'w \<Rightarrow> (string + string) \<times> 'w"
  k_ListPods :: "string \<Rightarrow> string \<Rightarrow> 'w \<Rightarrow> (string + string list) \<times> 'w"
  k_GetPod :: "string \<Rightarrow> string \<Rightarrow> 'w \<Rightarrow> (string + pod) \<times> 'w"
  k_Logs :: "string \<Rightarrow> string \<Rightarrow> 'w \<Rightarrow> (string + string \<times> string option) \<times> 'w"
  k_GetJob :: "string \<Rightarrow> string \<Rightarrow> 'w \<Rightarrow> (string + job_status) \<times> 'w"
  k_DeleteJob :: "string \<Rightarrow> string \<Rightarrow> 'w \<Rightarrow> string option \<times> 'w"
  k_Tick :: "'w \<Rightarrow> string option \<times> 'w"

section \<open>Reading a log stream\<close>

text \<open>\<^verbatim>\<open>bufio.Scanner\<close> with its default split function and buffer: lines without their line break and a carriage return
  before it; a line that fills the buffer of 65536 bytes ends the scan with an error.\<close>

definition dropCR :: "string \<Rightarrow> string" where
  "dropCR s = (if s \<noteq> [] \<and> last s = CHR 0x0D then butlast s else s)"

abbreviation MaxScanTokenSize :: nat where "MaxScanTokenSize \<equiv> 65536"

fun scan :: "string list \<Rightarrow> string list \<times> bool" where
  "scan [] = ([], False)"
| "scan (t # ts) =
     (if MaxScanTokenSize \<le> length t then ([], True) else let (ls, long) = scan ts in (dropCR t # ls, long))"

definition scan_stream :: "string \<Rightarrow> string list \<times> bool" where
  "scan_stream s = (let ls = Split newline s in scan (if last ls = [] then butlast ls else ls))"

definition stream_logs :: "(string \<Rightarrow> 'w \<Rightarrow> 'w) \<Rightarrow> string \<times> string option \<Rightarrow> 'w \<Rightarrow> 'w" where
  "stream_logs logFn str w =
     (let (content, readErr) = str; (ls, long) = scan_stream content; w1 = fold logFn ls w in
      case (if long then Some ''bufio.Scanner: token too long'' else readErr) of
        None \<Rightarrow> w1
      | Some e \<Rightarrow> logFn (''log stream ended with error: '' @ e) w1)"

section \<open>Polling\<close>

text \<open>\<^verbatim>\<open>for { select { case <-ctx.Done(): return ctx.Err(); case <-time.After(time.Second): ... } }\<close>: the probe ends the loop with a value or
  lets it go on.\<close>

partial_function (option) poll :: "('w \<Rightarrow> string option \<times> 'w) \<Rightarrow> ('w \<Rightarrow> 'a option \<times> 'w) \<Rightarrow> 'w \<Rightarrow> ((berr + 'a) \<times> 'w) option" where
  "poll tick probe w =
     (case tick w of
        (Some e, w1) \<Rightarrow> Some (Inl (LibErr e), w1)
      | (None, w1) \<Rightarrow>
          (case probe w1 of (Some a, w2) \<Rightarrow> Some (Inr a, w2) | (None, w2) \<Rightarrow> poll tick probe w2))"

definition probe_pods :: "('job, 'w) k8s \<Rightarrow> string \<Rightarrow> string \<Rightarrow> 'w \<Rightarrow> string option \<times> 'w" where
  "probe_pods K ns jobName w =
     (case k_ListPods K ns (''job-name='' @ jobName) w of
        (Inl _, w') \<Rightarrow> (None, w')
      | (Inr [], w') \<Rightarrow> (None, w')
      | (Inr (p # _), w') \<Rightarrow> (Some p, w'))"

definition probe_phase :: "('job, 'w) k8s \<Rightarrow> string \<Rightarrow> string \<Rightarrow> 'w \<Rightarrow> unit option \<times> 'w" where
  "probe_phase K ns podName w =
     (case k_GetPod K ns podName w of
        (Inl _, w') \<Rightarrow> (None, w')
      | (Inr p, w') \<Rightarrow> (if pod_Phase p \<in> {''Running'', ''Succeeded'', ''Failed''} then Some () else None, w'))"

text \<open>The value says whether the job succeeded.\<close>

definition probe_job :: "('job, 'w) k8s \<Rightarrow> string \<Rightarrow> string \<Rightarrow> 'w \<Rightarrow> bool option \<times> 'w" where
  "probe_job K ns jobName w =
     (case k_GetJob K ns jobName w of
        (Inl _, w') \<Rightarrow> (None, w')
      | (Inr j, w') \<Rightarrow> (if js_Succeeded j > 0 then Some True else if js_Failed j > 0 then Some False else None, w'))"

section \<open>Launching\<close>

text \<open>\<open>qt\<close> is the quoting of \<^verbatim>\<open>%q\<close>.\<close>

fun findDigest :: "(string \<Rightarrow> string) \<Rightarrow> container_status list \<Rightarrow> berr + string" where
  "findDigest qt [] = Inl (LibErr ''kaniko job succeeded but no digest found in termination log'')"
| "findDigest qt (s # ss) =
     (if c_Name s = ''kaniko''
      then case c_Terminated s of
             None \<Rightarrow> findDigest qt ss
           | Some m \<Rightarrow>
               let digest = TrimSpace m in
               if \<not> HasPrefix digest ''sha256:'' then Inl (LibErr (''invalid digest format from kaniko: '' @ qt digest)) else Inr digest
      else findDigest qt ss)"

definition retrieveDigest :: "('job, 'w) k8s \<Rightarrow> (string \<Rightarrow> string) \<Rightarrow> string \<Rightarrow> string \<Rightarrow> 'w \<Rightarrow> (berr + string) \<times> 'w" where
  "retrieveDigest K qt ns podName w =
     (case k_GetPod K ns podName w of
        (Inl e, w') \<Rightarrow> (Inl (wrap ''failed to get pod to read digest'' (LibErr e)), w')
      | (Inr p, w') \<Rightarrow> (findDigest qt (pod_Statuses p), w'))"

text \<open>From the created job on.\<close>

definition watchJob ::
    "('job, 'w) k8s \<Rightarrow> (string \<Rightarrow> string) \<Rightarrow> string \<Rightarrow> (string \<Rightarrow> 'w \<Rightarrow> 'w) \<Rightarrow> string \<Rightarrow> 'w \<Rightarrow> ((berr + string) \<times> 'w) option" where
  "watchJob K qt ns logFn jobName w =
     (case poll (k_Tick K) (probe_pods K ns jobName) w of
        None \<Rightarrow> None
      | Some (Inl e, w1) \<Rightarrow> Some (Inl e, w1)
      | Some (Inr podName, w1) \<Rightarrow>
     (case poll (k_Tick K) (probe_phase K ns podName) w1 of
        None \<Rightarrow> None
      | Some (Inl e, w2) \<Rightarrow> Some (Inl e, w2)
      | Some (Inr _, w2) \<Rightarrow>
     (case k_Logs K ns podName w2 of
        (Inl e, w3) \<Rightarrow> Some (Inl (wrap ''failed to stream pod logs'' (LibErr e)), w3)
      | (Inr str, w3) \<Rightarrow>
     (case poll (k_Tick K) (probe_job K ns jobName) (stream_logs logFn str w3) of
        None \<Rightarrow> None
      | Some (Inl e, w4) \<Rightarrow> Some (Inl e, w4)
      | Some (Inr False, w4) \<Rightarrow> Some (Inl (LibErr ''kaniko build failed''), w4)
      | Some (Inr True, w4) \<Rightarrow> Some (retrieveDigest K qt ns podName w4)))))"

definition Launch ::
    "('job, 'w) k8s \<Rightarrow> (string \<Rightarrow> string) \<Rightarrow> k8sLauncher \<Rightarrow> BuildSpec \<Rightarrow> (string \<Rightarrow> 'w \<Rightarrow> 'w) \<Rightarrow> 'w \<Rightarrow> ((berr + string) \<times> 'w) option" where
  "Launch K qt l spec logFn w =
     (case k_Decode K (jobTemplateYAML (job_data l spec)) of
        Inl e \<Rightarrow> Some (Inl (wrap ''failed to decode job yaml'' (LibErr e)), w)
      | Inr None \<Rightarrow> Some (Inl (LibErr ''decoded object is not a Job''), w)
      | Inr (Some job) \<Rightarrow>
          (case k_CreateJob K (kl_namespace l) job w of
             (Inl e, w1) \<Rightarrow> Some (Inl (wrap ''failed to create job'' (LibErr e)), w1)
           | (Inr jobName, w1) \<Rightarrow>
               watchJob K qt (kl_namespace l) logFn jobName (logFn (''Created Kaniko job '' @ jobName) w1)))"

definition Cancel :: "('job, 'w) k8s \<Rightarrow> k8sLauncher \<Rightarrow> string \<Rightarrow> 'w \<Rightarrow> berr option \<times> 'w" where
  "Cancel K l buildID w =
     (case k_DeleteJob K (kl_namespace l) (''kaniko-'' @ buildID) w of
        (Some e, w') \<Rightarrow> (Some (wrap ''failed to delete kaniko job'' (LibErr e)), w')
      | (None, w') \<Rightarrow> (None, w'))"

section \<open>The local launcher\<close>

definition local_Launch :: "BuildSpec \<Rightarrow> (string \<Rightarrow> 'w \<Rightarrow> 'w) \<Rightarrow> 'w \<Rightarrow> ((berr + string) \<times> 'w) option" where
  "local_Launch spec logFn w =
     Some (Inr ''sha256:dummy'', logFn ''Build succeeded'' (logFn ''Simulating local docker build...'' w))"

definition local_Cancel :: "string \<Rightarrow> 'w \<Rightarrow> berr option \<times> 'w" where
  "local_Cancel buildID w = (None, w)"

section \<open>The interface\<close>

record 'w Launcher =
  la_Launch :: "BuildSpec \<Rightarrow> (string \<Rightarrow> 'w \<Rightarrow> 'w) \<Rightarrow> 'w \<Rightarrow> ((berr + string) \<times> 'w) option"
  la_Cancel :: "string \<Rightarrow> 'w \<Rightarrow> berr option \<times> 'w"

definition newK8sLauncher :: "('job, 'w) k8s \<Rightarrow> (string \<Rightarrow> string) \<Rightarrow> k8sLauncher \<Rightarrow> 'w Launcher" where
  "newK8sLauncher K qt l = \<lparr>la_Launch = Launch K qt l, la_Cancel = Cancel K l\<rparr>"

definition newLocalLauncher :: "'w Launcher" where
  "newLocalLauncher = \<lparr>la_Launch = local_Launch, la_Cancel = local_Cancel\<rparr>"

section \<open>What a launcher promises\<close>

text \<open>It changes what \<open>view\<close> shows of the world by calling \<open>logFn\<close> only, and a digest it returns is a sha256 digest.\<close>

locale launcher =
  fixes L :: "'w Launcher" and view :: "'w \<Rightarrow> 'v"
  assumes launch_view: "(\<And>line w. view (logFn line w) = view w) \<Longrightarrow> la_Launch L spec logFn w = Some (r, w') \<Longrightarrow> view w' = view w"
    and launch_digest: "la_Launch L spec logFn w = Some (Inr d, w') \<Longrightarrow> HasPrefix d ''sha256:''"

locale launcher_returns = launcher +
  assumes launch_total: "la_Launch L spec logFn w \<noteq> None"

subsection \<open>Loops\<close>

lemma poll_view:
  assumes tick: "\<And>w r w'. tick w = (r, w') \<Longrightarrow> view w' = view w" and probe: "\<And>w r w'. probe w = (r, w') \<Longrightarrow> view w' = view w"
    and run: "poll tick probe w = Some (r, w')"
  shows "view w' = view w"
proof -
  have "\<forall>r w'. out = (r, w') \<longrightarrow> (\<forall>w r w'. tick w = (r, w') \<longrightarrow> view w' = view w) \<longrightarrow> (\<forall>w r w'. probe w = (r, w') \<longrightarrow> view w' = view w) \<longrightarrow>
      view w' = view w" if "poll tick probe w = Some out" for out
  proof (rule poll.raw_induct [where P = "\<lambda>tick probe w out. \<forall>r w'. out = (r, w') \<longrightarrow> (\<forall>w r w'. tick w = (r, w') \<longrightarrow> view w' = view w) \<longrightarrow>
        (\<forall>w r w'. probe w = (r, w') \<longrightarrow> view w' = view w) \<longrightarrow> view w' = view w", OF _ that], goal_cases)
    case (1 poll tick probe w out)
    obtain a w1 where a: "tick w = (a, w1)" by fastforce
    obtain b w2 where b: "probe w1 = (b, w2)" by fastforce
    show ?case
    proof (intro allI impI)
      fix r w' assume out: "out = (r, w')" and T: "\<forall>w r w'. tick w = (r, w') \<longrightarrow> view w' = view w"
        and P: "\<forall>w r w'. probe w = (r, w') \<longrightarrow> view w' = view w"
      have v: "view w1 = view w" "view w2 = view w1" using T P a b by blast+
      show "view w' = view w"
      proof (cases "a = None \<and> b = None")
        case True
        then have "poll tick probe w2 = Some out" using 1(2) a b by simp
        then show ?thesis using 1(1) [of tick probe w2 out] out T P v by metis
      qed (use 1(2) a b out v in \<open>auto split: option.splits\<close>)
    qed
  qed
  then show ?thesis using run tick probe by blast
qed

lemma poll_total:
  assumes tick: "\<And>w w'. tick w = (None, w') \<Longrightarrow> left w' < left w" and probe: "\<And>w r w'. probe w = (r, w') \<Longrightarrow> left w' \<le> (left w :: nat)"
  shows "poll tick probe w \<noteq> None"
proof (induction "left w" arbitrary: w rule: less_induct)
  case less
  obtain a w1 where a: "tick w = (a, w1)" by fastforce
  obtain b w2 where b: "probe w1 = (b, w2)" by fastforce
  show ?case
  proof (cases "a = None \<and> b = None")
    case True
    then have "left w2 < left w" using tick a probe [OF b] by fastforce
    from less [OF this] show ?thesis using True a b by (subst poll.simps) simp
  next
    case False
    then show ?thesis using a b by (subst poll.simps) (auto split: option.splits)
  qed
qed

lemma findDigest_ok: "findDigest qt ss = Inr d \<Longrightarrow> HasPrefix d ''sha256:''"
  by (induction qt ss rule: findDigest.induct) (auto simp: Let_def split: if_splits option.splits)

lemma stream_logs_keep:
  assumes "\<And>line w. R (logFn line w) w" and "\<And>a. R a a" and "\<And>a b c. R a b \<Longrightarrow> R b c \<Longrightarrow> R a c"
  shows "R (stream_logs logFn str w) w"
proof -
  have f: "R (fold logFn ls w) w" for ls w
  proof (induction ls arbitrary: w)
    case (Cons x ls)
    show ?case using assms(3) [OF Cons.IH [of "logFn x w"] assms(1)] by simp
  qed (simp add: assms(2))
  obtain content err where str: "str = (content, err)" by fastforce
  obtain ls long where sc: "scan_stream content = (ls, long)" by fastforce
  have "R (logFn e (fold logFn ls w)) w" for e using assms(3) [OF assms(1) f] .
  then show ?thesis using f [of ls w] by (simp add: stream_logs_def str sc Let_def split: option.splits)
qed

subsection \<open>The production launcher\<close>

text \<open>Calls of the API do not touch what \<open>view\<close> shows.\<close>

locale cluster =
  fixes K :: "('job, 'w) k8s" and view :: "'w \<Rightarrow> 'v"
  assumes create_view: "k_CreateJob K ns job w = (c, w') \<Longrightarrow> view w' = view w"
    and list_view: "k_ListPods K ns sel w = (ps, w') \<Longrightarrow> view w' = view w"
    and pod_view: "k_GetPod K ns name w = (p, w') \<Longrightarrow> view w' = view w"
    and logs_view: "k_Logs K ns name w = (ls, w') \<Longrightarrow> view w' = view w"
    and job_view: "k_GetJob K ns name w = (j, w') \<Longrightarrow> view w' = view w"
    and tick_view: "k_Tick K w = (t, w') \<Longrightarrow> view w' = view w"
begin

lemma probe_view:
  "probe_pods K ns j w = (r, w') \<Longrightarrow> view w' = view w"
  "probe_phase K ns j w = (r2, w') \<Longrightarrow> view w' = view w"
  "probe_job K ns j w = (r3, w') \<Longrightarrow> view w' = view w"
  by (auto simp: probe_pods_def probe_phase_def probe_job_def split: prod.splits sum.splits list.splits if_splits
      dest: list_view pod_view job_view)

lemma polls_view:
  "poll (k_Tick K) (probe_pods K ns j) w = Some (r, w') \<Longrightarrow> view w' = view w"
  "poll (k_Tick K) (probe_phase K ns j) w = Some (r2, w') \<Longrightarrow> view w' = view w"
  "poll (k_Tick K) (probe_job K ns j) w = Some (r3, w') \<Longrightarrow> view w' = view w"
  by (erule poll_view [rotated 2], erule tick_view, erule probe_view)+

lemma watch_view:
  assumes log: "\<And>line w. view (logFn line w) = view w" and run: "watchJob K qt ns logFn jobName w = Some (r, w')"
  shows "view w' = view w"
proof -
  have str: "view (stream_logs logFn str w) = view w" for str w
    by (rule stream_logs_keep [where R = "\<lambda>a b. view a = view b"]) (simp_all add: log)
  have dig: "view w2 = view w1" if "retrieveDigest K qt ns p w1 = (x, w2)" for p w1 x w2
    using that pod_view by (fastforce simp: retrieveDigest_def split: prod.splits sum.splits)
  show ?thesis using run unfolding watchJob_def
    by (auto split: option.splits prod.splits sum.splits bool.splits dest!: polls_view logs_view dig simp: str)
qed

end

lemma watch_digest: "watchJob K qt ns logFn jobName w = Some (Inr d, w') \<Longrightarrow> HasPrefix d ''sha256:''"
  unfolding watchJob_def retrieveDigest_def by (auto split: option.splits prod.splits sum.splits bool.splits dest: findDigest_ok)

lemma Launch_digest: "Launch K qt l spec logFn w = Some (Inr d, w') \<Longrightarrow> HasPrefix d ''sha256:''"
  unfolding Launch_def by (auto split: option.splits prod.splits sum.splits dest: watch_digest)

sublocale cluster \<subseteq> prod: launcher "newK8sLauncher K qt l" view
proof (standard, goal_cases)
  case (1 logFn spec w r w')
  then show ?case unfolding newK8sLauncher_def Launch_def
    by (auto split: option.splits prod.splits sum.splits dest!: watch_view [of logFn, rotated] create_view)
next
  case (2 spec logFn w d w')
  then show ?case by (simp add: newK8sLauncher_def Launch_digest)
qed

interpretation local_launcher: launcher_returns newLocalLauncher view for view
  by unfold_locales (auto simp: newLocalLauncher_def local_Launch_def)

text \<open>A context that ends: every second that passes leaves less of it, and no call of the API gives any back.\<close>

locale deadline =
  fixes K :: "('job, 'w) k8s" and left :: "'w \<Rightarrow> nat"
  assumes tick_left: "k_Tick K w = (None, w') \<Longrightarrow> left w' < left w"
    and list_left: "k_ListPods K ns sel w = (ps, w') \<Longrightarrow> left w' \<le> left w"
    and pod_left: "k_GetPod K ns name w = (p, w') \<Longrightarrow> left w' \<le> left w"
    and job_left: "k_GetJob K ns name w = (j, w') \<Longrightarrow> left w' \<le> left w"
begin

lemma probe_left:
  "probe_pods K ns j w = (r, w') \<Longrightarrow> left w' \<le> left w"
  "probe_phase K ns j w = (r2, w') \<Longrightarrow> left w' \<le> left w"
  "probe_job K ns j w = (r3, w') \<Longrightarrow> left w' \<le> left w"
  by (auto simp: probe_pods_def probe_phase_def probe_job_def split: prod.splits sum.splits list.splits if_splits
      dest: list_left pod_left job_left)

lemma polls_return:
  "poll (k_Tick K) (probe_pods K ns j) w \<noteq> None"
  "poll (k_Tick K) (probe_phase K ns j) w \<noteq> None"
  "poll (k_Tick K) (probe_job K ns j) w \<noteq> None"
  by (rule poll_total [where left = left], erule tick_left, erule probe_left)+

lemma watch_returns: "watchJob K qt ns logFn jobName w \<noteq> None"
  unfolding watchJob_def by (simp add: polls_return split: option.splits prod.splits sum.splits bool.splits)

lemma launch_returns: "Launch K qt l spec logFn w \<noteq> None"
  unfolding Launch_def using watch_returns by (auto split: option.splits prod.splits sum.splits)

end

section \<open>A small cluster\<close>

text \<open>The world is the time left, the lines logged, and the termination message of the one pod.\<close>

type_synonym toy = "nat \<times> string list \<times> string"

definition toy_k8s :: "(unit, toy) k8s" where
  "toy_k8s = \<lparr>k_Decode = (\<lambda>_. Inr (Some ())), k_CreateJob = (\<lambda>ns job w. (Inr ''kaniko-b'', w)),
     k_ListPods = (\<lambda>ns sel w. (Inr [''pod''], w)),
     k_GetPod = (\<lambda>ns name w. (Inr \<lparr>pod_Phase = ''Running'', pod_Statuses = [\<lparr>c_Name = ''kaniko'', c_Terminated = Some (snd (snd w))\<rparr>]\<rparr>, w)),
     k_Logs = (\<lambda>ns name w. (Inr (''step 1'' @ [newline] @ ''step 2'', None), w)),
     k_GetJob = (\<lambda>ns name w. (Inr \<lparr>js_Succeeded = 1, js_Failed = 0\<rparr>, w)),
     k_DeleteJob = (\<lambda>ns name w. (None, w)),
     k_Tick = (\<lambda>w. if fst w = 0 then (Some ''context deadline exceeded'', w) else (None, (fst w - 1, snd w)))\<rparr>"

definition toy_log :: "string \<Rightarrow> toy \<Rightarrow> toy" where
  "toy_log line w = (fst w, fst (snd w) @ [line], snd (snd w))"

interpretation toy: deadline toy_k8s fst
  by unfold_locales (auto simp: toy_k8s_def split: if_splits)

interpretation toy_view: cluster toy_k8s "\<lambda>w. fst (snd w)"
  by unfold_locales (auto simp: toy_k8s_def split: if_splits)

definition toy_spec :: BuildSpec where
  "toy_spec = \<lparr>sp_BuildID = ''b'', sp_WorkspaceID = ''ws'', sp_WorkloadID = ''w'', sp_SourcePath = [], sp_DockerfilePath = [],
     sp_Destination = ''registry.raftweave.io/w-w:abc1234'', sp_BuildArgs = [], sp_CacheEnabled = True, sp_CacheRepo = []\<rparr>"

section \<open>Properties\<close>

text \<open>C28: With a context that has a deadline the production launcher always returns, whatever the cluster answers: pods that never
  appear, calls that keep failing and jobs that never finish end in an error when the context ends, and what it returns
  as a digest begins with \<^verbatim>\<open>sha256:\<close>.
\<close>

theorem launch_terminates:
  assumes "deadline K left"
  shows "\<exists>out w'. Launch K qt l spec logFn w = Some (out, w') \<and> (\<forall>d. out = Inr d \<longrightarrow> HasPrefix d ''sha256:'')"
proof -
  obtain o2 where "Launch K qt l spec logFn w = Some o2" using deadline.launch_returns [OF assms] by fastforce
  then show ?thesis using Launch_digest by (cases o2) fastforce
qed

theorem launch_terminates_witness:
  "\<exists>out w'. Launch toy_k8s (\<lambda>s. s) \<lparr>kl_namespace = ''builds'', kl_kanikoImage = ''kaniko''\<rparr> toy_spec toy_log (7, [], ''sha256:00'') = Some (out, w')
     \<and> (\<forall>d. out = Inr d \<longrightarrow> HasPrefix d ''sha256:'')"
  by (rule launch_terminates [OF toy.deadline_axioms])

lemma TrimSpace_Cons: "\<not> is_space c \<Longrightarrow> \<exists>t. TrimSpace (c # s) = c # t"
proof -
  assume "\<not> is_space c"
  then have "dropWhile is_space (rev s @ [c]) = dropWhile is_space (rev s) @ [c]"
    by (cases "\<exists>x \<in> set s. \<not> is_space x") (auto simp: dropWhile_append)
  then show ?thesis using \<open>\<not> is_space c\<close> by (simp add: TrimSpace_def)
qed

lemma findDigest_named:
  assumes "\<forall>s \<in> set ss. c_Name s = ''kaniko'' \<longrightarrow> (\<forall>m. c_Terminated s = Some m \<longrightarrow> HasPrefix m ''registry.raftweave.io/'')"
  shows "\<exists>e. findDigest qt ss = Inl e"
  using assms
proof (induction ss)
  case (Cons s ss)
  show ?case
  proof (cases "c_Name s = ''kaniko'' \<and> c_Terminated s \<noteq> None")
    case True
    then obtain m where m: "c_Terminated s = Some m" "HasPrefix m ''registry.raftweave.io/''" using Cons.prems by auto
    then obtain x where "m = CHR ''r'' # x" by (auto simp: HasPrefix_iff)
    moreover have "\<not> is_space (CHR ''r'')" by code_simp
    ultimately obtain d where "TrimSpace m = CHR ''r'' # d" using TrimSpace_Cons by blast
    then show ?thesis using True m by simp
  qed (use Cons in auto)
qed simp

text \<open>The job asks Kaniko for \<^verbatim>\<open>--image-name-with-digest-file\<close>, which writes the name of the image before the digest. When the
  termination messages of the Kaniko containers begin with the registry's name the launcher never succeeds, even for a job that did.
\<close>

theorem launch_rejects_named_digest:
  assumes msg: "\<And>ns name w p w' s m. k_GetPod K ns name w = (Inr p, w') \<Longrightarrow> s \<in> set (pod_Statuses p) \<Longrightarrow> c_Name s = ''kaniko'' \<Longrightarrow>
      c_Terminated s = Some m \<Longrightarrow> HasPrefix m ''registry.raftweave.io/''"
    and run: "Launch K qt l spec logFn w = Some (out, w')"
  shows "\<exists>e. out = Inl e"
proof -
  have dig: "\<exists>e. x = Inl e" if r: "retrieveDigest K qt ns n w1 = (x, w2)" for ns n w1 x w2
  proof -
    obtain g w3 where g: "k_GetPod K ns n w1 = (g, w3)" by fastforce
    show ?thesis
    proof (cases g)
      case (Inr p)
      then have "\<exists>e. findDigest qt (pod_Statuses p) = Inl e" using msg g by (intro findDigest_named) blast
      then show ?thesis using r g Inr by (simp add: retrieveDigest_def)
    qed (use r g in \<open>auto simp: retrieveDigest_def\<close>)
  qed
  show ?thesis using run unfolding Launch_def watchJob_def
    by (auto split: option.splits prod.splits sum.splits bool.splits dest: dig)
qed

theorem launch_rejects_named_digest_witness:
  "\<exists>e w'. Launch (toy_k8s\<lparr>k_GetPod := (\<lambda>ns name w. (Inr \<lparr>pod_Phase = ''Running'', pod_Statuses = [\<lparr>c_Name = ''kaniko'',
       c_Terminated = Some ''registry.raftweave.io/w-w@sha256:00''\<rparr>]\<rparr>, w))\<rparr>)
     (\<lambda>s. s) \<lparr>kl_namespace = ''builds'', kl_kanikoImage = ''kaniko''\<rparr> toy_spec toy_log (7, [], []) = Some (Inl e, w')"
proof -
  let ?K = "toy_k8s\<lparr>k_GetPod := (\<lambda>ns name w. (Inr \<lparr>pod_Phase = ''Running'', pod_Statuses = [\<lparr>c_Name = ''kaniko'',
       c_Terminated = Some ''registry.raftweave.io/w-w@sha256:00''\<rparr>]\<rparr>, w))\<rparr>"
  have d: "deadline ?K fst" by unfold_locales (auto simp: toy_k8s_def split: if_splits)
  obtain out w' where r: "Launch ?K (\<lambda>s. s) \<lparr>kl_namespace = ''builds'', kl_kanikoImage = ''kaniko''\<rparr> toy_spec toy_log (7, [], []) = Some (out, w')"
    using deadline.launch_returns [OF d] by (metis option.exhaust surj_pair)
  have "\<exists>e. out = Inl e" by (rule launch_rejects_named_digest [OF _ r]) auto
  then show ?thesis using r by blast
qed

end
