(* ===== verification/Build_Pipeline.thy ===== *)
theory Build_Pipeline
  imports Build_Repo Build_Logstream Build_Detector Build_Dockerfile Build_Kaniko Http
begin

text \<open>
  The build pipeline of \<^verbatim>\<open>internal/build/usecase/build.go\<close>, its queue worker and the worker's health endpoints. A run of
  the pipeline returns, panics (\<open>Panicked\<close>: a slice expression out of range, or a panic of the detector), or does not end (\<open>None\<close>: the
  launcher keeps polling). Errors of the repositories and of the broadcaster after the creation of the build are ignored, as the
  code does. Tracing is left out.
\<close>

section \<open>The use case\<close>

record BuildJob =
  bj_WorkloadID :: string
  bj_WorkspaceID :: string
  bj_GitCommitSHA :: string
  bj_GitRepoURL :: string
  bj_GitBranch :: string
  bj_SourcePath :: string
  bj_UserImageRef :: string
  bj_BuildArgs :: "(string \<times> string) list"

text \<open>The clock and the directory tree the detector reads are parts of the world. The pusher of the struct is never called.\<close>

record 'w BuildUseCase =
  uc_builds :: "'w BuildRepository"
  uc_logs :: "'w LogRepository"
  uc_detector :: "string \<Rightarrow> 'w \<Rightarrow> (berr + DetectionResult) option"
  uc_generator :: "DetectionResult \<Rightarrow> berr + bytes"
  uc_launcher :: "'w Launcher"
  uc_broadcaster :: "'w Broadcaster"
  uc_Now :: "'w \<Rightarrow> gotime \<times> 'w"

datatype exec_out = Panicked | Returned "berr option"

definition publishLog :: "'w BuildUseCase \<Rightarrow> string \<Rightarrow> string \<Rightarrow> string \<Rightarrow> 'w \<Rightarrow> 'w" where
  "publishLog uc buildID stream txt w =
     (let (t1, w1) = uc_Now uc w;
          (t2, w2) = uc_Now uc w1;
          line = \<lparr>ll_BuildID = buildID, ll_Sequence = word_of_int t1, ll_Stream = stream, ll_Text = txt, ll_Timestamp = t2\<rparr>;
          (_, w3) = lr_AppendLine (uc_logs uc) line w2;
          (_, w4) = bc_Publish (uc_broadcaster uc) line w3
      in w4)"

text \<open>A status update whose error is dropped.\<close>

definition setStatus :: "'w BuildUseCase \<Rightarrow> string \<Rightarrow> BuildStatus \<Rightarrow> string \<Rightarrow> 'w \<Rightarrow> 'w" where
  "setStatus uc buildID status msg w = snd (br_UpdateStatus (uc_builds uc) buildID status msg w)"

definition failBuild :: "'w BuildUseCase \<Rightarrow> string \<Rightarrow> berr \<Rightarrow> string \<Rightarrow> 'w \<Rightarrow> exec_out \<times> 'w" where
  "failBuild uc buildID err msg w =
     (let w1 = publishLog uc buildID ''stderr'' msg w;
          w2 = setStatus uc buildID BuildStatusFailed msg w1;
          w3 = bc_MarkComplete (uc_broadcaster uc) buildID w2
      in (Returned (Some (wrap msg err)), w3))"

definition confidence_text :: "nat \<Rightarrow> string" where
  "confidence_text c = dec_nat (c div 100) @ ''.'' @ dec_pad 2 (c mod 100)"

definition build_id :: "BuildJob \<Rightarrow> gotime \<Rightarrow> string" where
  "build_id job now = ''b-'' @ take 8 (bj_WorkloadID job) @ ''-'' @ dec_int (now div 1000000000)"

definition new_build :: "BuildJob \<Rightarrow> string \<Rightarrow> Build" where
  "new_build job buildID = \<lparr>b_ID = buildID, b_WorkloadID = bj_WorkloadID job, b_WorkspaceID = bj_WorkspaceID job,
     b_GitCommitSHA = bj_GitCommitSHA job, b_GitBranch = bj_GitBranch job, b_Status = BuildStatusCloning, b_Language = [],
     b_ImageRef = [], b_ImageDigest = [], b_SizeBytes = 0, b_ErrorMessage = [], b_StartedAt = zero_time, b_CompletedAt = None,
     b_CreatedAt = zero_time, b_UpdatedAt = zero_time\<rparr>"

definition destination :: "BuildJob \<Rightarrow> string" where
  "destination job = ''registry.raftweave.io/w-'' @ bj_WorkloadID job @ '':'' @ take 7 (bj_GitCommitSHA job)"

definition build_spec :: "BuildJob \<Rightarrow> string \<Rightarrow> string \<Rightarrow> BuildSpec" where
  "build_spec job buildID dockerfilePath = \<lparr>sp_BuildID = buildID, sp_WorkspaceID = bj_WorkspaceID job, sp_WorkloadID = bj_WorkloadID job,
     sp_SourcePath = bj_SourcePath job, sp_DockerfilePath = dockerfilePath, sp_Destination = destination job, sp_BuildArgs = [],
     sp_CacheEnabled = True, sp_CacheRepo = []\<rparr>"

text \<open>From step 5 on.\<close>

definition launchStep :: "'w BuildUseCase \<Rightarrow> BuildJob \<Rightarrow> string \<Rightarrow> string \<Rightarrow> 'w \<Rightarrow> (exec_out \<times> 'w) option" where
  "launchStep uc job buildID dockerfilePath w =
     (let w1 = setStatus uc buildID BuildStatusBuilding [] w;
          w2 = publishLog uc buildID ''stdout'' ''Starting Kaniko build job...'' w1
      in if length (bj_GitCommitSHA job) < 7 then Some (Panicked, w2)
         else case la_Launch (uc_launcher uc) (build_spec job buildID dockerfilePath) (\<lambda>line. publishLog uc buildID ''stdout'' line) w2 of
                None \<Rightarrow> None
              | Some (Inl err, w3) \<Rightarrow> Some (failBuild uc buildID err (''Kaniko job failed: '' @ Error err) w3)
              | Some (Inr digest, w3) \<Rightarrow>
                  let (_, w4) = br_UpdateImageRef (uc_builds uc) buildID (destination job) digest 0 w3;
                      (_, w5) = br_MarkCompleted (uc_builds uc) buildID w4;
                      w6 = publishLog uc buildID ''stdout'' (''Build completed successfully. Digest: '' @ digest) w5;
                      w7 = bc_MarkComplete (uc_broadcaster uc) buildID w6
                  in Some (Returned None, w7))"

text \<open>Step 4.\<close>

definition generateStep :: "'w BuildUseCase \<Rightarrow> BuildJob \<Rightarrow> string \<Rightarrow> DetectionResult \<Rightarrow> 'w \<Rightarrow> (exec_out \<times> 'w) option" where
  "generateStep uc job buildID detection w =
     (let w1 = setStatus uc buildID BuildStatusGenerating [] w in
      if dr_HasDockerfile detection then launchStep uc job buildID [] w1
      else let w2 = publishLog uc buildID ''stdout'' ''Generating Dockerfile...'' w1 in
        case uc_generator uc detection of
          Inl err \<Rightarrow> Some (failBuild uc buildID err (''Dockerfile generation failed: '' @ Error err) w2)
        | Inr _ \<Rightarrow> launchStep uc job buildID (bj_SourcePath job @ ''/Dockerfile'') w2)"

text \<open>Steps 2 and 3.\<close>

definition detectStep :: "'w BuildUseCase \<Rightarrow> BuildJob \<Rightarrow> string \<Rightarrow> 'w \<Rightarrow> (exec_out \<times> 'w) option" where
  "detectStep uc job buildID w =
     (let w1 = publishLog uc buildID ''stdout'' (''Cloning repository '' @ bj_GitRepoURL job @ '' (branch '' @ bj_GitBranch job @ '')...'') w;
          w2 = publishLog uc buildID ''stdout'' ''Cloned successfully.'' w1;
          w3 = setStatus uc buildID BuildStatusDetecting [] w2;
          w4 = publishLog uc buildID ''stdout'' ''Detecting language and framework...'' w3
      in case uc_detector uc (bj_SourcePath job) w4 of
           None \<Rightarrow> Some (Panicked, w4)
         | Some (Inl err) \<Rightarrow> Some (failBuild uc buildID err (''Detection failed: '' @ Error err) w4)
         | Some (Inr detection) \<Rightarrow>
             generateStep uc job buildID detection (publishLog uc buildID ''stdout''
               (''Detected language '' @ dr_Language detection @ '' (confidence '' @ confidence_text (dr_Confidence detection) @ '')'') w4))"

definition Execute :: "'w BuildUseCase \<Rightarrow> BuildJob \<Rightarrow> 'w \<Rightarrow> (exec_out \<times> 'w) option" where
  "Execute uc job w =
     (if length (bj_WorkloadID job) < 8 then Some (Panicked, w)
      else let (now, w1) = uc_Now uc w; buildID = build_id job now in
        case br_Create (uc_builds uc) (new_build job buildID) w1 of
          (Some err, w2) \<Rightarrow> Some (Returned (Some (wrap ''failed to create build record'' err)), w2)
        | (None, w2) \<Rightarrow> detectStep uc job buildID w2)"

section \<open>The worker\<close>

definition TaskTypeBuild :: string where "TaskTypeBuild = ''build:execute''"

definition zero_BuildJob :: BuildJob where
  "zero_BuildJob = \<lparr>bj_WorkloadID = [], bj_WorkspaceID = [], bj_GitCommitSHA = [], bj_GitRepoURL = [], bj_GitBranch = [], bj_SourcePath = [],
     bj_UserImageRef = [], bj_BuildArgs = []\<rparr>"

definition bj_unmarshal :: "payload \<Rightarrow> json_err + BuildJob" where
  "bj_unmarshal p =
     (case p of
        NotJson _ \<Rightarrow> Inl SyntaxError
      | Doc d \<Rightarrow> dStruct [fld ''workload_id'' dStr bj_WorkloadID bj_WorkloadID_update, fld ''workspace_id'' dStr bj_WorkspaceID bj_WorkspaceID_update,
          fld ''git_commit_sha'' dStr bj_GitCommitSHA bj_GitCommitSHA_update, fld ''git_repo_url'' dStr bj_GitRepoURL bj_GitRepoURL_update,
          fld ''git_branch'' dStr bj_GitBranch bj_GitBranch_update, fld ''source_path'' dStr bj_SourcePath bj_SourcePath_update,
          fld ''user_image_ref'' dStr bj_UserImageRef bj_UserImageRef_update, fld ''build_args'' dMap bj_BuildArgs bj_BuildArgs_update] d zero_BuildJob)"

definition json_text :: "json_err \<Rightarrow> string" where
  "json_text e = (case e of SyntaxError \<Rightarrow> ''json: syntax error'' | UnmarshalTypeError \<Rightarrow> ''json: cannot unmarshal'')"

definition mapError :: "berr \<Rightarrow> berr" where
  "mapError err =
     (if sentinel_text ErrDetectionFailed = Error err \<or> sentinel_text ErrDockerfileInvalid = Error err
      then Errorf [Txt ''fatal user error, skipping retry: '', W err, Txt '': '', W (Sent SkipRetry)]
      else if sentinel_text ErrKanikoJobFailed = Error err
      then Errorf [Txt ''kaniko job failed, skipping retry: '', W err, Txt '': '', W (Sent SkipRetry)]
      else wrap ''transient build error, retrying'' err)"

definition ProcessTask :: "'w BuildUseCase \<Rightarrow> payload \<Rightarrow> 'w \<Rightarrow> (exec_out \<times> 'w) option" where
  "ProcessTask uc p w =
     (case bj_unmarshal p of
        Inl e \<Rightarrow> Some (Returned (Some (Errorf [Txt (''could not unmarshal job: '' @ json_text e @ '': ''), W (Sent SkipRetry)])), w)
      | Inr job \<Rightarrow>
          (case Execute uc job w of
             Some (Returned (Some err), w') \<Rightarrow> Some (Returned (Some (mapError err)), w')
           | out \<Rightarrow> out))"

text \<open>The configuration of the server: the queues with their weights, and which errors count as failures (\<open>SkipRetry\<close> itself does
  not, by identity, so an error that wraps it does).\<close>

record worker_config =
  wc_Concurrency :: nat
  wc_Queues :: "(string \<times> nat) list"
  wc_StrictPriority :: bool
  wc_IsFailure :: "berr \<Rightarrow> bool"

definition StartWorker :: worker_config where
  "StartWorker = \<lparr>wc_Concurrency = 5, wc_Queues = [(''builds:high'', 6), (''builds:default'', 3), (''builds:low'', 1)],
     wc_StrictPriority = True, wc_IsFailure = (\<lambda>err. err \<noteq> Sent SkipRetry)\<rparr>"

section \<open>Health\<close>

text \<open>Status code and body; \<open>http.Error\<close> adds a line break.\<close>

definition Liveness :: "nat \<times> string" where
  "Liveness = (200, ''OK'')"

definition Readiness :: "('w \<Rightarrow> string option \<times> 'w) \<Rightarrow> ('w \<Rightarrow> string option \<times> 'w) \<Rightarrow> 'w \<Rightarrow> (nat \<times> string) \<times> 'w" where
  "Readiness pgPing redisPing w =
     (case pgPing w of
        (Some _, w1) \<Rightarrow> ((503, ''PostgreSQL unavailable'' @ [newline]), w1)
      | (None, w1) \<Rightarrow>
          (case redisPing w1 of
             (Some _, w2) \<Rightarrow> ((503, ''Redis unavailable'' @ [newline]), w2)
           | (None, w2) \<Rightarrow> ((200, ''READY''), w2)))"

end
