(* ===== verification/Build_Registry.thy ===== *)
theory Build_Registry
  imports Build_Domain
begin

text \<open>
  The registry client of \<^verbatim>\<open>internal/build/adapter/registry\<close>. The ORAS library is a parameter: copying an image, resolving a
  reference and tagging, each with the HTTP client of the repository value. \<open>Wait\<close> is the \<^verbatim>\<open>select\<close> between the context and a timer.
\<close>

record ImageRef =
  ir_Registry :: string
  ir_Repository :: string
  ir_Tag :: string
  ir_Digest :: string
  ir_SizeBytes :: "64 word"

definition ImageRef_String :: "ImageRef \<Rightarrow> string" where
  "ImageRef_String r = ir_Registry r @ ''/'' @ ir_Repository r @ '':'' @ ir_Tag r"

text \<open>The client of a repository: the library's default one, or the one made for the pusher with its credentials, if any.\<close>

datatype rclient = DefaultClient | AuthClient "(string \<times> string) option"

record descriptor =
  ds_Digest :: string
  ds_Size :: "64 word"

text \<open>A resolution may fail with the library's sentinel for a missing reference or with another error.\<close>

datatype resolve_err = ErrNotFound | ResolveErr string

fun resolve_text :: "resolve_err \<Rightarrow> string" where
  "resolve_text ErrNotFound = ''not found''"
| "resolve_text (ResolveErr m) = m"

record ('src, 'w) oras =
  o_NewRepository :: "string \<Rightarrow> string option"
  o_Copy :: "rclient \<Rightarrow> 'src \<Rightarrow> string \<Rightarrow> string \<Rightarrow> 'w \<Rightarrow> (string + descriptor) \<times> 'w"
  o_Resolve :: "rclient \<Rightarrow> string \<Rightarrow> string \<Rightarrow> 'w \<Rightarrow> (resolve_err + descriptor) \<times> 'w"
  o_Tag :: "rclient \<Rightarrow> string \<Rightarrow> descriptor \<Rightarrow> string \<Rightarrow> 'w \<Rightarrow> string option \<times> 'w"
  o_Wait :: "duration \<Rightarrow> 'w \<Rightarrow> string option \<times> 'w"

definition New :: "string \<Rightarrow> string \<Rightarrow> rclient" where
  "New username password = AuthClient (if username \<noteq> [] \<or> password \<noteq> [] then Some (username, password) else None)"

definition repoStr :: "ImageRef \<Rightarrow> string" where
  "repoStr ref = ir_Registry ref @ ''/'' @ ir_Repository ref"

text \<open>The loop over the attempts, each with the delay after it; the last one is not followed by a delay.\<close>

fun push_attempts :: "('src, 'w) oras \<Rightarrow> 'src \<Rightarrow> duration list \<Rightarrow> ImageRef \<Rightarrow> 'w \<Rightarrow> (berr + ImageRef) \<times> 'w" where
  "push_attempts R src [] ref w = (Inr ref, w)"
| "push_attempts R src (d # ds) ref w =
     (case o_Copy R DefaultClient src (repoStr ref) (ir_Tag ref) w of
        (Inr desc, w1) \<Rightarrow> (Inr (ref\<lparr>ir_Digest := ds_Digest desc, ir_SizeBytes := ds_Size desc\<rparr>), w1)
      | (Inl pushErr, w1) \<Rightarrow>
          if ds = [] then (Inl (wrap ''push failed after 3 attempts'' (LibErr pushErr)), w1)
          else case o_Wait R d w1 of
                 (Some e, w2) \<Rightarrow> (Inl (LibErr e), w2)
               | (None, w2) \<Rightarrow> push_attempts R src ds ref w2)"

abbreviation push_delays :: "duration list" where
  "push_delays \<equiv> [seconds 2, seconds 4, seconds 8]"

definition Push :: "('src, 'w) oras \<Rightarrow> 'src \<Rightarrow> ImageRef \<Rightarrow> 'w \<Rightarrow> (berr + ImageRef) \<times> 'w" where
  "Push R src ref w =
     (case o_NewRepository R (repoStr ref) of
        Some e \<Rightarrow> (Inl (wrap ''invalid repository'' (LibErr e)), w)
      | None \<Rightarrow>
          (case push_attempts R src push_delays ref w of
             (Inl e, w1) \<Rightarrow> (Inl e, w1)
           | (Inr ref', w1) \<Rightarrow>
               (case o_Resolve R DefaultClient (repoStr ref) (ir_Tag ref) w1 of
                  (Inl e, w2) \<Rightarrow> (Inl (wrap ''failed to resolve tag after push'' (LibErr (resolve_text e))), w2)
                | (Inr desc, w2) \<Rightarrow>
                    if ds_Digest desc \<noteq> ir_Digest ref'
                    then (Inl (LibErr (''digest mismatch: expected '' @ ir_Digest ref' @ '', got '' @ ds_Digest desc)), w2)
                    else (Inr ref', w2))))"

definition TagLatest :: "('src, 'w) oras \<Rightarrow> rclient \<Rightarrow> ImageRef \<Rightarrow> 'w \<Rightarrow> berr option \<times> 'w" where
  "TagLatest R client ref w =
     (case o_NewRepository R (repoStr ref) of
        Some e \<Rightarrow> (Some (wrap ''invalid repository'' (LibErr e)), w)
      | None \<Rightarrow>
          (case o_Resolve R client (repoStr ref) (ir_Tag ref) w of
             (Inl e, w1) \<Rightarrow> (Some (wrap ''failed to resolve original tag'' (LibErr (resolve_text e))), w1)
           | (Inr desc, w1) \<Rightarrow>
               (case o_Tag R client (repoStr ref) desc ''latest'' w1 of
                  (Some e, w2) \<Rightarrow> (Some (wrap ''failed to tag latest'' (LibErr e)), w2)
                | (None, w2) \<Rightarrow> (None, w2))))"

definition Exists :: "('src, 'w) oras \<Rightarrow> rclient \<Rightarrow> ImageRef \<Rightarrow> 'w \<Rightarrow> (berr + bool) \<times> 'w" where
  "Exists R client ref w =
     (case o_NewRepository R (repoStr ref) of
        Some e \<Rightarrow> (Inl (wrap ''invalid repository'' (LibErr e)), w)
      | None \<Rightarrow>
          (case o_Resolve R client (repoStr ref) (ir_Digest ref) w of
             (Inl e, w1) \<Rightarrow>
               (if Contains (resolve_text e) ''not found'' \<or> e = ErrNotFound then Inr False else Inl (LibErr (resolve_text e)), w1)
           | (Inr _, w1) \<Rightarrow> (Inr True, w1)))"

section \<open>A registry\<close>

text \<open>
  \<open>refs\<close> is what a reference of a repository, a tag or a digest, stands for, \<open>copies\<close> counts the uploads. A copy that reports success has
  set the tag; one that fails may have set it.
\<close>

locale image_registry =
  fixes R :: "('src, 'w) oras" and refs :: "'w \<Rightarrow> string \<Rightarrow> string \<Rightarrow> string option" and copies :: "'w \<Rightarrow> nat"
  assumes copy_count: "o_Copy R c src repo tag w = (up, w') \<Longrightarrow> copies w' = Suc (copies w)"
    and resolve_ok: "o_Resolve R c repo tag w = (out, w') \<Longrightarrow> copies w' = copies w \<and> refs w' = refs w \<and>
        (case out of Inr d \<Rightarrow> refs w repo tag = Some (ds_Digest d) | Inl e \<Rightarrow> e = ErrNotFound \<longrightarrow> refs w repo tag = None)"
    and tag_ok: "o_Tag R c repo d tag w = (None, w') \<Longrightarrow> refs w' = (refs w)(repo := (refs w repo)(tag \<mapsto> ds_Digest d))"
    and wait_ok: "o_Wait R t w = (e, w') \<Longrightarrow> copies w' = copies w"
begin

lemma attempts_count: "push_attempts R src ds ref w = (out, w') \<Longrightarrow> copies w' \<le> copies w + length ds"
proof (induction ds arbitrary: w)
  case (Cons d ds)
  obtain c w1 where c: "o_Copy R DefaultClient src (repoStr ref) (ir_Tag ref) w = (c, w1)" by fastforce
  obtain t w2 where t: "o_Wait R d w1 = (t, w2)" by fastforce
  have "copies w1 = Suc (copies w)" "copies w2 = Suc (copies w)" using copy_count [OF c] wait_ok [OF t] by simp_all
  then show ?case using Cons.prems Cons.IH [of w2] c t by (auto split: sum.splits if_splits option.splits)
qed simp

lemma push_done:
  assumes "Push R src ref w = (Inr ref', w')"
  shows "refs w' (repoStr ref) (ir_Tag ref) = Some (ir_Digest ref')" "copies w' \<le> copies w + 3"
proof -
  obtain w1 where p: "push_attempts R src push_delays ref w = (Inr ref', w1)" "\<exists>desc. o_Resolve R DefaultClient (repoStr ref) (ir_Tag ref) w1 = (Inr desc, w')
      \<and> ds_Digest desc = ir_Digest ref'"
    using assms by (auto simp: Push_def split: option.splits prod.splits sum.splits if_splits)
  then obtain desc where d: "o_Resolve R DefaultClient (repoStr ref) (ir_Tag ref) w1 = (Inr desc, w')" "ds_Digest desc = ir_Digest ref'" by blast
  show "refs w' (repoStr ref) (ir_Tag ref) = Some (ir_Digest ref')" "copies w' \<le> copies w + 3"
    using resolve_ok [OF d(1)] d(2) attempts_count [OF p(1)] by simp_all
qed

lemma latest_done:
  assumes "TagLatest R c ref w = (None, w')"
  shows "refs w' (repoStr ref) ''latest'' = refs w (repoStr ref) (ir_Tag ref) \<and> refs w' (repoStr ref) ''latest'' \<noteq> None"
proof -
  obtain desc w1 where "o_Resolve R c (repoStr ref) (ir_Tag ref) w = (Inr desc, w1)" "o_Tag R c (repoStr ref) desc ''latest'' w1 = (None, w')"
    using assms by (auto simp: TagLatest_def split: option.splits prod.splits sum.splits)
  then show ?thesis using resolve_ok tag_ok by fastforce
qed

end

lemma push_attempts_keeps:
  "push_attempts R src ds ref w = (Inr ref', w') \<Longrightarrow>
     ir_Registry ref' = ir_Registry ref \<and> ir_Repository ref' = ir_Repository ref \<and> ir_Tag ref' = ir_Tag ref"
proof (induction ds arbitrary: w)
  case (Cons d ds)
  then show ?case by (auto split: sum.splits prod.splits if_splits option.splits)
qed simp

section \<open>A registry in memory\<close>

text \<open>The source image is its digest and size; the world holds the references, the number of uploads, and how many more uploads fail.\<close>

type_synonym mem_registry = "((string \<times> string \<times> string) list \<times> nat) \<times> nat"

definition mem_refs :: "mem_registry \<Rightarrow> string \<Rightarrow> string \<Rightarrow> string option" where
  "mem_refs w repo tag = map_option (\<lambda>e. snd (snd e)) (find (\<lambda>e. fst e = repo \<and> fst (snd e) = tag) (fst (fst w)))"

definition mem_oras :: "(descriptor, mem_registry) oras" where
  "mem_oras = \<lparr>o_NewRepository = (\<lambda>_. None),
     o_Copy = (\<lambda>c src repo tag w. if snd w > 0 then (Inl ''EOF'', ((fst (fst w), Suc (snd (fst w))), snd w - 1))
        else (Inr src, (((repo, tag, ds_Digest src) # fst (fst w), Suc (snd (fst w))), 0))),
     o_Resolve = (\<lambda>c repo tag w. (case mem_refs w repo tag of None \<Rightarrow> Inl ErrNotFound | Some d \<Rightarrow> Inr \<lparr>ds_Digest = d, ds_Size = 0\<rparr>, w)),
     o_Tag = (\<lambda>c repo d tag w. (None, (((repo, tag, ds_Digest d) # fst (fst w), snd (fst w)), snd w))),
     o_Wait = (\<lambda>t w. (None, w))\<rparr>"

interpretation mem: image_registry mem_oras mem_refs "\<lambda>w. snd (fst w)"
  by unfold_locales (auto simp: mem_oras_def mem_refs_def fun_eq_iff split: if_splits option.splits)

section \<open>Properties\<close>

text \<open>C29: When a push reports success, the tag resolves in the registry to the digest it returns, the returned reference names the
  image that was asked for, and the image was uploaded three times at most.
\<close>

theorem push_verified:
  assumes "image_registry R refs copies" and "Push R src ref w = (Inr ref', w')"
  shows "refs w' (repoStr ref) (ir_Tag ref) = Some (ir_Digest ref') \<and> ImageRef_String ref' = ImageRef_String ref
     \<and> copies w' \<le> copies w + 3"
proof -
  have "ir_Registry ref' = ir_Registry ref \<and> ir_Repository ref' = ir_Repository ref \<and> ir_Tag ref' = ir_Tag ref"
    using assms(2) push_attempts_keeps [of R src push_delays ref w ref']
    by (auto simp: Push_def simp del: push_attempts.simps split: option.splits prod.splits sum.splits if_splits)
  then show ?thesis using image_registry.push_done [OF assms] by (simp add: ImageRef_String_def)
qed

theorem push_verified_witness:
  "mem_refs (snd (Push mem_oras \<lparr>ds_Digest = ''sha256:1'', ds_Size = 9\<rparr> \<lparr>ir_Registry = ''r'', ir_Repository = ''w'', ir_Tag = ''t'', ir_Digest = [], ir_SizeBytes = 0\<rparr>
     (([], 0), 2))) ''r/w'' ''t'' = Some ''sha256:1''"
proof -
  let ?ref = "\<lparr>ir_Registry = ''r'', ir_Repository = ''w'', ir_Tag = ''t'', ir_Digest = [], ir_SizeBytes = 0\<rparr>"
  have p: "Push mem_oras \<lparr>ds_Digest = ''sha256:1'', ds_Size = 9\<rparr> ?ref (([], 0), 2) =
      (Inr (?ref\<lparr>ir_Digest := ''sha256:1'', ir_SizeBytes := 9\<rparr>), (([(''r/w'', ''t'', ''sha256:1'')], 3), 0))"
    by (simp add: Push_def mem_oras_def mem_refs_def repoStr_def)
  show ?thesis using push_verified [OF mem.image_registry_axioms p] p by (simp add: repoStr_def)
qed

end
