(* ===== verification/Build_Properties.thy ===== *)
theory Build_Properties
  imports Build_Pipeline Build_Registry Ingestion_Usecases
begin

text \<open>
  What the build pipeline guarantees. \<open>pipeline\<close> puts the interfaces of its parts together: the build repository, the launcher, and
  the frame conditions that logging, broadcasting and the clock leave builds alone; \<open>pipeline_up\<close> adds that the database answers.
  The properties are stated for every pipeline of this kind, and the locales are interpreted on the adapters of the model.
\<close>

section \<open>Builds under way and builds that are settled\<close>

definition of_job :: "BuildJob \<Rightarrow> string \<Rightarrow> Build \<Rightarrow> bool" where
  "of_job job i b = (b_ID b = i \<and> b_WorkloadID b = bj_WorkloadID job \<and> b_WorkspaceID b = bj_WorkspaceID job \<and>
     b_GitCommitSHA b = bj_GitCommitSHA job \<and> b_GitBranch b = bj_GitBranch job)"

definition open_build :: "BuildJob \<Rightarrow> string \<Rightarrow> (string \<Rightarrow> Build option) \<Rightarrow> bool" where
  "open_build job i m = (\<exists>b. m i = Some b \<and> of_job job i b \<and> b_CompletedAt b = None)"

definition settled :: "BuildJob \<Rightarrow> string \<Rightarrow> berr option \<Rightarrow> (string \<Rightarrow> Build option) \<Rightarrow> bool" where
  "settled job i res m = (\<exists>b. m i = Some b \<and> of_job job i b \<and>
     (case res of
        None \<Rightarrow> b_Status b = BuildStatusSucceeded \<and> b_ImageRef b = destination job \<and> HasPrefix (b_ImageDigest b) ''sha256:'' \<and> b_CompletedAt b \<noteq> None
      | Some e \<Rightarrow> b_Status b = BuildStatusFailed \<and> (\<exists>x. e = wrap (b_ErrorMessage b) x) \<and> b_CompletedAt b = None))"

text \<open>Nothing but one build differs.\<close>

definition only :: "string \<Rightarrow> (string \<Rightarrow> Build option) \<Rightarrow> (string \<Rightarrow> Build option) \<Rightarrow> bool" where
  "only i m m' = (\<forall>j. j \<noteq> i \<longrightarrow> m' j = m j)"

lemma only_refl [simp]: "only i m m" by (simp add: only_def)

lemma only_trans: "only i m m' \<Longrightarrow> only i m' m'' \<Longrightarrow> only i m m''" by (simp add: only_def)

lemma touched_only: "touched i upd m m' \<Longrightarrow> only i m m'"
  by (auto simp: touched_def only_def)

lemma touched_status:
  "touched i (with_status st msg) m m' \<Longrightarrow> open_build job i m \<Longrightarrow>
     open_build job i m' \<and> (\<exists>b. m' i = Some b \<and> b_Status b = st \<and> b_ErrorMessage b = msg)"
  by (auto simp: touched_def open_build_def of_job_def with_status_def)

lemma touched_done:
  assumes "touched i (with_image ref dig n) m m1" and "touched i with_completed m1 m2" and "open_build job i m"
  shows "\<exists>b. m2 i = Some b \<and> of_job job i b \<and> b_Status b = BuildStatusSucceeded \<and> b_ImageRef b = ref \<and> b_ImageDigest b = dig \<and> b_CompletedAt b \<noteq> None"
proof -
  obtain t1 t2 where m1: "m1 = m(i := map_option (with_image ref dig n t1) (m i))" and m2: "m2 = m1(i := map_option (with_completed t2) (m1 i))"
    using assms(1,2) unfolding touched_def by blast
  obtain b where "m i = Some b" "of_job job i b" using assms(3) unfolding open_build_def by blast
  then show ?thesis by (simp add: m1 m2 of_job_def with_image_def with_completed_def)
qed

section \<open>The pipeline over its interfaces\<close>

locale pipeline = repo: build_repository "uc_builds uc" blds binv + launch: launcher "uc_launcher uc" "\<lambda>w. (blds w, binv w)"
  for uc :: "'w BuildUseCase" and blds :: "'w \<Rightarrow> string \<Rightarrow> Build option" and binv :: "'w \<Rightarrow> bool" +
  assumes append_frame: "lr_AppendLine (uc_logs uc) l w = (r, w') \<Longrightarrow> blds w' = blds w \<and> binv w' = binv w"
    and publish_frame: "bc_Publish (uc_broadcaster uc) l w = (r, w') \<Longrightarrow> blds w' = blds w \<and> binv w' = binv w"
    and complete_frame: "blds (bc_MarkComplete (uc_broadcaster uc) i w) = blds w \<and> binv (bc_MarkComplete (uc_broadcaster uc) i w) = binv w"
    and now_frame: "uc_Now uc w = (t, w') \<Longrightarrow> blds w' = blds w \<and> binv w' = binv w"
begin

lemma publishLog_frame [simp]:
  "blds (publishLog uc i str txt w) = blds w" "binv (publishLog uc i str txt w) = binv w"
proof -
  obtain t1 w1 where 1: "uc_Now uc w = (t1, w1)" by fastforce
  obtain t2 w2 where 2: "uc_Now uc w1 = (t2, w2)" by fastforce
  define line where "line = \<lparr>ll_BuildID = i, ll_Sequence = word_of_int t1, ll_Stream = str, ll_Text = txt, ll_Timestamp = t2\<rparr>"
  obtain r3 w3 where 3: "lr_AppendLine (uc_logs uc) line w2 = (r3, w3)" by fastforce
  obtain r4 w4 where 4: "bc_Publish (uc_broadcaster uc) line w3 = (r4, w4)" by fastforce
  have "publishLog uc i str txt w = w4" using 1 2 3 4 by (simp add: publishLog_def Let_def line_def)
  then show "blds (publishLog uc i str txt w) = blds w" "binv (publishLog uc i str txt w) = binv w"
    using now_frame [OF 1] now_frame [OF 2] append_frame [OF 3] publish_frame [OF 4] by simp_all
qed

lemma setStatus_effect:
  "binv w \<Longrightarrow> binv (setStatus uc i st msg w) \<and> (blds (setStatus uc i st msg w) = blds w \<or>
     touched i (with_status st msg) (blds w) (blds (setStatus uc i st msg w)))"
  unfolding setStatus_def using repo.status [of w i st msg] by (metis prod.collapse)

text \<open>A status update keeps a build under way under way, whether or not it took effect.\<close>

lemma setStatus_keeps:
  "binv w \<Longrightarrow> open_build job i (blds w) \<Longrightarrow>
     binv (setStatus uc i st msg w) \<and> open_build job i (blds (setStatus uc i st msg w)) \<and> only i (blds w) (blds (setStatus uc i st msg w))"
  using setStatus_effect [of w i st msg] touched_status touched_only by (metis only_refl)

lemma launch_frame:
  "la_Launch (uc_launcher uc) spec (\<lambda>line. publishLog uc i str line) w = Some (r, w') \<Longrightarrow> blds w' = blds w \<and> binv w' = binv w"
  using launch.launch_view [of "\<lambda>line. publishLog uc i str line" spec w r w'] by simp

end

text \<open>With a database that answers.\<close>

locale pipeline_up = pipeline uc blds binv + build_repository_up "uc_builds uc" blds binv
  for uc :: "'w BuildUseCase" and blds :: "'w \<Rightarrow> string \<Rightarrow> Build option" and binv :: "'w \<Rightarrow> bool"
begin

lemma setStatus_up: "binv w \<Longrightarrow> touched i (with_status st msg) (blds w) (blds (setStatus uc i st msg w))"
  unfolding setStatus_def using repo.status [of w i st msg] status_up [of w i st msg] by (metis prod.collapse)

lemma fail_settles:
  assumes "binv w" and "open_build job i (blds w)" and "failBuild uc i err msg w = (out, w')"
  shows "binv w' \<and> only i (blds w) (blds w') \<and> out = Returned (Some (wrap msg err)) \<and> settled job i (Some (wrap msg err)) (blds w')"
proof -
  define w1 where "w1 = publishLog uc i ''stderr'' msg w"
  define w2 where "w2 = setStatus uc i BuildStatusFailed msg w1"
  have w': "out = Returned (Some (wrap msg err))" "w' = bc_MarkComplete (uc_broadcaster uc) i w2"
    using assms(3) by (simp_all add: failBuild_def Let_def w1_def w2_def)
  have b1: "binv w1" "blds w1 = blds w" using assms(1) by (simp_all add: w1_def)
  have t: "touched i (with_status BuildStatusFailed msg) (blds w) (blds w2)" using setStatus_up [OF b1(1), of i BuildStatusFailed msg] b1(2) by (simp add: w2_def)
  have "settled job i (Some (wrap msg err)) (blds w2)" using touched_status [OF t assms(2)] by (auto simp: settled_def open_build_def)
  then show ?thesis
    using w' touched_only [OF t] setStatus_effect [OF b1(1), of i BuildStatusFailed msg] complete_frame [of i w2] by (simp add: w2_def)
qed

lemma done_settles:
  assumes inv: "binv w" and opn: "open_build job i (blds w)" and dig: "HasPrefix digest ''sha256:''"
    and 1: "br_UpdateImageRef (uc_builds uc) i (destination job) digest 0 w = (r1, w1)" and 2: "br_MarkCompleted (uc_builds uc) i w1 = (r2, w2)"
  shows "binv w2 \<and> only i (blds w) (blds w2) \<and> settled job i None (blds w2)"
proof -
  have t1: "binv w1" "touched i (with_image (destination job) digest 0) (blds w) (blds w1)"
    using repo.image [OF inv 1] image_up [OF inv, of i "destination job" digest 0] 1 by auto
  have t2: "binv w2" "touched i with_completed (blds w1) (blds w2)" using repo.completed [OF t1(1) 2] completed_up [OF t1(1), of i] 2 by auto
  then show ?thesis using touched_done [OF t1(2) t2(2) opn] only_trans [OF touched_only [OF t1(2)] touched_only [OF t2(2)]] dig
    by (auto simp: settled_def)
qed

lemma launch_settles:
  assumes inv: "binv w" and opn: "open_build job i (blds w)" and run: "launchStep uc job i df w = Some (Returned res, w')"
  shows "binv w' \<and> only i (blds w) (blds w') \<and> settled job i res (blds w')"
proof -
  define w1 where "w1 = setStatus uc i BuildStatusBuilding [] w"
  define w2 where "w2 = publishLog uc i ''stdout'' ''Starting Kaniko build job...'' w1"
  have k: "binv w2" "open_build job i (blds w2)" "only i (blds w) (blds w2)"
    using setStatus_keeps [OF inv opn, of BuildStatusBuilding "[]"] by (simp_all add: w2_def w1_def)
  obtain r w3 where l: "la_Launch (uc_launcher uc) (build_spec job i df) (\<lambda>line. publishLog uc i ''stdout'' line) w2 = Some (r, w3)"
    using run by (auto simp: launchStep_def Let_def w1_def w2_def split: if_splits option.splits)
  have k3: "binv w3" "blds w3 = blds w2" using launch_frame [OF l] k(1) by auto
  show ?thesis
  proof (cases r)
    case (Inl err)
    then have "failBuild uc i err (''Kaniko job failed: '' @ Error err) w3 = (Returned res, w')"
      using run l by (auto simp: launchStep_def Let_def w1_def w2_def split: if_splits)
    from fail_settles [OF k3(1) _ this] k k3 show ?thesis using only_trans by auto
  next
    case (Inr digest)
    obtain r4 w4 where 4: "br_UpdateImageRef (uc_builds uc) i (destination job) digest 0 w3 = (r4, w4)" by fastforce
    obtain r5 w5 where 5: "br_MarkCompleted (uc_builds uc) i w4 = (r5, w5)" by fastforce
    have w': "res = None" "w' = bc_MarkComplete (uc_broadcaster uc) i (publishLog uc i ''stdout'' (''Build completed successfully. Digest: '' @ digest) w5)"
      using run l Inr 4 5 by (auto simp: launchStep_def Let_def w1_def w2_def split: if_splits)
    have "binv w5 \<and> only i (blds w3) (blds w5) \<and> settled job i None (blds w5)"
      using done_settles [OF k3(1) _ _ 4 5] k(2) k3(2) launch.launch_digest l Inr by simp
    then show ?thesis using w' k k3 complete_frame only_trans by auto
  qed
qed

lemma generate_settles:
  assumes inv: "binv w" and opn: "open_build job i (blds w)" and run: "generateStep uc job i det w = Some (Returned res, w')"
  shows "binv w' \<and> only i (blds w) (blds w') \<and> settled job i res (blds w')"
proof -
  define w1 where "w1 = setStatus uc i BuildStatusGenerating [] w"
  define w2 where "w2 = publishLog uc i ''stdout'' ''Generating Dockerfile...'' w1"
  have k: "binv w1" "open_build job i (blds w1)" "only i (blds w) (blds w1)"
    using setStatus_keeps [OF inv opn, of BuildStatusGenerating "[]"] by (simp_all add: w1_def)
  have k2: "binv w2" "blds w2 = blds w1" using k by (simp_all add: w2_def)
  consider df where "launchStep uc job i df w1 = Some (Returned res, w')" | df where "launchStep uc job i df w2 = Some (Returned res, w')"
    | err where "failBuild uc i err (''Dockerfile generation failed: '' @ Error err) w2 = (Returned res, w')"
    using run by (auto simp: generateStep_def Let_def w1_def w2_def split: if_splits sum.splits)
  then show ?thesis
  proof cases
    case (1 df)
    from launch_settles [OF k(1,2) this] show ?thesis using k(3) only_trans by blast
  next
    case (2 df)
    from launch_settles [OF k2(1) _ this] k k2 show ?thesis using only_trans by auto
  next
    case (3 err)
    from fail_settles [OF k2(1) _ this] k k2 show ?thesis using only_trans by auto
  qed
qed

lemma detect_settles:
  assumes inv: "binv w" and opn: "open_build job i (blds w)" and run: "detectStep uc job i w = Some (Returned res, w')"
  shows "binv w' \<and> only i (blds w) (blds w') \<and> settled job i res (blds w')"
proof -
  define w2 where "w2 = publishLog uc i ''stdout'' ''Cloned successfully.''
     (publishLog uc i ''stdout'' (''Cloning repository '' @ bj_GitRepoURL job @ '' (branch '' @ bj_GitBranch job @ '')...'') w)"
  define w4 where "w4 = publishLog uc i ''stdout'' ''Detecting language and framework...'' (setStatus uc i BuildStatusDetecting [] w2)"
  have "binv w2" "blds w2 = blds w" using inv by (simp_all add: w2_def)
  then have k: "binv w4" "open_build job i (blds w4)" "only i (blds w) (blds w4)"
    using setStatus_keeps [of w2 job i BuildStatusDetecting "[]"] opn by (simp_all add: w4_def)
  consider err where "failBuild uc i err (''Detection failed: '' @ Error err) w4 = (Returned res, w')"
    | det tx where "generateStep uc job i det (publishLog uc i ''stdout'' tx w4) = Some (Returned res, w')"
    using run by (auto simp: detectStep_def Let_def w2_def w4_def split: option.splits sum.splits)
  then show ?thesis
  proof cases
    case (1 err)
    from fail_settles [OF k(1,2) this] show ?thesis using k(3) only_trans by blast
  next
    case (2 det tx)
    from generate_settles [OF _ _ this] k show ?thesis using only_trans by auto
  qed
qed

lemma execute_settles:
  assumes inv: "binv w" and now: "uc_Now uc w = (now, w0)" and new: "blds w (build_id job now) = None"
    and run: "Execute uc job w = Some (Returned res, w')"
  shows "binv w' \<and> only (build_id job now) (blds w) (blds w') \<and> settled job (build_id job now) res (blds w')"
proof -
  let ?i = "build_id job now"
  have n: "blds w0 = blds w" "binv w0" using now_frame [OF now] inv by simp_all
  obtain r w1 where c: "br_Create (uc_builds uc) (new_build job ?i) w0 = (r, w1)" by fastforce
  have id: "b_ID (new_build job ?i) = ?i" by (simp add: new_build_def)
  have "r = None" using create_up [OF n(2), of "new_build job ?i"] new n(1) id c by simp
  then obtain t where w1: "binv w1" "blds w1 = (blds w)(?i \<mapsto> fresh t (new_build job ?i))"
    using repo.create [OF n(2) c] n(1) id by auto
  have o1: "open_build job ?i (blds w1)" by (simp add: w1(2) open_build_def of_job_def fresh_def new_build_def)
  have "detectStep uc job ?i w1 = Some (Returned res, w')"
    using run now c \<open>r = None\<close> by (auto simp: Execute_def Let_def split: if_splits)
  from detect_settles [OF w1(1) o1 this] show ?thesis using w1(2) only_trans [of ?i "blds w" "blds w1" "blds w'"] by (auto simp: only_def)
qed

text \<open>Every run that gets past the two slice expressions and the detector returns, if the launcher does.\<close>

lemma execute_returns:
  assumes "\<And>spec logFn w. la_Launch (uc_launcher uc) spec logFn w \<noteq> None" and "\<And>dir w. uc_detector uc dir w \<noteq> None"
    and "8 \<le> length (bj_WorkloadID job)" and "7 \<le> length (bj_GitCommitSHA job)"
  shows "\<exists>res w'. Execute uc job w = Some (Returned res, w')"
proof -
  have fail: "\<exists>res w'. failBuild uc i e m w = (Returned res, w')" for i e m w by (simp add: failBuild_def Let_def)
  have l: "\<exists>res w'. launchStep uc job i df w = Some (Returned res, w')" for i df w
    unfolding launchStep_def Let_def using assms(1,4) fail by (simp split: option.splits prod.splits sum.splits)
  have g: "\<exists>res w'. generateStep uc job i d w = Some (Returned res, w')" for i d w
    unfolding generateStep_def Let_def using l fail by (simp split: sum.splits)
  have d: "\<exists>res w'. detectStep uc job i w = Some (Returned res, w')" for i w
    unfolding detectStep_def Let_def using g fail assms(2) by (simp split: option.splits sum.splits)
  show ?thesis unfolding Execute_def Let_def using d assms(3) by (simp split: prod.splits option.splits)
qed

text \<open>A commit identifier of fewer than seven characters makes the slice expression panic once the build is BUILDING.\<close>

lemma execute_short_commit:
  assumes inv: "binv w" and now: "uc_Now uc w = (now, w0)" and new: "blds w (build_id job now) = None"
    and len: "8 \<le> length (bj_WorkloadID job)" "length (bj_GitCommitSHA job) < 7"
    and det: "\<And>w. uc_detector uc (bj_SourcePath job) w = Some (Inr d)" and gen: "dr_HasDockerfile d \<or> uc_generator uc d = Inr df"
  shows "\<exists>w' b. Execute uc job w = Some (Panicked, w') \<and> blds w' (build_id job now) = Some b \<and> b_Status b = BuildStatusBuilding \<and> b_CompletedAt b = None"
proof -
  let ?i = "build_id job now"
  have n: "blds w0 = blds w" "binv w0" using now_frame [OF now] inv by simp_all
  obtain r w1 where c: "br_Create (uc_builds uc) (new_build job ?i) w0 = (r, w1)" by fastforce
  have id: "b_ID (new_build job ?i) = ?i" by (simp add: new_build_def)
  have r: "r = None" using create_up [OF n(2), of "new_build job ?i"] new n(1) id c by simp
  then have w1: "binv w1" "open_build job ?i (blds w1)"
    using repo.create [OF n(2) c] n(1) id by (auto simp: open_build_def of_job_def fresh_def new_build_def)
  have stop: "\<exists>w' b. launchStep uc job ?i path v = Some (Panicked, w') \<and> blds w' ?i = Some b \<and> b_Status b = BuildStatusBuilding \<and> b_CompletedAt b = None"
    if v: "binv v" "open_build job ?i (blds v)" for path v
  proof -
    have "touched ?i (with_status BuildStatusBuilding []) (blds v) (blds (setStatus uc ?i BuildStatusBuilding [] v))" by (rule setStatus_up [OF v(1)])
    from touched_status [OF this v(2)] show ?thesis using len(2) by (auto simp: launchStep_def Let_def open_build_def)
  qed
  define w4 where "w4 = publishLog uc ?i ''stdout'' ''Detecting language and framework...'' (setStatus uc ?i BuildStatusDetecting []
    (publishLog uc ?i ''stdout'' ''Cloned successfully.''
     (publishLog uc ?i ''stdout'' (''Cloning repository '' @ bj_GitRepoURL job @ '' (branch '' @ bj_GitBranch job @ '')...'') w1)))"
  have k4: "binv w4" "open_build job ?i (blds w4)" unfolding w4_def publishLog_frame using setStatus_keeps w1 by simp_all
  obtain tx where e: "detectStep uc job ?i w1 = generateStep uc job ?i d (publishLog uc ?i ''stdout'' tx w4)"
    using det by (simp add: detectStep_def Let_def w4_def)
  define w5 where "w5 = setStatus uc ?i BuildStatusGenerating [] (publishLog uc ?i ''stdout'' tx w4)"
  have k5: "binv w5" "open_build job ?i (blds w5)" unfolding w5_def using setStatus_keeps [of "publishLog uc ?i ''stdout'' tx w4"] k4 by simp_all
  have "\<exists>path v. generateStep uc job ?i d (publishLog uc ?i ''stdout'' tx w4) = launchStep uc job ?i path v \<and> binv v \<and> open_build job ?i (blds v)"
  proof (cases "dr_HasDockerfile d")
    case True
    then show ?thesis using k5 by (auto simp: generateStep_def Let_def w5_def)
  next
    case False
    then have "generateStep uc job ?i d (publishLog uc ?i ''stdout'' tx w4) =
        launchStep uc job ?i (bj_SourcePath job @ ''/Dockerfile'') (publishLog uc ?i ''stdout'' ''Generating Dockerfile...'' w5)"
      using gen by (simp add: generateStep_def Let_def w5_def)
    then show ?thesis using k5 by (metis publishLog_frame)
  qed
  then obtain path v where f: "generateStep uc job ?i d (publishLog uc ?i ''stdout'' tx w4) = launchStep uc job ?i path v"
    "binv v" "open_build job ?i (blds v)" by blast
  have "Execute uc job w = detectStep uc job ?i w1" using len(1) now c r by (simp add: Execute_def Let_def)
  then show ?thesis using e f stop by metis
qed

end

section \<open>Putting stores into a world\<close>

lemma fst_lift_part: "fst (lift_part get put f w) = fst (f (get w))"
  by (simp add: lift_part_def split: prod.splits)

definition lift_builds :: "('w \<Rightarrow> 's) \<Rightarrow> ('s \<Rightarrow> 'w \<Rightarrow> 'w) \<Rightarrow> 's BuildRepository \<Rightarrow> 'w BuildRepository" where
  "lift_builds get put B = \<lparr>br_Create = (\<lambda>b. lift_part get put (br_Create B b)), br_GetByID = (\<lambda>i. lift_part get put (br_GetByID B i)),
     br_ListByWorkload = (\<lambda>i l k. lift_part get put (br_ListByWorkload B i l k)),
     br_UpdateStatus = (\<lambda>i st m. lift_part get put (br_UpdateStatus B i st m)),
     br_UpdateImageRef = (\<lambda>i r d n. lift_part get put (br_UpdateImageRef B i r d n)),
     br_MarkCompleted = (\<lambda>i. lift_part get put (br_MarkCompleted B i))\<rparr>"

lemma lift_builds_up:
  assumes "build_repository_up B blds binv" and put: "\<And>s w. get (put s w) = s"
  shows "build_repository_up (lift_builds get put B) (\<lambda>w. blds (get w)) (\<lambda>w. binv (get w))"
proof -
  have R: "build_repository B blds binv" by (rule build_repository_up.axioms(1) [OF assms(1)])
  note up = build_repository_up.create_up [OF assms(1)] build_repository_up.status_up [OF assms(1)] build_repository_up.image_up [OF assms(1)]
    build_repository_up.completed_up [OF assms(1)] build_repository_up.get_up [OF assms(1)]
  show ?thesis
  proof (unfold_locales, goal_cases)
    case (1 w b res w')
    then obtain s where s: "br_Create B b (get w) = (res, s)" "w' = put s w" by (auto simp: lift_builds_def lift_part_iff)
    show ?case using build_repository.create [OF R 1(1) s(1)] s(2) put by simp
  next
    case (2 w i st m res w')
    then obtain s where s: "br_UpdateStatus B i st m (get w) = (res, s)" "w' = put s w" by (auto simp: lift_builds_def lift_part_iff)
    show ?case using build_repository.status [OF R 2(1) s(1)] s(2) put by simp
  next
    case (3 w i ref dig n res w')
    then obtain s where s: "br_UpdateImageRef B i ref dig n (get w) = (res, s)" "w' = put s w" by (auto simp: lift_builds_def lift_part_iff)
    show ?case using build_repository.image [OF R 3(1) s(1)] s(2) put by simp
  next
    case (4 w i res w')
    then obtain s where s: "br_MarkCompleted B i (get w) = (res, s)" "w' = put s w" by (auto simp: lift_builds_def lift_part_iff)
    show ?case using build_repository.completed [OF R 4(1) s(1)] s(2) put by simp
  next
    case (5 w i out w')
    then obtain s where s: "br_GetByID B i (get w) = (out, s)" "w' = put s w" by (auto simp: lift_builds_def lift_part_iff)
    show ?case using build_repository.get [OF R 5(1) s(1)] s(2) put by simp
  qed (simp_all add: lift_builds_def fst_lift_part up)
qed

section \<open>A pipeline on the model's adapters\<close>

text \<open>PostgreSQL tables, the Redis broadcaster on a channel that accepts everything, the detector on a disk, the generator with a
  parser that accepts everything, and the local launcher.\<close>

record demo_world =
  dw_pool :: "build_row list \<times> build_row list"
  dw_lines :: "LogLine list"
  dw_clock :: gotime

definition demo_disk :: fs where
  "demo_disk = disk ''/src'' [(''go.mod'', go_mod)]"

definition demo_uc :: "demo_world BuildUseCase" where
  "demo_uc = \<lparr>uc_builds = lift_builds dw_pool (\<lambda>s w. w\<lparr>dw_pool := s\<rparr>) (pgBuildRepository (pure_pool build_clash) (\<lambda>_. 0)),
     uc_logs = \<lparr>lr_AppendLine = (\<lambda>l. lift_part dw_lines (\<lambda>s w. w\<lparr>dw_lines := s\<rparr>) (log_AppendLine (pure_pg line_clash) l)),
       lr_GetLines = (\<lambda>i q. lift_part dw_lines (\<lambda>s w. w\<lparr>dw_lines := s\<rparr>) (log_GetLines (pure_pg line_clash) i q))\<rparr>,
     uc_detector = (\<lambda>dir w. Detect demo_disk dir), uc_generator = Generate (\<lambda>c. Inr ()) (\<lambda>_. None), uc_launcher = newLocalLauncher,
     uc_broadcaster = redisBroadcaster (\<lambda>ch p w. (None, w)), uc_Now = (\<lambda>w. (dw_clock w, w\<lparr>dw_clock := dw_clock w + 1\<rparr>))\<rparr>"

definition demo_job :: BuildJob where
  "demo_job = \<lparr>bj_WorkloadID = ''workload-1'', bj_WorkspaceID = ''ws'', bj_GitCommitSHA = ''abcdef0123'', bj_GitRepoURL = ''https://git/x'',
     bj_GitBranch = ''main'', bj_SourcePath = ''/src'', bj_UserImageRef = [], bj_BuildArgs = []\<rparr>"

abbreviation demo_blds :: "demo_world \<Rightarrow> string \<Rightarrow> Build option" where
  "demo_blds w \<equiv> rows_map (fst (dw_pool w))"

abbreviation demo_inv :: "demo_world \<Rightarrow> bool" where
  "demo_inv w \<equiv> uniq build_clash (fst (dw_pool w))"

lemma demo_pool_up: "build_repository_up (pgBuildRepository (pure_pool build_clash) (\<lambda>_. 0)) (\<lambda>s. rows_map (fst s)) (\<lambda>s. uniq build_clash (fst s))"
  by (rule pure_builds.repo.build_repository_up_axioms)

lemma demo_builds_up: "build_repository_up (uc_builds demo_uc) demo_blds demo_inv"
  unfolding demo_uc_def BuildUseCase.simps by (rule lift_builds_up [OF demo_pool_up]) simp

interpretation demo: pipeline_up demo_uc demo_blds demo_inv
proof -
  have B: "build_repository (uc_builds demo_uc) demo_blds demo_inv" by (rule build_repository_up.axioms(1) [OF demo_builds_up])
  have L: "launcher (uc_launcher demo_uc) (\<lambda>w. (demo_blds w, demo_inv w))"
    unfolding demo_uc_def BuildUseCase.simps by (rule local_launcher.launcher_axioms)
  show "pipeline_up demo_uc demo_blds demo_inv"
    unfolding pipeline_up_def pipeline_def using demo_builds_up B L
    by (auto simp: pipeline_axioms_def demo_uc_def redisBroadcaster_def rb_Publish_def rb_MarkComplete_def lift_part_iff split: option.splits)
qed

lemma demo_start: "uc_Now demo_uc \<lparr>dw_pool = ([], []), dw_lines = [], dw_clock = 0\<rparr> = (0, \<lparr>dw_pool = ([], []), dw_lines = [], dw_clock = 1\<rparr>)"
  by (simp add: demo_uc_def)

lemma demo_id: "build_id demo_job 0 = ''b-workload-0''"
  by code_simp

section \<open>Properties\<close>




lemma demo_detector: "uc_detector demo_uc dir w \<noteq> None"
proof -
  have "\<And>n. fs_Stat demo_disk d n \<noteq> StatError" for d by (simp add: demo_disk_def disk_def)
  from Detect_total [OF this] show ?thesis by (simp add: demo_uc_def)
qed

lemma demo_launcher: "la_Launch (uc_launcher demo_uc) spec logFn w \<noteq> None"
  by (simp add: demo_uc_def newLocalLauncher_def local_Launch_def)


text \<open>A job whose commit identifier has fewer than seven characters panics after its build was marked BUILDING: the record stays in that
  status, which no code ever leaves again, although the database and all parts of the pipeline work.
\<close>

theorem short_commit_stuck:
  assumes "pipeline_up uc blds binv" and "binv w" and "uc_Now uc w = (now, w0)" and "blds w (build_id job now) = None"
    and "8 \<le> length (bj_WorkloadID job)" and "length (bj_GitCommitSHA job) < 7"
    and "\<And>w. uc_detector uc (bj_SourcePath job) w = Some (Inr d)" and "dr_HasDockerfile d \<or> uc_generator uc d = Inr df"
  shows "\<exists>w' b. Execute uc job w = Some (Panicked, w') \<and> blds w' (build_id job now) = Some b \<and>
     b_Status b = BuildStatusBuilding \<and> b_CompletedAt b = None"
  by (rule pipeline_up.execute_short_commit [OF assms])

lemma demo_build_id: "build_id (demo_job\<lparr>bj_GitCommitSHA := sha\<rparr>) now = build_id demo_job now"
  by (simp add: build_id_def)

theorem short_commit_stuck_witness:
  "\<exists>w' b. Execute demo_uc (demo_job\<lparr>bj_GitCommitSHA := ''abc''\<rparr>) \<lparr>dw_pool = ([], []), dw_lines = [], dw_clock = 0\<rparr> = Some (Panicked, w') \<and>
     demo_blds w' ''b-workload-0'' = Some b \<and> b_Status b = BuildStatusBuilding \<and> b_CompletedAt b = None"
proof -
  let ?w = "\<lparr>dw_pool = ([], []), dw_lines = [], dw_clock = 0\<rparr>" and ?j = "demo_job\<lparr>bj_GitCommitSHA := ''abc''\<rparr>"
  let ?d = "\<lparr>dr_Language = ''go'', dr_Framework = ''echo'', dr_RuntimeVersion = ''1.24'', dr_BuildCommand = ''go build -o server .'',
     dr_StartCommand = ''./server'', dr_ExposedPort = 8080, dr_HasDockerfile = False, dr_Confidence = 85\<rparr>"
  have l: "8 \<le> length (bj_WorkloadID ?j)" "length (bj_GitCommitSHA ?j) < 7" by (simp_all add: demo_job_def)
  have i: "demo_inv ?w" "demo_blds ?w (build_id ?j 0) = None" by simp_all
  have d: "uc_detector demo_uc (bj_SourcePath ?j) v = Some (Inr ?d)" for v
    using detect_go_mod by (simp add: demo_uc_def demo_disk_def demo_job_def)
  have g: "dr_HasDockerfile ?d \<or> uc_generator demo_uc ?d = Inr (render ?d goDockerfileTemplate)"
    by (simp add: demo_uc_def Generate_def template_for_def LanguageGo_def Validate_def)
  from short_commit_stuck [OF demo.pipeline_up_axioms i(1) demo_start i(2) l d g] show ?thesis
    unfolding demo_build_id demo_id .
qed

section \<open>The worker\<close>

text \<open>Every error of a run is wrapped behind a text of the pipeline.\<close>

lemma fail_text: "failBuild uc i err msg w = (Returned (Some e), w') \<Longrightarrow> e = wrap msg err"
  by (simp add: failBuild_def Let_def)

lemma launch_text:
  "launchStep uc job i df w = Some (Returned (Some e), w') \<Longrightarrow> \<exists>m x. e = wrap (''Kaniko job failed: '' @ m) x"
  by (auto simp: launchStep_def Let_def split: if_splits option.splits prod.splits sum.splits dest!: fail_text)

lemma execute_text:
  assumes "Execute uc job w = Some (Returned (Some e), w')"
  shows "\<exists>m x c. e = wrap (c # m) x \<and> c \<in> {CHR ''f'', CHR ''D'', CHR ''K''}"
proof -
  have g: "\<exists>m x c. e = wrap (c # m) x \<and> c \<in> {CHR ''f'', CHR ''D'', CHR ''K''}" if "generateStep uc job i d v = Some (Returned (Some e), w')" for i d v
    using that launch_text [of uc job i _ _ e w'] fail_text [of uc i _ _ _ e w']
    by (fastforce simp: generateStep_def Let_def split: if_splits sum.splits)
  have "\<exists>m x c. e = wrap (c # m) x \<and> c \<in> {CHR ''f'', CHR ''D'', CHR ''K''}" if "detectStep uc job i v = Some (Returned (Some e), w')" for i v
    using that g [of i] fail_text [of uc i _ _ _ e w']
    by (fastforce simp: detectStep_def Let_def split: option.splits sum.splits)
  then show ?thesis using assms
    by (auto simp: Execute_def Let_def split: if_splits prod.splits option.splits)
qed

text \<open>The worker compares the text of the error with the texts of the domain's sentinels, but every error of a run carries a text in
  front: whatever the pipeline fails with, also when the language cannot be detected, the Dockerfile is invalid or the Kaniko job failed,
  the worker reports a transient error and the task is retried.
\<close>

theorem worker_always_retries:
  assumes "bj_unmarshal p = Inr job" and "Execute uc job w = Some (Returned (Some err), w')"
  shows "ProcessTask uc p w = Some (Returned (Some (wrap ''transient build error, retrying'' err)), w')"
proof -
  obtain m x c where e: "err = wrap (c # m) x" "c \<in> {CHR ''f'', CHR ''D'', CHR ''K''}" using execute_text [OF assms(2)] by blast
  have "mapError err = wrap ''transient build error, retrying'' err" using e by (auto simp: mapError_def)
  then show ?thesis using assms by (simp add: ProcessTask_def)
qed

lemma execute_detect_fails:
  assumes "\<And>w. uc_detector uc (bj_SourcePath job) w = Some (Inl e)" and "Execute uc job w = Some (out, w')"
  shows "out \<noteq> Returned None"
  using assms(2) by (auto simp: Execute_def detectStep_def failBuild_def Let_def assms(1) split: if_splits prod.splits option.splits)

lemma execute_detect_ends:
  assumes "\<And>w. uc_detector uc (bj_SourcePath job) w = Some (Inl e)"
  shows "\<exists>out w'. Execute uc job w = Some (out, w')"
  by (simp add: Execute_def detectStep_def failBuild_def Let_def assms split: prod.splits option.splits)

theorem worker_always_retries_witness:
  "\<exists>err w'. ProcessTask demo_uc (Doc (JObj [(''workload_id'', JStr ''workload-1''), (''git_commit_sha'', JStr ''abcdef0'')]))
     \<lparr>dw_pool = ([], []), dw_lines = [], dw_clock = 0\<rparr> = Some (Returned (Some (wrap ''transient build error, retrying'' err)), w')"
proof -
  let ?w = "\<lparr>dw_pool = ([], []), dw_lines = [], dw_clock = 0\<rparr>"
  let ?j = "zero_BuildJob\<lparr>bj_WorkloadID := ''workload-1'', bj_GitCommitSHA := ''abcdef0''\<rparr>"
  have u: "bj_unmarshal (Doc (JObj [(''workload_id'', JStr ''workload-1''), (''git_commit_sha'', JStr ''abcdef0'')])) = Inr ?j"
    by (simp add: bj_unmarshal_def zero_BuildJob_def fld_def field_values_def ToLower_def lower_char_def)
  have l: "8 \<le> length (bj_WorkloadID ?j)" "7 \<le> length (bj_GitCommitSHA ?j)" by simp_all
  obtain res w' where r: "Execute demo_uc ?j ?w = Some (Returned res, w')"
    using demo.execute_returns [OF demo_launcher demo_detector l] by blast
  have "uc_detector demo_uc (bj_SourcePath ?j) v = Some (Inl (Sent ErrDetectionFailed))" for v
    by (simp add: demo_uc_def demo_disk_def disk_def Detect_def zero_BuildJob_def)
  from execute_detect_fails [OF this r] obtain err where "res = Some err" by auto
  with r have "Execute demo_uc ?j ?w = Some (Returned (Some err), w')" by simp
  from worker_always_retries [OF u this] show ?thesis by blast
qed

section \<open>Tasks of the ingestion service\<close>

text \<open>Of the fields of a queued build task the worker knows the workload only.\<close>

lemma queued_job: "bj_unmarshal (Doc (t_Payload (buildTask str i ev))) = Inr (zero_BuildJob\<lparr>bj_WorkloadID := i\<rparr>)"
  by (simp add: buildTask_def bp_marshal_def bj_unmarshal_def zero_BuildJob_def fld_def field_values_def ToLower_def lower_char_def)

text \<open>The build task that the ingestion service queues for a webhook does not fit the build worker: its type is another one, and even when
  it is handed to the worker no run succeeds, since the repository, branch, commit and source path are lost and the detector fails on the
  empty path.
\<close>

theorem queued_build_never_succeeds:
  assumes "\<And>w. uc_detector uc [] w = Some (Inl (Sent ErrDetectionFailed))" and "ProcessTask uc (Doc (t_Payload (buildTask str i ev))) w = Some (out, w')"
  shows "t_Type (buildTask str i ev) \<noteq> Build_Pipeline.TaskTypeBuild \<and> out \<noteq> Returned None"
proof -
  let ?j = "zero_BuildJob\<lparr>bj_WorkloadID := i\<rparr>"
  have p: "bj_SourcePath ?j = []" by (simp add: zero_BuildJob_def)
  have "out \<noteq> Returned None"
  proof (cases "Execute uc ?j w")
    case (Some ov)
    obtain o2 v where ov: "ov = (o2, v)" by fastforce
    have "o2 \<noteq> Returned None" using execute_detect_fails [of uc ?j] assms(1) p Some ov by metis
    then show ?thesis using assms(2) Some ov by (auto simp: ProcessTask_def queued_job split: exec_out.splits option.splits)
  qed (use assms(2) in \<open>simp add: ProcessTask_def queued_job\<close>)
  then show ?thesis by (simp add: buildTask_def Ingestion_Usecases.TaskTypeBuild_def Build_Pipeline.TaskTypeBuild_def)
qed

definition demo_event :: WebhookEvent where
  "demo_event = webhookEvent \<lparr>pi_Provider = WebhookProviderGitHub, pi_RawPayload = [], pi_Signature = []\<rparr>"

theorem queued_build_never_succeeds_witness:
  "\<exists>out w'. ProcessTask demo_uc (Doc (t_Payload (buildTask (\<lambda>_. []) ''workload-1'' demo_event))) \<lparr>dw_pool = ([], []), dw_lines = [], dw_clock = 0\<rparr>
     = Some (out, w') \<and> out \<noteq> Returned None"
proof -
  let ?w = "\<lparr>dw_pool = ([], []), dw_lines = [], dw_clock = 0\<rparr>" and ?p = "Doc (t_Payload (buildTask (\<lambda>_. []) ''workload-1'' demo_event))"
  have d: "uc_detector demo_uc [] w = Some (Inl (Sent ErrDetectionFailed))" for w
    by (simp add: demo_uc_def demo_disk_def disk_def Detect_def)
  have "\<exists>out w'. Execute demo_uc (zero_BuildJob\<lparr>bj_WorkloadID := ''workload-1''\<rparr>) ?w = Some (out, w')"
    by (rule execute_detect_ends) (simp add: zero_BuildJob_def d)
  then have "\<exists>out w'. ProcessTask demo_uc ?p ?w = Some (out, w')"
    by (simp add: ProcessTask_def queued_job split: exec_out.splits option.splits)
  then obtain out w' where r: "ProcessTask demo_uc ?p ?w = Some (out, w')" by blast
  from queued_build_never_succeeds [OF d r] r show ?thesis by blast
qed

end
