(* ===== verification/Control_Plane.thy ===== *)
theory Control_Plane
  imports Http
begin

text \<open>
  The control plane as far as the repository has it: the state and the messages of the consensus engine,
  the cloud adapters, the probers, and the procedures of the consensus, replication, provisioner and
  build services. The engine has its initial state and no transitions, the adapters and probers report
  success without a result, and the procedures answer \<^verbatim>\<open>unimplemented\<close>; this theory says so, so that a
  later implementation has a place to start from. Interfaces that nothing implements (log, transport,
  membership, election, state machine) are type parameters of the engine.
\<close>

section \<open>Consensus\<close>

type_synonym NodeID = string
type_synonym Term = "64 word"
type_synonym LogIndex = "64 word"

text \<open>A role is an integer; three of them have names.\<close>

type_synonym RaftRole = int

abbreviation Follower :: RaftRole where "Follower \<equiv> 0"
abbreviation Candidate :: RaftRole where "Candidate \<equiv> 1"
abbreviation Leader :: RaftRole where "Leader \<equiv> 2"

definition RaftRole_String :: "RaftRole \<Rightarrow> string" where
  "RaftRole_String r =
     (if r = Follower then ''follower'' else if r = Candidate then ''candidate''
      else if r = Leader then ''leader'' else ''unknown'')"

record raft_Config =
  rc_NodeID :: NodeID
  rc_BindAddr :: string
  rc_Peers :: "string list"
  rc_DataDir :: string
  rc_ElectionTimeoutMin :: duration
  rc_ElectionTimeoutMax :: duration
  rc_HeartbeatInterval :: duration
  rc_MaxLogEntriesPerReq :: int
  rc_SnapshotThreshold :: "64 word"

abbreviation milliseconds :: "int \<Rightarrow> duration" where
  "milliseconds n \<equiv> n * 1000000"

definition DefaultConfig :: "NodeID \<Rightarrow> raft_Config" where
  "DefaultConfig nodeID =
     \<lparr>rc_NodeID = nodeID, rc_BindAddr = [], rc_Peers = [], rc_DataDir = [],
      rc_ElectionTimeoutMin = milliseconds 150, rc_ElectionTimeoutMax = milliseconds 300,
      rc_HeartbeatInterval = milliseconds 50, rc_MaxLogEntriesPerReq = 100, rc_SnapshotThreshold = 10000\<rparr>"

record LogEntry =
  le_Index :: LogIndex
  le_Term :: Term
  le_CommandType :: string
  le_Payload :: bytes

record Member =
  mb_NodeID :: NodeID
  mb_Addr :: string

record VoteRequest =
  vq_Term :: Term
  vq_CandidateID :: NodeID
  vq_LastLogIndex :: LogIndex
  vq_LastLogTerm :: Term

record VoteResponse =
  vr_Term :: Term
  vr_VoteGranted :: bool

record AppendEntriesRequest =
  aq_Term :: Term
  aq_LeaderID :: NodeID
  aq_PrevLogIndex :: LogIndex
  aq_PrevLogTerm :: Term
  aq_Entries :: "LogEntry list"
  aq_LeaderCommit :: LogIndex

record AppendEntriesResponse =
  ap_Term :: Term
  ap_Success :: bool
  ap_MatchIndex :: LogIndex

record raft_State =
  rs_NodeID :: NodeID
  rs_Role :: RaftRole
  rs_CurrentTerm :: Term
  rs_VotedFor :: NodeID
  rs_LeaderID :: NodeID
  rs_CommitIndex :: LogIndex
  rs_LastApplied :: LogIndex

definition NewState :: "NodeID \<Rightarrow> raft_State" where
  "NewState nodeID =
     \<lparr>rs_NodeID = nodeID, rs_Role = Follower, rs_CurrentTerm = 0, rs_VotedFor = [], rs_LeaderID = [],
      rs_CommitIndex = 0, rs_LastApplied = 0\<rparr>"

record ('log, 'tr, 'sm, 'ms, 'el) Raft =
  rf_config :: raft_Config
  rf_state :: raft_State
  rf_log :: 'log
  rf_transport :: 'tr
  rf_sm :: 'sm
  rf_membership :: 'ms
  rf_election :: 'el

definition NewRaft :: "raft_Config \<Rightarrow> 'log \<Rightarrow> 'tr \<Rightarrow> 'sm \<Rightarrow> 'ms \<Rightarrow> 'el \<Rightarrow> ('log, 'tr, 'sm, 'ms, 'el) Raft" where
  "NewRaft cfg lg transport sm membership election =
     \<lparr>rf_config = cfg, rf_state = NewState (rc_NodeID cfg), rf_log = lg, rf_transport = transport, rf_sm = sm,
      rf_membership = membership, rf_election = election\<rparr>"

section \<open>Procedures without an implementation\<close>

text \<open>Unary procedures return an error, streams end with one; neither touches the state.\<close>

definition rpc_unimplemented :: "'w \<Rightarrow> (rpc_error + 'a) \<times> 'w" where
  "rpc_unimplemented w = (Inl (ConnectErr CodeUnimplemented ''not implemented''), w)"

definition stub_GetClusterState :: "'q \<Rightarrow> 'w \<Rightarrow> (rpc_error + 'a) \<times> 'w" where
  "stub_GetClusterState req = rpc_unimplemented"

definition stub_StreamClusterState :: "'q \<Rightarrow> 'w \<Rightarrow> (rpc_error + 'a) \<times> 'w" where
  "stub_StreamClusterState req = rpc_unimplemented"

definition stub_RequestVote :: "'q \<Rightarrow> 'w \<Rightarrow> (rpc_error + 'a) \<times> 'w" where
  "stub_RequestVote req = rpc_unimplemented"

definition stub_AppendEntries :: "'q \<Rightarrow> 'w \<Rightarrow> (rpc_error + 'a) \<times> 'w" where
  "stub_AppendEntries req = rpc_unimplemented"

definition stub_GetReplicationStatus :: "'q \<Rightarrow> 'w \<Rightarrow> (rpc_error + 'a) \<times> 'w" where
  "stub_GetReplicationStatus req = rpc_unimplemented"

definition stub_StreamReplicationMetrics :: "'q \<Rightarrow> 'w \<Rightarrow> (rpc_error + 'a) \<times> 'w" where
  "stub_StreamReplicationMetrics req = rpc_unimplemented"

definition stub_PromoteStandby :: "'q \<Rightarrow> 'w \<Rightarrow> (rpc_error + 'a) \<times> 'w" where
  "stub_PromoteStandby req = rpc_unimplemented"

definition stub_ProvisionWorkload :: "'q \<Rightarrow> 'w \<Rightarrow> (rpc_error + 'a) \<times> 'w" where
  "stub_ProvisionWorkload req = rpc_unimplemented"

definition stub_ExecuteFailover :: "'q \<Rightarrow> 'w \<Rightarrow> (rpc_error + 'a) \<times> 'w" where
  "stub_ExecuteFailover req = rpc_unimplemented"

definition stub_GetResourceStatus :: "'q \<Rightarrow> 'w \<Rightarrow> (rpc_error + 'a) \<times> 'w" where
  "stub_GetResourceStatus req = rpc_unimplemented"

definition stub_TriggerBuild :: "'q \<Rightarrow> 'w \<Rightarrow> (rpc_error + 'a) \<times> 'w" where
  "stub_TriggerBuild req = rpc_unimplemented"

definition stub_StreamBuildLogs :: "'q \<Rightarrow> 'w \<Rightarrow> (rpc_error + 'a) \<times> 'w" where
  "stub_StreamBuildLogs req = rpc_unimplemented"

definition stub_GetBuildResult :: "'q \<Rightarrow> 'w \<Rightarrow> (rpc_error + 'a) \<times> 'w" where
  "stub_GetBuildResult req = rpc_unimplemented"

section \<open>Cloud adapters\<close>

record ComputeRequest =
  cq_WorkloadName :: string
  cq_Region :: string
  cq_CPU :: string
  cq_Memory :: string
  cq_Replicas :: "32 word"
  cq_ImageRef :: string
  cq_Port :: "32 word"

record ComputeResult =
  cs_ResourceID :: string
  cs_Endpoint :: string
  cs_Status :: string

record DatabaseRequest =
  dq_WorkloadName :: string
  dq_Region :: string
  dq_Engine :: string
  dq_Version :: string
  dq_StorageGB :: "32 word"

record DatabaseResult =
  ds_ResourceID :: string
  ds_Endpoint :: string
  ds_Status :: string

record HealthResult =
  hs_Healthy :: bool
  hs_Status :: string

text \<open>The interface. A result is a pointer, which may be nil although there is no error.\<close>

record 'w CloudAdapter =
  ca_ProvisionCompute :: "ComputeRequest \<Rightarrow> 'w \<Rightarrow> (string + ComputeResult option) \<times> 'w"
  ca_ProvisionDatabase :: "DatabaseRequest \<Rightarrow> 'w \<Rightarrow> (string + DatabaseResult option) \<times> 'w"
  ca_DestroyCompute :: "string \<Rightarrow> 'w \<Rightarrow> string option \<times> 'w"
  ca_DestroyDatabase :: "string \<Rightarrow> 'w \<Rightarrow> string option \<times> 'w"
  ca_GetHealth :: "string \<Rightarrow> 'w \<Rightarrow> (string + HealthResult option) \<times> 'w"
  ca_Provider :: string

definition aws_Adapter :: "'w CloudAdapter" where
  "aws_Adapter = \<lparr>ca_ProvisionCompute = (\<lambda>req w. (Inr None, w)), ca_ProvisionDatabase = (\<lambda>req w. (Inr None, w)),
     ca_DestroyCompute = (\<lambda>i w. (None, w)), ca_DestroyDatabase = (\<lambda>i w. (None, w)), ca_GetHealth = (\<lambda>i w. (Inr None, w)),
     ca_Provider = ''aws''\<rparr>"

definition azure_Adapter :: "'w CloudAdapter" where
  "azure_Adapter = \<lparr>ca_ProvisionCompute = (\<lambda>req w. (Inr None, w)), ca_ProvisionDatabase = (\<lambda>req w. (Inr None, w)),
     ca_DestroyCompute = (\<lambda>i w. (None, w)), ca_DestroyDatabase = (\<lambda>i w. (None, w)), ca_GetHealth = (\<lambda>i w. (Inr None, w)),
     ca_Provider = ''azure''\<rparr>"

definition gcp_Adapter :: "'w CloudAdapter" where
  "gcp_Adapter = \<lparr>ca_ProvisionCompute = (\<lambda>req w. (Inr None, w)), ca_ProvisionDatabase = (\<lambda>req w. (Inr None, w)),
     ca_DestroyCompute = (\<lambda>i w. (None, w)), ca_DestroyDatabase = (\<lambda>i w. (None, w)), ca_GetHealth = (\<lambda>i w. (Inr None, w)),
     ca_Provider = ''gcp''\<rparr>"

section \<open>Probers\<close>

record ProbeResult =
  pr_Name :: string
  pr_Healthy :: bool
  pr_Latency :: duration
  pr_Error :: string
  pr_CheckedAt :: gotime

datatype Prober = HTTPProber string | TCPProber string | DBProber string

fun Prober_Name :: "Prober \<Rightarrow> string" where
  "Prober_Name (HTTPProber endpoint) = ''http''"
| "Prober_Name (TCPProber addr) = ''tcp''"
| "Prober_Name (DBProber dsn) = ''db''"

fun Probe :: "Prober \<Rightarrow> 'w \<Rightarrow> (string + ProbeResult option) \<times> 'w" where
  "Probe (HTTPProber endpoint) w = (Inr None, w)"
| "Probe (TCPProber addr) w = (Inr None, w)"
| "Probe (DBProber dsn) w = (Inr None, w)"

section \<open>The database handle\<close>

record 'w pgxpool =
  pl_Close :: "'w \<Rightarrow> 'w"
  pl_Ping :: "'w \<Rightarrow> string option \<times> 'w"

record 'w PGStore =
  st_pool :: "'w pgxpool"

definition NewPGStore :: "'w pgxpool \<Rightarrow> 'w PGStore" where
  "NewPGStore pool = \<lparr>st_pool = pool\<rparr>"

definition PGStore_Close :: "'w PGStore \<Rightarrow> 'w \<Rightarrow> 'w" where
  "PGStore_Close s w = pl_Close (st_pool s) w"

definition PGStore_Ping :: "'w PGStore \<Rightarrow> 'w \<Rightarrow> string option \<times> 'w" where
  "PGStore_Ping s w = pl_Ping (st_pool s) w"

section \<open>What can be said\<close>

text \<open>The names tell the three roles apart, and from everything else.\<close>

lemma RaftRole_String_eq:
  "r \<in> {Follower, Candidate, Leader} \<Longrightarrow> RaftRole_String r = RaftRole_String q \<longleftrightarrow> r = q"
  by (auto simp: RaftRole_String_def)

text \<open>The default timing lets a follower miss two heartbeats before the earliest election, and leaves a
  window in which elections are spread.\<close>

lemma DefaultConfig_timing:
  "3 * rc_HeartbeatInterval (DefaultConfig n) \<le> rc_ElectionTimeoutMin (DefaultConfig n)"
  "rc_ElectionTimeoutMin (DefaultConfig n) < rc_ElectionTimeoutMax (DefaultConfig n)"
  by (simp_all add: DefaultConfig_def)

text \<open>A resource that an adapter or a prober reports without an error does not exist.\<close>

lemma adapters_no_result:
  assumes "A \<in> {aws_Adapter, azure_Adapter, gcp_Adapter}"
  shows "ca_ProvisionCompute A req w = (Inr None, w)" "ca_GetHealth A i w = (Inr None, w)"
    "ca_ProvisionDatabase A dreq w = (Inr None, w)"
  using assms by (auto simp: aws_Adapter_def azure_Adapter_def gcp_Adapter_def)

end
