(* ===== verification/Cli.thy ===== *)
theory Cli
  imports Prelude
begin

text \<open>
  The command line client, \<^verbatim>\<open>cmd/raftweave-cli/main.go\<close>: its tree of commands, with the checks of arguments
  and flags that they ask the package cobra for. Parsing of flags and the help texts are cobra's; a call
  is the path of command names, the values of the flags that were given, and the arguments. The commands
  print what they would do.
\<close>

type_synonym flags = "string \<Rightarrow> string option"

record cmd =
  cd_Use :: string
  cd_Short :: string
  cd_ExactArgs :: "nat option"
  cd_Required :: "string list"
  cd_Run :: "flags \<Rightarrow> string list \<Rightarrow> string"

definition flag :: "flags \<Rightarrow> string \<Rightarrow> string" where
  "flag fs k = (case fs k of None \<Rightarrow> [] | Some v \<Rightarrow> v)"

definition line :: "string \<Rightarrow> string" where
  "line s = s @ [newline]"

definition newApplyCmd :: cmd where
  "newApplyCmd = \<lparr>cd_Use = ''apply'', cd_Short = ''Submit a workload descriptor'', cd_ExactArgs = None, cd_Required = [''file''],
     cd_Run = (\<lambda>fs args. line (''applying workload from '' @ flag fs ''file''))\<rparr>"

definition newStatusCmd :: cmd where
  "newStatusCmd = \<lparr>cd_Use = ''status [workload-name]'', cd_Short = ''Get cluster status for a workload'', cd_ExactArgs = Some 1,
     cd_Required = [], cd_Run = (\<lambda>fs args. line (''status for workload: '' @ args ! 0))\<rparr>"

definition newLogsCmd :: cmd where
  "newLogsCmd = \<lparr>cd_Use = ''logs [workload-name]'', cd_Short = ''Stream build/runtime logs for a workload'', cd_ExactArgs = Some 1,
     cd_Required = [], cd_Run = (\<lambda>fs args. line (''streaming logs for: '' @ args ! 0))\<rparr>"

definition newFailoverCmd :: cmd where
  "newFailoverCmd = \<lparr>cd_Use = ''failover [workload-name]'', cd_Short = ''Trigger a manual failover for a workload'',
     cd_ExactArgs = Some 1, cd_Required = [''to''],
     cd_Run = (\<lambda>fs args. line (''triggering failover for '' @ args ! 0 @ '' to '' @ flag fs ''to''))\<rparr>"

definition cloudAddCmd :: cmd where
  "cloudAddCmd = \<lparr>cd_Use = ''add [provider]'', cd_Short = ''Add cloud credentials for a provider (aws, azure, gcp)'',
     cd_ExactArgs = Some 1, cd_Required = [], cd_Run = (\<lambda>fs args. line (''adding cloud credentials for: '' @ args ! 0))\<rparr>"

definition newVersionCmd :: "string \<Rightarrow> cmd" where
  "newVersionCmd version = \<lparr>cd_Use = ''version'', cd_Short = ''Print version information'', cd_ExactArgs = None, cd_Required = [],
     cd_Run = (\<lambda>fs args. line (''raftweave version '' @ version))\<rparr>"

text \<open>A command is named by the first word of its usage; the cloud command groups another one.\<close>

definition commands :: "string \<Rightarrow> (string list \<times> cmd) list" where
  "commands version =
     [([''apply''], newApplyCmd), ([''status''], newStatusCmd), ([''logs''], newLogsCmd), ([''failover''], newFailoverCmd),
      ([''cloud'', ''add''], cloudAddCmd), ([''version''], newVersionCmd version)]"

section \<open>Running a command\<close>

text \<open>What the program relies on: cobra runs the command that was named if the number of arguments is right
  and the required flags were given, and reports an error otherwise, upon which the process ends with
  status 1.\<close>

type_synonym cobra = "(string list \<times> cmd) list \<Rightarrow> string list \<Rightarrow> flags \<Rightarrow> string list \<Rightarrow> string + string"

definition args_ok :: "cmd \<Rightarrow> flags \<Rightarrow> string list \<Rightarrow> bool" where
  "args_ok c fs args =
     ((case cd_ExactArgs c of None \<Rightarrow> True | Some n \<Rightarrow> length args = n) \<and> list_all (\<lambda>k. fs k \<noteq> None) (cd_Required c))"

locale cobra_api =
  fixes Execute :: cobra
  assumes runs: "map_of tree path = Some c \<Longrightarrow> args_ok c fs args \<Longrightarrow> Execute tree path fs args = Inr (cd_Run c fs args)"
    and refuses: "map_of tree path = Some c \<Longrightarrow> \<not> args_ok c fs args \<Longrightarrow> \<exists>err. Execute tree path fs args = Inl err"

definition cli_main :: "cobra \<Rightarrow> string \<Rightarrow> string list \<Rightarrow> flags \<Rightarrow> string list \<Rightarrow> nat \<times> string" where
  "cli_main Execute version path fs args =
     (case Execute (commands version) path fs args of Inl err \<Rightarrow> (1, line err) | Inr out \<Rightarrow> (0, out))"

context cobra_api
begin

text \<open>No command reads an argument that was not checked: a failover is announced exactly for one workload
  and one region, the ones that were given.\<close>

lemma failover_call:
  "fst (cli_main Execute v [''failover''] fs args) = 0 \<longleftrightarrow> (\<exists>name region. args = [name] \<and> fs ''to'' = Some region
     \<and> cli_main Execute v [''failover''] fs args = (0, line (''triggering failover for '' @ name @ '' to '' @ region)))"
proof -
  have m: "map_of (commands v) [''failover''] = Some newFailoverCmd" by (simp add: commands_def)
  have ok: "args_ok newFailoverCmd fs args \<longleftrightarrow> (\<exists>name region. args = [name] \<and> fs ''to'' = Some region)"
    by (auto simp: args_ok_def newFailoverCmd_def length_Suc_conv)
  show ?thesis
  proof (cases "args_ok newFailoverCmd fs args")
    case True
    with runs [OF m True] ok show ?thesis by (auto simp: cli_main_def newFailoverCmd_def flag_def)
  next
    case False
    with refuses [OF m False] ok show ?thesis by (auto simp: cli_main_def)
  qed
qed

end

text \<open>A package with that behaviour.\<close>

definition plain_Execute :: cobra where
  "plain_Execute tree path fs args =
     (case map_of tree path of
        None \<Rightarrow> Inl ''unknown command''
      | Some c \<Rightarrow> if args_ok c fs args then Inr (cd_Run c fs args) else Inl ''invalid arguments'')"

interpretation plain: cobra_api plain_Execute
  by unfold_locales (auto simp: plain_Execute_def)

end
