(* ===== verification/Spec2Isabelle.thy ===== *)
theory Spec2Isabelle
  imports Server_Properties Rate_Limit Build_Properties Control_Plane Cli
begin

text \<open>
  RaftWeave: a verification library for the services of the repository.

  \<^bold>\<open>The program.\<close> RaftWeave accepts descriptors of workloads, stores them with encrypted cloud credentials, and builds and
  deploys them on several clouds. Three services hold its logic. The auth service (\<^verbatim>\<open>internal/auth\<close>, \<^verbatim>\<open>internal/middleware\<close>) logs users
  in with one-time passwords and through GitHub and Google, issues signed access tokens and rotating refresh tokens, checks roles and limits request rates. The
  ingestion service (\<^verbatim>\<open>internal/ingestion\<close>) takes submissions and webhooks, writes workloads and credentials to PostgreSQL and queues
  tasks. The build service (\<^verbatim>\<open>internal/build\<close>) takes build tasks from the queue, detects the language of the sources, generates a
  Dockerfile, runs Kaniko on Kubernetes, and records builds and their logs. They meet in the databases, in Redis, and in the task
  queue. One binary (\<^verbatim>\<open>cmd/raftweave-server\<close>) starts one of them by its mode; the services of the control plane (consensus,
  provisioner, replication) are stubs so far.

  \<^bold>\<open>How code becomes definitions.\<close> A struct is a record, a set of sentinel errors a datatype, an operation a function that takes the
  store (or a world of which the store is a part) and returns its result with the new store. Errors are values: \<^verbatim>\<open>goerr\<close> in the auth
  and ingestion services, \<^verbatim>\<open>berr\<close> in the build service, whose worker compares error texts. A panic is a value of its own where the code
  can panic (\<open>Panicked\<close>, \<open>None\<close> of the detector and of the broadcaster). A loop that may run for ever is a partial function into an
  option. Instants, fresh identifiers and random bytes are arguments, or answers of a clock that is part of the world. Strings are
  byte sequences; case folding is that of ASCII; a nil slice or map is the empty list; JSON documents are trees; enumerations of the
  protocol are integers, as any number may arrive; machine integers are words where their width matters.

  \<^bold>\<open>Services outside the repository\<close> are parameters: a function per call. What they promise is a locale, in a form that allows
  failures and in a form where the service answers: Redis (\<open>redis_api\<close>, \<open>redis_up\<close>), PostgreSQL (\<open>pg_api\<close>, \<open>pg_up\<close>, \<open>tx_pool\<close>,
  \<open>tx_pool_up\<close>), the JWT library (\<open>jwt_lib\<close>), authenticated encryption (\<open>aead\<close>), the task queue (\<open>asynq_client\<close>), Kubernetes (\<open>cluster\<close>,
  \<open>deadline\<close>), the image registry (\<open>image_registry\<close>). Each is interpreted on an executable instance, and the contracts between the
  program's own parts (\<open>otp_repository\<close>, \<open>credential_encryptor\<close>, \<open>workload_repository\<close>, \<open>job_enqueuer\<close>, \<open>build_repository\<close>,
  \<open>log_repository\<close>, \<open>launcher\<close>, \<open>pipeline\<close>) are interpreted on the adapters of the model.

  \<^bold>\<open>Theories of shared vocabulary.\<close> \<^verbatim>\<open>Prelude\<close> (Go's strings, errors, hexadecimal and decimal text), \<^verbatim>\<open>Json\<close> (marshalling and decoding),
  \<^verbatim>\<open>Base64\<close>, \<^verbatim>\<open>Redis\<close> (commands and pipelines on keys with expiry), \<^verbatim>\<open>Postgres\<close> (statements on tables with unique constraints), \<^verbatim>\<open>Http\<close>
  (headers, requests, responses, RPC errors).

  \<^bold>\<open>Auth service.\<close> \<^verbatim>\<open>Auth_Domain\<close> holds the types of \<^verbatim>\<open>domain/user.go\<close>. \<^verbatim>\<open>Refresh_Tokens\<close>, \<^verbatim>\<open>Refresh_Ops\<close> and \<^verbatim>\<open>Refresh_Properties\<close> model
  \<^verbatim>\<open>adapter/redis/refresh_token_store.go\<close>: round trip, session limit, soundness and atomicity under any failures of Redis, an invariant
  over all interleavings of requests, and the two races the code has. \<^verbatim>\<open>Otp\<close> models \<^verbatim>\<open>adapter/otp\<close>: single use, attempt limit. \<^verbatim>\<open>Jwt\<close>
  models \<^verbatim>\<open>adapter/jwt/issuer.go\<close>; \<^verbatim>\<open>Auth_Middleware\<close> the interceptors of \<^verbatim>\<open>internal/middleware/auth.go\<close> and \<^verbatim>\<open>handler/rpc/interceptor.go\<close>;
  \<^verbatim>\<open>Rate_Limit\<close> the sliding window and the security headers; \<^verbatim>\<open>User_Repo\<close> the repositories of \<^verbatim>\<open>adapter/postgres\<close>; \<^verbatim>\<open>Auth_Handler\<close> the
  procedures of \<^verbatim>\<open>handler/rpc/auth_handler.go\<close>; \<^verbatim>\<open>Auth_Properties\<close> composes them: login, refresh, logout.

  \<^bold>\<open>OAuth logins.\<close> \<^verbatim>\<open>OAuth_State\<close> models \<^verbatim>\<open>adapter/oauth/state_store.go\<close>: state tokens that verify once within ten minutes, and PKCE.
  \<^verbatim>\<open>OAuth_GitHub\<close> and \<^verbatim>\<open>OAuth_Google\<close> model the two providers (\<^verbatim>\<open>adapter/oauth/github\<close>, \<^verbatim>\<open>adapter/oauth/google\<close>): what the stored token of
  an account is, what an accepted id token guarantees, the cache of signing keys as two critical sections whose interleavings are
  sequences, the exponent of a key as a 64-bit integer. \<^verbatim>\<open>OAuth_Handler\<close> models \<^verbatim>\<open>handler/http/oauth_handler.go\<close> and the wiring of the
  service in \<^verbatim>\<open>di/module.go\<close>; \<^verbatim>\<open>OAuth_Properties\<close> composes them: which requests obtain a session, what a login leaves in the token store,
  and what a browser sends to the logout. \<^verbatim>\<open>OAuth_Replay\<close> has the frame lemmas: what a login changes in Redis and what it leaves alone. The packages \<^verbatim>\<open>golang.org/x/oauth2\<close> and golang-jwt, SHA-256 and the HTTP client are parameters;
  the contracts are \<open>state_store\<close>, \<open>token_encryptor\<close>, \<open>github_accounts\<close>, \<open>id_token_lib\<close>, \<open>key_cache\<close>,
  \<open>google_accounts\<close> and \<open>redis_apart\<close>.

  \<^bold>\<open>Ingestion service.\<close> \<^verbatim>\<open>Ingestion_Domain\<close> (workloads, credentials, webhooks and their signatures), \<^verbatim>\<open>Encryption\<close> (the encryptors of
  both services), \<^verbatim>\<open>Ingestion_Repo\<close> (JSON descriptor and tables, a refinement of an abstract repository), \<^verbatim>\<open>Ingestion_Usecases\<close> (queue and
  use cases), \<^verbatim>\<open>Ingestion_Handler\<close> (procedures, webhook endpoint, wiring), \<^verbatim>\<open>Ingestion_Properties\<close> (what a submission, a webhook and a stored
  credential guarantee under failures of the database and of the queue).

  \<^bold>\<open>Build service.\<close> \<^verbatim>\<open>Build_Domain\<close> (types and errors), \<^verbatim>\<open>Build_Repo\<close> (transactions, builds, log lines; they implement an abstract map of
  builds), \<^verbatim>\<open>Build_Logstream\<close> (the broadcasters, with Go's slices in an explicit store so that the aliasing of the in-place removal is
  visible), \<^verbatim>\<open>Build_Detector\<close> (markers, frameworks, version expressions), \<^verbatim>\<open>Build_Dockerfile\<close> (templates), \<^verbatim>\<open>Build_Kaniko\<close> (job manifest,
  polling, digest), \<^verbatim>\<open>Build_Registry\<close> (push with retries), \<^verbatim>\<open>Build_Pipeline\<close> (the use case, the queue worker, health endpoints) and
  \<^verbatim>\<open>Build_Properties\<close> (every run settles its build; runs end; what the worker does with errors and with tasks of the ingestion service).
  The polling loops carry no fuel: under a deadline they are proved to end. The confidence of a detection is kept in hundredths.

  \<^bold>\<open>Server.\<close> \<^verbatim>\<open>Serve_Mux\<close> models the multiplexer of \<^verbatim>\<open>net/http\<close> (longest pattern, clean paths, redirects) and proves its routing correct;
  \<^verbatim>\<open>Server\<close> models \<^verbatim>\<open>cmd/raftweave-server/main.go\<close> from the environment variables to the listener, on top of the wiring of the two
  services; \<^verbatim>\<open>Server_Properties\<close> shows when the process starts, that every response carries the CORS policy (contract \<open>cors_neutral\<close> of
  the handlers), that the prefix \<^verbatim>\<open>/api\<close> changes nothing, which requests obtain a session cookie from the running server, and that a
  callback cannot be replayed. A handler that panics drops its connection and is a value of its own (\<open>Aborted\<close>).

  \<^bold>\<open>Control plane and client.\<close> \<^verbatim>\<open>Control_Plane\<close> holds the state, messages and stub procedures of \<^verbatim>\<open>internal/consensus\<close>,
  \<^verbatim>\<open>internal/provisioner\<close>, \<^verbatim>\<open>internal/replication\<close>, \<^verbatim>\<open>internal/health\<close> and \<^verbatim>\<open>internal/store\<close>; \<^verbatim>\<open>Cli\<close> the commands of
  \<^verbatim>\<open>cmd/raftweave-cli\<close>, with the package cobra as a contract (\<open>cobra_api\<close>).

  \<^bold>\<open>Abstractions.\<close> Calls of one operation are atomic unless a theorem takes them apart (rotation of refresh tokens, publication of log
  lines). Tables of one database and keys of one Redis are parts of a world that do not disturb each other. Isolation between
  transactions of other clients, foreign keys and check constraints appear only as reasons for which a statement may fail. Logging,
  tracing, metrics and contexts without a deadline are left out.

  \<^bold>\<open>Not modelled.\<close> The text of \<^verbatim>\<open>Set-Cookie\<close> headers, relative redirects, and paths with escaped bytes. Waiting for signals and the
  graceful shutdown. The top-level files of \<^verbatim>\<open>internal/auth\<close>, \<^verbatim>\<open>internal/ingestion\<close> and \<^verbatim>\<open>internal/build\<close> are superseded by the layered
  packages and used by nothing, and interfaces of the control plane without an implementation have no behaviour to verify. Telemetry,
  migrations and generated protocol code are glue or data; the constraints of the migrations are part of the table models.
\<close>

end
